(* ===== verification/Prelude.thy ===== *)
theory Prelude
  imports Main "HOL-Library.AList" "HOL-Library.Char_ord" "HOL-Library.List_Lexorder"
    "HOL-Library.Multiset"
begin

text \<open>
  Shared vocabulary of the development: how the values of the Go language and of its
  standard library appear in HOL, and the generic lemmas the components use.

  \<^item> A Go \<^verbatim>\<open>string\<close> is a \<open>string\<close> (a list of bytes); Go's \<^verbatim>\<open><\<close> on strings is the
    lexicographic order of \<open>List_Lexorder\<close> over \<open>Char_ord\<close>.
  \<^item> A Go \<^verbatim>\<open>map[string]T\<close> is an association list with distinct keys. The list order stands
    for one iteration order of the map; lookups go through \<open>map_of\<close>. The zero value that
    Go returns for an absent key is written out by \<open>mget\<close>.
  \<^item> A Go \<^verbatim>\<open>int64\<close> id is an \<open>int\<close>; where the width matters (parsing an id) the bounds are
    written out.
  \<^item> A Go \<^verbatim>\<open>time.Time\<close> is the number of nanoseconds since Go's zero time, so
    \<^verbatim>\<open>t.IsZero()\<close> is \<open>t = 0\<close>; a \<^verbatim>\<open>time.Duration\<close> is a number of nanoseconds, and
    \<^verbatim>\<open>t.Sub(u)\<close> saturates at the int64 range.
  \<^item> A Go function that returns \<^verbatim>\<open>(T, error)\<close> returns \<open>e + 'a\<close>, \<open>Inl\<close> for the error.
\<close>

named_theorems gomap "lookup and update laws of Go maps"
named_theorems gostr "laws of the string functions"

type_synonym gotime = int
type_synonym duration = int
type_synonym id64 = int
type_synonym strmap = "(string \<times> string) list"

section \<open>Go maps as association lists\<close>

definition mhas :: "('k \<times> 'v) list \<Rightarrow> 'k \<Rightarrow> bool" where
  "mhas m k \<longleftrightarrow> map_of m k \<noteq> None"

definition mget :: "strmap \<Rightarrow> string \<Rightarrow> string" where
  "mget m k = (case map_of m k of None \<Rightarrow> '''' | Some v \<Rightarrow> v)"

definition mput :: "'k \<Rightarrow> 'v \<Rightarrow> ('k \<times> 'v) list \<Rightarrow> ('k \<times> 'v) list" where
  "mput k v m = AList.update k v m"

definition mdel :: "'k \<Rightarrow> ('k \<times> 'v) list \<Rightarrow> ('k \<times> 'v) list" where
  "mdel k m = AList.delete k m"

text \<open>\<^verbatim>\<open>lo.Assign(a, b)\<close> and \<^verbatim>\<open>maps.Copy(a, b)\<close>: the entries of \<open>b\<close> win.\<close>

fun massign :: "('k \<times> 'v) list \<Rightarrow> ('k \<times> 'v) list \<Rightarrow> ('k \<times> 'v) list" where
  "massign a [] = a"
| "massign a ((k, v) # b) = massign (mput k v a) b"

definition wf_map :: "('k \<times> 'v) list \<Rightarrow> bool" where
  "wf_map m \<longleftrightarrow> distinct (map fst m)"

lemma map_of_mput [simp, gomap]: "map_of (mput k v m) = (map_of m)(k \<mapsto> v)"
  by (simp add: mput_def update_conv')

lemma map_of_mdel [simp, gomap]: "map_of (mdel k m) = (map_of m)(k := None)"
  by (simp add: mdel_def delete_conv')

lemma mget_mput [simp, gomap]: "mget (mput k v m) k' = (if k = k' then v else mget m k')"
  by (simp add: mget_def)

lemma mhas_mput [simp, gomap]: "mhas (mput k v m) k' = (k = k' \<or> mhas m k')"
  by (auto simp: mhas_def)

lemma mget_Nil [simp, gomap]: "mget [] k = ''''"
  by (simp add: mget_def)

lemma wf_map_Nil [simp]: "wf_map []"
  by (simp add: wf_map_def)

lemma wf_map_mput [simp]: "wf_map m \<Longrightarrow> wf_map (mput k v m)"
  by (simp add: wf_map_def mput_def distinct_update)

lemma wf_map_massign [simp]: "wf_map a \<Longrightarrow> wf_map (massign a b)"
  by (induction a b rule: massign.induct) auto

lemma map_of_massign [gomap]:
  "wf_map b \<Longrightarrow> map_of (massign a b) = map_of a ++ map_of b"
proof (induction a b rule: massign.induct)
  case (1 a)
  then show ?case by simp
next
  case (2 a k v b)
  then have "wf_map b" and "map_of b k = None"
    by (auto simp: wf_map_def map_of_eq_None_iff)
  with "2.IH" show ?case
    by (auto simp: map_add_def fun_eq_iff split: option.splits)
qed

section \<open>Integers as text\<close>

definition digit_char :: "nat \<Rightarrow> char" where
  "digit_char d = char_of (48 + d)"

definition is_digit :: "char \<Rightarrow> bool" where
  "is_digit c \<longleftrightarrow> 48 \<le> (of_char c :: nat) \<and> (of_char c :: nat) \<le> 57"

definition digit_val :: "char \<Rightarrow> nat" where
  "digit_val c = of_char c - 48"

fun nat_digits :: "nat \<Rightarrow> string" where
  "nat_digits n = (if n < 10 then [digit_char n] else nat_digits (n div 10) @ [digit_char (n mod 10)])"

declare nat_digits.simps [simp del]

text \<open>\<^verbatim>\<open>strconv.FormatInt(i, 10)\<close>, also \<^verbatim>\<open>fmt.Sprint\<close> and \<^verbatim>\<open>%d\<close> of an integer.\<close>

definition format_int :: "int \<Rightarrow> string" where
  "format_int i = (if i < 0 then CHR ''-'' # nat_digits (nat (- i)) else nat_digits (nat i))"

fun parse_digits :: "nat \<Rightarrow> string \<Rightarrow> nat option" where
  "parse_digits acc [] = Some acc"
| "parse_digits acc (c # cs) = (if is_digit c then parse_digits (10 * acc + digit_val c) cs else None)"

definition parse_nat :: "string \<Rightarrow> nat option" where
  "parse_nat s = (if s = [] then None else parse_digits 0 s)"

text \<open>
  \<^verbatim>\<open>strconv.ParseInt(s, 10, 64)\<close>: an optional sign, at least one digit, nothing else, and a
  value in the int64 range; \<open>None\<close> is the error.
\<close>

definition parse_int64 :: "string \<Rightarrow> int option" where
  "parse_int64 s =
     (case s of
        [] \<Rightarrow> None
      | c # cs \<Rightarrow>
          if c = CHR ''-'' then
            (case parse_nat cs of None \<Rightarrow> None
             | Some n \<Rightarrow> if int n \<le> 2 ^ 63 then Some (- int n) else None)
          else
            (case parse_nat (if c = CHR ''+'' then cs else s) of None \<Rightarrow> None
             | Some n \<Rightarrow> if int n < 2 ^ 63 then Some (int n) else None))"

lemma of_char_digit [simp]: "d < 10 \<Longrightarrow> (of_char (digit_char d) :: nat) = 48 + d"
  by (simp add: digit_char_def)

lemma is_digit_digit_char [simp]: "d < 10 \<Longrightarrow> is_digit (digit_char d)"
  by (simp add: is_digit_def)

lemma digit_val_digit_char [simp]: "d < 10 \<Longrightarrow> digit_val (digit_char d) = d"
  by (simp add: digit_val_def)

lemma parse_digits_append:
  "parse_digits a (xs @ ys) = (case parse_digits a xs of None \<Rightarrow> None | Some n \<Rightarrow> parse_digits n ys)"
  by (induction a xs rule: parse_digits.induct) auto

lemma nat_digits_nonempty [simp]: "nat_digits n \<noteq> []"
  by (subst nat_digits.simps) simp

lemma set_nat_digits: "c \<in> set (nat_digits n) \<Longrightarrow> is_digit c"
proof (induction n rule: nat_digits.induct)
  case (1 n)
  then show ?case
    by (cases "n < 10") (auto simp: nat_digits.simps [of n])
qed

lemma parse_digits_nat_digits: "parse_digits 0 (nat_digits n) = Some n"
proof (induction n rule: nat_digits.induct)
  case (1 n)
  show ?case
  proof (cases "n < 10")
    case True
    then show ?thesis by (simp add: nat_digits.simps [of n])
  next
    case False
    with "1" show ?thesis
      by (simp add: nat_digits.simps [of n] parse_digits_append)
  qed
qed

lemma parse_nat_nat_digits [simp, gostr]: "parse_nat (nat_digits n) = Some n"
  by (simp add: parse_nat_def parse_digits_nat_digits)

lemma parse_digits_all_digits: "parse_digits a s = Some n \<Longrightarrow> list_all is_digit s"
  by (induction a s rule: parse_digits.induct) (auto split: if_splits)

lemma hd_nat_digits_no_sign:
  "nat_digits n = c # cs \<Longrightarrow> c \<noteq> CHR ''-'' \<and> c \<noteq> CHR ''+''"
  using set_nat_digits [of c n] by (auto simp: is_digit_def)

lemma parse_int64_format_int [gostr]:
  assumes "0 \<le> i" and "i < 2 ^ 63"
  shows "parse_int64 (format_int i) = Some i"
proof -
  obtain c cs where c: "nat_digits (nat i) = c # cs"
    by (cases "nat_digits (nat i)") auto
  with hd_nat_digits_no_sign [OF c] assms parse_nat_nat_digits [of "nat i"] show ?thesis
    by (simp add: parse_int64_def format_int_def)
qed

lemma parse_int64_range: "parse_int64 s = Some i \<Longrightarrow> - (2 ^ 63) \<le> i \<and> i < 2 ^ 63"
  by (auto simp: parse_int64_def split: list.splits option.splits if_splits)

section \<open>String functions\<close>

text \<open>\<^verbatim>\<open>strings.CutPrefix\<close>: the rest after the prefix, \<open>None\<close> when it is not there.\<close>

definition cut_prefix :: "string \<Rightarrow> string \<Rightarrow> string option" where
  "cut_prefix p s = (if take (length p) s = p then Some (drop (length p) s) else None)"

lemma cut_prefix_append [simp, gostr]: "cut_prefix p (p @ s) = Some s"
  by (simp add: cut_prefix_def)

lemma cut_prefix_Some_iff: "cut_prefix p s = Some r \<longleftrightarrow> s = p @ r"
  by (auto simp: cut_prefix_def) (metis append_take_drop_id)

text \<open>\<^verbatim>\<open>strings.Join(xs, sep)\<close>.\<close>

fun str_join :: "string \<Rightarrow> string list \<Rightarrow> string" where
  "str_join sep [] = []"
| "str_join sep [x] = x"
| "str_join sep (x # y # ys) = x @ sep @ str_join sep (y # ys)"

text \<open>
  \<^verbatim>\<open>%q\<close> of a string, as \<^verbatim>\<open>strconv.Quote\<close> renders the ASCII range; a byte of a multi-byte
  character is kept as it is (names in Kubernetes and at Hetzner are ASCII).
\<close>

definition hex_char :: "nat \<Rightarrow> char" where
  "hex_char d = (if d < 10 then char_of (48 + d) else char_of (87 + d))"

definition quote_char :: "char \<Rightarrow> string" where
  "quote_char c =
     (let n = (of_char c :: nat) in
      if n = 34 then [CHR 0x5C, CHR 0x22]
      else if n = 92 then [CHR 0x5C, CHR 0x5C]
      else if n = 7 then [CHR 0x5C, CHR ''a'']
      else if n = 8 then [CHR 0x5C, CHR ''b'']
      else if n = 9 then [CHR 0x5C, CHR ''t'']
      else if n = 10 then [CHR 0x5C, CHR ''n'']
      else if n = 11 then [CHR 0x5C, CHR ''v'']
      else if n = 12 then [CHR 0x5C, CHR ''f'']
      else if n = 13 then [CHR 0x5C, CHR ''r'']
      else if n < 32 \<or> n = 127 then [CHR 0x5C, CHR ''x'', hex_char (n div 16), hex_char (n mod 16)]
      else [c])"

definition go_quote :: "string \<Rightarrow> string" where
  "go_quote s = CHR 0x22 # concat (map quote_char s) @ [CHR 0x22]"

text \<open>
  \<^verbatim>\<open>strings.TrimSpace\<close>: the white space of Unicode in its UTF-8 bytes, cut from both ends.
\<close>

definition space_encodings :: "string list" where
  "space_encodings =
     [[CHR 0x09], [CHR 0x0A], [CHR 0x0B], [CHR 0x0C], [CHR 0x0D], [CHR 0x20],
      [CHR 0xC2, CHR 0x85], [CHR 0xC2, CHR 0xA0], [CHR 0xE1, CHR 0x9A, CHR 0x80],
      [CHR 0xE2, CHR 0x80, CHR 0x80], [CHR 0xE2, CHR 0x80, CHR 0x81], [CHR 0xE2, CHR 0x80, CHR 0x82],
      [CHR 0xE2, CHR 0x80, CHR 0x83], [CHR 0xE2, CHR 0x80, CHR 0x84], [CHR 0xE2, CHR 0x80, CHR 0x85],
      [CHR 0xE2, CHR 0x80, CHR 0x86], [CHR 0xE2, CHR 0x80, CHR 0x87], [CHR 0xE2, CHR 0x80, CHR 0x88],
      [CHR 0xE2, CHR 0x80, CHR 0x89], [CHR 0xE2, CHR 0x80, CHR 0x8A], [CHR 0xE2, CHR 0x80, CHR 0xA8],
      [CHR 0xE2, CHR 0x80, CHR 0xA9], [CHR 0xE2, CHR 0x80, CHR 0xAF], [CHR 0xE2, CHR 0x81, CHR 0x9F],
      [CHR 0xE3, CHR 0x80, CHR 0x80]]"

definition starts_with :: "string \<Rightarrow> string \<Rightarrow> bool" where
  "starts_with p s \<longleftrightarrow> take (length p) s = p"

function trim_front :: "string list \<Rightarrow> string \<Rightarrow> string" where
  "trim_front sps s = (case filter (\<lambda>p. p \<noteq> [] \<and> starts_with p s) sps of
     [] \<Rightarrow> s | p # _ \<Rightarrow> trim_front sps (drop (length p) s))"
  by pat_completeness auto
termination
proof (relation "measure (\<lambda>(sps, s). length s)")
  fix sps s p rest
  assume "filter (\<lambda>p. p \<noteq> [] \<and> starts_with p s) sps = p # rest"
  then have "p \<in> set (filter (\<lambda>p. p \<noteq> [] \<and> starts_with p s) sps)" by simp
  then have "0 < length p" "0 < length s" by (auto simp: starts_with_def)
  then show "((sps, drop (length p) s), (sps, s)) \<in> measure (\<lambda>(sps, s). length s)" by simp
qed simp

declare trim_front.simps [simp del]

definition trim_space :: "string \<Rightarrow> string" where
  "trim_space s = rev (trim_front (map rev space_encodings) (rev (trim_front space_encodings s)))"

definition cut_suffix :: "string \<Rightarrow> string \<Rightarrow> string option" where
  "cut_suffix suf s = map_option rev (cut_prefix (rev suf) (rev s))"

section \<open>Time\<close>

definition int64_clamp :: "int \<Rightarrow> int" where
  "int64_clamp i = max (- (2 ^ 63)) (min (2 ^ 63 - 1) i)"

definition time_sub :: "gotime \<Rightarrow> gotime \<Rightarrow> duration" where
  "time_sub t u = int64_clamp (t - u)"

definition time_before :: "gotime \<Rightarrow> gotime \<Rightarrow> bool" where
  "time_before t u \<longleftrightarrow> t < u"

definition second :: duration where "second = 1000000000"

text \<open>The zero \<^verbatim>\<open>time.Time\<close>, the first of January of the year one.\<close>

definition zero_time :: gotime where "zero_time = - 62135596800 * second"

definition minute :: duration where "minute = 60 * second"

lemma time_sub_less:
  "d \<le> 2 ^ 63 - 1 \<Longrightarrow> - (2 ^ 63) < d \<Longrightarrow> time_sub t u < d \<longleftrightarrow> t - u < d"
  by (auto simp: time_sub_def int64_clamp_def)

section \<open>Sorting with a comparison function\<close>

text \<open>
  \<^verbatim>\<open>sort.SliceStable(xs, lt)\<close>. On a strict weak order every stable sort returns the same
  list, so insertion sort stands for Go's algorithm; \<open>sort_order_on\<close> states what
  \<^verbatim>\<open>lt\<close> has to satisfy on the elements of the list.
\<close>

fun sort_insert :: "('a \<Rightarrow> 'a \<Rightarrow> bool) \<Rightarrow> 'a \<Rightarrow> 'a list \<Rightarrow> 'a list" where
  "sort_insert lt x [] = [x]"
| "sort_insert lt x (y # ys) = (if lt y x then y # sort_insert lt x ys else x # y # ys)"

definition go_sort :: "('a \<Rightarrow> 'a \<Rightarrow> bool) \<Rightarrow> 'a list \<Rightarrow> 'a list" where
  "go_sort lt xs = foldr (sort_insert lt) xs []"

lemma go_sort_simps [simp]:
  "go_sort lt [] = []"
  "go_sort lt (x # xs) = sort_insert lt x (go_sort lt xs)"
  by (simp_all add: go_sort_def)

lemma mset_sort_insert [simp]: "mset (sort_insert lt x xs) = add_mset x (mset xs)"
  by (induction xs) auto

lemma mset_go_sort [simp]: "mset (go_sort lt xs) = mset xs"
  by (induction xs) auto

lemma set_sort_insert [simp]: "set (sort_insert lt x xs) = insert x (set xs)"
  by (induction xs) auto

lemma set_go_sort [simp]: "set (go_sort lt xs) = set xs"
  by (induction xs) auto

lemma length_go_sort [simp]: "length (go_sort lt xs) = length xs"
  by (metis mset_go_sort size_mset)

lemma go_sort_eq_Nil [simp]: "go_sort lt xs = [] \<longleftrightarrow> xs = []"
  by (metis length_0_conv length_go_sort)

locale sort_order_on =
  fixes lt :: "'a \<Rightarrow> 'a \<Rightarrow> bool" and P :: "'a \<Rightarrow> bool"
  assumes asym: "P x \<Longrightarrow> P y \<Longrightarrow> lt x y \<Longrightarrow> \<not> lt y x"
    and neg_trans: "P x \<Longrightarrow> P y \<Longrightarrow> P z \<Longrightarrow> \<not> lt y x \<Longrightarrow> \<not> lt z y \<Longrightarrow> \<not> lt z x"
begin

lemma sorted_sort_insert:
  assumes "P x" and "\<forall>y \<in> set xs. P y" and "sorted_wrt (\<lambda>a b. \<not> lt b a) xs"
  shows "sorted_wrt (\<lambda>a b. \<not> lt b a) (sort_insert lt x xs)"
  using assms
proof (induction xs)
  case Nil
  then show ?case by simp
next
  case (Cons y ys)
  show ?case
  proof (cases "lt y x")
    case True
    with Cons asym [of y x] show ?thesis by auto
  next
    case False
    have "\<not> lt z x" if "z \<in> set ys" for z
      using neg_trans [of x y z] that False Cons.prems by auto
    with False Cons.prems show ?thesis by auto
  qed
qed

lemma sorted_go_sort:
  "\<forall>y \<in> set xs. P y \<Longrightarrow> sorted_wrt (\<lambda>a b. \<not> lt b a) (go_sort lt xs)"
  by (induction xs) (auto intro!: sorted_sort_insert)

text \<open>Stability: the elements that compare equal to any given one keep their order.\<close>

lemma filter_sort_insert:
  assumes "P x" "P a" "\<forall>y \<in> set xs. P y" "sorted_wrt (\<lambda>a b. \<not> lt b a) xs"
  shows "filter (\<lambda>y. \<not> lt y a \<and> \<not> lt a y) (sort_insert lt x xs) =
         filter (\<lambda>y. \<not> lt y a \<and> \<not> lt a y) (x # xs)"
  using assms
proof (induction xs)
  case Nil
  then show ?case by simp
next
  case (Cons y ys)
  show ?case
  proof (cases "lt y x")
    case True
    have "\<not> (\<not> lt y a \<and> \<not> lt a y \<and> \<not> lt x a \<and> \<not> lt a x)"
      using neg_trans [of x a y] True Cons.prems by auto
    with True Cons show ?thesis by auto
  next
    case False
    then show ?thesis by simp
  qed
qed

lemma stable_go_sort:
  assumes "\<forall>y \<in> set xs. P y" and "P a"
  shows "filter (\<lambda>y. \<not> lt y a \<and> \<not> lt a y) (go_sort lt xs) =
         filter (\<lambda>y. \<not> lt y a \<and> \<not> lt a y) xs"
  using assms
proof (induction xs)
  case Nil
  then show ?case by simp
next
  case (Cons x xs)
  have "filter (\<lambda>y. \<not> lt y a \<and> \<not> lt a y) (go_sort lt (x # xs)) =
        filter (\<lambda>y. \<not> lt y a \<and> \<not> lt a y) (x # go_sort lt xs)"
    using Cons.prems sorted_go_sort [of xs] by (simp add: filter_sort_insert)
  with Cons show ?case by simp
qed

end

text \<open>\<^verbatim>\<open>sort.Strings\<close>.\<close>

definition sort_strings :: "string list \<Rightarrow> string list" where
  "sort_strings = go_sort (<)"

interpretation str_order: sort_order_on "(<) :: string \<Rightarrow> string \<Rightarrow> bool" "\<lambda>_. True"
  by unfold_locales auto

lemma sorted_sort_strings [gostr]: "sorted (sort_strings xs)"
  using str_order.sorted_go_sort [of xs] by (simp add: sort_strings_def not_less sorted_wrt_iff_nth_less sorted_iff_nth_mono_less)

lemma set_sort_strings [simp]: "set (sort_strings xs) = set xs"
  by (simp add: sort_strings_def)

lemma sort_strings_cong [gostr]: "mset xs = mset ys \<Longrightarrow> sort_strings xs = sort_strings ys"
  by (metis mset_go_sort sort_strings_def sorted_sort_strings properties_for_sort)

section \<open>Loops that skip elements\<close>

lemma set_map_filter: "set (List.map_filter f xs) = {y. \<exists>x \<in> set xs. f x = Some y}"
  by (induction xs) (auto simp: List.map_filter_simps split: option.splits)

lemma map_filter_eq_Nil: "List.map_filter f xs = [] \<longleftrightarrow> (\<forall>x \<in> set xs. f x = None)"
  by (induction xs) (auto simp: List.map_filter_simps split: option.splits)

end
