(* ===== verification/Hcloud_Errors.thy ===== *)
theory Hcloud_Errors
  imports Prelude
begin

text \<open>
  The errors of the program and their classification (\<^verbatim>\<open>src/internal/hcloudapi/errors.go\<close>).

  A Go error is a tree: \<^verbatim>\<open>fmt.Errorf\<close> with \<^verbatim>\<open>%w\<close> puts a text in front of one wrapped
  error, an error with \<^verbatim>\<open>Unwrap() []error\<close> holds several. The leaves are the two error
  types of hcloud-go (by value, and behind a pointer that may be nil), this program's own
  error types, and plain text. \<open>nodes\<close> lists a tree in the order \<^verbatim>\<open>errors.As\<close> visits it.
  The error types of karpenter core are leaves: the source only ever returns them.
\<close>

section \<open>Error trees\<close>

text \<open>
  An \<^verbatim>\<open>hcloud.Response\<close>: \<open>None\<close> when its \<^verbatim>\<open>*http.Response\<close> is nil, otherwise the value of its
  \<^verbatim>\<open>X-Correlation-Id\<close> header, empty when the header is absent. The request behind the
  response carries the API token in its Authorization header, which is why holding one
  matters.
\<close>

datatype response = Response "string option"

datatype go_error =
    TextError string
  | WrapError string go_error
  | JoinError string "go_error list"
  | HcloudError string string "response option"
  | HcloudErrorPtr "(string \<times> string \<times> response option) option"
  | ActionError string string "int option"
  | ActionErrorPtr "(string \<times> string \<times> int option) option"
  | NotFoundError string string
  | ErrNotManaged string int
  | ConfigError go_error
  | KubeError string string
  | InsufficientCapacityError go_error
  | CreateError go_error string string
  | NodeClassNotReadyError go_error
  | NodeClaimNotFoundError go_error
  | NodeRebootFailedError go_error

fun nodes :: "go_error \<Rightarrow> go_error list" where
  "nodes (WrapError t e) = WrapError t e # nodes e"
| "nodes (ConfigError e) = ConfigError e # nodes e"
| "nodes (JoinError t es) = JoinError t es # concat (map nodes es)"
| "nodes e = [e]"

fun first_some :: "('a \<Rightarrow> 'b option) \<Rightarrow> 'a list \<Rightarrow> 'b option" where
  "first_some f [] = None"
| "first_some f (x # xs) = (case f x of None \<Rightarrow> first_some f xs | Some y \<Rightarrow> Some y)"

lemma first_some_None_iff: "first_some f xs = None \<longleftrightarrow> (\<forall>x \<in> set xs. f x = None)"
  by (induction xs) (auto split: option.splits)

lemma first_some_SomeD: "first_some f xs = Some y \<Longrightarrow> \<exists>x \<in> set xs. f x = Some y"
  by (induction xs) (auto split: option.splits)

section \<open>Classes and codes\<close>

datatype error_class =
  ClassNone | ClassCapacity | ClassQuota | ClassTransient | ClassConfig | ClassFatal

fun class_String :: "error_class \<Rightarrow> string" where
  "class_String ClassNone = ''none''"
| "class_String ClassCapacity = ''capacity''"
| "class_String ClassQuota = ''quota''"
| "class_String ClassTransient = ''transient''"
| "class_String ClassConfig = ''config''"
| "class_String ClassFatal = ''fatal''"

text \<open>The table; the codes are the string constants of hcloud-go.\<close>

definition classes :: "(string \<times> error_class) list" where
  "classes = [
     (''resource_unavailable'', ClassCapacity),
     (''placement_error'', ClassCapacity),
     (''no_space_left_in_location'', ClassCapacity),
     (''maintenance'', ClassCapacity),
     (''resource_limit_exceeded'', ClassQuota),
     (''rate_limit_exceeded'', ClassTransient),
     (''service_error'', ClassTransient),
     (''server_error'', ClassTransient),
     (''bad_gateway'', ClassTransient),
     (''timeout'', ClassTransient),
     (''conflict'', ClassTransient),
     (''locked'', ClassTransient),
     (''resource_locked'', ClassTransient),
     (''protected'', ClassTransient),
     (''json_error'', ClassTransient),
     (''robot_unavailable'', ClassTransient),
     (''unknown_error'', ClassTransient),
     (''invalid_input'', ClassConfig),
     (''not_found'', ClassConfig),
     (''unsupported_error'', ClassConfig),
     (''invalid_server_type'', ClassConfig),
     (''uniqueness_error'', ClassConfig),
     (''networks_overlap'', ClassConfig),
     (''server_already_attached'', ClassConfig),
     (''forbidden'', ClassFatal),
     (''unauthorized'', ClassFatal)]"

definition CodeUniqueness :: string where
  "CodeUniqueness = ''uniqueness_error''"

fun as_hcloud :: "go_error \<Rightarrow> string option" where
  "as_hcloud (HcloudError c m r) = Some c"
| "as_hcloud _ = None"

fun as_action :: "go_error \<Rightarrow> string option" where
  "as_action (ActionError c m a) = Some c"
| "as_action _ = None"

text \<open>
  \<^verbatim>\<open>Code\<close>: the two \<^verbatim>\<open>errors.As\<close> searches, the synchronous error type first. \<open>None\<close> is Go's
  \<^verbatim>\<open>("", false)\<close>.
\<close>

definition Code :: "go_error option \<Rightarrow> string option" where
  "Code err = (case err of None \<Rightarrow> None
     | Some e \<Rightarrow> (case first_some as_hcloud (nodes e) of
          Some c \<Rightarrow> Some c
        | None \<Rightarrow> first_some as_action (nodes e)))"

definition Classify :: "go_error option \<Rightarrow> error_class" where
  "Classify err = (case err of None \<Rightarrow> ClassNone
     | Some _ \<Rightarrow> (case Code err of None \<Rightarrow> ClassTransient
        | Some code \<Rightarrow> (case map_of classes code of Some cl \<Rightarrow> cl | None \<Rightarrow> ClassTransient)))"

definition IsKnownCode :: "go_error option \<Rightarrow> bool" where
  "IsKnownCode err = (case Code err of None \<Rightarrow> False | Some code \<Rightarrow> map_of classes code \<noteq> None)"

text \<open>\<^verbatim>\<open>IsNotFound\<close>: \<^verbatim>\<open>errors.As\<close> for this package's own not-found.\<close>

fun as_not_found :: "go_error \<Rightarrow> unit option" where
  "as_not_found (NotFoundError k s) = Some ()"
| "as_not_found _ = None"

definition IsNotFound :: "go_error option \<Rightarrow> bool" where
  "IsNotFound err = (case err of None \<Rightarrow> False
     | Some e \<Rightarrow> first_some as_not_found (nodes e) \<noteq> None)"

section \<open>Lemmas\<close>

lemma nodes_nonempty [simp]: "nodes e \<noteq> []"
  by (cases e) auto

lemma nodes_self: "e \<in> set (nodes e)"
  by (cases e) auto

lemma Code_None [simp]: "Code None = None"
  by (simp add: Code_def)

lemma Classify_None [simp]: "Classify None = ClassNone"
  by (simp add: Classify_def)

lemma Code_WrapError [simp]: "Code (Some (WrapError t e)) = Code (Some e)"
  by (simp add: Code_def split: option.splits)

lemma Classify_WrapError [simp]: "Classify (Some (WrapError t e)) = Classify (Some e)"
  by (simp add: Classify_def)

lemma IsKnownCode_WrapError [simp]: "IsKnownCode (Some (WrapError t e)) = IsKnownCode (Some e)"
  by (simp add: IsKnownCode_def)

lemma IsNotFound_WrapError [simp]: "IsNotFound (Some (WrapError t e)) = IsNotFound (Some e)"
  by (simp add: IsNotFound_def)

lemma Code_leaf [simp]:
  "Code (Some (HcloudError c m r)) = Some c"
  "Code (Some (ActionError c m a)) = Some c"
  "Code (Some (TextError t)) = None"
  "Code (Some (NotFoundError k s)) = None"
  "Code (Some (ErrNotManaged n i)) = None"
  by (simp_all add: Code_def)

lemma Classify_not_None [simp]: "Classify (Some e) \<noteq> ClassNone"
proof
  assume a: "Classify (Some e) = ClassNone"
  then obtain code where "map_of classes code = Some ClassNone"
    by (auto simp: Classify_def split: option.splits)
  then have "(code, ClassNone) \<in> set classes"
    by (rule map_of_SomeD)
  then show False by (simp add: classes_def)
qed

lemma Classify_eq_by_Code:
  "Code (Some e) = Code (Some e') \<Longrightarrow> Classify (Some e) = Classify (Some e')"
  by (simp add: Classify_def)

lemma Classify_unknown_transient:
  "\<not> IsKnownCode (Some e) \<Longrightarrow> Classify (Some e) = ClassTransient"
  by (auto simp: Classify_def IsKnownCode_def split: option.splits)

lemma Classify_known: "Classify (Some e) \<noteq> ClassTransient \<Longrightarrow> \<exists>code. Code (Some e) = Some code"
  by (auto simp: Classify_def split: option.splits)

text \<open>A reaction other than a retry is only ever taken on a code of the table.\<close>

lemma Classify_code_in_table:
  assumes "Classify (Some e) = cl" and "cl \<noteq> ClassTransient"
  shows "\<exists>code. Code (Some e) = Some code \<and> map_of classes code = Some cl"
  using assms by (auto simp: Classify_def split: option.splits)

end
