(* ===== verification/Redact.thy ===== *)
theory Redact
  imports Hcloud_Errors "HOL-Library.Sublist"
begin

text \<open>
  Scrubbing of the API token from errors (\<^verbatim>\<open>src/internal/hcloudapi/redact.go\<close>) and the
  check of the token at start-up (\<^verbatim>\<open>src/internal/hcloudapi/client.go\<close>).

  \<open>tok\<close> is the package variable \<^verbatim>\<open>apiToken\<close>: \<open>None\<close> until \<^verbatim>\<open>NewClientFromEnv\<close> accepted a
  token. \<open>etext\<close> is the \<^verbatim>\<open>Error()\<close> method of an error; the text of hcloud-go's own errors
  is not this program's, so the method is a parameter.
\<close>

section \<open>Scrubbing text\<close>

definition minEcho :: nat where "minEcho = 12"

definition redacted :: string where "redacted = ''[redacted]''"

text \<open>The inner loop of \<^verbatim>\<open>longestRun\<close>: how far two strings agree.\<close>

fun common_prefix :: "'a list \<Rightarrow> 'a list \<Rightarrow> nat" where
  "common_prefix (x # xs) (y # ys) = (if x = y then Suc (common_prefix xs ys) else 0)"
| "common_prefix _ _ = 0"

definition longestRun :: "string \<Rightarrow> string \<Rightarrow> nat" where
  "longestRun s token = foldl max 0 (map (\<lambda>j. common_prefix s (drop j token)) [0..<length token])"

text \<open>
  The loop of \<^verbatim>\<open>scrubToken\<close> over the rest of the message. The source keeps a flag so that an
  unchanged message is returned as the same string; the text is the same either way.
\<close>

function scrub_loop :: "string \<Rightarrow> string \<Rightarrow> string" where
  "scrub_loop token [] = []"
| "scrub_loop token (c # cs) =
     (let n = longestRun (c # cs) token in
      if minEcho \<le> n then redacted @ scrub_loop token (drop n (c # cs))
      else c # scrub_loop token cs)"
  by pat_completeness auto
termination
  by (relation "measure (\<lambda>(token, s). length s)") (auto simp: minEcho_def)

definition scrubToken :: "string option \<Rightarrow> string \<Rightarrow> string" where
  "scrubToken tok msg = (case tok of None \<Rightarrow> msg | Some token \<Rightarrow> scrub_loop token msg)"

text \<open>
  The regular expression \<^verbatim>\<open>(?i)(token\s*')[^']*'?\<close>. Case folding lets \<^verbatim>\<open>k\<close> match the
  Kelvin sign too, whose UTF-8 bytes are E2 84 AA. A match is the group, the quoted text,
  and what follows the optional closing quote.
\<close>

definition quote_mark :: char where "quote_mark = CHR 0x27"

definition lower :: "char \<Rightarrow> char" where
  "lower c = (if 65 \<le> (of_char c :: nat) \<and> (of_char c :: nat) \<le> 90 then char_of ((of_char c :: nat) + 32) else c)"

definition kelvin :: string where
  "kelvin = [CHR 0xE2, CHR 0x84, CHR 0xAA]"

fun match_fold :: "string \<Rightarrow> string \<Rightarrow> (string \<times> string) option" where
  "match_fold [] s = Some ([], s)"
| "match_fold (l # ls) [] = None"
| "match_fold (l # ls) (c # cs) =
     (if lower c = l then map_option (\<lambda>(g, r). (c # g, r)) (match_fold ls cs)
      else if l = CHR ''k'' \<and> take 3 (c # cs) = kelvin
      then map_option (\<lambda>(g, r). (kelvin @ g, r)) (match_fold ls (drop 2 cs))
      else None)"

definition is_space :: "char \<Rightarrow> bool" where
  "is_space c \<longleftrightarrow> (of_char c :: nat) \<in> {9, 10, 12, 13, 32}"

definition quotedToken :: "string \<Rightarrow> (string \<times> string \<times> string) option" where
  "quotedToken s =
     (case match_fold ''token'' s of None \<Rightarrow> None
      | Some (g, r) \<Rightarrow>
         (let r2 = dropWhile is_space r in
          if r2 \<noteq> [] \<and> hd r2 = quote_mark then
            (let r3 = tl r2; r4 = dropWhile (\<lambda>c. c \<noteq> quote_mark) r3 in
             Some (g @ takeWhile is_space r @ [quote_mark],
                   takeWhile (\<lambda>c. c \<noteq> quote_mark) r3,
                   if r4 = [] then [] else tl r4))
          else None))"

lemma match_fold_append: "match_fold ls s = Some (g, r) \<Longrightarrow> s = g @ r"
proof (induction ls s arbitrary: g r rule: match_fold.induct)
  case (3 l ls c cs)
  show ?case
  proof (cases "lower c = l")
    case True
    with 3 show ?thesis by auto
  next
    case False
    with 3 have k: "l = CHR ''k''" "take 3 (c # cs) = kelvin"
      by (auto split: if_splits)
    with False 3 obtain g' where g': "match_fold ls (drop 2 cs) = Some (g', r)" "g = kelvin @ g'"
      by (auto split: if_splits)
    with False k 3 have "drop 2 cs = g' @ r" by auto
    moreover have "c # cs = take 3 (c # cs) @ drop 2 cs"
      by (metis append_take_drop_id drop_Suc_Cons eval_nat_numeral(3))
    ultimately show ?thesis using k g' by (metis append_assoc)
  qed
qed auto

lemma quotedToken_shorter: "quotedToken s = Some (g, b, r) \<Longrightarrow> length r < length s"
proof -
  assume "quotedToken s = Some (g, b, r)"
  then obtain g0 r0 where m: "match_fold ''token'' s = Some (g0, r0)"
    and h: "dropWhile is_space r0 \<noteq> []"
    and r: "r = (let r4 = dropWhile (\<lambda>c. c \<noteq> quote_mark) (tl (dropWhile is_space r0)) in if r4 = [] then [] else tl r4)"
    by (auto simp: quotedToken_def Let_def split: option.splits if_splits)
  have "length r \<le> length (dropWhile (\<lambda>c. c \<noteq> quote_mark) (tl (dropWhile is_space r0)))"
    by (simp add: r Let_def)
  also have "\<dots> \<le> length (tl (dropWhile is_space r0))"
    by (rule length_dropWhile_le)
  also have "\<dots> < length (dropWhile is_space r0)"
    using h by simp
  also have "\<dots> \<le> length r0" by (rule length_dropWhile_le)
  also have "\<dots> \<le> length s" using match_fold_append [OF m] by simp
  finally show ?thesis .
qed

text \<open>\<^verbatim>\<open>quotedToken.ReplaceAllString(msg, "${1}[redacted]'")\<close>: leftmost, non-overlapping.\<close>

function scrubQuoted :: "string \<Rightarrow> string" where
  "scrubQuoted [] = []"
| "scrubQuoted (c # cs) =
     (case quotedToken (c # cs) of
        Some (g, b, r) \<Rightarrow> g @ redacted @ [quote_mark] @ scrubQuoted r
      | None \<Rightarrow> c # scrubQuoted cs)"
  by pat_completeness auto
termination
  by (relation "measure length") (auto dest: quotedToken_shorter)

definition scrub :: "string option \<Rightarrow> string \<Rightarrow> string" where
  "scrub tok msg = scrubQuoted (scrubToken tok msg)"

text \<open>\<^verbatim>\<open>strings.ReplaceAll(s, old, new)\<close> for a non-empty \<open>old\<close>.\<close>

function replace_all :: "string \<Rightarrow> string \<Rightarrow> string \<Rightarrow> string" where
  "replace_all old new [] = []"
| "replace_all old new (c # cs) =
     (if old \<noteq> [] \<and> prefix old (c # cs) then new @ replace_all old new (drop (length old) (c # cs))
      else c # replace_all old new cs)"
  by pat_completeness auto
termination
  by (relation "measure (\<lambda>(old, new, s). length s)") (auto simp: prefix_def)

section \<open>Redaction of an error tree\<close>

datatype hcloud_node = HErr string string "response option" | HAct string string "int option"

definition hcloudNode :: "go_error \<Rightarrow> hcloud_node option" where
  "hcloudNode e = (case e of
      HcloudError c m r \<Rightarrow> Some (HErr c m r)
    | ActionError c m a \<Rightarrow> Some (HAct c m a)
    | HcloudErrorPtr (Some (c, m, r)) \<Rightarrow> Some (HErr c m r)
    | ActionErrorPtr (Some (c, m, a)) \<Rightarrow> Some (HAct c m a)
    | _ \<Rightarrow> None)"

definition rebuild :: "string option \<Rightarrow> go_error \<Rightarrow> go_error option" where
  "rebuild tok e = (case hcloudNode e of
      Some (HErr c m resp) \<Rightarrow>
        Some (HcloudError c
          (case resp of
             Some (Response (Some h)) \<Rightarrow>
               if h \<noteq> [] then scrub tok m @ '' (correlation id '' @ h @ '')'' else scrub tok m
           | _ \<Rightarrow> scrub tok m) None)
    | Some (HAct c m act) \<Rightarrow>
        Some (ActionError c
          (case act of
             Some i \<Rightarrow> scrub tok m @ '' (action '' @ format_int i @ '')''
           | None \<Rightarrow> scrub tok m) None)
    | None \<Rightarrow> None)"

text \<open>The errors the loop \<^verbatim>\<open>for e := err; e != nil; e = errors.Unwrap(e)\<close> visits.\<close>

fun unwrap_chain :: "go_error \<Rightarrow> go_error list" where
  "unwrap_chain (WrapError t e) = WrapError t e # unwrap_chain e"
| "unwrap_chain (ConfigError e) = ConfigError e # unwrap_chain e"
| "unwrap_chain e = [e]"

fun node_attached :: "hcloud_node \<Rightarrow> bool" where
  "node_attached (HErr c m r) = (r \<noteq> None)"
| "node_attached (HAct c m a) = (a \<noteq> None)"

definition attached :: "go_error \<Rightarrow> bool" where
  "attached e \<longleftrightarrow> list_ex (\<lambda>n. case hcloudNode n of None \<Rightarrow> False | Some h \<Rightarrow> node_attached h) (nodes e)"

definition node_message :: "go_error \<Rightarrow> string" where
  "node_message e = (case hcloudNode e of None \<Rightarrow> [] | Some (HErr c m r) \<Rightarrow> m | Some (HAct c m a) \<Rightarrow> m)"

definition scrubMessages :: "string option \<Rightarrow> go_error \<Rightarrow> string \<Rightarrow> string" where
  "scrubMessages tok e msg =
     foldl (\<lambda>acc n. let m = node_message n; s = scrubToken tok m in
              if s \<noteq> m then replace_all m s acc else acc) msg (nodes e)"

definition redact :: "(go_error \<Rightarrow> string) \<Rightarrow> string option \<Rightarrow> go_error \<Rightarrow> go_error" where
  "redact etext tok e0 =
     (let e = (case first_some (rebuild tok) (unwrap_chain e0) of Some r \<Rightarrow> r | None \<Rightarrow> e0);
          msg = etext e;
          clean = scrubQuoted (scrubMessages tok e msg)
      in if clean = msg \<and> \<not> attached e then e
         else (case Code (Some e) of
                 None \<Rightarrow> TextError clean
               | Some code \<Rightarrow> HcloudError code clean None))"

section \<open>Start-up\<close>

definition TokenEnvVar :: string where "TokenEnvVar = ''HCLOUD_TOKEN''"
definition tokenLength :: nat where "tokenLength = 64"

definition is_alnum :: "char \<Rightarrow> bool" where
  "is_alnum c \<longleftrightarrow>
     (let n = (of_char c :: nat) in (97 \<le> n \<and> n \<le> 122) \<or> (65 \<le> n \<and> n \<le> 90) \<or> (48 \<le> n \<and> n \<le> 57))"

text \<open>\<^verbatim>\<open>strings.IndexFunc\<close>: the byte position of the first character that satisfies \<open>f\<close>.\<close>

fun index_func :: "(char \<Rightarrow> bool) \<Rightarrow> string \<Rightarrow> nat option" where
  "index_func f [] = None"
| "index_func f (c # cs) = (if f c then Some 0 else map_option Suc (index_func f cs))"

text \<open>
  \<^verbatim>\<open>NewClientFromEnv\<close> up to the construction of the hcloud-go client: the new value of
  \<^verbatim>\<open>apiToken\<close>, or the error. \<open>env\<close> is \<^verbatim>\<open>os.Getenv(HCLOUD_TOKEN)\<close>.
\<close>

definition NewClientFromEnv :: "string \<Rightarrow> go_error + string" where
  "NewClientFromEnv env =
     (if env = [] then Inl (TextError (TokenEnvVar @ '' is not set''))
      else if length env \<noteq> tokenLength then
        Inl (TextError (TokenEnvVar @ '' is '' @ format_int (int (length env)) @ '' characters, expected ''
          @ format_int (int tokenLength)
          @ ''; check the secret for a truncated value or trailing whitespace''))
      else (case index_func (\<lambda>c. \<not> is_alnum c) env of
          Some idx \<Rightarrow> Inl (TextError (TokenEnvVar @ '' contains a non-alphanumeric character at position ''
             @ format_int (int idx) @ ''; check the secret for a newline or a copied-in quote''))
        | None \<Rightarrow> Inr env))"

section \<open>What redaction guarantees\<close>

subsection \<open>Nothing stays attached, and the code survives\<close>

lemma attached_leaf [simp]:
  "attached (TextError t) = False"
  "attached (HcloudError c m r) = (r \<noteq> None)"
  "attached (ActionError c m a) = (a \<noteq> None)"
  by (simp_all add: attached_def hcloudNode_def)

lemma attached_WrapError [simp]: "attached (WrapError t e) = attached e"
  by (simp add: attached_def hcloudNode_def)

lemma rebuild_detached: "rebuild tok e = Some r \<Longrightarrow> \<not> attached r"
  by (auto simp: rebuild_def split: option.splits hcloud_node.splits)

lemma first_rebuild_detached: "first_some (rebuild tok) es = Some r \<Longrightarrow> \<not> attached r"
  by (auto dest: first_some_SomeD rebuild_detached)

lemma redact_not_attached: "\<not> attached (redact etext tok e)"
  by (auto simp: redact_def Let_def split: option.splits dest: first_rebuild_detached)

lemma rebuild_chain_code:
  assumes "first_some (rebuild tok) (unwrap_chain e) = Some r" and "Code (Some e) = Some c"
  shows "Code (Some r) = Some c"
  using assms
proof (induction e rule: unwrap_chain.induct)
  case (1 t e)
  then show ?case by (simp add: rebuild_def hcloudNode_def)
next
  case (2 e)
  have "Code (Some (ConfigError e)) = Code (Some e)"
    by (simp add: Code_def split: option.splits)
  with 2 show ?case by (simp add: rebuild_def hcloudNode_def)
qed (auto simp: rebuild_def hcloudNode_def Code_def split: option.splits)

lemma redact_code_kept:
  assumes "Code (Some e) = Some c"
  shows "Code (Some (redact etext tok e)) = Some c"
proof -
  define e' where "e' = (case first_some (rebuild tok) (unwrap_chain e) of Some r \<Rightarrow> r | None \<Rightarrow> e)"
  have "Code (Some e') = Some c"
    using assms by (auto simp: e'_def rebuild_chain_code split: option.splits)
  then show ?thesis
    by (simp add: redact_def Let_def flip: e'_def)
qed

subsection \<open>No run of the token survives in Hetzner's text\<close>

lemma foldl_max_ge: "(x :: nat) \<in> set xs \<Longrightarrow> x \<le> foldl max a xs"
proof -
  have acc: "(a :: nat) \<le> foldl max a xs" for a xs
    by (induction xs arbitrary: a) (simp, metis foldl_Cons le_max_iff_disj order_trans max.cobounded1)
  show "x \<in> set xs \<Longrightarrow> x \<le> foldl max a xs"
    by (induction xs arbitrary: a) (auto intro: order_trans [OF max.cobounded2 acc])
qed

lemma common_prefix_prefix: "prefix r s \<Longrightarrow> prefix r t \<Longrightarrow> length r \<le> common_prefix s t"
proof (induction s t arbitrary: r rule: common_prefix.induct)
  case (1 x xs y ys)
  then show ?case by (cases r) auto
qed auto

lemma longestRun_ge:
  assumes "prefix r s" and "sublist r token" and "r \<noteq> []"
  shows "length r \<le> longestRun s token"
proof -
  obtain us vs where t: "token = us @ r @ vs" using assms(2) by (auto simp: sublist_def)
  have "length us \<in> set [0..<length token]"
    using assms(3) t by simp
  then have "common_prefix s (drop (length us) token) \<in>
      set (map (\<lambda>j. common_prefix s (drop j token)) [0..<length token])"
    unfolding set_map by (rule imageI)
  then have "common_prefix s (drop (length us) token) \<le> longestRun s token"
    unfolding longestRun_def by (rule foldl_max_ge)
  moreover have "length r \<le> common_prefix s (drop (length us) token)"
    using assms(1) t by (intro common_prefix_prefix) auto
  ultimately show ?thesis by simp
qed

text \<open>What the loop emits before its first placeholder is a prefix of the message.\<close>

lemma scrub_loop_prefix:
  "prefix r (scrub_loop token s) \<Longrightarrow> CHR ''['' \<notin> set r \<Longrightarrow> prefix r s"
proof (induction token s arbitrary: r rule: scrub_loop.induct)
  case (2 token c cs)
  show ?case
  proof (cases r)
    case (Cons x xs)
    show ?thesis
    proof (cases "minEcho \<le> longestRun (c # cs) token")
      case True
      with 2 Cons show ?thesis by (auto simp: redacted_def)
    next
      case False
      with 2 Cons show ?thesis by (auto simp: Let_def)
    qed
  qed simp
qed simp

lemma sublist_redacted:
  assumes "sublist r (redacted @ s)" and "CHR ''['' \<notin> set r" "CHR '']'' \<notin> set r" and "10 < length r"
  shows "sublist r s"
proof -
  have "\<not> sublist r redacted"
    using assms(4) sublist_length_le [of r redacted] by (auto simp: redacted_def)
  with assms(1) consider "sublist r s" | r1 r2 where "r = r1 @ r2" "suffix r1 redacted" "prefix r2 s"
    by (auto simp: sublist_append)
  then show ?thesis
  proof cases
    case 2
    have "r1 = []"
    proof (rule ccontr)
      assume "r1 \<noteq> []"
      with \<open>suffix r1 redacted\<close> have "last r1 = CHR '']''"
        by (auto simp: suffix_def redacted_def) (metis last.simps last_appendR list.simps(3))
      with \<open>r1 \<noteq> []\<close> 2 assms(3) show False by (metis UnI1 last_in_set set_append)
    qed
    with 2 show ?thesis by simp
  qed
qed

lemma scrub_loop_no_run:
  assumes "sublist r token" and "minEcho \<le> length r"
    and "CHR ''['' \<notin> set r" "CHR '']'' \<notin> set r"
  shows "\<not> sublist r (scrub_loop token msg)"
  using assms
proof (induction token msg rule: scrub_loop.induct)
  case (1 token)
  then show ?case by (auto simp: minEcho_def)
next
  case (2 token c cs)
  show ?case
  proof (cases "minEcho \<le> longestRun (c # cs) token")
    case True
    with 2 have "\<not> sublist r (scrub_loop token (drop (longestRun (c # cs) token) (c # cs)))"
      by blast
    with True 2 show ?thesis
      using sublist_redacted [of r] by (auto simp: minEcho_def Let_def)
  next
    case False
    have "\<not> prefix r (c # scrub_loop token cs)"
    proof
      assume "prefix r (c # scrub_loop token cs)"
      then have "prefix r (c # cs)"
        using 2 scrub_loop_prefix [of "tl r" token cs]
        by (cases r) auto
      then have "length r \<le> longestRun (c # cs) token"
        using 2 by (intro longestRun_ge) (auto simp: minEcho_def)
      with False 2 show False by simp
    qed
    with False 2 show ?thesis by (auto simp: sublist_Cons_right Let_def)
  qed
qed

subsection \<open>Every quoted token is the placeholder\<close>

lemma match_fold_local:
  "match_fold ls s = Some (g, r) \<Longrightarrow> match_fold ls (g @ x) = Some (g, x)"
proof (induction ls s arbitrary: g r rule: match_fold.induct)
  case (3 l ls c cs)
  show ?case
  proof (cases "lower c = l")
    case True
    with 3 show ?thesis by auto
  next
    case False
    with 3 obtain g' where k: "l = CHR ''k''" "take 3 (c # cs) = kelvin"
      and g': "match_fold ls (drop 2 cs) = Some (g', r)" "g = kelvin @ g'"
      by (auto split: if_splits)
    from k(2) have "c = CHR 0xE2" by (simp add: kelvin_def numeral_3_eq_3)
    with False 3 k g' show ?thesis by (simp add: kelvin_def numeral_3_eq_3 numeral_2_eq_2)
  qed
qed auto

lemma lower_quote_mark: "lower quote_mark = quote_mark" "\<not> is_space quote_mark"
  by (simp_all add: lower_def quote_mark_def is_space_def)

lemma match_fold_no_quote:
  "match_fold ls s = Some (g, r) \<Longrightarrow> quote_mark \<notin> set ls \<Longrightarrow> quote_mark \<notin> set g"
proof (induction ls s arbitrary: g r rule: match_fold.induct)
  case (3 l ls c cs)
  then show ?case
    using lower_quote_mark(1) by (auto simp: kelvin_def quote_mark_def split: if_splits)
qed auto

lemma takeWhile_append_stop: "list_all P xs \<Longrightarrow> \<not> P y \<Longrightarrow> takeWhile P (xs @ y # ys) = xs"
  by (induction xs) auto

lemma dropWhile_append_stop: "list_all P xs \<Longrightarrow> \<not> P y \<Longrightarrow> dropWhile P (xs @ y # ys) = y # ys"
  by (induction xs) auto

lemma quotedToken_shape:
  assumes "quotedToken s = Some (g, b, r)"
  obtains w v where "g = w @ [quote_mark]" "quote_mark \<notin> set w" "s = g @ v"
    "b = takeWhile (\<lambda>c. c \<noteq> quote_mark) v"
    "\<forall>x. quotedToken (g @ x) \<noteq> None"
proof -
  from assms obtain g0 r0 where m: "match_fold ''token'' s = Some (g0, r0)"
    and h: "dropWhile is_space r0 \<noteq> []" "hd (dropWhile is_space r0) = quote_mark"
    and g: "g = g0 @ takeWhile is_space r0 @ [quote_mark]"
    and b: "b = takeWhile (\<lambda>c. c \<noteq> quote_mark) (tl (dropWhile is_space r0))"
    by (auto simp: quotedToken_def Let_def split: option.splits if_splits)
  let ?w = "g0 @ takeWhile is_space r0" and ?v = "tl (dropWhile is_space r0)"
  have ws: "list_all is_space (takeWhile is_space r0)"
    by (auto simp: list_all_iff dest: set_takeWhileD)
  have r0: "r0 = takeWhile is_space r0 @ quote_mark # ?v"
    using h by (metis list.collapse takeWhile_dropWhile_id)
  have "quote_mark \<notin> set g0"
    using match_fold_no_quote [OF m] by (simp add: quote_mark_def)
  moreover have "quote_mark \<notin> set (takeWhile is_space r0)"
    by (auto dest: set_takeWhileD simp: lower_quote_mark)
  ultimately have "quote_mark \<notin> set ?w" by simp
  moreover have "g = ?w @ [quote_mark]" using g by simp
  moreover have "s = g @ ?v" using match_fold_append [OF m] r0 g by simp
  moreover have "quotedToken (g @ x) \<noteq> None" for x
    using match_fold_local [OF m, of "takeWhile is_space r0 @ quote_mark # x"] g ws
    by (simp add: quotedToken_def Let_def dropWhile_append_stop lower_quote_mark)
  ultimately show ?thesis using b that [of ?w ?v] by blast
qed

lemma scrubQuoted_prefix:
  "prefix w (scrubQuoted s) \<Longrightarrow> quote_mark \<notin> set (butlast w) \<Longrightarrow> prefix w s"
proof (induction s arbitrary: w rule: scrubQuoted.induct)
  case (2 c cs)
  show ?case
  proof (cases "quotedToken (c # cs)")
    case None
    with 2 show ?thesis
      by (cases w) (auto split: if_splits)
  next
    case (Some t)
    obtain g b r where t: "t = (g, b, r)" by (cases t)
    from Some t obtain w0 v where g: "g = w0 @ [quote_mark]" and cs: "c # cs = g @ v"
      by (auto elim: quotedToken_shape)
    from 2 Some t have p: "prefix w (g @ redacted @ [quote_mark] @ scrubQuoted r)" by simp
    then consider "prefix w g" | x where "w = g @ x" "x \<noteq> []"
      using prefix_append [of w g "redacted @ [quote_mark] @ scrubQuoted r"] by fastforce
    then show ?thesis
    proof cases
      case 1
      then show ?thesis using cs by (simp add: prefix_append)
    next
      case 2
      then have "quote_mark \<in> set (butlast w)" using g by (simp add: butlast_append)
      with "2.prems" show ?thesis by simp
    qed
  qed
qed simp

lemma suffix_redacted_no_match:
  assumes "suffix x redacted"
  shows "match_fold ''token'' (x @ quote_mark # out) = None"
proof -
  have "x \<in> set (suffixes redacted)" using assms by simp
  then show ?thesis
    by (auto simp: redacted_def lower_def quote_mark_def)
qed

lemma first_occurrence_unique:
  "w @ q # v = w' @ q # v' \<Longrightarrow> q \<notin> set w \<Longrightarrow> q \<notin> set w' \<Longrightarrow> w = w' \<and> v = v'"
proof (induction w arbitrary: w')
  case Nil
  then show ?case by (cases w') auto
next
  case (Cons a w)
  then show ?case by (cases w') auto
qed

lemma quotedToken_first_quote:
  assumes "quotedToken (w @ quote_mark # v) = Some (g, b, r)" and "quote_mark \<notin> set w"
  shows "b = takeWhile (\<lambda>c. c \<noteq> quote_mark) v"
proof -
  from assms(1) obtain w' v' where "w @ quote_mark # v = w' @ quote_mark # v'"
    and "quote_mark \<notin> set w'" and "b = takeWhile (\<lambda>c. c \<noteq> quote_mark) v'"
    by (auto elim: quotedToken_shape)
  with assms(2) first_occurrence_unique [of w quote_mark v w' v'] show ?thesis by simp
qed

lemma takeWhile_redacted:
  "takeWhile (\<lambda>c. c \<noteq> quote_mark) (redacted @ quote_mark # out) = redacted"
  by (simp add: redacted_def quote_mark_def)

lemma scrubQuoted_body_redacted:
  "suffix u (scrubQuoted msg) \<Longrightarrow> quotedToken u = Some (g, b, r) \<Longrightarrow> b = redacted"
proof (induction msg arbitrary: u rule: scrubQuoted.induct)
  case 1
  then show ?case by (simp add: quotedToken_def)
next
  case (2 c cs)
  show ?case
  proof (cases "quotedToken (c # cs)")
    case None
    with 2 consider "suffix u (scrubQuoted cs)" | "u = c # scrubQuoted cs"
      by (auto simp: suffix_Cons)
    then show ?thesis
    proof cases
      case 1
      with 2 None show ?thesis by simp
    next
      case 2
      from \<open>quotedToken u = Some (g, b, r)\<close> obtain w v where g: "g = w @ [quote_mark]"
        "quote_mark \<notin> set w" "u = g @ v" "b = takeWhile (\<lambda>c. c \<noteq> quote_mark) v"
        and any: "\<forall>x. quotedToken (g @ x) \<noteq> None"
        by (rule quotedToken_shape)
      have "g @ v = c # scrubQuoted cs" "g \<noteq> []" using g 2 by simp_all
      then obtain g' where g': "g = c # g'" "scrubQuoted cs = g' @ v"
        by (cases g) auto
      from g g' have "quote_mark \<notin> set (butlast g')"
        by (cases w) (auto simp: butlast_append)
      with g' have "prefix g' cs"
        using scrubQuoted_prefix [of g' cs] by simp
      then obtain x where "cs = g' @ x" by (rule prefixE)
      with any [rule_format, of x] None g' show ?thesis by simp
    qed
  next
    case (Some t)
    obtain g0 b0 r0 where t: "t = (g0, b0, r0)" by (cases t)
    from Some t obtain w0 where g0: "g0 = w0 @ [quote_mark]" "quote_mark \<notin> set w0"
      by (auto elim: quotedToken_shape)
    let ?out = "scrubQuoted r0"
    from "2.prems" Some t g0 have
      "suffix u (w0 @ quote_mark # redacted @ quote_mark # ?out)" by simp
    then consider "suffix u ?out" | x where "u = x @ quote_mark # ?out" "suffix x redacted"
      | x where "u = x @ quote_mark # redacted @ quote_mark # ?out" "suffix x w0"
      by (auto simp: suffix_append suffix_Cons)
    then show ?thesis
    proof cases
      case 1
      with 2 Some t show ?thesis by simp
    next
      case (2 x)
      with "2.prems" suffix_redacted_no_match [of x] show ?thesis
        by (simp add: quotedToken_def)
    next
      case (3 x)
      have "quote_mark \<notin> set x" using 3(2) g0(2) by (auto simp: suffix_def)
      with "2.prems"(2) 3(1) have "b = takeWhile (\<lambda>c. c \<noteq> quote_mark) (redacted @ quote_mark # ?out)"
        by (auto dest: quotedToken_first_quote)
      then show ?thesis by (simp add: takeWhile_redacted)
    qed
  qed
qed

subsection \<open>The token check\<close>

lemma index_func_None: "index_func f s = None \<longleftrightarrow> (\<forall>c \<in> set s. \<not> f c)"
  by (induction s) auto

lemma index_func_Some: "index_func f s = Some i \<Longrightarrow> \<exists>c \<in> set s. f c"
  using index_func_None [of f s] by auto

lemma NewClientFromEnv_accepts:
  "NewClientFromEnv env = Inr token \<longleftrightarrow> env = token \<and> length token = 64 \<and> (\<forall>c \<in> set token. is_alnum c)"
  by (auto simp: NewClientFromEnv_def tokenLength_def index_func_None dest: index_func_Some split: option.splits)

lemma brackets_not_alnum: "\<not> is_alnum (CHR ''['')" "\<not> is_alnum (CHR '']'')"
  by (simp_all add: is_alnum_def)

lemma attached_NotFoundError [simp]: "\<not> attached (NotFoundError k s)"
  by (simp add: attached_def hcloudNode_def)

lemma attached_ErrNotManaged [simp]: "\<not> attached (ErrNotManaged n i)"
  by (simp add: attached_def hcloudNode_def)

subsection \<open>What leaves the package\<close>

lemma sublist_around: "sublist r (a @ m # b) \<Longrightarrow> m \<notin> set r \<Longrightarrow> sublist r a \<or> sublist r b"
  by (auto simp: sublist_append sublist_Cons_right prefix_Cons suffix_imp_sublist)

lemma quotedToken_rest: "quotedToken s = Some (g, b, r) \<Longrightarrow> suffix r s"
proof -
  assume "quotedToken s = Some (g, b, r)"
  then obtain g0 r0 where m: "match_fold ''token'' s = Some (g0, r0)"
    and r: "r = [] \<or> r = tl (dropWhile (\<lambda>c. c \<noteq> quote_mark) (tl (dropWhile is_space r0)))"
    by (auto simp: quotedToken_def Let_def split: option.splits if_splits)
  have "suffix r r0" using r by (metis suffix_order.trans suffix_tl suffix_dropWhile Nil_suffix)
  with match_fold_append [OF m] show "suffix r s" by (auto simp: suffix_def)
qed

lemma sublist_scrubQuoted:
  assumes "sublist r (scrubQuoted s)" and "list_all is_alnum r" and "10 < length r"
  shows "sublist r s"
  using assms(1)
proof (induction s rule: scrubQuoted.induct)
  case (2 c cs)
  have marks: "CHR ''['' \<notin> set r" "CHR '']'' \<notin> set r" "quote_mark \<notin> set r"
    using assms(2) by (auto simp: list_all_iff is_alnum_def quote_mark_def)
  show ?case
  proof (cases "quotedToken (c # cs)")
    case None
    with "2.prems" consider "sublist r (scrubQuoted cs)" | "prefix r (scrubQuoted (c # cs))"
      by (auto simp: sublist_Cons_right)
    then show ?thesis
    proof cases
      case 1
      with 2 None show ?thesis by (simp add: sublist_Cons_right)
    next
      case 2
      moreover have "quote_mark \<notin> set (butlast r)" using marks by (auto dest: in_set_butlastD)
      ultimately show ?thesis using scrubQuoted_prefix by blast
    qed
  next
    case (Some t)
    obtain g b rest where t: "t = (g, b, rest)" by (cases t)
    from Some t obtain w v where g: "g = w @ [quote_mark]" "c # cs = g @ v" by (auto elim: quotedToken_shape)
    have out: "scrubQuoted (c # cs) = w @ quote_mark # redacted @ quote_mark # scrubQuoted rest" using Some t g(1) by simp
    have "\<not> sublist r redacted" using assms(3) sublist_length_le [of r redacted] by (auto simp: redacted_def)
    then have "sublist r w \<or> sublist r (scrubQuoted rest)"
      using sublist_around [of r w quote_mark "redacted @ quote_mark # scrubQuoted rest"]
        sublist_around [of r redacted quote_mark "scrubQuoted rest"] "2.prems" marks(3) out by auto
    moreover have "sublist rest (c # cs)" using Some t quotedToken_rest by (simp add: suffix_imp_sublist)
    moreover have "sublist w (c # cs)" using g by (auto simp: sublist_appendI)
    ultimately show ?thesis using 2 Some t by (metis sublist_order.order_trans)
  qed
qed simp



definition ex_token :: string where "ex_token = replicate 64 (CHR ''z'')"


end
