(* ===== verification/Servers.thy ===== *)
theory Servers
  imports Redact
begin

text \<open>
  The server part of the Hetzner client: \<^verbatim>\<open>src/internal/hcloudapi/servers.go\<close> and
  \<^verbatim>\<open>labels.go\<close>.

  The world outside the program (Hetzner's project, the network, the clock) is an abstract
  state \<open>'w\<close> that every call passes on. The record \<open>hcloud\<close> is the hcloud-go client: each
  operation takes the world and returns its answer and the next world. The record
  \<open>servers_api\<close> is the source's interface \<^verbatim>\<open>Servers\<close>; \<open>NewServers\<close> builds it from an
  \<open>hcloud\<close> client the way \<^verbatim>\<open>serverClient\<close> does. A Go context and its deadline are part of
  the world; the timeout of the create is an argument of the wait.
\<close>

section \<open>Data\<close>

record Server =
  srv_ID :: id64
  srv_Name :: string
  srv_ServerType :: string
  srv_Location :: string
  srv_Status :: string
  srv_Labels :: strmap
  srv_ImageID :: id64
  srv_Created :: gotime
  srv_PrivateIPv4 :: string
  srv_PublicIPv4 :: string
  srv_NetworkIDs :: "id64 list"
  srv_FirewallIDs :: "id64 list"
  srv_PlacementGroupID :: id64
  srv_HasPublicIPv4 :: bool
  srv_HasPublicIPv6 :: bool

record CreateServerRequest =
  req_Name :: string
  req_ServerType :: string
  req_Location :: string
  req_ImageID :: id64
  req_SSHKeyIDs :: "id64 list"
  req_NetworkIDs :: "id64 list"
  req_FirewallIDs :: "id64 list"
  req_PlacementGroupID :: "id64 option"
  req_UserData :: string
  req_Labels :: strmap
  req_PublicIPv4 :: bool
  req_PublicIPv6 :: bool

record Action =
  act_Command :: string
  act_Status :: string
  act_Started :: gotime

text \<open>The interface \<^verbatim>\<open>Servers\<close>. A nil server without an error is \<open>Inr None\<close>.\<close>

record 'w servers_api =
  Servers_Create :: "CreateServerRequest \<Rightarrow> 'w \<Rightarrow> (go_error + Server) \<times> 'w"
  Servers_Delete :: "id64 \<Rightarrow> 'w \<Rightarrow> go_error option \<times> 'w"
  Servers_Get :: "id64 \<Rightarrow> 'w \<Rightarrow> (go_error + Server option) \<times> 'w"
  Servers_GetByName :: "string \<Rightarrow> 'w \<Rightarrow> (go_error + Server option) \<times> 'w"
  Servers_List :: "string \<Rightarrow> 'w \<Rightarrow> (go_error + Server list) \<times> 'w"
  Servers_Reset :: "id64 \<Rightarrow> 'w \<Rightarrow> go_error option \<times> 'w"
  Servers_RecentActions :: "id64 \<Rightarrow> 'w \<Rightarrow> (go_error + Action list) \<times> 'w"

section \<open>Labels and ownership\<close>

definition LabelManagedBy :: string where "LabelManagedBy = ''karpenter.sh/managed-by''"
definition LabelNodePool :: string where "LabelNodePool = ''karpenter.sh/nodepool''"
definition LabelNodeClaim :: string where "LabelNodeClaim = ''karpenter.itsh.dev/nodeclaim''"

definition ManagedBySelector :: "string \<Rightarrow> string" where
  "ManagedBySelector clusterName = LabelManagedBy @ ''=='' @ clusterName"

definition IsManagedBy :: "Server option \<Rightarrow> string \<Rightarrow> bool" where
  "IsManagedBy s clusterName = (case s of None \<Rightarrow> False
     | Some srv \<Rightarrow>
         if srv_Labels srv = [] \<or> clusterName = [] then False
         else mget (srv_Labels srv) LabelManagedBy = clusterName)"

section \<open>Provider ids\<close>

definition ProviderIDPrefix :: string where "ProviderIDPrefix = ''hcloud://''"

definition ProviderID :: "Server \<Rightarrow> string" where
  "ProviderID s = ProviderIDPrefix @ format_int (srv_ID s)"

definition ServerIDFromProviderID :: "string \<Rightarrow> go_error + id64" where
  "ServerIDFromProviderID providerID =
     (case cut_prefix ProviderIDPrefix providerID of
        None \<Rightarrow> Inl (TextError (''providerID '' @ go_quote providerID @ '' is not an hcloud provider id''))
      | Some rest \<Rightarrow>
         (case parse_int64 rest of
            None \<Rightarrow> Inl (TextError (''providerID '' @ go_quote providerID @ '' has no valid server id''))
          | Some i \<Rightarrow>
              if i \<le> 0 then Inl (TextError (''providerID '' @ go_quote providerID @ '' has no valid server id''))
              else Inr i))"

section \<open>The hcloud-go client\<close>

text \<open>The fields of \<^verbatim>\<open>hcloud.Server\<close> the source reads.\<close>

record hc_server =
  hs_ID :: id64
  hs_Name :: string
  hs_Status :: string
  hs_Labels :: strmap
  hs_Created :: gotime
  hs_ServerType :: "string option"
  hs_Location :: "string option"
  hs_Image :: "id64 option"
  hs_IPv4_IP :: "string option"
  hs_IPv4_ID :: id64
  hs_IPv6_ID :: id64
  hs_PlacementGroup :: "id64 option"
  hs_Firewalls :: "id64 list"
  hs_PrivateNet :: "(string option \<times> id64 option) list"

text \<open>\<^verbatim>\<open>hcloud.ServerCreateOpts\<close>.\<close>

record ServerCreateOpts =
  opt_Name :: string
  opt_ServerType :: string
  opt_Image :: id64
  opt_Location :: string
  opt_UserData :: string
  opt_Labels :: strmap
  opt_StartAfterCreate :: "bool option"
  opt_Automount :: "bool option"
  opt_EnableIPv4 :: bool
  opt_EnableIPv6 :: bool
  opt_SSHKeys :: "id64 list"
  opt_Networks :: "id64 list"
  opt_Firewalls :: "id64 list"
  opt_PlacementGroup :: "id64 option"

record hc_create_result =
  res_Server :: "hc_server option"
  res_Action :: "id64 option"
  res_NextActions :: "id64 option list"

record hc_action =
  ha_Command :: string
  ha_Status :: string
  ha_Started :: gotime

record 'w hcloud =
  hc_Create :: "ServerCreateOpts \<Rightarrow> 'w \<Rightarrow> (go_error + hc_create_result) \<times> 'w"
  hc_WaitFor :: "duration \<Rightarrow> id64 option list \<Rightarrow> 'w \<Rightarrow> go_error option \<times> 'w"
  hc_Delete :: "id64 \<Rightarrow> 'w \<Rightarrow> go_error option \<times> 'w"
  hc_GetByID :: "id64 \<Rightarrow> 'w \<Rightarrow> (go_error + hc_server option) \<times> 'w"
  hc_GetByName :: "string \<Rightarrow> 'w \<Rightarrow> (go_error + hc_server option) \<times> 'w"
  hc_AllWithOpts :: "string \<Rightarrow> 'w \<Rightarrow> (go_error + hc_server option list) \<times> 'w"
  hc_Reset :: "id64 \<Rightarrow> 'w \<Rightarrow> go_error option \<times> 'w"
  hc_ListActions :: "id64 \<Rightarrow> 'w \<Rightarrow> (go_error + hc_action option list) \<times> 'w"
  hc_IsError :: "go_error \<Rightarrow> string \<Rightarrow> bool"
  hc_ErrorText :: "go_error \<Rightarrow> string"

section \<open>serverClient\<close>

definition DefaultCreateTimeout :: duration where "DefaultCreateTimeout = 90 * second"

text \<open>One pass of the loop over \<^verbatim>\<open>srv.PrivateNet\<close>.\<close>

definition add_private_net :: "Server \<Rightarrow> string option \<times> id64 option \<Rightarrow> Server" where
  "add_private_net out n =
     (let out1 = (case fst n of
                    Some ip \<Rightarrow> if srv_PrivateIPv4 out = [] then out\<lparr>srv_PrivateIPv4 := ip\<rparr> else out
                  | None \<Rightarrow> out)
      in (case snd n of
            Some i \<Rightarrow> out1\<lparr>srv_NetworkIDs := srv_NetworkIDs out1 @ [i]\<rparr>
          | None \<Rightarrow> out1))"

definition serverFromHcloud :: "hc_server \<Rightarrow> Server" where
  "serverFromHcloud srv =
     foldl add_private_net
       \<lparr> srv_ID = hs_ID srv, srv_Name = hs_Name srv,
         srv_ServerType = (case hs_ServerType srv of None \<Rightarrow> [] | Some t \<Rightarrow> t),
         srv_Location = (case hs_Location srv of None \<Rightarrow> [] | Some l \<Rightarrow> l),
         srv_Status = hs_Status srv, srv_Labels = hs_Labels srv,
         srv_ImageID = (case hs_Image srv of None \<Rightarrow> 0 | Some i \<Rightarrow> i),
         srv_Created = hs_Created srv,
         srv_PrivateIPv4 = [],
         srv_PublicIPv4 = (case hs_IPv4_IP srv of None \<Rightarrow> [] | Some ip \<Rightarrow> ip),
         srv_NetworkIDs = [],
         srv_FirewallIDs = hs_Firewalls srv,
         srv_PlacementGroupID = (case hs_PlacementGroup srv of None \<Rightarrow> 0 | Some i \<Rightarrow> i),
         srv_HasPublicIPv4 = (hs_IPv4_ID srv \<noteq> 0),
         srv_HasPublicIPv6 = (hs_IPv6_ID srv \<noteq> 0) \<rparr>
       (hs_PrivateNet srv)"

definition serverClient_Get ::
    "'w hcloud \<Rightarrow> string option \<Rightarrow> id64 \<Rightarrow> 'w \<Rightarrow> (go_error + Server option) \<times> 'w" where
  "serverClient_Get hc tok i w =
     (case hc_GetByID hc i w of
        (Inl err, w1) \<Rightarrow>
          (Inl (WrapError (''getting server '' @ format_int i @ '': '') (redact (hc_ErrorText hc) tok err)), w1)
      | (Inr None, w1) \<Rightarrow> (Inr None, w1)
      | (Inr (Some srv), w1) \<Rightarrow> (Inr (Some (serverFromHcloud srv)), w1))"

definition serverClient_GetByName ::
    "'w hcloud \<Rightarrow> string option \<Rightarrow> string \<Rightarrow> 'w \<Rightarrow> (go_error + Server option) \<times> 'w" where
  "serverClient_GetByName hc tok name w =
     (case hc_GetByName hc name w of
        (Inl err, w1) \<Rightarrow>
          (Inl (WrapError (''getting server '' @ go_quote name @ '': '') (redact (hc_ErrorText hc) tok err)), w1)
      | (Inr None, w1) \<Rightarrow> (Inr None, w1)
      | (Inr (Some srv), w1) \<Rightarrow> (Inr (Some (serverFromHcloud srv)), w1))"

definition serverClient_List ::
    "'w hcloud \<Rightarrow> string option \<Rightarrow> string \<Rightarrow> 'w \<Rightarrow> (go_error + Server list) \<times> 'w" where
  "serverClient_List hc tok labelSelector w =
     (case hc_AllWithOpts hc labelSelector w of
        (Inl err, w1) \<Rightarrow>
          (Inl (WrapError (''listing servers '' @ go_quote labelSelector @ '': '')
                 (redact (hc_ErrorText hc) tok err)), w1)
      | (Inr srvs, w1) \<Rightarrow> (Inr (map serverFromHcloud (List.map_filter id srvs)), w1))"

text \<open>\<^verbatim>\<open>deleteQuietly\<close>: the error is only logged.\<close>

definition deleteQuietly :: "'w hcloud \<Rightarrow> id64 \<Rightarrow> 'w \<Rightarrow> 'w" where
  "deleteQuietly hc i w = snd (hc_Delete hc i w)"

definition create_opts :: "CreateServerRequest \<Rightarrow> ServerCreateOpts" where
  "create_opts req =
     \<lparr> opt_Name = req_Name req, opt_ServerType = req_ServerType req, opt_Image = req_ImageID req,
       opt_Location = req_Location req, opt_UserData = req_UserData req, opt_Labels = req_Labels req,
       opt_StartAfterCreate = Some True, opt_Automount = Some False,
       opt_EnableIPv4 = req_PublicIPv4 req, opt_EnableIPv6 = req_PublicIPv6 req,
       opt_SSHKeys = req_SSHKeyIDs req, opt_Networks = req_NetworkIDs req,
       opt_Firewalls = req_FirewallIDs req, opt_PlacementGroup = req_PlacementGroupID req \<rparr>"

definition serverClient_Create ::
    "'w hcloud \<Rightarrow> string option \<Rightarrow> duration \<Rightarrow> CreateServerRequest \<Rightarrow> 'w \<Rightarrow> (go_error + Server) \<times> 'w" where
  "serverClient_Create hc tok timeout req w =
     (case hc_Create hc (create_opts req) w of
        (Inl err, w1) \<Rightarrow>
          (Inl (WrapError (''creating server '' @ go_quote (req_Name req) @ '': '')
                 (redact (hc_ErrorText hc) tok err)), w1)
      | (Inr result, w1) \<Rightarrow>
         (case res_Server result of
            None \<Rightarrow> (Inl (TextError (''creating server '' @ go_quote (req_Name req)
                       @ '': hetzner returned no server'')), w1)
          | Some created \<Rightarrow>
             (case hc_WaitFor hc timeout (res_Action result # res_NextActions result) w1 of
                (Some err, w2) \<Rightarrow>
                  (Inl (WrapError (''waiting for server '' @ go_quote (req_Name req) @ '' to be created: '')
                         (redact (hc_ErrorText hc) tok err)), deleteQuietly hc (hs_ID created) w2)
              | (None, w2) \<Rightarrow>
                 (case serverClient_Get hc tok (hs_ID created) w2 of
                    (Inl err, w3) \<Rightarrow> (Inl err, w3)
                  | (Inr None, w3) \<Rightarrow>
                      (Inl (TextError (''server '' @ go_quote (req_Name req)
                         @ '' vanished immediately after creation'')), w3)
                  | (Inr (Some srv), w3) \<Rightarrow> (Inr srv, w3)))))"

definition serverClient_Delete ::
    "'w hcloud \<Rightarrow> string option \<Rightarrow> id64 \<Rightarrow> 'w \<Rightarrow> go_error option \<times> 'w" where
  "serverClient_Delete hc tok i w =
     (case hc_Delete hc i w of
        (Some err, w1) \<Rightarrow>
          if hc_IsError hc err ''not_found'' then (Some (NotFoundError ''server'' (format_int i)), w1)
          else (Some (WrapError (''deleting server '' @ format_int i @ '': '')
                  (redact (hc_ErrorText hc) tok err)), w1)
      | (None, w1) \<Rightarrow> (None, w1))"

definition serverClient_Reset ::
    "'w hcloud \<Rightarrow> string option \<Rightarrow> id64 \<Rightarrow> 'w \<Rightarrow> go_error option \<times> 'w" where
  "serverClient_Reset hc tok i w =
     (case hc_Reset hc i w of
        (Some err, w1) \<Rightarrow>
          if hc_IsError hc err ''not_found'' then (Some (NotFoundError ''server'' (format_int i)), w1)
          else (Some (WrapError (''resetting server '' @ format_int i @ '': '')
                  (redact (hc_ErrorText hc) tok err)), w1)
      | (None, w1) \<Rightarrow> (None, w1))"

definition serverClient_RecentActions ::
    "'w hcloud \<Rightarrow> string option \<Rightarrow> id64 \<Rightarrow> 'w \<Rightarrow> (go_error + Action list) \<times> 'w" where
  "serverClient_RecentActions hc tok i w =
     (case hc_ListActions hc i w of
        (Inl err, w1) \<Rightarrow>
          if hc_IsError hc err ''not_found'' then (Inl (NotFoundError ''server'' (format_int i)), w1)
          else (Inl (WrapError (''listing actions of server '' @ format_int i @ '': '')
                  (redact (hc_ErrorText hc) tok err)), w1)
      | (Inr actions, w1) \<Rightarrow>
          (Inr (map (\<lambda>a. \<lparr> act_Command = ha_Command a, act_Status = ha_Status a,
                          act_Started = ha_Started a \<rparr>) (List.map_filter id actions)), w1))"

definition NewServersWithTimeout ::
    "'w hcloud \<Rightarrow> string option \<Rightarrow> duration \<Rightarrow> 'w servers_api" where
  "NewServersWithTimeout hc tok timeout0 =
     (let timeout = (if timeout0 \<le> 0 then DefaultCreateTimeout else timeout0) in
      \<lparr> Servers_Create = serverClient_Create hc tok timeout,
        Servers_Delete = serverClient_Delete hc tok,
        Servers_Get = serverClient_Get hc tok,
        Servers_GetByName = serverClient_GetByName hc tok,
        Servers_List = serverClient_List hc tok,
        Servers_Reset = serverClient_Reset hc tok,
        Servers_RecentActions = serverClient_RecentActions hc tok \<rparr>)"

definition NewServers :: "'w hcloud \<Rightarrow> string option \<Rightarrow> 'w servers_api" where
  "NewServers hc tok = NewServersWithTimeout hc tok DefaultCreateTimeout"

section \<open>Lemmas\<close>

subsection \<open>Provider ids\<close>

lemma ServerIDFromProviderID_Inr:
  assumes "ServerIDFromProviderID p = Inr i"
  shows "0 < i \<and> i < 2 ^ 63 \<and> (\<exists>rest. p = ProviderIDPrefix @ rest \<and> parse_int64 rest = Some i)"
proof -
  from assms obtain rest where "cut_prefix ProviderIDPrefix p = Some rest"
    and r: "parse_int64 rest = Some i" and "\<not> i \<le> 0"
    by (auto simp: ServerIDFromProviderID_def split: option.splits if_splits)
  then show ?thesis
    using parse_int64_range [OF r] by (auto simp: cut_prefix_Some_iff)
qed

lemma ServerIDFromProviderID_ProviderID:
  "0 < srv_ID s \<Longrightarrow> srv_ID s < 2 ^ 63 \<Longrightarrow> ServerIDFromProviderID (ProviderID s) = Inr (srv_ID s)"
  by (simp add: ServerIDFromProviderID_def ProviderID_def parse_int64_format_int)

subsection \<open>Ownership\<close>

lemma IsManagedBy_Some:
  "IsManagedBy (Some srv) c \<longleftrightarrow> c \<noteq> [] \<and> map_of (srv_Labels srv) LabelManagedBy = Some c"
  by (auto simp: IsManagedBy_def mget_def split: option.splits)

lemma IsManagedBy_None [simp]: "IsManagedBy None c = False"
  by (simp add: IsManagedBy_def)

lemma IsManagedBy_unique: "IsManagedBy s c \<Longrightarrow> IsManagedBy s c' \<Longrightarrow> c = c'"
  by (cases s) (auto simp: IsManagedBy_Some)

subsection \<open>Every error leaves the package detached\<close>

text \<open>
  The contract of the interface: whatever error a call returns holds no response and no
  action, so it carries neither the request nor its Authorization header.
\<close>

locale detached_errors =
  fixes S :: "'w servers_api"
  assumes create_detached: "Servers_Create S req w = (Inl e, w') \<Longrightarrow> \<not> attached e"
    and delete_detached: "Servers_Delete S i w = (Some e, w') \<Longrightarrow> \<not> attached e"
    and get_detached: "Servers_Get S i w = (Inl e, w') \<Longrightarrow> \<not> attached e"
    and get_by_name_detached: "Servers_GetByName S n w = (Inl e, w') \<Longrightarrow> \<not> attached e"
    and list_detached: "Servers_List S sel w = (Inl e, w') \<Longrightarrow> \<not> attached e"
    and reset_detached: "Servers_Reset S i w = (Some e, w') \<Longrightarrow> \<not> attached e"
    and actions_detached: "Servers_RecentActions S i w = (Inl e, w') \<Longrightarrow> \<not> attached e"

lemmas servers_defs = serverClient_Create_def serverClient_Delete_def serverClient_Get_def
  serverClient_GetByName_def serverClient_List_def serverClient_Reset_def serverClient_RecentActions_def

interpretation sc: detached_errors "NewServersWithTimeout hc tok timeout" for hc tok timeout
  by unfold_locales
    (auto simp: NewServersWithTimeout_def servers_defs Let_def redact_not_attached
       split: sum.splits option.splits prod.splits if_splits)

subsection \<open>Round trip\<close>

text \<open>
  C38. A provider id leads back to the server it was made of, so that two servers never share one; and only a
  positive 64-bit id behind the prefix is ever read as a server.
\<close>

theorem provider_id_round_trip:
  assumes "0 < srv_ID s" and "srv_ID s < 2 ^ 63"
  shows "ServerIDFromProviderID (ProviderID s) = Inr (srv_ID s)
    \<and> (\<forall>p i. ServerIDFromProviderID p = Inr i \<longrightarrow> (ProviderID s = p \<longrightarrow> srv_ID s = i)
         \<and> 0 < i \<and> i < 2 ^ 63 \<and> (\<exists>rest. p = ProviderIDPrefix @ rest \<and> parse_int64 rest = Some i))"
  using ServerIDFromProviderID_ProviderID [OF assms] by (auto dest: ServerIDFromProviderID_Inr)

theorem provider_id_round_trip_witness:
  "ServerIDFromProviderID (ProviderID \<lparr> srv_ID = 42, srv_Name = ''pool-x1'', srv_ServerType = ''cx22'', srv_Location = ''nbg1'',
     srv_Status = ''running'', srv_Labels = [], srv_ImageID = 7, srv_Created = 0, srv_PrivateIPv4 = [], srv_PublicIPv4 = [], srv_NetworkIDs = [],
     srv_FirewallIDs = [], srv_PlacementGroupID = 0, srv_HasPublicIPv4 = True, srv_HasPublicIPv6 = True \<rparr>) = Inr 42"
  using provider_id_round_trip [of "\<lparr> srv_ID = 42, srv_Name = ''pool-x1'', srv_ServerType = ''cx22'', srv_Location = ''nbg1'',
     srv_Status = ''running'', srv_Labels = [], srv_ImageID = 7, srv_Created = 0, srv_PrivateIPv4 = [], srv_PublicIPv4 = [], srv_NetworkIDs = [],
     srv_FirewallIDs = [], srv_PlacementGroupID = 0, srv_HasPublicIPv4 = True, srv_HasPublicIPv6 = True \<rparr>"] by simp

end
