(* ===== verification/Go_Float.thy ===== *)
theory Go_Float
  imports Complex_Main
begin

text \<open>
  Go's \<^verbatim>\<open>float64\<close>: a finite value is the rational number it denotes, beside the infinities
  and not-a-number. Every arithmetic operation rounds its exact result to the nearest
  double, ties to even, as IEEE 754 does; subnormals and overflow are included. The sign of
  a zero is not kept: nothing in the program divides by a variable or prints a zero's sign.
\<close>

section \<open>Rounding\<close>

fun flog2 :: "nat \<Rightarrow> nat" where
  "flog2 n = (if n < 2 then 0 else Suc (flog2 (n div 2)))"

declare flog2.simps [simp del]

lemma flog2_bounds: "0 < n \<Longrightarrow> 2 ^ flog2 n \<le> n \<and> n < 2 ^ Suc (flog2 n)"
proof (induction n rule: flog2.induct)
  case (1 n)
  show ?case
  proof (cases "n < 2")
    case True
    with 1 show ?thesis by (simp add: flog2.simps [of n])
  next
    case False
    with 1 have IH: "2 ^ flog2 (n div 2) \<le> n div 2" "n div 2 < 2 ^ Suc (flog2 (n div 2))"
      by simp_all
    have "2 * (2::nat) ^ flog2 (n div 2) \<le> n" using IH(1) by linarith
    moreover have "n < 2 * 2 ^ Suc (flog2 (n div 2))" using IH(2) by linarith
    ultimately show ?thesis using False by (simp add: flog2.simps [of n])
  qed
qed

text \<open>The exponent of a positive rational: \<open>2 powi ilog2 q \<le> q < 2 powi (ilog2 q + 1)\<close>.\<close>

definition ilog2 :: "rat \<Rightarrow> int" where
  "ilog2 q = (if 1 \<le> q then int (flog2 (nat \<lfloor>q\<rfloor>))
              else - int (Suc (flog2 (nat (\<lceil>1 / q\<rceil> - 1)))))"

lemma ilog2_bounds:
  assumes "0 < q"
  shows "2 powi ilog2 q \<le> q \<and> q < 2 powi (ilog2 q + 1)"
proof (cases "1 \<le> q")
  case True
  define k where "k = flog2 (nat \<lfloor>q\<rfloor>)"
  have pos: "0 < nat \<lfloor>q\<rfloor>" using True by simp
  have b: "2 ^ k \<le> nat \<lfloor>q\<rfloor>" "nat \<lfloor>q\<rfloor> < 2 ^ Suc k"
    using flog2_bounds [OF pos] by (simp_all add: k_def)
  have n: "rat_of_nat (nat \<lfloor>q\<rfloor>) = of_int \<lfloor>q\<rfloor>" using True by (simp add: of_nat_nat)
  have "(2::rat) ^ k = of_nat (2 ^ k)" by simp
  also have "\<dots> \<le> of_nat (nat \<lfloor>q\<rfloor>)" using b(1) by (subst of_nat_le_iff)
  also have "\<dots> \<le> q" unfolding n by (rule of_int_floor_le)
  finally have lo: "2 ^ k \<le> q" .
  have "nat \<lfloor>q\<rfloor> + 1 \<le> 2 ^ Suc k" using b(2) by simp
  then have "rat_of_nat (nat \<lfloor>q\<rfloor> + 1) \<le> of_nat (2 ^ Suc k)" by (subst of_nat_le_iff)
  then have "of_int \<lfloor>q\<rfloor> + 1 \<le> (2::rat) ^ Suc k" using n by simp
  then have hi: "q < 2 ^ Suc k" using floor_correct [of q] by simp
  have e: "ilog2 q = int k" using True by (simp add: ilog2_def k_def)
  have "int k + 1 = int (Suc k)" by simp
  with lo hi show ?thesis unfolding e by (simp only: power_int_of_nat)
next
  case False
  define m where "m = nat (\<lceil>1 / q\<rceil> - 1)"
  define k where "k = flog2 m"
  have r: "1 < 1 / q" using False assms by simp
  then have c: "1 < \<lceil>1 / q\<rceil>" by (simp only: less_ceiling_iff of_int_1)
  have nat_pred: "int (nat (x - 1)) = x - 1 \<and> 0 < nat (x - 1)" if "1 < x" for x :: int
    using that by simp
  from nat_pred [OF c] have im: "int m = \<lceil>1 / q\<rceil> - 1" and m2: "0 < m"
    unfolding m_def by blast+
  have "rat_of_nat m = of_int (int m)" by simp
  also have "\<dots> = of_int \<lceil>1 / q\<rceil> - 1" by (simp only: im of_int_diff of_int_1)
  finally have m: "rat_of_nat m = of_int \<lceil>1 / q\<rceil> - 1" "0 < m" using m2 by simp_all
  have lo: "rat_of_nat m < 1 / q" and hi: "1 / q \<le> rat_of_nat m + 1"
    using ceiling_correct [of "1 / q"] m(1) by linarith+
  have b: "2 ^ k \<le> m" "m < 2 ^ Suc k"
    using flog2_bounds [OF m(2)] by (simp_all add: k_def)
  have "(2::rat) ^ k = of_nat (2 ^ k)" by simp
  also have "\<dots> \<le> of_nat m" using b(1) by (subst of_nat_le_iff)
  also note lo
  finally have l2: "(2::rat) ^ k < 1 / q" .
  have "m + 1 \<le> 2 ^ Suc k" using b(2) by simp
  then have "rat_of_nat (m + 1) \<le> of_nat (2 ^ Suc k)" by (subst of_nat_le_iff)
  then have h2: "1 / q \<le> (2::rat) ^ Suc k" using hi by simp
  have e: "ilog2 q = - int (Suc k)" using False by (simp add: ilog2_def k_def m_def)
  have "1 / 2 ^ Suc k \<le> q" using h2 assms by (simp add: field_simps)
  moreover have "q < 1 / 2 ^ k" using l2 assms by (simp add: field_simps)
  moreover have "(2::rat) powi (- int (Suc k)) = 1 / 2 ^ Suc k"
    by (simp only: power_int_minus power_int_of_nat inverse_eq_divide)
  moreover have "- int (Suc k) + 1 = - int k" by simp
  moreover have "(2::rat) powi (- int k) = 1 / 2 ^ k"
    by (simp only: power_int_minus power_int_of_nat inverse_eq_divide)
  ultimately show ?thesis unfolding e by simp
qed

text \<open>The same on integers, for evaluation: a double of some size has too many successors to count them.\<close>

function flog2_int :: "int \<Rightarrow> int" where
  "flog2_int n = (if n < 2 then 0 else flog2_int (n div 2) + 1)"
  by auto
termination by (relation "measure nat") auto

declare flog2_int.simps [simp del]

lemma flog2_int_nat: "flog2_int n = int (flog2 (nat n))"
proof (induction n rule: flog2_int.induct)
  case (1 n)
  then show ?case
    by (cases "n < 2") (auto simp: flog2_int.simps [of n] flog2.simps [of "nat n"] nat_div_distrib)
qed

lemma ilog2_code [code]:
  "ilog2 q = (if 1 \<le> q then flog2_int \<lfloor>q\<rfloor> else - (flog2_int (\<lceil>1 / q\<rceil> - 1) + 1))"
  by (simp add: ilog2_def flog2_int_nat)

definition round_even :: "rat \<Rightarrow> int" where
  "round_even q = (let f = \<lfloor>q\<rfloor>; d = q - of_int f in
     if d < 1 / 2 then f else if 1 / 2 < d then f + 1 else if even f then f else f + 1)"

lemma round_even_of_int [simp]: "round_even (of_int i) = i"
  by (simp add: round_even_def)

lemma round_even_mono: "p \<le> q \<Longrightarrow> round_even p \<le> round_even q"
proof -
  assume "p \<le> q"
  then have f: "\<lfloor>p\<rfloor> \<le> \<lfloor>q\<rfloor>" by (rule floor_mono)
  have "\<lfloor>x\<rfloor> \<le> round_even x \<and> round_even x \<le> \<lfloor>x\<rfloor> + 1" for x
    by (simp add: round_even_def Let_def)
  with f show ?thesis
  proof (cases "\<lfloor>p\<rfloor> = \<lfloor>q\<rfloor>")
    case True
    with \<open>p \<le> q\<close> show ?thesis by (auto simp: round_even_def Let_def)
  next
    case False
    with f have "\<lfloor>p\<rfloor> + 1 \<le> \<lfloor>q\<rfloor>" by simp
    with \<open>\<And>x. \<lfloor>x\<rfloor> \<le> round_even x \<and> round_even x \<le> \<lfloor>x\<rfloor> + 1\<close> show ?thesis
      by (meson order_trans)
  qed
qed

text \<open>The position of the last bit of a double near \<open>q\<close>, and rounding without overflow.\<close>

definition last_bit :: "rat \<Rightarrow> int" where
  "last_bit q = max (ilog2 \<bar>q\<bar> - 52) (- 1074)"

definition rnd64 :: "rat \<Rightarrow> rat" where
  "rnd64 q = (if q = 0 then 0
     else of_int (round_even (q / 2 powi last_bit q)) * 2 powi last_bit q)"

lemma rnd64_0 [simp]: "rnd64 0 = 0"
  by (simp add: rnd64_def)

lemma ilog2_mono:
  assumes "0 < p" "p \<le> q"
  shows "ilog2 p \<le> ilog2 q"
proof (rule ccontr)
  assume "\<not> ilog2 p \<le> ilog2 q"
  then have "ilog2 q + 1 \<le> ilog2 p" by simp
  then have "(2::rat) powi (ilog2 q + 1) \<le> 2 powi ilog2 p"
    by (intro power_int_increasing) auto
  with ilog2_bounds [of p] ilog2_bounds [of q] assms show False by simp
qed

lemma powi_split: "a \<le> b \<Longrightarrow> (2::rat) powi b = of_int (2 ^ nat (b - a)) * 2 powi a"
proof -
  assume "a \<le> b"
  then have "(2::rat) powi b = 2 powi (int (nat (b - a)) + a)" by simp
  also have "\<dots> = 2 ^ nat (b - a) * 2 powi a"
    by (simp only: power_int_add power_int_of_nat zero_neq_numeral [symmetric] simp_thms)
  finally show ?thesis by simp
qed

text \<open>A multiple of the last bit is a fixed point of the rounding at that bit, which bounds it.\<close>

lemma round_at_ge:
  assumes "e \<le> k" and "2 powi k \<le> q"
  shows "2 powi k \<le> of_int (round_even (q / 2 powi e)) * (2::rat) powi e"
proof -
  have p: "(0::rat) < 2 powi e" by simp
  have "of_int (2 ^ nat (k - e)) \<le> q / 2 powi e"
    using assms(2) powi_split [OF assms(1)] p by (simp add: pos_le_divide_eq)
  from round_even_mono [OF this] have "2 ^ nat (k - e) \<le> round_even (q / 2 powi e)"
    by (simp only: round_even_of_int)
  then have "rat_of_int (2 ^ nat (k - e)) * 2 powi e \<le> of_int (round_even (q / 2 powi e)) * 2 powi e"
    using p by (intro mult_right_mono) (simp_all only: of_int_le_iff less_imp_le)
  then show ?thesis using powi_split [OF assms(1)] by simp
qed

lemma round_at_le:
  assumes "e \<le> k" and "q \<le> 2 powi k"
  shows "of_int (round_even (q / 2 powi e)) * (2::rat) powi e \<le> 2 powi k"
proof -
  have p: "(0::rat) < 2 powi e" by simp
  have "q / 2 powi e \<le> of_int (2 ^ nat (k - e))"
    using assms(2) powi_split [OF assms(1)] p by (simp add: pos_divide_le_eq)
  from round_even_mono [OF this] have "round_even (q / 2 powi e) \<le> 2 ^ nat (k - e)"
    by (simp only: round_even_of_int)
  then have "of_int (round_even (q / 2 powi e)) * 2 powi e \<le> rat_of_int (2 ^ nat (k - e)) * 2 powi e"
    using p by (intro mult_right_mono) (simp_all only: of_int_le_iff less_imp_le)
  then show ?thesis using powi_split [OF assms(1)] by simp
qed

lemma rnd64_mono_pos:
  assumes "0 < p" "p \<le> q"
  shows "rnd64 p \<le> rnd64 q"
proof (cases "last_bit p = last_bit q")
  case True
  have "p / 2 powi last_bit p \<le> q / 2 powi last_bit p"
    using assms by (simp add: divide_right_mono)
  then have "round_even (p / 2 powi last_bit p) \<le> round_even (q / 2 powi last_bit p)"
    by (rule round_even_mono)
  with True assms show ?thesis by (simp add: rnd64_def mult_right_mono)
next
  case False
  have le: "ilog2 p \<le> ilog2 q" using assms by (rule ilog2_mono)
  with False assms have lt: "ilog2 p + 1 \<le> ilog2 q" and e: "last_bit q = ilog2 q - 52" "last_bit p \<le> ilog2 q"
    by (auto simp: last_bit_def)
  have "(2::rat) powi (ilog2 p + 1) \<le> 2 powi ilog2 q" using lt by (intro power_int_increasing) auto
  with ilog2_bounds [of p] assms have "p \<le> 2 powi ilog2 q" by linarith
  from round_at_le [OF e(2) this] have "rnd64 p \<le> 2 powi ilog2 q" using assms by (simp add: rnd64_def)
  also have "\<dots> \<le> rnd64 q"
    using round_at_ge [of "last_bit q" "ilog2 q" q] ilog2_bounds [of q] assms e(1)
    by (simp add: rnd64_def)
  finally show ?thesis .
qed

lemma rnd64_nonneg: "0 \<le> q \<Longrightarrow> 0 \<le> rnd64 q"
proof -
  assume "0 \<le> q"
  then have "round_even (of_int 0) \<le> round_even (q / 2 powi last_bit q)"
    by (intro round_even_mono) simp
  then have "0 \<le> round_even (q / 2 powi last_bit q)" by (simp only: round_even_of_int)
  then show ?thesis by (simp add: rnd64_def)
qed

lemma rnd64_mono: "0 \<le> p \<Longrightarrow> p \<le> q \<Longrightarrow> rnd64 p \<le> rnd64 q"
  by (cases "p = 0") (auto intro: rnd64_mono_pos rnd64_nonneg)

lemma ilog2_unique:
  assumes "0 < q" "2 powi k \<le> q" "q < 2 powi (k + 1)"
  shows "ilog2 q = k"
proof (rule ccontr)
  assume "ilog2 q \<noteq> k"
  then consider "ilog2 q + 1 \<le> k" | "k + 1 \<le> ilog2 q" by linarith
  then show False
  proof cases
    case 1
    then have "(2::rat) powi (ilog2 q + 1) \<le> 2 powi k" by (intro power_int_increasing) auto
    with ilog2_bounds [OF assms(1)] assms(2) show False by linarith
  next
    case 2
    then have "(2::rat) powi (k + 1) \<le> 2 powi ilog2 q" by (intro power_int_increasing) auto
    with ilog2_bounds [OF assms(1)] assms(3) show False by linarith
  qed
qed

lemma round_even_err: "\<bar>of_int (round_even x) - x\<bar> \<le> 1 / 2"
proof -
  define f where "f = \<lfloor>x\<rfloor>"
  have f: "of_int f \<le> x" "x < of_int f + 1"
    using floor_correct [of x] unfolding f_def of_int_add of_int_1 by blast+
  have "round_even x = f \<and> x - of_int f \<le> 1 / 2 \<or> round_even x = f + 1 \<and> 1 / 2 \<le> x - of_int f"
    by (auto simp: round_even_def Let_def f_def)
  with f show ?thesis by (auto simp: abs_le_iff)
qed

text \<open>The rounding error of a value with a known exponent is half its last bit.\<close>

lemma rnd64_err:
  assumes "1 / 2 ^ k \<le> q" "q < 2 / 2 ^ k" "k + 52 = m" "m \<le> 1074"
  shows "\<bar>rnd64 q - q\<bar> \<le> 1 / 2 / 2 ^ m"
proof -
  have pw: "(2::rat) powi (- int j) = 1 / 2 ^ j" for j
    by (simp only: power_int_minus power_int_of_nat inverse_eq_divide)
  have q: "0 < q" using assms(1) by (rule less_le_trans [rotated]) simp
  have "(2::rat) powi (- int k + 1) = 2 powi (- int k) * 2" by (rule power_int_add_1) simp
  then have i: "ilog2 q = - int k" using ilog2_unique [of q "- int k"] q assms(1,2) by (simp add: pw)
  have l: "last_bit q = - int m" using q assms(3,4) by (simp add: last_bit_def i)
  define n where "n = round_even (q * 2 ^ m)"
  have e: "\<bar>of_int n - q * 2 ^ m\<bar> \<le> 1 / 2" unfolding n_def by (rule round_even_err)
  have "rnd64 q = of_int n / 2 ^ m" using q by (simp add: rnd64_def l pw n_def)
  then have "rnd64 q - q = (of_int n - q * 2 ^ m) / 2 ^ m" by (simp add: field_simps)
  then have "\<bar>rnd64 q - q\<bar> = \<bar>of_int n - q * 2 ^ m\<bar> / 2 ^ m" by (simp add: abs_divide)
  also have "\<dots> \<le> 1 / 2 / 2 ^ m" using e by (intro divide_right_mono) simp_all
  finally show ?thesis .
qed

section \<open>Values and operations\<close>

datatype f64 = Fin rat | PosInf | NegInf | NaN

definition fl64 :: "rat \<Rightarrow> f64" where
  "fl64 q = (let v = rnd64 q in
     if 2 ^ 1024 \<le> v then PosInf else if v \<le> - (2 ^ 1024) then NegInf else Fin v)"

definition f64_of_int :: "int \<Rightarrow> f64" where
  "f64_of_int i = fl64 (of_int i)"

fun f64_neg :: "f64 \<Rightarrow> f64" where
  "f64_neg (Fin a) = Fin (- a)"
| "f64_neg PosInf = NegInf"
| "f64_neg NegInf = PosInf"
| "f64_neg NaN = NaN"

fun f64_add :: "f64 \<Rightarrow> f64 \<Rightarrow> f64" where
  "f64_add (Fin a) (Fin b) = fl64 (a + b)"
| "f64_add NaN _ = NaN"
| "f64_add _ NaN = NaN"
| "f64_add PosInf NegInf = NaN"
| "f64_add NegInf PosInf = NaN"
| "f64_add PosInf _ = PosInf"
| "f64_add NegInf _ = NegInf"
| "f64_add _ b = b"

definition f64_sub :: "f64 \<Rightarrow> f64 \<Rightarrow> f64" where
  "f64_sub a b = f64_add a (f64_neg b)"

definition inf_signed :: "bool \<Rightarrow> f64" where
  "inf_signed neg = (if neg then NegInf else PosInf)"

fun f64_mul :: "f64 \<Rightarrow> f64 \<Rightarrow> f64" where
  "f64_mul (Fin a) (Fin b) = fl64 (a * b)"
| "f64_mul NaN _ = NaN"
| "f64_mul _ NaN = NaN"
| "f64_mul PosInf PosInf = PosInf"
| "f64_mul PosInf NegInf = NegInf"
| "f64_mul NegInf PosInf = NegInf"
| "f64_mul NegInf NegInf = PosInf"
| "f64_mul PosInf (Fin b) = (if b = 0 then NaN else inf_signed (b < 0))"
| "f64_mul NegInf (Fin b) = (if b = 0 then NaN else inf_signed (0 < b))"
| "f64_mul (Fin a) PosInf = (if a = 0 then NaN else inf_signed (a < 0))"
| "f64_mul (Fin a) NegInf = (if a = 0 then NaN else inf_signed (0 < a))"

text \<open>Division by a non-zero constant, the only division of the program.\<close>

fun f64_div_const :: "f64 \<Rightarrow> rat \<Rightarrow> f64" where
  "f64_div_const (Fin a) c = fl64 (a / c)"
| "f64_div_const NaN c = NaN"
| "f64_div_const PosInf c = inf_signed (c < 0)"
| "f64_div_const NegInf c = inf_signed (0 < c)"

fun f64_less :: "f64 \<Rightarrow> f64 \<Rightarrow> bool" where
  "f64_less NaN _ = False"
| "f64_less _ NaN = False"
| "f64_less (Fin a) (Fin b) = (a < b)"
| "f64_less NegInf b = (b \<noteq> NegInf)"
| "f64_less _ NegInf = False"
| "f64_less a PosInf = (a \<noteq> PosInf)"
| "f64_less PosInf _ = False"

text \<open>Go's \<^verbatim>\<open>==\<close> on floats: not-a-number differs from everything, itself included.\<close>

definition f64_eq :: "f64 \<Rightarrow> f64 \<Rightarrow> bool" where
  "f64_eq a b \<longleftrightarrow> a \<noteq> NaN \<and> b \<noteq> NaN \<and> a = b"

definition finite64 :: "f64 \<Rightarrow> bool" where
  "finite64 a \<longleftrightarrow> (\<exists>q. a = Fin q)"

text \<open>
  The conversion \<^verbatim>\<open>int64(f)\<close> truncates toward zero. Go leaves the result open when the value
  is outside the int64 range; \<open>None\<close> stands for that.
\<close>

definition trunc64 :: "f64 \<Rightarrow> int option" where
  "trunc64 a = (case a of Fin q \<Rightarrow>
       (let t = (if 0 \<le> q then \<lfloor>q\<rfloor> else \<lceil>q\<rceil>) in
        if - (2 ^ 63) \<le> t \<and> t < 2 ^ 63 then Some t else None)
     | _ \<Rightarrow> None)"

fun f64_ceil :: "f64 \<Rightarrow> f64" where
  "f64_ceil (Fin a) = Fin (of_int \<lceil>a\<rceil>)"
| "f64_ceil a = a"

lemma finite64_Fin [simp]: "finite64 (Fin q)"
  by (simp add: finite64_def)

lemma finite64_cases: "finite64 a \<Longrightarrow> (\<And>q. a = Fin q \<Longrightarrow> P) \<Longrightarrow> P"
  by (auto simp: finite64_def)

lemma f64_less_Fin [simp]: "f64_less (Fin a) (Fin b) = (a < b)"
  by simp

lemma f64_eq_Fin [simp]: "f64_eq (Fin a) (Fin b) = (a = b)"
  by (simp add: f64_eq_def)

lemma fl64_Fin: "\<bar>rnd64 q\<bar> < 2 ^ 1024 \<Longrightarrow> fl64 q = Fin (rnd64 q)"
  by (auto simp: fl64_def Let_def)

lemma fl64_FinD: "fl64 q = Fin v \<Longrightarrow> v = rnd64 q"
  by (auto simp: fl64_def Let_def split: if_splits)

text \<open>A positive integer up to the precision is its own double, so the rounding stays below it.\<close>

lemma rnd64_of_int:
  assumes "0 < i" "i < 2 ^ 53"
  shows "rnd64 (of_int i) = of_int i"
proof -
  have e: "ilog2 (of_int i) \<le> 52"
  proof (rule ccontr)
    assume "\<not> ilog2 (of_int i) \<le> 52"
    then have "(2::rat) powi 53 \<le> 2 powi ilog2 (of_int i)" by (intro power_int_increasing) auto
    with ilog2_bounds [of "of_int i"] assms(1) have "(2::rat) powi 53 \<le> of_int i" by simp
    then have "rat_of_int (2 ^ 53) \<le> of_int i" by simp
    then show False using assms(2) by linarith
  qed
  define l where "l = last_bit (of_int i)"
  have l: "l \<le> 0" using e assms(1) by (simp add: l_def last_bit_def)
  have "(1::rat) = of_int (2 ^ nat (- l)) * 2 powi l" using powi_split [OF l] by simp
  then have "rat_of_int i / 2 powi l = of_int (i * 2 ^ nat (- l))"
    by (simp add: field_simps)
  then have "round_even (rat_of_int i / 2 powi l) = i * 2 ^ nat (- l)"
    by (metis round_even_of_int)
  then have "rnd64 (of_int i) = of_int (i * 2 ^ nat (- l)) * 2 powi l"
    using assms(1) by (simp add: rnd64_def l_def)
  also have "\<dots> = of_int i * (of_int (2 ^ nat (- l)) * 2 powi l)" by simp
  finally show ?thesis using \<open>1 = of_int (2 ^ nat (- l)) * 2 powi l\<close> by simp
qed

end
