(* ===== verification/Go_Numbers.thy ===== *)
theory Go_Numbers
  imports Go_Float Prelude
begin

text \<open>
  The conversions of Go's standard library between numbers, times and text that the program
  uses: \<^verbatim>\<open>strconv.ParseFloat\<close>, \<^verbatim>\<open>%g\<close>, and the RFC 3339 form of a time in UTC.
\<close>

section \<open>ParseFloat\<close>

definition lower_char :: "char \<Rightarrow> char" where
  "lower_char c = (if 65 \<le> (of_char c :: nat) \<and> (of_char c :: nat) \<le> 90
     then char_of ((of_char c :: nat) + 32) else c)"

definition is_hex_letter :: "char \<Rightarrow> bool" where
  "is_hex_letter c = (97 \<le> (of_char (lower_char c) :: nat) \<and> (of_char (lower_char c) :: nat) \<le> 102)"

definition hex_val :: "char \<Rightarrow> nat" where
  "hex_val c = (if is_digit c then digit_val c else of_char (lower_char c) - 87)"

text \<open>Underscores may stand only between digits, or between a base prefix and a digit.\<close>

fun underscores_from :: "bool \<Rightarrow> char \<Rightarrow> string \<Rightarrow> bool" where
  "underscores_from hex prev [] = (prev \<noteq> CHR ''_'')"
| "underscores_from hex prev (c # cs) =
     (if is_digit c \<or> hex \<and> is_hex_letter c then underscores_from hex (CHR ''0'') cs
      else if c = CHR ''_'' then prev = CHR ''0'' \<and> underscores_from hex (CHR ''_'') cs
      else prev \<noteq> CHR ''_'' \<and> underscores_from hex (CHR ''!'') cs)"

definition drop_sign :: "string \<Rightarrow> string" where
  "drop_sign s = (case s of c # cs \<Rightarrow> if c = CHR ''+'' \<or> c = CHR ''-'' then cs else s | [] \<Rightarrow> [])"

definition underscore_ok :: "string \<Rightarrow> bool" where
  "underscore_ok s0 = (case drop_sign s0 of
       a # b # cs \<Rightarrow>
         if a = CHR ''0'' \<and> lower_char b \<in> {CHR ''b'', CHR ''o'', CHR ''x''}
         then underscores_from (lower_char b = CHR ''x'') (CHR ''0'') cs
         else underscores_from False (CHR ''^'') (a # b # cs)
     | s \<Rightarrow> underscores_from False (CHR ''^'') s)"

text \<open>
  The mantissa: the number read without its point, how many digits stood after the point,
  whether a digit was seen, and the rest of the text.
\<close>

fun read_mantissa :: "nat \<Rightarrow> bool \<Rightarrow> bool \<Rightarrow> nat \<Rightarrow> nat \<Rightarrow> string \<Rightarrow> (nat \<times> nat \<times> bool \<times> string)" where
  "read_mantissa base dot seen m nfrac [] = (m, nfrac, seen, [])"
| "read_mantissa base dot seen m nfrac (c # cs) =
     (if c = CHR ''_'' then read_mantissa base dot seen m nfrac cs
      else if c = CHR ''.'' then
        (if dot then (m, nfrac, seen, c # cs) else read_mantissa base True seen m nfrac cs)
      else if is_digit c \<or> base = 16 \<and> is_hex_letter c then
        read_mantissa base dot True (m * base + hex_val c) (if dot then Suc nfrac else nfrac) cs
      else (m, nfrac, seen, c # cs))"

text \<open>The exponent's digits; the value stops growing past 10000, as in the library.\<close>

fun read_exponent :: "nat \<Rightarrow> string \<Rightarrow> nat \<times> string" where
  "read_exponent e [] = (e, [])"
| "read_exponent e (c # cs) =
     (if c = CHR ''_'' then read_exponent e cs
      else if is_digit c then read_exponent (if e < 10000 then e * 10 + digit_val c else e) cs
      else (e, c # cs))"

definition exponent_part :: "char \<Rightarrow> string \<Rightarrow> (int \<times> string) option" where
  "exponent_part expChar s = (case s of
       c # cs \<Rightarrow>
         if lower_char c = expChar then
           (let ds = drop_sign cs; neg = (take 1 cs = ''-'') in
            if ds \<noteq> [] \<and> is_digit (hd ds)
            then (case read_exponent 0 ds of (e, r) \<Rightarrow> Some (if neg then - int e else int e, r))
            else None)
         else if expChar = CHR ''p'' then None else Some (0, s)
     | [] \<Rightarrow> if expChar = CHR ''p'' then None else Some (0, []))"

definition special_float :: "string \<Rightarrow> f64 option" where
  "special_float s =
     (let t = map lower_char s; u = drop_sign t in
      if u = ''inf'' \<or> u = ''infinity'' then Some (inf_signed (take 1 t = ''-''))
      else if t = ''nan'' then Some NaN else None)"

text \<open>\<^verbatim>\<open>strconv.ParseFloat(s, 64)\<close>; \<open>None\<close> is a syntax error or a value out of range.\<close>

definition ParseFloat :: "string \<Rightarrow> f64 option" where
  "ParseFloat s =
     (case special_float s of Some v \<Rightarrow> Some v
      | None \<Rightarrow>
         (let body = drop_sign s; neg = (take 1 s = ''-'');
              hex = (2 < length body \<and> body ! 0 = CHR ''0'' \<and> lower_char (body ! 1) = CHR ''x'');
              base = (if hex then 16 else 10);
              digits = (if hex then drop 2 body else body)
          in (case read_mantissa base False False 0 0 digits of (m, nfrac, seen, rest) \<Rightarrow>
               if \<not> seen then None
               else (case exponent_part (if hex then CHR ''p'' else CHR ''e'') rest of
                   None \<Rightarrow> None
                 | Some (e, r) \<Rightarrow>
                     if r \<noteq> [] \<or> (CHR ''_'' \<in> set s \<and> \<not> underscore_ok s) then None
                     else (let q = rat_of_nat m / of_nat (base ^ nfrac) * (if hex then 2 else 10) powi e in
                           case fl64 (if neg then - q else q) of
                             Fin v \<Rightarrow> Some (Fin v) | _ \<Rightarrow> None)))))"

section \<open>Formatting a float\<close>

text \<open>
  The shortest decimal that reads back as the same double: with \<open>n\<close> digits, the two
  neighbours of the value, the nearer one when both read back.
\<close>

definition dec_exp :: "rat \<Rightarrow> int" where
  "dec_exp q = (if 1 \<le> q then int (length (nat_digits (nat \<lfloor>q\<rfloor>))) - 1
     else - int (length (nat_digits (nat (\<lceil>1 / q\<rceil> - 1)))))"

definition short_at :: "rat \<Rightarrow> nat \<Rightarrow> int option" where
  "short_at q n =
     (let u = 10 powi (dec_exp q - int n + 1); x = q / u; lo = \<lfloor>x\<rfloor>; hi = lo + 1;
          okl = (rnd64 (of_int lo * u) = q); okh = (rnd64 (of_int hi * u) = q) in
      if okl \<and> okh then Some (round_even x) else if okl then Some lo else if okh then Some hi else None)"

fun shortest :: "rat \<Rightarrow> nat \<Rightarrow> nat \<Rightarrow> nat \<times> int" where
  "shortest q 0 n = (nat (round_even (q / 10 powi (dec_exp q - int n + 1))), dec_exp q - int n + 1)"
| "shortest q (Suc k) n = (case short_at q n of
      Some m \<Rightarrow> (nat m, dec_exp q - int n + 1) | None \<Rightarrow> shortest q k (Suc n))"

fun strip_zeros :: "string \<Rightarrow> string" where
  "strip_zeros [] = []"
| "strip_zeros (c # cs) = (if c = CHR ''0'' then strip_zeros cs else c # cs)"

text \<open>\<^verbatim>\<open>fmt.Sprintf("%g", f)\<close>: shortest digits, in \<^verbatim>\<open>e\<close> form for exponents below -4 or from 6.\<close>

definition format_g_pos :: "rat \<Rightarrow> string" where
  "format_g_pos q =
     (case shortest q 17 1 of (m, u) \<Rightarrow>
       (let all = nat_digits m; ds = rev (strip_zeros (rev all));
            x = int (length all) - 1 + u; nd = length ds;
            eprec = 6 in
        if x < - 4 \<or> eprec \<le> x then
          (take 1 ds @ (if nd \<le> 1 then [] else ''.'' @ drop 1 ds) @ ''e'' @ (if x < 0 then ''-'' else ''+'')
             @ (let a = nat_digits (nat \<bar>x\<bar>) in if length a < 2 then ''0'' @ a else a))
        else if x < 0 then ''0.'' @ replicate (nat (- x - 1)) (CHR ''0'') @ ds
        else if int nd \<le> x + 1 then ds @ replicate (nat (x + 1) - nd) (CHR ''0'')
        else take (nat (x + 1)) ds @ ''.'' @ drop (nat (x + 1)) ds))"

definition format_g :: "f64 \<Rightarrow> string" where
  "format_g f = (case f of NaN \<Rightarrow> ''NaN'' | PosInf \<Rightarrow> ''+Inf'' | NegInf \<Rightarrow> ''-Inf''
     | Fin q \<Rightarrow> if q = 0 then ''0'' else if q < 0 then ''-'' @ format_g_pos (- q) else format_g_pos q)"

section \<open>Civil time\<close>

text \<open>
  A \<^verbatim>\<open>gotime\<close> counts nanoseconds from the Unix epoch. The date of a day number is computed on
  a calendar whose years start in March, in cycles of 400 years.
\<close>

definition civil_from_days :: "int \<Rightarrow> int \<times> int \<times> int" where
  "civil_from_days z0 =
     (let z = z0 + 719468; era = z div 146097; doe = z mod 146097;
          yoe = (doe - doe div 1460 + doe div 36524 - doe div 146096) div 365;
          doy = doe - (365 * yoe + yoe div 4 - yoe div 100);
          mp = (5 * doy + 2) div 153; d = doy - (153 * mp + 2) div 5 + 1;
          m = (if mp < 10 then mp + 3 else mp - 9)
      in (yoe + era * 400 + (if m \<le> 2 then 1 else 0), m, d))"

definition pad_int :: "nat \<Rightarrow> int \<Rightarrow> string" where
  "pad_int n i = (let s = nat_digits (nat \<bar>i\<bar>) in
     (if i < 0 then ''-'' else []) @ replicate (n - length s) (CHR ''0'') @ s)"

text \<open>\<^verbatim>\<open>t.UTC().Format("2006-01-02T15:04:05Z")\<close>, the form of \<^verbatim>\<open>time.RFC3339\<close> in UTC.\<close>

definition format_utc :: "gotime \<Rightarrow> string" where
  "format_utc t =
     (let secs = t div second; days = secs div 86400; sod = secs mod 86400 in
      case civil_from_days days of (y, m, d) \<Rightarrow>
        pad_int 4 y @ ''-'' @ pad_int 2 m @ ''-'' @ pad_int 2 d @ ''T'' @
        pad_int 2 (sod div 3600) @ '':'' @ pad_int 2 (sod mod 3600 div 60) @ '':'' @ pad_int 2 (sod mod 60) @ ''Z'')"

end
