(* ===== verification/Hcloud_Catalog.thy ===== *)
theory Hcloud_Catalog
  imports Redact Go_Numbers
begin

text \<open>
  The read-only part of the Hetzner client: the catalog of server types
  (\<^verbatim>\<open>src/internal/hcloudapi/types.go\<close>) and the resolution of the objects a NodeClass names
  (\<^verbatim>\<open>src/internal/hcloudapi/resources.go\<close>). The hcloud-go client is the record
  \<open>hcloud_read\<close>; its operations are parameters.
\<close>

section \<open>Server types\<close>

record Price =
  HourlyNet :: f64
  MonthlyNet :: f64

record ServerTypeLocation =
  stl_Location :: string
  stl_NetworkZone :: string
  stl_Available :: bool
  stl_Recommended :: bool
  stl_Deprecated :: bool

record ServerType =
  ty_ID :: id64
  ty_Name :: string
  ty_Cores :: int
  ty_MemoryGiB :: f64
  ty_DiskGB :: int
  ty_Architecture :: string
  ty_CPUType :: string
  ty_StorageType :: string
  ty_Deprecated :: bool
  ty_Prices :: "(string \<times> Price) list"
  ty_Locations :: "ServerTypeLocation list"

text \<open>The loop over the prefixes; the first that matches is returned.\<close>

definition Line :: "ServerType \<Rightarrow> string" where
  "Line s = (case filter (\<lambda>pre. length pre \<le> length (ty_Name s) \<and> take (length pre) (ty_Name s) = pre)
                   [''ccx'', ''cpx'', ''cax'', ''cx''] of
     [] \<Rightarrow> [] | pre # _ \<Rightarrow> pre)"

text \<open>The interface \<^verbatim>\<open>Catalog\<close>.\<close>

record 'w catalog_api =
  Catalog_ServerTypes :: "'w \<Rightarrow> (go_error + ServerType list) \<times> 'w"
  Catalog_PrimaryIPv4MonthlyNet :: "'w \<Rightarrow> (go_error + f64) \<times> 'w"

section \<open>hcloud-go\<close>

text \<open>The fields the source reads; a nil location is \<open>None\<close>.\<close>

record hc_pricing =
  hp_Location :: "string option"
  hp_Hourly_Net :: string
  hp_Monthly_Net :: string

record hc_type_location =
  hl_Location :: "string option"
  hl_Available :: bool
  hl_Recommended :: bool
  hl_IsDeprecated :: bool

record hc_server_type =
  ht_ID :: id64
  ht_Name :: string
  ht_Cores :: int
  ht_Memory :: f64
  ht_Disk :: int
  ht_Architecture :: string
  ht_CPUType :: string
  ht_StorageType :: string
  ht_IsDeprecated :: bool
  ht_Pricings :: "hc_pricing list"
  ht_Locations :: "hc_type_location list"

record hc_image =
  hi_ID :: id64
  hi_Name :: string
  hi_Description :: string
  hi_Architecture :: string
  hi_Created :: gotime

record hc_network =
  hn_ID :: id64
  hn_Name :: string
  hn_IPRange :: "string option"
  hn_Subnets_NetworkZone :: "string list"

record hc_placement_group =
  hg_ID :: id64
  hg_Name :: string
  hg_Type :: string
  hg_Servers :: "id64 list"

type_synonym ('w, 'x, 'a) getter = "'x \<Rightarrow> 'w \<Rightarrow> (go_error + 'a option) \<times> 'w"

record 'w hcloud_read =
  hr_Locations :: "'w \<Rightarrow> (go_error + (string \<times> string) option list) \<times> 'w"
  hr_ServerTypes :: "'w \<Rightarrow> (go_error + hc_server_type list) \<times> 'w"
  hr_Pricing :: "'w \<Rightarrow> (go_error + (string \<times> string list) list) \<times> 'w"
  hr_Image_GetByID :: "('w, id64, hc_image) getter"
  hr_Image_GetByNameAndArchitecture :: "string \<Rightarrow> ('w, string, hc_image) getter"
  hr_Network_GetByID :: "('w, id64, hc_network) getter"
  hr_Network_GetByName :: "('w, string, hc_network) getter"
  hr_Firewall_GetByID :: "('w, id64, id64 \<times> string) getter"
  hr_Firewall_GetByName :: "('w, string, id64 \<times> string) getter"
  hr_SSHKey_GetByID :: "('w, id64, id64 \<times> string \<times> string) getter"
  hr_SSHKey_GetByName :: "('w, string, id64 \<times> string \<times> string) getter"
  hr_PlacementGroup_GetByID :: "('w, id64, hc_placement_group) getter"
  hr_PlacementGroup_GetByName :: "('w, string, hc_placement_group) getter"
  hr_ErrorText :: "go_error \<Rightarrow> string"

section \<open>catalogClient\<close>

definition networkZones :: "'w hcloud_read \<Rightarrow> string option \<Rightarrow> 'w \<Rightarrow> (go_error + strmap) \<times> 'w" where
  "networkZones hc tok w = (case hr_Locations hc w of
       (Inl err, w1) \<Rightarrow> (Inl (WrapError ''listing locations: '' (redact (hr_ErrorText hc) tok err)), w1)
     | (Inr locs, w1) \<Rightarrow>
         (Inr (foldl (\<lambda>zones l. case l of None \<Rightarrow> zones | Some (n, z) \<Rightarrow> mput n z zones) [] locs), w1))"

text \<open>One pass of the loop over \<^verbatim>\<open>st.Pricings\<close>: a price that does not parse leaves the map alone.\<close>

definition add_price :: "(string \<times> Price) list \<Rightarrow> hc_pricing \<Rightarrow> (string \<times> Price) list" where
  "add_price prices p = (case hp_Location p of None \<Rightarrow> prices
     | Some l \<Rightarrow> (case (ParseFloat (hp_Hourly_Net p), ParseFloat (hp_Monthly_Net p)) of
          (Some hourly, Some monthly) \<Rightarrow> mput l \<lparr> HourlyNet = hourly, MonthlyNet = monthly \<rparr> prices
        | _ \<Rightarrow> prices))"

definition type_location :: "strmap \<Rightarrow> hc_type_location \<Rightarrow> ServerTypeLocation option" where
  "type_location zones l = map_option (\<lambda>n. \<lparr> stl_Location = n, stl_NetworkZone = mget zones n,
      stl_Available = hl_Available l, stl_Recommended = hl_Recommended l,
      stl_Deprecated = hl_IsDeprecated l \<rparr>) (hl_Location l)"

definition serverTypeFromHcloud :: "strmap \<Rightarrow> hc_server_type \<Rightarrow> ServerType" where
  "serverTypeFromHcloud zones st =
     \<lparr> ty_ID = ht_ID st, ty_Name = ht_Name st, ty_Cores = ht_Cores st, ty_MemoryGiB = ht_Memory st,
       ty_DiskGB = ht_Disk st, ty_Architecture = ht_Architecture st, ty_CPUType = ht_CPUType st,
       ty_StorageType = ht_StorageType st, ty_Deprecated = ht_IsDeprecated st,
       ty_Prices = foldl add_price [] (ht_Pricings st),
       ty_Locations = List.map_filter (type_location zones) (ht_Locations st) \<rparr>"

definition catalogClient_ServerTypes ::
    "'w hcloud_read \<Rightarrow> string option \<Rightarrow> 'w \<Rightarrow> (go_error + ServerType list) \<times> 'w" where
  "catalogClient_ServerTypes hc tok w = (case hr_ServerTypes hc w of
       (Inl err, w1) \<Rightarrow> (Inl (WrapError ''listing server types: '' (redact (hr_ErrorText hc) tok err)), w1)
     | (Inr sts, w1) \<Rightarrow> (case networkZones hc tok w1 of
          (Inl err, w2) \<Rightarrow> (Inl err, w2)
        | (Inr zones, w2) \<Rightarrow> (Inr (map (serverTypeFromHcloud zones) sts), w2)))"

text \<open>The two loops over \<^verbatim>\<open>pricing.PrimaryIPs\<close> return the first price that parses.\<close>

definition catalogClient_PrimaryIPv4MonthlyNet ::
    "'w hcloud_read \<Rightarrow> string option \<Rightarrow> 'w \<Rightarrow> (go_error + f64) \<times> 'w" where
  "catalogClient_PrimaryIPv4MonthlyNet hc tok w = (case hr_Pricing hc w of
       (Inl err, w1) \<Rightarrow> (Inl (WrapError ''getting pricing: '' (redact (hr_ErrorText hc) tok err)), w1)
     | (Inr ips, w1) \<Rightarrow>
         (case first_some (\<lambda>(ty, prices). if ty \<noteq> ''ipv4'' then None else first_some ParseFloat prices) ips of
            Some v \<Rightarrow> (Inr v, w1) | None \<Rightarrow> (Inr (Fin 0), w1)))"

definition NewCatalog :: "'w hcloud_read \<Rightarrow> string option \<Rightarrow> 'w catalog_api" where
  "NewCatalog hc tok = \<lparr> Catalog_ServerTypes = catalogClient_ServerTypes hc tok,
     Catalog_PrimaryIPv4MonthlyNet = catalogClient_PrimaryIPv4MonthlyNet hc tok \<rparr>"

section \<open>Resources\<close>

record Image =
  Image_ID :: id64
  Image_Name :: string
  Image_Description :: string
  Image_Architecture :: string
  Image_Created :: string

record Network =
  Network_ID :: id64
  Network_Name :: string
  Network_IPRange :: string
  Network_Zone :: string

record Firewall =
  Firewall_ID :: id64
  Firewall_Name :: string

record SSHKey =
  SSHKey_ID :: id64
  SSHKey_Name :: string
  SSHKey_Fingerprint :: string

record PlacementGroup =
  PlacementGroup_ID :: id64
  PlacementGroup_Name :: string
  PlacementGroup_Type :: string
  PlacementGroup_ServerCount :: int

text \<open>The interface \<^verbatim>\<open>Resources\<close>: a name, an optional id, for images the architecture.\<close>

record 'w resources_api =
  Resources_Image :: "string \<Rightarrow> id64 option \<Rightarrow> string \<Rightarrow> 'w \<Rightarrow> (go_error + Image) \<times> 'w"
  Resources_Network :: "string \<Rightarrow> id64 option \<Rightarrow> 'w \<Rightarrow> (go_error + Network) \<times> 'w"
  Resources_Firewall :: "string \<Rightarrow> id64 option \<Rightarrow> 'w \<Rightarrow> (go_error + Firewall) \<times> 'w"
  Resources_SSHKey :: "string \<Rightarrow> id64 option \<Rightarrow> 'w \<Rightarrow> (go_error + SSHKey) \<times> 'w"
  Resources_PlacementGroup :: "string \<Rightarrow> id64 option \<Rightarrow> 'w \<Rightarrow> (go_error + PlacementGroup) \<times> 'w"

definition lookup ::
    "'w hcloud_read \<Rightarrow> string option \<Rightarrow> string \<Rightarrow> string \<Rightarrow> id64 option \<Rightarrow>
     ('w, id64, 'a) getter \<Rightarrow> ('w, string, 'a) getter \<Rightarrow> 'w \<Rightarrow> (go_error + 'a) \<times> 'w" where
  "lookup hc tok kind name i byID byName w =
     (let (sel, r) = (case i of Some n \<Rightarrow> (format_int n, byID n w) | None \<Rightarrow> (name, byName name w)) in
      case r of
        (Inl err, w1) \<Rightarrow> (Inl (WrapError (''resolving '' @ kind @ '' '' @ go_quote sel @ '': '')
                              (redact (hr_ErrorText hc) tok err)), w1)
      | (Inr None, w1) \<Rightarrow> (Inl (NotFoundError kind sel), w1)
      | (Inr (Some found), w1) \<Rightarrow> (Inr found, w1))"

definition map_result :: "('a \<Rightarrow> 'b) \<Rightarrow> (go_error + 'a) \<times> 'w \<Rightarrow> (go_error + 'b) \<times> 'w" where
  "map_result f r = (case r of (Inl e, w) \<Rightarrow> (Inl e, w) | (Inr a, w) \<Rightarrow> (Inr (f a), w))"

definition resourceClient_Image where
  "resourceClient_Image hc tok name i arch w =
     (let hcloudArch = (if arch = ''arm'' then ''arm'' else ''x86'') in
      map_result (\<lambda>img. \<lparr> Image_ID = hi_ID img, Image_Name = hi_Name img,
          Image_Description = hi_Description img, Image_Architecture = hi_Architecture img,
          Image_Created = format_utc (hi_Created img) \<rparr>)
        (lookup hc tok ''image'' name i (hr_Image_GetByID hc)
           (hr_Image_GetByNameAndArchitecture hc hcloudArch) w))"

definition resourceClient_Network where
  "resourceClient_Network hc tok name i w =
     map_result (\<lambda>n. \<lparr> Network_ID = hn_ID n, Network_Name = hn_Name n,
         Network_IPRange = (case hn_IPRange n of None \<Rightarrow> [] | Some r \<Rightarrow> r),
         Network_Zone = (case filter (\<lambda>z. z \<noteq> []) (hn_Subnets_NetworkZone n) of [] \<Rightarrow> [] | z # _ \<Rightarrow> z) \<rparr>)
       (lookup hc tok ''network'' name i (hr_Network_GetByID hc) (hr_Network_GetByName hc) w)"

definition resourceClient_Firewall where
  "resourceClient_Firewall hc tok name i w =
     map_result (\<lambda>(n, nm). \<lparr> Firewall_ID = n, Firewall_Name = nm \<rparr>)
       (lookup hc tok ''firewall'' name i (hr_Firewall_GetByID hc) (hr_Firewall_GetByName hc) w)"

definition resourceClient_SSHKey where
  "resourceClient_SSHKey hc tok name i w =
     map_result (\<lambda>(n, nm, fp). \<lparr> SSHKey_ID = n, SSHKey_Name = nm, SSHKey_Fingerprint = fp \<rparr>)
       (lookup hc tok ''ssh key'' name i (hr_SSHKey_GetByID hc) (hr_SSHKey_GetByName hc) w)"

definition resourceClient_PlacementGroup where
  "resourceClient_PlacementGroup hc tok name i w =
     map_result (\<lambda>g. \<lparr> PlacementGroup_ID = hg_ID g, PlacementGroup_Name = hg_Name g,
         PlacementGroup_Type = hg_Type g, PlacementGroup_ServerCount = int (length (hg_Servers g)) \<rparr>)
       (lookup hc tok ''placement group'' name i (hr_PlacementGroup_GetByID hc)
          (hr_PlacementGroup_GetByName hc) w)"

definition NewResources :: "'w hcloud_read \<Rightarrow> string option \<Rightarrow> 'w resources_api" where
  "NewResources hc tok = \<lparr> Resources_Image = resourceClient_Image hc tok,
     Resources_Network = resourceClient_Network hc tok,
     Resources_Firewall = resourceClient_Firewall hc tok,
     Resources_SSHKey = resourceClient_SSHKey hc tok,
     Resources_PlacementGroup = resourceClient_PlacementGroup hc tok \<rparr>"

section \<open>Lemmas\<close>

text \<open>
  A miss, an answer without object and without error, becomes this package's not-found
  error; a failed call never does, unless hcloud-go itself returned one.
\<close>

lemma lookup_miss:
  assumes "case i of Some n \<Rightarrow> byID n w = (Inr None, w1) | None \<Rightarrow> byName name w = (Inr None, w1)"
  shows "lookup hc tok kind name i byID byName w =
     (Inl (NotFoundError kind (case i of Some n \<Rightarrow> format_int n | None \<Rightarrow> name)), w1)"
  using assms by (auto simp: lookup_def split: option.splits)

lemma lookup_detached: "lookup hc tok kind name i byID byName w = (Inl e, w1) \<Longrightarrow> \<not> attached e"
  by (auto simp: lookup_def redact_not_attached Let_def
      split: option.splits sum.splits prod.splits)

text \<open>A price in the map of a server type is one that parsed, in both forms.\<close>

lemma map_of_add_price:
  "map_of (add_price m q) l = Some p \<Longrightarrow> map_of m l = Some p \<or>
     hp_Location q = Some l \<and> ParseFloat (hp_Hourly_Net q) = Some (HourlyNet p)
     \<and> ParseFloat (hp_Monthly_Net q) = Some (MonthlyNet p)"
  by (auto simp: add_price_def split: option.splits if_splits)

lemma foldl_add_price:
  assumes "map_of (foldl add_price m ps) l = Some p" and "map_of m l = None"
  shows "\<exists>q \<in> set ps. hp_Location q = Some l \<and> ParseFloat (hp_Hourly_Net q) = Some (HourlyNet p)
           \<and> ParseFloat (hp_Monthly_Net q) = Some (MonthlyNet p)"
  using assms
proof (induction ps rule: rev_induct)
  case (snoc q ps)
  then have "map_of (add_price (foldl add_price m ps) q) l = Some p" by simp
  from map_of_add_price [OF this] snoc.IH snoc.prems(2) show ?case by auto
qed simp

lemma catalog_price_parsed:
  assumes "map_of (ty_Prices (serverTypeFromHcloud zones st)) l = Some p"
  shows "\<exists>q \<in> set (ht_Pricings st). hp_Location q = Some l \<and> ParseFloat (hp_Hourly_Net q) = Some (HourlyNet p)
           \<and> ParseFloat (hp_Monthly_Net q) = Some (MonthlyNet p)"
  using assms foldl_add_price [of "[]"] by (auto simp: serverTypeFromHcloud_def)

end
