(* ===== verification/Metrics.thy ===== *)
theory Metrics
  imports Prelude
begin

text \<open>
  The Prometheus series of \<^verbatim>\<open>src/internal/metrics/metrics.go\<close> as a log of writes, newest
  last. Durations and timestamps are not kept: a write says which series it touches, with
  which labels, and for a gauge the value set.
\<close>

datatype metric =
    LaunchFailures string string string
  | LaunchDuration string string string
  | OfferingUnavailable string string string int
  | OfferingUnavailable_Reset
  | OfferingAvailabilityFlag string string int
  | OfferingAvailabilityFlag_Reset
  | CatalogStale int
  | CatalogLastSuccess
  | UnknownErrorCodes string
  | OrphansReaped

section \<open>Collectors\<close>

text \<open>
  What the variables declare and \<^verbatim>\<open>init\<close> registers. \<^verbatim>\<open>MustRegister\<close> panics on two collectors of one name, and
  \<^verbatim>\<open>WithLabelValues\<close> when the number of values is not that of the labels.
\<close>

definition namespace :: string where "namespace = ''karpenter''"
definition subsystem :: string where "subsystem = ''hcloud''"

datatype collector_kind = Counter | Gauge | Histogram "int list"

record collector =
  col_Kind :: collector_kind
  col_Name :: string
  col_Labels :: "string list"

definition registered :: "collector list" where
  "registered =
    [\<lparr> col_Kind = Counter, col_Name = ''launch_failures_total'', col_Labels = [''server_type'', ''location'', ''reason''] \<rparr>,
     \<lparr> col_Kind = Histogram [5, 10, 20, 30, 45, 60, 90, 120, 180, 300], col_Name = ''launch_duration_seconds'',
       col_Labels = [''server_type'', ''location'', ''result''] \<rparr>,
     \<lparr> col_Kind = Gauge, col_Name = ''offering_unavailable'', col_Labels = [''server_type'', ''location'', ''code''] \<rparr>,
     \<lparr> col_Kind = Gauge, col_Name = ''offering_published_available'', col_Labels = [''server_type'', ''location''] \<rparr>,
     \<lparr> col_Kind = Gauge, col_Name = ''catalog_stale'', col_Labels = [] \<rparr>,
     \<lparr> col_Kind = Gauge, col_Name = ''catalog_last_success_timestamp_seconds'', col_Labels = [] \<rparr>,
     \<lparr> col_Kind = Counter, col_Name = ''unknown_error_codes_total'', col_Labels = [''code''] \<rparr>,
     \<lparr> col_Kind = Counter, col_Name = ''orphaned_servers_reaped_total'', col_Labels = [] \<rparr>]"

definition fullName :: "collector \<Rightarrow> string" where
  "fullName c = namespace @ ''_'' @ subsystem @ ''_'' @ col_Name c"

text \<open>The collector a write of the log goes to, by its position, and the label values it gives; a reset gives none.\<close>

fun written :: "metric \<Rightarrow> nat \<times> string list option" where
  "written (LaunchFailures t l r) = (0, Some [t, l, r])"
| "written (LaunchDuration t l r) = (1, Some [t, l, r])"
| "written (OfferingUnavailable t l c v) = (2, Some [t, l, c])"
| "written OfferingUnavailable_Reset = (2, None)"
| "written (OfferingAvailabilityFlag t l v) = (3, Some [t, l])"
| "written OfferingAvailabilityFlag_Reset = (3, None)"
| "written (CatalogStale v) = (4, Some [])"
| "written CatalogLastSuccess = (5, Some [])"
| "written (UnknownErrorCodes c) = (6, Some [c])"
| "written OrphansReaped = (7, Some [])"

lemma metrics_do_not_panic:
  "distinct (map fullName registered)"
  "case written m of (i, values) \<Rightarrow> i < length registered
     \<and> (case values of None \<Rightarrow> True | Some vs \<Rightarrow> length vs = length (col_Labels (registered ! i)))"
proof -
  show "distinct (map fullName registered)" by code_simp
qed (cases m; simp add: registered_def nth_Cons')

end
