(* ===== verification/Unavailable.thy ===== *)
theory Unavailable
  imports Metrics
begin

text \<open>
  The suppression cache (\<^verbatim>\<open>src/internal/providers/instancetype/unavailable.go\<close>) and the
  rebuild of its gauge (\<^verbatim>\<open>metrics_sync.go\<close>). Every method holds the mutex for its whole body,
  so each is one atomic step; the clock is read once per call and is an argument.
\<close>

section \<open>State and operations\<close>

type_synonym ukey = "string \<times> string"

record entry =
  e_until :: gotime
  e_code :: string

record unavailable =
  u_ttl :: duration
  u_items :: "(ukey \<times> entry) list"

record Suppression =
  sup_ServerType :: string
  sup_Location :: string
  sup_Code :: string

definition DefaultUnavailableTTL :: duration where "DefaultUnavailableTTL = 5 * minute"

definition NewUnavailable :: unavailable where
  "NewUnavailable = \<lparr> u_ttl = DefaultUnavailableTTL, u_items = [] \<rparr>"

definition NewUnavailableWithOptions :: "duration \<Rightarrow> unavailable" where
  "NewUnavailableWithOptions ttl = \<lparr> u_ttl = ttl, u_items = [] \<rparr>"

definition Mark :: "gotime \<Rightarrow> unavailable \<Rightarrow> string \<Rightarrow> string \<Rightarrow> string \<Rightarrow> unavailable" where
  "Mark now u serverType location code =
     u\<lparr>u_items := mput (serverType, location) \<lparr> e_until = now + u_ttl u, e_code = code \<rparr> (u_items u)\<rparr>"

definition MarkLocation :: "gotime \<Rightarrow> unavailable \<Rightarrow> string \<Rightarrow> string \<Rightarrow> unavailable" where
  "MarkLocation now u location code =
     u\<lparr>u_items := map (\<lambda>(k, e). if snd k = location
          then (k, \<lparr> e_until = now + u_ttl u, e_code = code \<rparr>) else (k, e)) (u_items u)\<rparr>"

definition Has :: "gotime \<Rightarrow> unavailable \<Rightarrow> string \<Rightarrow> string \<Rightarrow> bool" where
  "Has now u serverType location =
     (case map_of (u_items u) (serverType, location) of
        None \<Rightarrow> False | Some e \<Rightarrow> time_before now (e_until e))"

definition Unavailable_Code :: "gotime \<Rightarrow> unavailable \<Rightarrow> string \<Rightarrow> string \<Rightarrow> string option" where
  "Unavailable_Code now u serverType location =
     (case map_of (u_items u) (serverType, location) of
        None \<Rightarrow> None | Some e \<Rightarrow> if \<not> time_before now (e_until e) then None else Some (e_code e))"

text \<open>The loop of \<^verbatim>\<open>Snapshot\<close>: expired entries are deleted, live ones are reported.\<close>

definition Snapshot :: "gotime \<Rightarrow> unavailable \<Rightarrow> Suppression list \<times> unavailable" where
  "Snapshot now u =
     (let live = filter (\<lambda>(k, e). time_before now (e_until e)) (u_items u) in
      (map (\<lambda>(k, e). \<lparr> sup_ServerType = fst k, sup_Location = snd k, sup_Code = e_code e \<rparr>) live,
       u\<lparr>u_items := live\<rparr>))"

definition Len :: "gotime \<Rightarrow> unavailable \<Rightarrow> int \<times> unavailable" where
  "Len now u = (case Snapshot now u of (s, u') \<Rightarrow> (int (length s), u'))"

text \<open>One tick of \<^verbatim>\<open>SyncUnavailable\<close>: reset the gauge, then one series per live pair.\<close>

definition sync_tick :: "gotime \<Rightarrow> unavailable \<Rightarrow> metric list \<Rightarrow> unavailable \<times> metric list" where
  "sync_tick now u ms = (case Snapshot now u of (sups, u') \<Rightarrow>
     (u', ms @ [OfferingUnavailable_Reset]
            @ map (\<lambda>s. OfferingUnavailable (sup_ServerType s) (sup_Location s) (sup_Code s) 1) sups))"

text \<open>The value of the gauge after a log of writes: the labels whose series is set to one.\<close>

fun gauge_unavailable :: "(string \<times> string \<times> string) set \<Rightarrow> metric list \<Rightarrow> (string \<times> string \<times> string) set" where
  "gauge_unavailable g [] = g"
| "gauge_unavailable g (OfferingUnavailable_Reset # ms) = gauge_unavailable {} ms"
| "gauge_unavailable g (OfferingUnavailable t l c v # ms) =
     gauge_unavailable (if v = 1 then insert (t, l, c) g else g - {(t, l, c)}) ms"
| "gauge_unavailable g (_ # ms) = gauge_unavailable g ms"

section \<open>Invariant\<close>

definition unavailable_ok :: "unavailable \<Rightarrow> bool" where
  "unavailable_ok u \<longleftrightarrow> wf_map (u_items u)"

lemma NewUnavailable_ok: "unavailable_ok NewUnavailable"
  by (simp add: unavailable_ok_def NewUnavailable_def)

lemma NewUnavailableWithOptions_ok: "unavailable_ok (NewUnavailableWithOptions ttl)"
  by (simp add: unavailable_ok_def NewUnavailableWithOptions_def)

lemma Mark_ok: "unavailable_ok u \<Longrightarrow> unavailable_ok (Mark now u t l c)"
  by (simp add: unavailable_ok_def Mark_def)

lemma MarkLocation_ok: "unavailable_ok u \<Longrightarrow> unavailable_ok (MarkLocation now u l c)"
  by (simp add: unavailable_ok_def MarkLocation_def wf_map_def comp_def case_prod_unfold if_distrib cong: if_cong)

lemma Snapshot_ok: "unavailable_ok u \<Longrightarrow> unavailable_ok (snd (Snapshot now u))"
  by (simp add: unavailable_ok_def Snapshot_def Let_def wf_map_def distinct_map_filter)

lemma Mark_ttl [simp]: "u_ttl (Mark now u t l c) = u_ttl u"
  by (simp add: Mark_def)

lemmas unavailable_oks = NewUnavailable_ok NewUnavailableWithOptions_ok Mark_ok MarkLocation_ok Snapshot_ok

section \<open>What the cache promises its clients\<close>

text \<open>
  The interface as the scheduler and the create path use it: a mark suppresses exactly its
  own pair until the time-to-live has passed, and reading the live pairs changes no answer.
\<close>

locale suppression =
  fixes mark :: "gotime \<Rightarrow> 'u \<Rightarrow> string \<Rightarrow> string \<Rightarrow> string \<Rightarrow> 'u"
    and has :: "gotime \<Rightarrow> 'u \<Rightarrow> string \<Rightarrow> string \<Rightarrow> bool"
    and reap :: "gotime \<Rightarrow> 'u \<Rightarrow> 'u"
    and ttl :: "'u \<Rightarrow> duration"
    and ok :: "'u \<Rightarrow> bool"
  assumes has_mark: "ok u \<Longrightarrow> has now (mark t0 u ty lo c) ty' lo' \<longleftrightarrow>
      (if ty' = ty \<and> lo' = lo then now < t0 + ttl u else has now u ty' lo')"
    and has_reap: "ok u \<Longrightarrow> t0 \<le> now \<Longrightarrow> has now (reap t0 u) ty lo \<longleftrightarrow> has now u ty lo"
    and ok_mark: "ok u \<Longrightarrow> ok (mark t0 u ty lo c)"
    and ttl_mark: "ok u \<Longrightarrow> ttl (mark t0 u ty lo c) = ttl u"
begin

text \<open>A run of marks, as one create makes them, oldest first.\<close>

fun marks :: "'u \<Rightarrow> (gotime \<times> string \<times> string \<times> string) list \<Rightarrow> 'u" where
  "marks u [] = u"
| "marks u ((t0, ty, lo, c) # ms) = marks (mark t0 u ty lo c) ms"

lemma ok_marks: "ok u \<Longrightarrow> ok (marks u ms)"
  by (induction u ms rule: marks.induct) (auto simp: ok_mark)

lemma ttl_marks: "ok u \<Longrightarrow> ttl (marks u ms) = ttl u"
  by (induction u ms rule: marks.induct) (auto simp: ok_mark ttl_mark)

lemma has_marks_other:
  "ok u \<Longrightarrow> (\<forall>(t0, ty', lo', c) \<in> set ms. (ty', lo') \<noteq> (ty, lo)) \<Longrightarrow> has now (marks u ms) ty lo = has now u ty lo"
  by (induction u ms rule: marks.induct) (auto simp: ok_mark has_mark)

lemma has_marks_recent:
  assumes "ok u" and "\<exists>(t0, ty', lo', c) \<in> set ms. (ty', lo') = (ty, lo)"
    and "\<forall>(t0, ty', lo', c) \<in> set ms. now < t0 + ttl u"
  shows "has now (marks u ms) ty lo"
  using assms
proof (induction u ms rule: marks.induct)
  case (2 u t0 ty' lo' c ms)
  show ?case
  proof (cases "\<exists>(t0, ty', lo', c) \<in> set ms. (ty', lo') = (ty, lo)")
    case True
    with 2 show ?thesis by (auto simp: ok_mark ttl_mark)
  next
    case False
    with 2 have "has now (marks (mark t0 u ty' lo' c) ms) ty lo = has now (mark t0 u ty' lo' c) ty lo"
      by (intro has_marks_other) (auto simp: ok_mark)
    with 2 False show ?thesis by (auto simp: has_mark)
  qed
qed simp

end

lemma map_of_filter_live:
  "wf_map m \<Longrightarrow> map_of (filter (\<lambda>(k, e). P e) m) k =
     (case map_of m k of None \<Rightarrow> None | Some e \<Rightarrow> if P e then Some e else None)"
proof (induction m)
  case Nil
  then show ?case by simp
next
  case (Cons x m)
  obtain k' e' where x: "x = (k', e')" by (cases x)
  from Cons.prems x have "wf_map m" "map_of m k' = None"
    by (auto simp: wf_map_def map_of_eq_None_iff)
  with Cons.IH x show ?case by (auto split: option.splits)
qed

lemma Has_Mark:
  "Has now (Mark t0 u ty lo c) ty' lo' \<longleftrightarrow>
     (if ty' = ty \<and> lo' = lo then now < t0 + u_ttl u else Has now u ty' lo')"
  by (auto simp: Has_def Mark_def time_before_def)

lemma Has_Snapshot:
  "unavailable_ok u \<Longrightarrow> t0 \<le> now \<Longrightarrow> Has now (snd (Snapshot t0 u)) ty lo \<longleftrightarrow> Has now u ty lo"
  by (auto simp: Has_def Snapshot_def Let_def unavailable_ok_def map_of_filter_live time_before_def
      split: option.splits)

interpretation unav: suppression Mark Has "\<lambda>now u. snd (Snapshot now u)" u_ttl unavailable_ok
  by unfold_locales (simp_all add: Has_Mark Has_Snapshot Mark_ok)

section \<open>Snapshot and gauge\<close>

lemma map_of_wf_mem: "wf_map m \<Longrightarrow> (k, e) \<in> set m \<longleftrightarrow> map_of m k = Some e"
  by (simp add: wf_map_def)

lemma Snapshot_exact:
  assumes "unavailable_ok u"
  shows "\<lparr> sup_ServerType = ty, sup_Location = lo, sup_Code = c \<rparr> \<in> set (fst (Snapshot now u)) \<longleftrightarrow>
         Unavailable_Code now u ty lo = Some c"
proof -
  have "\<lparr> sup_ServerType = ty, sup_Location = lo, sup_Code = c \<rparr> \<in> set (fst (Snapshot now u)) \<longleftrightarrow>
      (\<exists>e. ((ty, lo), e) \<in> set (u_items u) \<and> time_before now (e_until e) \<and> e_code e = c)"
    by (force simp: Snapshot_def Let_def)
  also have "\<dots> \<longleftrightarrow> Unavailable_Code now u ty lo = Some c"
    using assms by (auto simp: unavailable_ok_def map_of_wf_mem Unavailable_Code_def split: option.splits)
  finally show ?thesis .
qed

lemma gauge_append: "gauge_unavailable g (xs @ ys) = gauge_unavailable (gauge_unavailable g xs) ys"
  by (induction g xs rule: gauge_unavailable.induct) auto

lemma gauge_sets:
  "gauge_unavailable g (map (\<lambda>s. OfferingUnavailable (sup_ServerType s) (sup_Location s) (sup_Code s) 1) sups) =
   g \<union> (\<lambda>s. (sup_ServerType s, sup_Location s, sup_Code s)) ` set sups"
  by (induction sups arbitrary: g) auto

lemma suppression_record_eq:
  "(s = \<lparr> sup_ServerType = ty, sup_Location = lo, sup_Code = c \<rparr>) \<longleftrightarrow>
   (sup_ServerType s, sup_Location s, sup_Code s) = (ty, lo, c)"
  by (cases s) auto

lemma sync_tick_gauge:
  assumes "unavailable_ok u" and "sync_tick now u ms = (u', ms')"
  shows "(ty, lo, c) \<in> gauge_unavailable g ms' \<longleftrightarrow> Unavailable_Code now u ty lo = Some c"
proof -
  have "(ty, lo, c) \<in> gauge_unavailable g ms' \<longleftrightarrow>
      (\<exists>s \<in> set (fst (Snapshot now u)). (sup_ServerType s, sup_Location s, sup_Code s) = (ty, lo, c))"
    using assms(2) by (auto simp: sync_tick_def gauge_append gauge_sets image_iff split: prod.splits)
  also have "\<dots> \<longleftrightarrow> \<lparr> sup_ServerType = ty, sup_Location = lo, sup_Code = c \<rparr> \<in> set (fst (Snapshot now u))"
    unfolding suppression_record_eq [symmetric] by blast
  finally show ?thesis using Snapshot_exact [OF assms(1)] by simp
qed

end
