(* ===== verification/Api_Types.thy ===== *)
theory Api_Types
  imports Complex_Main Prelude
begin

text \<open>
  The API of the provider (\<^verbatim>\<open>src/api/v1alpha1\<close>): the \<^verbatim>\<open>HCloudNodeClass\<close> object, its
  defaults, labels and hash, and the fields of karpenter's \<^verbatim>\<open>NodeClaim\<close> the provider reads.

  A pointer is an option. A \<^verbatim>\<open>resource.Quantity\<close> is the rational number it denotes, so
  \<^verbatim>\<open>512Mi\<close> is \<open>512 * 2 ^ 20\<close> and \<^verbatim>\<open>200m\<close> is \<open>1 / 5\<close>; a \<^verbatim>\<open>ResourceList\<close> maps resource names
  to quantities. The hash function of the third-party package hashstructure is a parameter.
\<close>

type_synonym quantity = rat
type_synonym resource_list = "(string \<times> quantity) list"

section \<open>Selectors and the specification\<close>

record selector_term =
  sel_Name :: string
  sel_ID :: "id64 option"

type_synonym ImageSelectorTerm = selector_term
type_synonym NetworkSelectorTerm = selector_term
type_synonym FirewallSelectorTerm = selector_term
type_synonym SSHKeySelectorTerm = selector_term
type_synonym PlacementGroupSelectorTerm = selector_term

record KubeletArg =
  arg_Name :: string
  arg_Value :: string

record KubeletConfiguration =
  KubeReserved :: resource_list
  SystemReserved :: resource_list
  EvictionHard :: strmap
  EvictionSoft :: strmap
  EvictionSoftGracePeriod :: "(string \<times> duration) list"
  MaxPods :: "int option"
  ClusterDNS :: "string list"
  ExtraArgs :: "KubeletArg list"

record ContainerdSpec =
  SystemdCgroup :: "bool option"
  AptPin :: string
  ExtraConfig :: string

record UnattendedUpgradesSpec =
  uu_Enabled :: "bool option"
  ExtraOrigins :: "string list"
  RemoveUnusedKernelPackages :: "bool option"

record File =
  file_Path :: string
  file_Content :: string
  file_Permissions :: string
  file_Owner :: string

record BootstrapSpec =
  boot_OSFamily :: string
  boot_Mode :: string
  KubernetesVersion :: string
  PackageRevision :: string
  boot_APIServerEndpoint :: string
  boot_CACertHashes :: "string list"
  Containerd :: ContainerdSpec
  UnattendedUpgrades :: UnattendedUpgradesSpec
  Sysctls :: strmap
  KernelModules :: "string list"
  PackageUpgradeOnBoot :: "bool option"
  ExtraPackages :: "string list"
  ExtraFiles :: "File list"
  PreJoinCommands :: "string list"
  PostJoinCommands :: "string list"
  Revision :: string

record HCloudNodeClassSpec =
  spec_ImageSelector :: ImageSelectorTerm
  spec_ImageDriftPolicy :: string
  spec_MaxNodeAge :: "duration option"
  spec_Locations :: "string list"
  spec_NetworkSelector :: "NetworkSelectorTerm option"
  spec_FirewallSelectors :: "FirewallSelectorTerm list"
  spec_SSHKeySelectors :: "SSHKeySelectorTerm list"
  spec_PlacementGroup :: "PlacementGroupSelectorTerm option"
  spec_PublicIPv4 :: "bool option"
  spec_PublicIPv6 :: "bool option"
  spec_ServerLabels :: strmap
  spec_Kubelet :: KubeletConfiguration
  spec_Bootstrap :: BootstrapSpec

definition ImageDriftPolicyIgnore :: string where "ImageDriftPolicyIgnore = ''Ignore''"
definition ImageDriftPolicyReplace :: string where "ImageDriftPolicyReplace = ''Replace''"
definition OSFamilyDebian :: string where "OSFamilyDebian = ''Debian''"

section \<open>Status\<close>

record ImageStatus =
  img_ID :: id64
  img_Name :: string
  img_Description :: string
  img_Architecture :: string
  img_Created :: string

record NetworkStatus =
  net_ID :: id64
  net_Name :: string
  net_IPRange :: string
  net_Zone :: string

record FirewallStatus =
  fw_ID :: id64
  fw_Name :: string

record SSHKeyStatus =
  key_ID :: id64
  key_Name :: string
  key_Fingerprint :: string

record PlacementGroupStatus =
  pg_ID :: id64
  pg_Name :: string
  pg_Type :: string
  pg_ServerCount :: int

record LocationStatus =
  loc_Name :: string
  loc_NetworkZone :: string
  loc_Datacenters :: "string list"

text \<open>\<^verbatim>\<open>'c\<close> is the list of status conditions, which only operatorpkg reads and writes.\<close>

record 'c HCloudNodeClassStatus =
  st_Image :: "ImageStatus option"
  st_Network :: "NetworkStatus option"
  st_Firewalls :: "FirewallStatus list"
  st_SSHKeys :: "SSHKeyStatus list"
  st_PlacementGroup :: "PlacementGroupStatus option"
  st_Locations :: "LocationStatus list"
  st_APIServerEndpoint :: string
  st_CACertHashes :: "string list"
  st_Conditions :: 'c

record 'c HCloudNodeClass =
  nc_Name :: string
  nc_UID :: string
  nc_Annotations :: strmap
  nc_Finalizers :: "string list"
  nc_DeletionTimestamp :: gotime
  nc_Generation :: int
  nc_Spec :: HCloudNodeClassSpec
  nc_Status :: "'c HCloudNodeClassStatus"

definition ConditionTypeImageReady :: string where
  "ConditionTypeImageReady = ''ImageReady''"
definition ConditionTypeNetworkReady :: string where
  "ConditionTypeNetworkReady = ''NetworkReady''"
definition ConditionTypeFirewallsReady :: string where
  "ConditionTypeFirewallsReady = ''FirewallsReady''"
definition ConditionTypeSSHKeysReady :: string where
  "ConditionTypeSSHKeysReady = ''SSHKeysReady''"
definition ConditionTypePlacementGroupReady :: string where
  "ConditionTypePlacementGroupReady = ''PlacementGroupReady''"
definition ConditionTypeBootstrapDiscoveryReady :: string where
  "ConditionTypeBootstrapDiscoveryReady = ''BootstrapDiscoveryReady''"
definition ConditionTypeValidationSucceeded :: string where
  "ConditionTypeValidationSucceeded = ''ValidationSucceeded''"

section \<open>Group, labels, annotations\<close>

definition Group :: string where "Group = ''karpenter.itsh.dev''"
definition TerminationFinalizer :: string where "TerminationFinalizer = Group @ ''/termination''"

definition LabelServerTypeLine :: string where "LabelServerTypeLine = Group @ ''/server-type-line''"
definition LabelCPUType :: string where "LabelCPUType = Group @ ''/cpu-type''"
definition LabelCPUVendor :: string where "LabelCPUVendor = Group @ ''/cpu-vendor''"
definition LabelStorageType :: string where "LabelStorageType = Group @ ''/storage-type''"
definition LabelVCPU :: string where "LabelVCPU = Group @ ''/vcpu''"
definition LabelMemoryGB :: string where "LabelMemoryGB = Group @ ''/memory-gb''"
definition LabelDiskGB :: string where "LabelDiskGB = Group @ ''/disk-gb''"
definition LabelNetworkZone :: string where "LabelNetworkZone = Group @ ''/network-zone''"
definition LabelCSILocation :: string where "LabelCSILocation = ''csi.hetzner.cloud/location''"

definition wellKnownLabels :: "string list" where
  "wellKnownLabels = [LabelServerTypeLine, LabelCPUType, LabelCPUVendor, LabelStorageType, LabelVCPU,
     LabelMemoryGB, LabelDiskGB, LabelNetworkZone, LabelCSILocation]"

text \<open>Label keys of Kubernetes and karpenter core that the provider writes.\<close>

definition LabelInstanceTypeStable :: string where "LabelInstanceTypeStable = ''node.kubernetes.io/instance-type''"
definition LabelArchStable :: string where "LabelArchStable = ''kubernetes.io/arch''"
definition LabelOSStable :: string where "LabelOSStable = ''kubernetes.io/os''"
definition LabelTopologyRegion :: string where "LabelTopologyRegion = ''topology.kubernetes.io/region''"
definition LabelTopologyZone :: string where "LabelTopologyZone = ''topology.kubernetes.io/zone''"
definition CapacityTypeLabelKey :: string where "CapacityTypeLabelKey = ''karpenter.sh/capacity-type''"
definition CapacityTypeOnDemand :: string where "CapacityTypeOnDemand = ''on-demand''"
definition NodePoolLabelKey :: string where "NodePoolLabelKey = ''karpenter.sh/nodepool''"

definition AnnotationHash :: string where "AnnotationHash = Group @ ''/hcloudnodeclass-hash''"
definition AnnotationHashVersion :: string where
  "AnnotationHashVersion = Group @ ''/hcloudnodeclass-hash-version''"
definition HashVersion :: string where "HashVersion = ''v1''"

section \<open>Defaults\<close>

definition DefaultContainerdAptPin :: string where "DefaultContainerdAptPin = ''2.*''"
definition DefaultPackageRevision :: string where "DefaultPackageRevision = ''1.1''"
definition DefaultMaxPods :: int where "DefaultMaxPods = 110"

definition DefaultKubeReserved :: resource_list where
  "DefaultKubeReserved = [(''cpu'', 200 / 1000), (''memory'', 512 * 2 ^ 20)]"

definition DefaultSystemReserved :: resource_list where
  "DefaultSystemReserved = [(''cpu'', 200 / 1000), (''memory'', 512 * 2 ^ 20)]"

definition DefaultEvictionHard :: strmap where
  "DefaultEvictionHard = [
     (''memory.available'', ''500Mi''),
     (''nodefs.available'', ''10%''),
     (''nodefs.inodesFree'', ''5%''),
     (''imagefs.available'', ''15%''),
     (''imagefs.inodesFree'', ''5%'')]"

text \<open>The accessors take the pointer receiver of the source, so \<open>None\<close> is a nil receiver.\<close>

definition SystemdCgroupEnabled :: "ContainerdSpec option \<Rightarrow> bool" where
  "SystemdCgroupEnabled i = (case i of None \<Rightarrow> True
     | Some c \<Rightarrow> (case SystemdCgroup c of None \<Rightarrow> True | Some b \<Rightarrow> b))"

definition AptPinOrDefault :: "ContainerdSpec option \<Rightarrow> string" where
  "AptPinOrDefault i = (case i of None \<Rightarrow> DefaultContainerdAptPin
     | Some c \<Rightarrow> if AptPin c = [] then DefaultContainerdAptPin else AptPin c)"

definition UnattendedUpgradesEnabled :: "UnattendedUpgradesSpec option \<Rightarrow> bool" where
  "UnattendedUpgradesEnabled i = (case i of None \<Rightarrow> True
     | Some u \<Rightarrow> (case uu_Enabled u of None \<Rightarrow> True | Some b \<Rightarrow> b))"

definition RemoveUnusedKernelsEnabled :: "UnattendedUpgradesSpec option \<Rightarrow> bool" where
  "RemoveUnusedKernelsEnabled i = (case i of None \<Rightarrow> True
     | Some u \<Rightarrow> (case RemoveUnusedKernelPackages u of None \<Rightarrow> True | Some b \<Rightarrow> b))"

definition PackageRevisionOrDefault :: "BootstrapSpec option \<Rightarrow> string" where
  "PackageRevisionOrDefault i = (case i of None \<Rightarrow> DefaultPackageRevision
     | Some b \<Rightarrow> if PackageRevision b = [] then DefaultPackageRevision else PackageRevision b)"

definition PackageUpgradeOnBootEnabled :: "BootstrapSpec option \<Rightarrow> bool" where
  "PackageUpgradeOnBootEnabled i = (case i of None \<Rightarrow> True
     | Some b \<Rightarrow> (case PackageUpgradeOnBoot b of None \<Rightarrow> True | Some v \<Rightarrow> v))"

definition KubeReservedOrDefault :: "KubeletConfiguration option \<Rightarrow> resource_list" where
  "KubeReservedOrDefault i = (case i of None \<Rightarrow> DefaultKubeReserved
     | Some k \<Rightarrow> if KubeReserved k = [] then DefaultKubeReserved else KubeReserved k)"

definition SystemReservedOrDefault :: "KubeletConfiguration option \<Rightarrow> resource_list" where
  "SystemReservedOrDefault i = (case i of None \<Rightarrow> DefaultSystemReserved
     | Some k \<Rightarrow> if SystemReserved k = [] then DefaultSystemReserved else SystemReserved k)"

definition EvictionHardOrDefault :: "KubeletConfiguration option \<Rightarrow> strmap" where
  "EvictionHardOrDefault i = (case i of None \<Rightarrow> DefaultEvictionHard
     | Some k \<Rightarrow> if EvictionHard k = [] then DefaultEvictionHard else EvictionHard k)"

definition MaxPodsOrDefault :: "KubeletConfiguration option \<Rightarrow> int" where
  "MaxPodsOrDefault i = (case i of None \<Rightarrow> DefaultMaxPods
     | Some k \<Rightarrow> (case MaxPods k of None \<Rightarrow> DefaultMaxPods | Some n \<Rightarrow> n))"

definition PublicIPv4Enabled :: "HCloudNodeClassSpec option \<Rightarrow> bool" where
  "PublicIPv4Enabled i = (case i of None \<Rightarrow> True
     | Some s \<Rightarrow> (case spec_PublicIPv4 s of None \<Rightarrow> True | Some b \<Rightarrow> b))"

definition PublicIPv6Enabled :: "HCloudNodeClassSpec option \<Rightarrow> bool" where
  "PublicIPv6Enabled i = (case i of None \<Rightarrow> True
     | Some s \<Rightarrow> (case spec_PublicIPv6 s of None \<Rightarrow> True | Some b \<Rightarrow> b))"

definition ImageDriftPolicyOrDefault :: "HCloudNodeClassSpec option \<Rightarrow> string" where
  "ImageDriftPolicyOrDefault i = (case i of None \<Rightarrow> ImageDriftPolicyIgnore
     | Some s \<Rightarrow> if spec_ImageDriftPolicy s = [] then ImageDriftPolicyIgnore else spec_ImageDriftPolicy s)"

section \<open>Hash\<close>

text \<open>
  The fields of the specification that carry no \<^verbatim>\<open>hash:"ignore"\<close> tag. The hash of
  hashstructure, with the options of the source, sees nothing else.
\<close>

record hashed_spec =
  h_SSHKeySelectors :: "SSHKeySelectorTerm list"
  h_ServerLabels :: strmap
  h_Kubelet :: KubeletConfiguration
  h_Bootstrap :: BootstrapSpec

definition hashed_view :: "HCloudNodeClassSpec \<Rightarrow> hashed_spec" where
  "hashed_view s = \<lparr> h_SSHKeySelectors = spec_SSHKeySelectors s, h_ServerLabels = spec_ServerLabels s,
     h_Kubelet = spec_Kubelet s, h_Bootstrap = spec_Bootstrap s \<rparr>"

definition Hash :: "(hashed_spec \<Rightarrow> nat) \<Rightarrow> 'c HCloudNodeClass \<Rightarrow> string" where
  "Hash hashstructure nc = format_int (int (hashstructure (hashed_view (nc_Spec nc))))"

section \<open>NodeClaims\<close>

record NodeClassReference =
  ref_Group :: string
  ref_Kind :: string
  ref_Name :: string

record Taint =
  taint_Key :: string
  taint_Value :: string
  taint_Effect :: string

text \<open>
  The fields of karpenter's NodeClaim the provider reads or writes. \<open>'q\<close> is the type of its
  requirements, which only karpenter's scheduling package interprets. \<open>cl_Rebooting\<close> is the
  last transition time of the Rebooting condition, when there is one; \<open>cl_Drifted\<close> says
  whether the object carries a Drifted condition.
\<close>

record 'q NodeClaim =
  cl_Name :: string
  cl_UID :: string
  cl_Labels :: strmap
  cl_Annotations :: strmap
  cl_CreationTimestamp :: gotime
  cl_NodeClassRef :: "NodeClassReference option"
  cl_Requirements :: 'q
  cl_Requests :: resource_list
  cl_Taints :: "Taint list"
  cl_StartupTaints :: "Taint list"
  cl_ProviderID :: string
  cl_Capacity :: resource_list
  cl_Allocatable :: resource_list
  cl_Rebooting :: "gotime option"
  cl_Drifted :: bool

end
