(* ===== verification/Karpenter.thy ===== *)
theory Karpenter
  imports Api_Types Go_Numbers
begin

text \<open>
  What the provider uses of karpenter core and of apimachinery, none of which is code of this
  repository. The data are the structs the source builds; the functions are the fields of the
  record \<open>karpenter\<close>, a parameter of everything that calls them. \<open>'r\<close> is the type of
  \<^verbatim>\<open>scheduling.Requirements\<close>, \<open>'q\<close> that of the requirements of a NodeClaim.
\<close>

section \<open>Instance types\<close>

record 'r Offering =
  of_Requirements :: 'r
  of_Price :: f64
  of_Available :: bool

record InstanceTypeOverhead =
  oh_KubeReserved :: resource_list
  oh_SystemReserved :: resource_list
  oh_EvictionThreshold :: resource_list

record 'r InstanceType =
  it_Name :: string
  it_Capacity :: resource_list
  it_Overhead :: InstanceTypeOverhead
  it_Offerings :: "'r Offering list"
  it_Requirements :: 'r
  it_VolumeAttachmentLimits :: "(string \<times> int) list"

section \<open>Functions\<close>

text \<open>
  \<open>k_NewRequirements\<close> is \<^verbatim>\<open>scheduling.NewRequirements\<close> on a list of \<^verbatim>\<open>In\<close> requirements, a key
  with its values. \<open>k_Len\<close> and \<open>k_Values\<close> read the requirement of a key. \<open>k_int64\<close> is the result of
  the conversion \<^verbatim>\<open>int64(f)\<close> where the language leaves it to the implementation.
\<close>

record ('r, 'q) karpenter =
  k_NewRequirements :: "(string \<times> string list) list \<Rightarrow> 'r"
  k_FromNodeSelector :: "'q \<Rightarrow> 'r"
  k_Intersects :: "'r \<Rightarrow> 'r \<Rightarrow> bool"
  k_IsCompatible :: "'r \<Rightarrow> 'r \<Rightarrow> bool"
  k_Len :: "'r \<Rightarrow> string \<Rightarrow> int"
  k_Values :: "'r \<Rightarrow> string \<Rightarrow> string list"
  k_Keys :: "'r \<Rightarrow> string list"
  k_Allocatable :: "'r InstanceType \<Rightarrow> resource_list"
  k_ParseQuantity :: "string \<Rightarrow> quantity option"
  k_Value :: "quantity \<Rightarrow> int"
  k_int64 :: "f64 \<Rightarrow> int"

text \<open>
  What the provider relies on: a requirement \<^verbatim>\<open>In\<close> one value, under a key that occurs once, has
  length one and that value; the value of an integral quantity is the integer.
\<close>

definition karpenter_laws :: "('r, 'q) karpenter \<Rightarrow> bool" where
  "karpenter_laws K \<longleftrightarrow>
     (\<forall>rs k v. distinct (map fst rs) \<longrightarrow> (k, [v]) \<in> set rs \<longrightarrow>
        k_Len K (k_NewRequirements K rs) k = 1 \<and> k_Values K (k_NewRequirements K rs) k = [v]) \<and>
     (\<forall>i. - (2 ^ 63) \<le> i \<and> i < 2 ^ 63 \<longrightarrow> k_Value K (of_int i) = i)"

text \<open>Requirements as plain lists, enough to satisfy the laws and to run the model on examples.\<close>

definition list_karpenter :: "((string \<times> string list) list, (string \<times> string list) list) karpenter" where
  "list_karpenter =
     \<lparr> k_NewRequirements = id,
       k_FromNodeSelector = id,
       k_Intersects = (\<lambda>a b. list_all (\<lambda>(k, vs). case map_of b k of None \<Rightarrow> True
                          | Some ws \<Rightarrow> list_ex (\<lambda>v. v \<in> set ws) vs) a),
       k_IsCompatible = (\<lambda>a b. list_all (\<lambda>(k, vs). case map_of b k of None \<Rightarrow> True
                          | Some ws \<Rightarrow> list_ex (\<lambda>v. v \<in> set ws) vs) a),
       k_Len = (\<lambda>r k. case map_of r k of None \<Rightarrow> 2 ^ 63 - 1 | Some vs \<Rightarrow> int (length vs)),
       k_Values = (\<lambda>r k. case map_of r k of None \<Rightarrow> [] | Some vs \<Rightarrow> vs),
       k_Keys = map fst,
       k_Allocatable = it_Capacity,
       k_ParseQuantity = (\<lambda>s. map_option rat_of_nat (parse_nat s)),
       k_Value = (\<lambda>q. \<lceil>q\<rceil>),
       k_int64 = (\<lambda>_. - (2 ^ 63)) \<rparr>"

lemma list_karpenter_laws: "karpenter_laws list_karpenter"
  by (auto simp: karpenter_laws_def list_karpenter_def)

lemma karpenter_single:
  "karpenter_laws K \<Longrightarrow> distinct (map fst rs) \<Longrightarrow> (k, [v]) \<in> set rs \<Longrightarrow>
     k_Len K (k_NewRequirements K rs) k = 1 \<and> k_Values K (k_NewRequirements K rs) k = [v]"
  by (simp add: karpenter_laws_def)

lemma karpenter_Value:
  "karpenter_laws K \<Longrightarrow> - (2 ^ 63) \<le> i \<Longrightarrow> i < 2 ^ 63 \<Longrightarrow> k_Value K (of_int i) = i"
  by (simp add: karpenter_laws_def)

end
