(* ===== verification/Instance_Types.thy ===== *)
theory Instance_Types
  imports Hcloud_Catalog Unavailable Karpenter
begin

text \<open>
  The catalog as karpenter's instance types: \<^verbatim>\<open>types.go\<close>, \<^verbatim>\<open>resources.go\<close> and \<^verbatim>\<open>zone.go\<close> of
  \<^verbatim>\<open>src/internal/providers/instancetype\<close>. The clock of the suppression cache is read once per
  build and is the argument \<open>now\<close>.
\<close>

section \<open>Zones\<close>

definition LegacyDatacenterForLocation :: "string \<Rightarrow> string" where
  "LegacyDatacenterForLocation location =
     (if location = ''nbg1'' then ''nbg1-dc3''
      else if location = ''hel1'' then ''hel1-dc2''
      else if location = ''fsn1'' then ''fsn1-dc14''
      else if location = ''ash'' then ''ash-dc1''
      else if location = ''hil'' then ''hil-dc1''
      else if location = ''sin'' then ''sin-dc1''
      else location)"

section \<open>Capacity and overhead\<close>

definition DefaultVMMemoryOverheadPercent :: f64 where
  "DefaultVMMemoryOverheadPercent = fl64 (7 / 100)"

definition DefaultVMDiskOverheadPercent :: f64 where
  "DefaultVMDiskOverheadPercent = fl64 (2 / 100)"

definition to_int64 :: "('r, 'q) karpenter \<Rightarrow> f64 \<Rightarrow> int" where
  "to_int64 K f = (case trunc64 f of Some t \<Rightarrow> t | None \<Rightarrow> k_int64 K f)"

definition Capacity :: "('r, 'q) karpenter \<Rightarrow> int \<Rightarrow> f64 \<Rightarrow> int \<Rightarrow> int \<Rightarrow> f64 \<Rightarrow> f64 \<Rightarrow> resource_list" where
  "Capacity K cores memoryGiB diskGB maxPods memOverhead diskOverhead =
     (let memBytes = f64_mul (f64_mul memoryGiB (Fin (2 ^ 30))) (f64_sub (Fin 1) memOverhead);
          diskBytes = f64_mul (f64_mul (f64_of_int diskGB) (Fin 1000000000)) (f64_sub (Fin 1) diskOverhead)
      in [(''cpu'', of_int cores),
          (''memory'', of_int (to_int64 K memBytes)),
          (''ephemeral-storage'', of_int (to_int64 K diskBytes)),
          (''pods'', of_int maxPods)])"

text \<open>\<open>None\<close> is an error: the caller drops the signal.\<close>

definition parseThreshold :: "('r, 'q) karpenter \<Rightarrow> string \<Rightarrow> quantity \<Rightarrow> quantity option" where
  "parseThreshold K value total0 =
     (case cut_suffix ''%'' (trim_space value) of
        Some pct \<Rightarrow> (case ParseFloat pct of
            None \<Rightarrow> None
          | Some f \<Rightarrow>
              if f64_less f (Fin 0) \<or> f64_less (Fin 100) f then None
              else Some (of_int (to_int64 K
                     (f64_ceil (f64_div_const (f64_mul (f64_of_int (k_Value K total0)) f) 100)))))
      | None \<Rightarrow> k_ParseQuantity K value)"

definition quantity_of :: "resource_list \<Rightarrow> string \<Rightarrow> quantity" where
  "quantity_of m k = (case map_of m k of None \<Rightarrow> 0 | Some q \<Rightarrow> q)"

definition evictionThreshold :: "('r, 'q) karpenter \<Rightarrow> strmap \<Rightarrow> resource_list \<Rightarrow> resource_list" where
  "evictionThreshold K evictionHard capacity =
     (let out1 = (case map_of evictionHard ''memory.available'' of None \<Rightarrow> []
            | Some v \<Rightarrow> (case parseThreshold K v (quantity_of capacity ''memory'') of
                 None \<Rightarrow> [] | Some q \<Rightarrow> mput ''memory'' q []))
      in (case map_of evictionHard ''nodefs.available'' of None \<Rightarrow> out1
            | Some v \<Rightarrow> (case parseThreshold K v (quantity_of capacity ''ephemeral-storage'') of
                 None \<Rightarrow> out1 | Some q \<Rightarrow> mput ''ephemeral-storage'' q out1)))"

definition Overhead :: "('r, 'q) karpenter \<Rightarrow> KubeletConfiguration \<Rightarrow> resource_list \<Rightarrow> InstanceTypeOverhead" where
  "Overhead K kubelet capacity =
     \<lparr> oh_KubeReserved = KubeReservedOrDefault (Some kubelet),
       oh_SystemReserved = SystemReservedOrDefault (Some kubelet),
       oh_EvictionThreshold = evictionThreshold K (EvictionHardOrDefault (Some kubelet)) capacity \<rparr>"

text \<open>One pass of the inner loop of \<^verbatim>\<open>Allocatable\<close>: only resources the capacity has are reduced.\<close>

definition sub_from :: "resource_list \<Rightarrow> string \<times> quantity \<Rightarrow> resource_list" where
  "sub_from out nq = (case map_of out (fst nq) of
     None \<Rightarrow> out | Some cur \<Rightarrow> mput (fst nq) (cur - snd nq) out)"

definition Allocatable :: "resource_list \<Rightarrow> InstanceTypeOverhead \<Rightarrow> resource_list" where
  "Allocatable capacity overhead =
     foldl (foldl sub_from) capacity [oh_KubeReserved overhead, oh_SystemReserved overhead, oh_EvictionThreshold overhead]"

section \<open>Options\<close>

record Options =
  MemoryOverheadPercent :: f64
  DiskOverheadPercent :: f64
  IncludeArchitectures :: "string list"

definition zero_Options :: Options where
  "zero_Options = \<lparr> MemoryOverheadPercent = Fin 0, DiskOverheadPercent = Fin 0, IncludeArchitectures = [] \<rparr>"

definition withDefaults :: "Options \<Rightarrow> Options" where
  "withDefaults o1 =
     (let o2 = (if f64_eq (MemoryOverheadPercent o1) (Fin 0)
                then o1\<lparr>MemoryOverheadPercent := DefaultVMMemoryOverheadPercent\<rparr> else o1);
          o3 = (if f64_eq (DiskOverheadPercent o2) (Fin 0)
                then o2\<lparr>DiskOverheadPercent := DefaultVMDiskOverheadPercent\<rparr> else o2)
      in if IncludeArchitectures o3 = [] then o3\<lparr>IncludeArchitectures := [''x86'']\<rparr> else o3)"

section \<open>Build\<close>

definition HoursPerMonth :: rat where "HoursPerMonth = 730"
definition csiDriver :: string where "csiDriver = ''csi.hetzner.cloud''"
definition maxVolumesPerServer :: int where "maxVolumesPerServer = 16"

definition cpuVendor :: "string \<Rightarrow> string" where
  "cpuVendor line =
     (if line = ''cx'' then ''intel''
      else if line = ''cpx'' \<or> line = ''ccx'' then ''amd''
      else if line = ''cax'' then ''ampere''
      else ''unknown'')"

definition locationFilter :: "string list \<Rightarrow> string \<Rightarrow> bool" where
  "locationFilter allowed l = (if allowed = [] then True else l \<in> set allowed)"

text \<open>\<^verbatim>\<open>keys\<close> on the set of a list: each element once, sorted.\<close>

definition keys :: "string list \<Rightarrow> string list" where
  "keys m = sort_strings (remdups m)"

definition instanceTypeRequirements :: "('r, 'q) karpenter \<Rightarrow> ServerType \<Rightarrow> string list \<Rightarrow> 'r" where
  "instanceTypeRequirements K st regions =
     (let arch = (if ty_Architecture st = ''arm'' then ''arm64'' else ''amd64'') in
      k_NewRequirements K
        [(LabelInstanceTypeStable, [ty_Name st]),
         (LabelArchStable, [arch]),
         (LabelOSStable, [''linux'']),
         (CapacityTypeLabelKey, [CapacityTypeOnDemand]),
         (LabelTopologyRegion, regions),
         (LabelCSILocation, regions),
         (LabelServerTypeLine, [Line st]),
         (LabelCPUType, [ty_CPUType st]),
         (LabelCPUVendor, [cpuVendor (Line st)]),
         (LabelStorageType, [ty_StorageType st]),
         (LabelVCPU, [format_int (ty_Cores st)]),
         (LabelMemoryGB, [format_g (ty_MemoryGiB st)]),
         (LabelDiskGB, [format_int (ty_DiskGB st)])])"

definition offering_requirements :: "ServerTypeLocation \<Rightarrow> (string \<times> string list) list" where
  "offering_requirements l =
     [(CapacityTypeLabelKey, [CapacityTypeOnDemand]),
      (LabelTopologyRegion, [stl_Location l]),
      (LabelTopologyZone, [LegacyDatacenterForLocation (stl_Location l)]),
      (LabelCSILocation, [stl_Location l]),
      (LabelNetworkZone, [stl_NetworkZone l])]"

text \<open>One pass of the loop over the locations: \<open>None\<close> when the type has no price there.\<close>

definition newOffering ::
    "('r, 'q) karpenter \<Rightarrow> gotime \<Rightarrow> ServerType \<Rightarrow> 'c HCloudNodeClass \<Rightarrow> f64 \<Rightarrow> unavailable \<Rightarrow>
     ServerTypeLocation \<Rightarrow> 'r Offering option" where
  "newOffering K now st nodeClass primaryIPv4Monthly unavail l =
     (case map_of (ty_Prices st) (stl_Location l) of
        None \<Rightarrow> None
      | Some price \<Rightarrow>
         (let monthly = (if PublicIPv4Enabled (Some (nc_Spec nodeClass))
                         then f64_add (MonthlyNet price) primaryIPv4Monthly else MonthlyNet price)
          in Some \<lparr> of_Requirements = k_NewRequirements K (offering_requirements l),
                    of_Price = f64_div_const monthly HoursPerMonth,
                    of_Available = (\<not> Has now unavail (ty_Name st) (stl_Location l)) \<rparr>))"

definition newInstanceType ::
    "('r, 'q) karpenter \<Rightarrow> gotime \<Rightarrow> ServerType \<Rightarrow> ServerTypeLocation list \<Rightarrow> 'c HCloudNodeClass \<Rightarrow> f64 \<Rightarrow>
     unavailable \<Rightarrow> Options \<Rightarrow> 'r InstanceType option" where
  "newInstanceType K now st locs nodeClass primaryIPv4Monthly unavail opts =
     (let maxPods = MaxPodsOrDefault (Some (spec_Kubelet (nc_Spec nodeClass)));
          capacity = Capacity K (ty_Cores st) (ty_MemoryGiB st) (ty_DiskGB st) maxPods
                       (MemoryOverheadPercent opts) (DiskOverheadPercent opts);
          offerings = List.map_filter (newOffering K now st nodeClass primaryIPv4Monthly unavail) locs;
          regions = map stl_Location (filter (\<lambda>l. mhas (ty_Prices st) (stl_Location l)) locs)
      in if offerings = [] then None
         else Some \<lparr> it_Name = ty_Name st, it_Capacity = capacity,
                it_Overhead = Overhead K (spec_Kubelet (nc_Spec nodeClass)) capacity,
                it_Offerings = offerings,
                it_Requirements = instanceTypeRequirements K st (keys regions),
                it_VolumeAttachmentLimits = [(csiDriver, maxVolumesPerServer)] \<rparr>)"

text \<open>The body of the loop over the server types.\<close>

definition build_one ::
    "('r, 'q) karpenter \<Rightarrow> gotime \<Rightarrow> 'c HCloudNodeClass \<Rightarrow> f64 \<Rightarrow> unavailable \<Rightarrow> Options \<Rightarrow>
     ServerType \<Rightarrow> 'r InstanceType option" where
  "build_one K now nodeClass primaryIPv4Monthly unavail opts st =
     (if ty_Deprecated st \<or> ty_Architecture st \<notin> set (IncludeArchitectures opts) then None
      else (let locs = filter (\<lambda>l. locationFilter (spec_Locations (nc_Spec nodeClass)) (stl_Location l)
                                   \<and> \<not> stl_Deprecated l) (ty_Locations st)
            in if locs = [] then None
               else newInstanceType K now st locs nodeClass primaryIPv4Monthly unavail opts))"

text \<open>
  \<^verbatim>\<open>Build\<close>. The sort of the source is not stable, but its order on the names is total, so the
  result is determined whenever the names of the catalog are distinct.
\<close>

definition Build ::
    "('r, 'q) karpenter \<Rightarrow> gotime \<Rightarrow> ServerType list \<Rightarrow> 'c HCloudNodeClass \<Rightarrow> f64 \<Rightarrow> unavailable \<Rightarrow>
     Options \<Rightarrow> 'r InstanceType list" where
  "Build K now serverTypes nodeClass primaryIPv4Monthly unavail opts0 =
     (let opts = withDefaults opts0 in
      go_sort (\<lambda>a b. it_Name a < it_Name b)
        (List.map_filter (build_one K now nodeClass primaryIPv4Monthly unavail opts) serverTypes))"

text \<open>The pairs that may become an offering, as the operator sees them.\<close>

definition offered :: "'c HCloudNodeClass \<Rightarrow> Options \<Rightarrow> ServerType \<Rightarrow> ServerTypeLocation \<Rightarrow> bool" where
  "offered ncl opts st l \<longleftrightarrow> \<not> ty_Deprecated st \<and> ty_Architecture st \<in> set (IncludeArchitectures (withDefaults opts))
     \<and> l \<in> set (ty_Locations st) \<and> \<not> stl_Deprecated l
     \<and> (spec_Locations (nc_Spec ncl) = [] \<or> stl_Location l \<in> set (spec_Locations (nc_Spec ncl)))"

section \<open>What Build returns\<close>

interpretation name_order: sort_order_on "\<lambda>a b. it_Name a < it_Name b" "\<lambda>_. True"
  by unfold_locales auto

lemma set_Build:
  "set (Build K now sts ncl ip u opts) = {it. \<exists>st \<in> set sts. build_one K now ncl ip u (withDefaults opts) st = Some it}"
  by (simp add: Build_def Let_def set_map_filter)

lemma build_one_offerings:
  "(\<exists>it. build_one K now ncl ip u (withDefaults opts) st = Some it \<and> it_Name it = n \<and> off \<in> set (it_Offerings it)) \<longleftrightarrow>
   ty_Name st = n \<and> (\<exists>l. offered ncl opts st l \<and> newOffering K now st ncl ip u l = Some off)"
  by (auto simp: build_one_def newInstanceType_def Let_def offered_def locationFilter_def set_map_filter
      map_filter_eq_Nil filter_empty_conv)

lemma build_one_name: "build_one K now ncl ip u opts st = Some it \<Longrightarrow> it_Name it = ty_Name st"
  by (auto simp: build_one_def newInstanceType_def Let_def split: if_splits)

lemma build_one_overhead:
  "build_one K now ncl ip u opts st = Some it \<Longrightarrow>
     it_Overhead it = Overhead K (spec_Kubelet (nc_Spec ncl)) (it_Capacity it)"
  by (auto simp: build_one_def newInstanceType_def Let_def split: if_splits)

lemma build_one_capacity:
  "build_one K now ncl ip u opts st = Some it \<Longrightarrow>
     it_Capacity it = Capacity K (ty_Cores st) (ty_MemoryGiB st) (ty_DiskGB st)
       (MaxPodsOrDefault (Some (spec_Kubelet (nc_Spec ncl)))) (MemoryOverheadPercent opts) (DiskOverheadPercent opts)"
  by (auto simp: build_one_def newInstanceType_def Let_def split: if_splits)

lemma newOffering_Some:
  "newOffering K now st ncl ip u l = Some off \<longleftrightarrow>
     (\<exists>p. map_of (ty_Prices st) (stl_Location l) = Some p \<and>
      off = \<lparr> of_Requirements = k_NewRequirements K (offering_requirements l),
              of_Price = f64_div_const (if PublicIPv4Enabled (Some (nc_Spec ncl))
                           then f64_add (MonthlyNet p) ip else MonthlyNet p) HoursPerMonth,
              of_Available = (\<not> Has now u (ty_Name st) (stl_Location l)) \<rparr>)"
  by (cases "map_of (ty_Prices st) (stl_Location l)") (auto simp: newOffering_def Let_def)

lemma offering_keys_distinct: "distinct (map fst (offering_requirements l))"
  by (simp add: offering_requirements_def CapacityTypeLabelKey_def LabelTopologyRegion_def LabelTopologyZone_def
      LabelCSILocation_def LabelNetworkZone_def Group_def)

lemma newOffering_region:
  assumes "karpenter_laws K" and "newOffering K now st ncl ip u l = Some off"
  shows "k_Len K (of_Requirements off) LabelTopologyRegion = 1 \<and>
         k_Values K (of_Requirements off) LabelTopologyRegion = [stl_Location l]"
proof -
  have "of_Requirements off = k_NewRequirements K (offering_requirements l)"
    using assms(2) by (auto simp: newOffering_def Let_def split: option.splits)
  moreover have "(LabelTopologyRegion, [stl_Location l]) \<in> set (offering_requirements l)"
    by (simp add: offering_requirements_def)
  ultimately show ?thesis
    using karpenter_single [OF assms(1) offering_keys_distinct] by metis
qed


text \<open>
  Build returns its instance types in ascending order of their names, one for each server type
  of the catalog that yields an instance type at all.
\<close>

theorem Build_sorted:
  "sorted (map it_Name (Build K now sts ncl ip u opts)) \<and>
   mset (map it_Name (Build K now sts ncl ip u opts)) =
     mset (map ty_Name (filter (\<lambda>st. build_one K now ncl ip u (withDefaults opts) st \<noteq> None) sts))"
proof
  have "sorted_wrt (\<lambda>a b. \<not> it_Name b < it_Name a) (Build K now sts ncl ip u opts)"
    unfolding Build_def Let_def by (rule name_order.sorted_go_sort) simp
  then show "sorted (map it_Name (Build K now sts ncl ip u opts))"
    by (simp add: sorted_wrt_map not_less)
  have "mset (map it_Name (List.map_filter (build_one K now ncl ip u o1) sts)) =
      mset (map ty_Name (filter (\<lambda>st. build_one K now ncl ip u o1 st \<noteq> None) sts))" for o1
    by (induction sts) (auto simp: List.map_filter_simps build_one_name split: option.splits)
  then show "mset (map it_Name (Build K now sts ncl ip u opts)) =
     mset (map ty_Name (filter (\<lambda>st. build_one K now ncl ip u (withDefaults opts) st \<noteq> None) sts))"
    unfolding Build_def Let_def by simp
qed

section \<open>Bounds of the float arithmetic\<close>

lemma to_int64_Fin:
  "0 \<le> q \<Longrightarrow> q < 2 ^ 63 \<Longrightarrow> to_int64 K (Fin q) = \<lfloor>q\<rfloor>"
proof -
  assume q: "0 \<le> q" "q < 2 ^ 63"
  then have "\<lfloor>q\<rfloor> < 2 ^ 63" by (simp add: floor_less_iff)
  moreover have "0 \<le> \<lfloor>q\<rfloor>" using q by simp
  ultimately show ?thesis using q by (simp add: to_int64_def trunc64_def Let_def)
qed

lemma to_int64_le:
  assumes "0 \<le> v" "v \<le> of_int n" "n < 2 ^ 53"
  shows "to_int64 K (Fin v) = \<lfloor>v\<rfloor>"
proof -
  have "n < 2 ^ 63" using assms(3) by simp
  then have "rat_of_int n < of_int (2 ^ 63)" by (simp only: of_int_less_iff)
  also have "rat_of_int (2 ^ 63) = 2 ^ 63" by (simp only: of_int_power of_int_numeral)
  finally have "v < 2 ^ 63" using assms(2) by (rule le_less_trans [rotated])
  with assms(1) show ?thesis by (rule to_int64_Fin)
qed

lemma below_overflow:
  assumes "0 \<le> (v::rat)" "v \<le> of_int i" "i < 2 ^ 53"
  shows "\<bar>v\<bar> < 2 ^ 1024"
proof -
  have "rat_of_int i < of_int (2 ^ 53)" using assms(3) by (simp only: of_int_less_iff)
  also have "rat_of_int (2 ^ 53) = 2 ^ 53" by (simp only: of_int_power of_int_numeral)
  also have "(2::rat) ^ 53 < 2 ^ 1024" by (rule power_strict_increasing) simp_all
  finally have "v < 2 ^ 1024" using assms(2) by (rule le_less_trans [rotated])
  then show ?thesis using assms(1) by (simp only: abs_of_nonneg)
qed

text \<open>A product of an exact integer with a factor of at most one rounds to at most the integer.\<close>

lemma fl64_le_int:
  assumes "0 \<le> q" "q \<le> of_int i" "i < 2 ^ 53"
  shows "\<exists>v. fl64 q = Fin v \<and> 0 \<le> v \<and> v \<le> of_int i"
proof (cases "i = 0")
  case True
  with assms have "q = 0" by simp
  with True show ?thesis by (simp add: fl64_def)
next
  case False
  have "0 \<le> rat_of_int i" using assms(1,2) by (rule order_trans)
  with False have i: "0 < i" by simp
  have "rnd64 q \<le> rnd64 (of_int i)" using assms(1,2) by (rule rnd64_mono)
  also have "\<dots> = of_int i" using i assms(3) by (rule rnd64_of_int)
  finally have le: "rnd64 q \<le> of_int i" .
  have ge: "0 \<le> rnd64 q" using assms(1) by (rule rnd64_nonneg)
  from ge le assms(3) have "\<bar>rnd64 q\<bar> < 2 ^ 1024" by (rule below_overflow)
  then show ?thesis using le ge fl64_Fin by blast
qed

lemma f64_scaled_le:
  assumes "0 \<le> i" "i < 2 ^ 53" "0 \<le> c" "c \<le> 1"
  shows "\<exists>v. f64_mul (Fin (of_int i)) (Fin c) = Fin v \<and> 0 \<le> v \<and> v \<le> of_int i"
proof -
  have "0 \<le> rat_of_int i * c" "rat_of_int i * c \<le> of_int i"
    using assms by (simp_all add: mult_left_le)
  with assms(2) show ?thesis using fl64_le_int [of "of_int i * c" i] by simp
qed

lemma f64_mul_int_exact:
  assumes "0 \<le> a" "0 \<le> b" "a * b < 2 ^ 53"
  shows "f64_mul (Fin (of_int a)) (Fin (of_int b)) = Fin (of_int (a * b))"
proof (cases "a * b = 0")
  case True
  then show ?thesis by (auto simp: fl64_def)
next
  case False
  with assms have "0 < a * b" by (simp add: zero_less_mult_iff)
  then have r: "rnd64 (of_int (a * b)) = of_int (a * b)" using assms(3) by (rule rnd64_of_int)
  have "0 \<le> rat_of_int (a * b)" using \<open>0 < a * b\<close> by (simp only: of_int_0_le_iff less_imp_le)
  then have "\<bar>rnd64 (of_int (a * b))\<bar> < 2 ^ 1024"
    unfolding r using assms(3) by (intro below_overflow) simp_all
  from fl64_Fin [OF this] r show ?thesis by simp
qed

text \<open>The share left after an overhead between zero and one.\<close>

lemma f64_one_minus:
  assumes "0 \<le> p" "p \<le> 1"
  shows "\<exists>c. f64_sub (Fin 1) (Fin p) = Fin c \<and> 0 \<le> c \<and> c \<le> 1"
  using fl64_le_int [of "1 - p" 1] assms by (simp add: f64_sub_def)

lemma scaled_capacity_le:
  assumes "0 \<le> a" "0 \<le> b" "a * b < 2 ^ 53" "0 \<le> p" "p \<le> 1"
  shows "0 \<le> to_int64 K (f64_mul (f64_mul (Fin (of_int a)) (Fin (of_int b))) (f64_sub (Fin 1) (Fin p))) \<and>
         to_int64 K (f64_mul (f64_mul (Fin (of_int a)) (Fin (of_int b))) (f64_sub (Fin 1) (Fin p))) \<le> a * b"
proof -
  from f64_one_minus [OF assms(4,5)] obtain c where c: "f64_sub (Fin 1) (Fin p) = Fin c" "0 \<le> c" "c \<le> 1"
    by blast
  have "0 \<le> a * b" using assms by simp
  from f64_scaled_le [OF this assms(3) c(2,3)] obtain v
    where v: "f64_mul (Fin (of_int (a * b))) (Fin c) = Fin v" "0 \<le> v" "v \<le> of_int (a * b)" by blast
  from v(2,3) assms(3) have "to_int64 K (Fin v) = \<lfloor>v\<rfloor>" by (rule to_int64_le)
  moreover have "0 \<le> \<lfloor>v\<rfloor>" "\<lfloor>v\<rfloor> \<le> a * b" using v(2,3) by (simp_all add: floor_le_iff)
  ultimately show ?thesis using f64_mul_int_exact [OF assms(1-3)] c(1) v(1) by simp
qed

text \<open>The default overheads, and the share of the memory they leave.\<close>

lemma default_overheads:
  "\<exists>p. DefaultVMMemoryOverheadPercent = Fin p \<and> \<bar>p - 7 / 100\<bar> \<le> 1 / 2 ^ 57"
  "\<exists>p. DefaultVMDiskOverheadPercent = Fin p \<and> 0 \<le> p \<and> p \<le> 1"
proof -
  obtain v where v: "fl64 (7 / 100) = Fin v" using fl64_le_int [of "7 / 100" 1] by auto
  then have "v = rnd64 (7 / 100)" by (rule fl64_FinD)
  then have "\<bar>v - 7 / 100\<bar> \<le> 1 / 2 ^ 57" using rnd64_err [of 4 "7 / 100" 56] by simp
  with v show "\<exists>p. DefaultVMMemoryOverheadPercent = Fin p \<and> \<bar>p - 7 / 100\<bar> \<le> 1 / 2 ^ 57"
    by (auto simp: DefaultVMMemoryOverheadPercent_def)
  show "\<exists>p. DefaultVMDiskOverheadPercent = Fin p \<and> 0 \<le> p \<and> p \<le> 1"
    using fl64_le_int [of "2 / 100" 1] by (simp add: DefaultVMDiskOverheadPercent_def)
qed

lemma memory_share:
  "\<exists>c. f64_sub (Fin 1) DefaultVMMemoryOverheadPercent = Fin c \<and> 0 \<le> c \<and> c \<le> 9302 / 10000"
proof -
  obtain p where p: "DefaultVMMemoryOverheadPercent = Fin p" "\<bar>p - 7 / 100\<bar> \<le> 1 / 2 ^ 57"
    using default_overheads(1) by blast
  have "p - 7 / 100 \<le> 1 / 2 ^ 57" "- (p - 7 / 100) \<le> 1 / 2 ^ 57"
    using p(2) unfolding abs_le_iff by blast+
  then have b: "699 / 10000 \<le> p" "p \<le> 701 / 10000" by simp_all
  then obtain c where c: "f64_sub (Fin 1) (Fin p) = Fin c" "0 \<le> c" using f64_one_minus [of p] by force
  then have "c = rnd64 (1 - p)" by (auto simp: f64_sub_def intro: fl64_FinD)
  moreover have "\<bar>rnd64 (1 - p) - (1 - p)\<bar> \<le> 1 / 2 / 2 ^ 53"
    using b by (intro rnd64_err [of 1]) simp_all
  ultimately have "c - (1 - p) \<le> 1 / 2 / 2 ^ 53" unfolding abs_le_iff by blast
  then have "c \<le> 9302 / 10000" using b by simp
  then show ?thesis using c p by auto
qed

lemma memory_underestimate:
  assumes "1 \<le> m" "m < 2 ^ 23"
  shows "0 \<le> to_int64 K (f64_mul (f64_mul (Fin (of_int m)) (Fin (2 ^ 30))) (f64_sub (Fin 1) DefaultVMMemoryOverheadPercent))
    \<and> rat_of_int (to_int64 K (f64_mul (f64_mul (Fin (of_int m)) (Fin (2 ^ 30))) (f64_sub (Fin 1) DefaultVMMemoryOverheadPercent)))
        \<le> 9342 / 10000 * of_int (m * 2 ^ 30)"
proof -
  define i where "i = m * 2 ^ 30"
  have i: "2 ^ 30 \<le> i" "i < 2 ^ 53" using assms by (simp_all add: i_def)
  obtain c where c: "f64_sub (Fin 1) DefaultVMMemoryOverheadPercent = Fin c" "0 \<le> c" "c \<le> 9302 / 10000"
    using memory_share by blast
  define q where "q = rat_of_int i * c"
  have qi: "q \<le> rat_of_int i * (9302 / 10000)" using c(3) i(1) by (simp add: q_def mult_left_mono)
  have "q \<le> of_int i" using qi i(1) by simp
  then have ci: "\<lceil>q\<rceil> < 2 ^ 53" using i(2) by (simp add: ceiling_le_iff)
  have q0: "0 \<le> q" using c(2) i(1) by (simp add: q_def)
  obtain v where v: "fl64 q = Fin v" "0 \<le> v" "v \<le> of_int \<lceil>q\<rceil>"
    using fl64_le_int [OF q0 le_of_int_ceiling ci] by blast
  from v(2,3) ci have t: "to_int64 K (Fin v) = \<lfloor>v\<rfloor>" by (rule to_int64_le)
  have "rat_of_int \<lfloor>v\<rfloor> \<le> v" by (rule of_int_floor_le)
  also have "\<dots> \<le> of_int \<lceil>q\<rceil>" by (rule v(3))
  also have "\<dots> \<le> q + 1" by (rule of_int_ceiling_le_add_one)
  also have "\<dots> \<le> 9342 / 10000 * of_int i"
  proof -
    have "rat_of_int (2 ^ 30) \<le> of_int i" using i(1) by (simp only: of_int_le_iff)
    then show ?thesis using qi by simp
  qed
  finally have "rat_of_int \<lfloor>v\<rfloor> \<le> 9342 / 10000 * of_int i" .
  moreover have "f64_mul (Fin (of_int m)) (Fin (2 ^ 30)) = Fin (of_int i)"
    using f64_mul_int_exact [of m "2 ^ 30"] assms by (simp add: i_def)
  moreover have "0 \<le> \<lfloor>v\<rfloor>" using v(2) by simp
  ultimately show ?thesis using c(1) v(1) t by (simp add: q_def i_def)
qed



section \<open>Eviction thresholds\<close>

text \<open>The percentage arithmetic stays within the total, rounding included.\<close>

lemma percentage_le:
  assumes "0 \<le> t" "t * 100 < 2 ^ 53" "0 \<le> f" "f \<le> 100"
  shows "0 \<le> to_int64 K (f64_ceil (f64_div_const (f64_mul (f64_of_int t) (Fin f)) 100)) \<and>
         to_int64 K (f64_ceil (f64_div_const (f64_mul (f64_of_int t) (Fin f)) 100)) \<le> t"
proof -
  have t: "f64_of_int t = Fin (of_int t)"
    using f64_mul_int_exact [of t 1] assms by (simp add: f64_of_int_def)
  have a: "0 \<le> rat_of_int t * f" "rat_of_int t * f \<le> of_int (t * 100)"
    using assms by (simp_all add: mult_left_mono)
  obtain v where v: "fl64 (rat_of_int t * f) = Fin v" "0 \<le> v" "v \<le> of_int (t * 100)"
    using fl64_le_int [OF a assms(2)] by blast
  have "0 \<le> v / 100" "v / 100 \<le> of_int t" "t < 2 ^ 53" using v assms by simp_all
  then obtain w where w: "fl64 (v / 100) = Fin w" "0 \<le> w" "w \<le> of_int t"
    using fl64_le_int [of "v / 100" t] by blast
  have c: "0 \<le> \<lceil>w\<rceil>" "\<lceil>w\<rceil> \<le> t" using w by (simp_all add: ceiling_le_iff le_ceiling_iff)
  then have "0 \<le> rat_of_int \<lceil>w\<rceil>" "rat_of_int \<lceil>w\<rceil> \<le> of_int t" by (simp_all only: of_int_0_le_iff of_int_le_iff)
  from to_int64_le [OF this \<open>t < 2 ^ 53\<close>] have "to_int64 K (Fin (of_int \<lceil>w\<rceil>)) = \<lceil>w\<rceil>" by simp
  with c show ?thesis unfolding t by (simp add: v(1) w(1))
qed

text \<open>
  A percentage threshold of the form read by the kubelet (a float from 0 to 100 before the
  percent sign) resolves to a quantity between zero and the capacity it is taken of, so it
  never reserves more than the node has and never adds to what is allocatable. The
  capacity is that of a resource below about 90 TB, where the product with 100 is exact.
\<close>

theorem parseThreshold_percentage_bounded:
  assumes "karpenter_laws K"
    and "cut_suffix ''%'' (trim_space value) = Some pct" and "ParseFloat pct = Some (Fin f)"
    and "0 \<le> t" and "t * 100 < 2 ^ 53"
  shows "parseThreshold K value (of_int t) = None \<and> (f < 0 \<or> 100 < f) \<or>
    (\<exists>r. parseThreshold K value (of_int t) = Some (of_int r) \<and> 0 \<le> r \<and> r \<le> t)"
proof -
  have "k_Value K (of_int t) = t" using assms by (intro karpenter_Value) simp_all
  then show ?thesis
    using assms percentage_le [of t f K] unfolding parseThreshold_def by (auto simp: not_less)
qed

lemma fl64_of_int: "0 \<le> i \<Longrightarrow> i < 2 ^ 53 \<Longrightarrow> fl64 (of_int i) = Fin (of_int i)"
  using f64_mul_int_exact [of i 1] by simp

lemma ten_percent:
  "cut_suffix ''%'' (trim_space ''10%'') = Some ''10''" "ParseFloat ''10'' = Some (Fin 10)"
proof -
  show "cut_suffix ''%'' (trim_space ''10%'') = Some ''10''"
    by (simp add: trim_space_def trim_front.simps space_encodings_def starts_with_def cut_suffix_def cut_prefix_def)
  have "fl64 10 = Fin 10" using fl64_of_int [of 10] by simp
  then show "ParseFloat ''10'' = Some (Fin 10)"
    by (simp add: ParseFloat_def special_float_def drop_sign_def lower_char_def Let_def
        is_digit_def hex_val_def digit_val_def exponent_part_def)
qed

theorem parseThreshold_percentage_witness:
  "\<exists>r. parseThreshold list_karpenter ''10%'' 1000 = Some (of_int r) \<and> 0 \<le> r \<and> r \<le> 1000"
  using parseThreshold_percentage_bounded [OF list_karpenter_laws ten_percent, of 1000] by simp

text \<open>
  A percentage that is not a number passes the range check, since both comparisons are
  false, and the threshold is then whatever the conversion of a NaN to an integer yields.
\<close>

lemma parseThreshold_NaN:
  assumes "cut_suffix ''%'' (trim_space value) = Some pct" and "ParseFloat pct = Some NaN"
  shows "parseThreshold K value t = Some (of_int (k_int64 K NaN))"
proof -
  have "f64_mul x NaN = NaN" for x by (cases x) simp_all
  with assms show ?thesis by (simp add: parseThreshold_def to_int64_def trunc64_def)
qed

section \<open>Allocatable\<close>

lemma map_of_sub_from:
  "map_of (sub_from out (k', q)) k =
     (if k = k' then map_option (\<lambda>c. c - q) (map_of out k) else map_of out k)"
  by (auto simp: sub_from_def split: option.splits)

lemma map_of_foldl_sub_from:
  "wf_map sub \<Longrightarrow> map_of (foldl sub_from out sub) k = map_option (\<lambda>c. c - quantity_of sub k) (map_of out k)"
proof (induction sub arbitrary: out)
  case Nil
  then show ?case by (cases "map_of out k") (simp_all add: quantity_of_def)
next
  case (Cons x sub)
  obtain k' q where x: "x = (k', q)" by (cases x)
  from Cons.prems x have w: "wf_map sub" "map_of sub k' = None" by (auto simp: wf_map_def map_of_eq_None_iff)
  show ?case
    using Cons.IH [OF w(1)] w(2) x by (cases "map_of out k") (auto simp: map_of_sub_from quantity_of_def)
qed

text \<open>
  What karpenter bin-packs against is, for every resource the node has, its capacity less
  the kube reservation, the system reservation and the eviction threshold; a resource the
  node does not have stays absent.
\<close>

theorem Allocatable_exact:
  assumes "wf_map (oh_KubeReserved oh)" "wf_map (oh_SystemReserved oh)" "wf_map (oh_EvictionThreshold oh)"
  shows "map_of (Allocatable capacity oh) k =
     map_option (\<lambda>c. c - quantity_of (oh_KubeReserved oh) k - quantity_of (oh_SystemReserved oh) k
                      - quantity_of (oh_EvictionThreshold oh) k) (map_of capacity k)"
  using assms by (cases "map_of capacity k") (simp_all add: Allocatable_def map_of_foldl_sub_from)

definition cpu_overhead_example :: InstanceTypeOverhead where
  "cpu_overhead_example = \<lparr> oh_KubeReserved = DefaultKubeReserved, oh_SystemReserved = DefaultSystemReserved,
      oh_EvictionThreshold = [(''memory'', 500 * 2 ^ 20)] \<rparr>"

theorem Allocatable_exact_witness:
  "wf_map (oh_KubeReserved cpu_overhead_example) \<and>
   map_of (Allocatable [(''cpu'', 2), (''memory'', 4 * 2 ^ 30)] cpu_overhead_example) ''cpu'' = Some (8 / 5)"
  using Allocatable_exact [of cpu_overhead_example "[(''cpu'', 2), (''memory'', 4 * 2 ^ 30)]" "''cpu''"]
  by (simp add: cpu_overhead_example_def wf_map_def DefaultKubeReserved_def DefaultSystemReserved_def quantity_of_def)

end
