(* ===== verification/Instance.thy ===== *)
theory Instance
  imports Servers Instance_Types
begin

text \<open>
  The instance provider (\<^verbatim>\<open>src/internal/providers/instance\<close>): ordering a server for a NodeClaim
  (\<^verbatim>\<open>instance.go\<close>, \<^verbatim>\<open>request.go\<close>), reading and deleting the servers of the cluster through the
  list cache (\<^verbatim>\<open>list.go\<close>), and the hard reset (\<^verbatim>\<open>reboot.go\<close>).

  The struct \<^verbatim>\<open>Provider\<close> is split: what never changes is the record \<open>provider\<close>, what the
  methods change is the record \<open>pstate\<close>, with the outside world, the suppression cache, the
  list cache and the metric writes so far. The clock reads the world. Log lines are left out.
\<close>

section \<open>State\<close>

record list_cache =
  lc_cached :: "Server list option"
  lc_fetchedAt :: gotime

record 'w provider =
  pv_servers :: "'w servers_api"
  pv_clusterName :: string
  pv_maxAttempts :: nat
  pv_ttl :: duration
  pv_now :: "'w \<Rightarrow> gotime"
  pv_etext :: "go_error \<Rightarrow> string"

record 'w pstate =
  ps_world :: 'w
  ps_unavailable :: unavailable
  ps_cache :: list_cache
  ps_metrics :: "metric list"

record 'r Candidate =
  ca_InstanceType :: "'r InstanceType"
  ca_Location :: string
  ca_Price :: f64

definition DefaultMaxCreateAttempts :: nat where "DefaultMaxCreateAttempts = 8"
definition DefaultListTTL :: duration where "DefaultListTTL = 30 * second"

definition newListCache :: "duration \<Rightarrow> duration \<times> list_cache" where
  "newListCache ttl = (if ttl \<le> 0 then DefaultListTTL else ttl, \<lparr> lc_cached = None, lc_fetchedAt = zero_time \<rparr>)"

definition NewProvider ::
    "'w servers_api \<Rightarrow> string \<Rightarrow> ('w \<Rightarrow> gotime) \<Rightarrow> (go_error \<Rightarrow> string) \<Rightarrow> 'w provider" where
  "NewProvider servers clusterName clk etext =
     \<lparr> pv_servers = servers, pv_clusterName = clusterName, pv_maxAttempts = DefaultMaxCreateAttempts,
       pv_ttl = fst (newListCache DefaultListTTL), pv_now = clk, pv_etext = etext \<rparr>"

definition initial_pstate :: "'w \<Rightarrow> unavailable \<Rightarrow> 'w pstate" where
  "initial_pstate w u = \<lparr> ps_world = w, ps_unavailable = u,
     ps_cache = snd (newListCache DefaultListTTL), ps_metrics = [] \<rparr>"

definition errNoClusterName :: go_error where
  "errNoClusterName = TextError ''cluster name is empty, refusing to act on unowned servers''"

definition observe :: "metric list \<Rightarrow> 'w pstate \<Rightarrow> 'w pstate" where
  "observe ms st = st\<lparr>ps_metrics := ps_metrics st @ ms\<rparr>"

section \<open>Candidates\<close>

definition resourcesFit :: "('r, 'q) karpenter \<Rightarrow> 'q NodeClaim \<Rightarrow> 'r InstanceType \<Rightarrow> bool" where
  "resourcesFit K nodeClaim it =
     (let allocatable = k_Allocatable K it in
      list_all (\<lambda>(name, requested). case map_of allocatable name of
          None \<Rightarrow> False | Some available \<Rightarrow> \<not> available < requested) (cl_Requests nodeClaim))"

text \<open>The comparison function of the sort: price, then name, then location.\<close>

definition candidate_lt :: "'r Candidate \<Rightarrow> 'r Candidate \<Rightarrow> bool" where
  "candidate_lt a b =
     (if \<not> f64_eq (ca_Price a) (ca_Price b) then f64_less (ca_Price a) (ca_Price b)
      else if it_Name (ca_InstanceType a) \<noteq> it_Name (ca_InstanceType b)
        then it_Name (ca_InstanceType a) < it_Name (ca_InstanceType b)
      else ca_Location a < ca_Location b)"

text \<open>
  One pass of the loop over the offerings. A requirement of length one has its one value, so
  the empty case of the values is not reached.
\<close>

definition offering_candidate ::
    "('r, 'q) karpenter \<Rightarrow> 'r \<Rightarrow> 'r InstanceType \<Rightarrow> 'r Offering \<Rightarrow> 'r Candidate option" where
  "offering_candidate K reqs it off =
     (if \<not> of_Available off then None
      else if \<not> k_IsCompatible K reqs (of_Requirements off) then None
      else if k_Len K (of_Requirements off) LabelTopologyRegion \<noteq> 1 then None
      else (case k_Values K (of_Requirements off) LabelTopologyRegion of
              [] \<Rightarrow> None
            | v # _ \<Rightarrow> Some \<lparr> ca_InstanceType = it, ca_Location = v, ca_Price = of_Price off \<rparr>))"

definition type_candidates ::
    "('r, 'q) karpenter \<Rightarrow> 'q NodeClaim \<Rightarrow> 'r InstanceType \<Rightarrow> 'r Candidate list" where
  "type_candidates K nodeClaim it =
     (let reqs = k_FromNodeSelector K (cl_Requirements nodeClaim) in
      if \<not> k_Intersects K (it_Requirements it) reqs then []
      else if \<not> resourcesFit K nodeClaim it then []
      else List.map_filter (offering_candidate K reqs it) (it_Offerings it))"

definition orderedCandidates ::
    "('r, 'q) karpenter \<Rightarrow> 'q NodeClaim \<Rightarrow> 'r InstanceType list \<Rightarrow> 'r Candidate list" where
  "orderedCandidates K nodeClaim instanceTypes =
     go_sort candidate_lt (concat (map (type_candidates K nodeClaim) instanceTypes))"

definition HasCandidates :: "('r, 'q) karpenter \<Rightarrow> 'q NodeClaim \<Rightarrow> 'r InstanceType list \<Rightarrow> bool" where
  "HasCandidates K nodeClaim instanceTypes = (0 < length (orderedCandidates K nodeClaim instanceTypes))"

fun findInstanceType :: "'r InstanceType list \<Rightarrow> string \<Rightarrow> 'r InstanceType option" where
  "findInstanceType [] name = None"
| "findInstanceType (it # its) name = (if it_Name it = name then Some it else findInstanceType its name)"

section \<open>The request\<close>

text \<open>
  \<^verbatim>\<open>baseRequest\<close>. Go's map of operator labels is iterated in any order; its keys are distinct, so
  the assignments commute.
\<close>

definition baseRequest ::
    "'w provider \<Rightarrow> 'c HCloudNodeClass \<Rightarrow> 'q NodeClaim \<Rightarrow> string \<Rightarrow> go_error + CreateServerRequest" where
  "baseRequest P nodeClass nodeClaim userData =
     (let status = nc_Status nodeClass; spec = nc_Spec nodeClass in
      if (case st_Image status of None \<Rightarrow> True | Some img \<Rightarrow> img_ID img = 0)
        then Inl (TextError (''nodeClass '' @ go_quote (nc_Name nodeClass) @ '' has no resolved image''))
      else if pv_clusterName P = []
        then Inl (TextError ''cluster name is empty, refusing to create an unowned server'')
      else
        (let labels0 = [(LabelManagedBy, pv_clusterName P), (LabelNodeClaim, cl_Name nodeClaim)];
             pool = mget (cl_Labels nodeClaim) NodePoolLabelKey;
             labels1 = (if pool \<noteq> [] then mput LabelNodePool pool labels0 else labels0);
             labels2 = foldl (\<lambda>m (k, v). if k = LabelManagedBy \<or> k = LabelNodeClaim then m else mput k v m)
                         labels1 (spec_ServerLabels spec)
         in Inr \<lparr> req_Name = cl_Name nodeClaim, req_ServerType = [], req_Location = [],
              req_ImageID = (case st_Image status of None \<Rightarrow> 0 | Some img \<Rightarrow> img_ID img),
              req_SSHKeyIDs = map key_ID (st_SSHKeys status),
              req_NetworkIDs = (case st_Network status of None \<Rightarrow> []
                  | Some net \<Rightarrow> if net_ID net \<noteq> 0 then [net_ID net] else []),
              req_FirewallIDs = map fw_ID (st_Firewalls status),
              req_PlacementGroupID = (case st_PlacementGroup status of None \<Rightarrow> None
                  | Some pg \<Rightarrow> if pg_ID pg \<noteq> 0 then Some (pg_ID pg) else None),
              req_UserData = userData,
              req_Labels = labels2,
              req_PublicIPv4 = PublicIPv4Enabled (Some spec),
              req_PublicIPv6 = PublicIPv6Enabled (Some spec) \<rparr>))"

section \<open>The list cache\<close>

definition cache_fresh :: "'w provider \<Rightarrow> 'w pstate \<Rightarrow> Server list option" where
  "cache_fresh P st = (case lc_cached (ps_cache st) of None \<Rightarrow> None
     | Some servers \<Rightarrow>
         if time_sub (pv_now P (ps_world st)) (lc_fetchedAt (ps_cache st)) < pv_ttl P then Some servers else None)"

text \<open>
  \<^verbatim>\<open>listCache.list\<close> with one caller: the check, the check again inside the flight (nothing
  changed in between), the call, the store. Concurrent callers are the subject of the theory
  \<open>List_Cache\<close>.
\<close>

definition cache_list :: "'w provider \<Rightarrow> string \<Rightarrow> 'w pstate \<Rightarrow> (go_error + Server list) \<times> 'w pstate" where
  "cache_list P selector st = (case cache_fresh P st of
       Some servers \<Rightarrow> (Inr servers, st)
     | None \<Rightarrow> (case Servers_List (pv_servers P) selector (ps_world st) of
          (Inl err, w1) \<Rightarrow> (Inl err, st\<lparr>ps_world := w1\<rparr>)
        | (Inr servers, w1) \<Rightarrow>
            (Inr servers, st\<lparr>ps_world := w1,
               ps_cache := \<lparr> lc_cached = Some servers, lc_fetchedAt = pv_now P w1 \<rparr>\<rparr>)))"

definition invalidate :: "'w pstate \<Rightarrow> 'w pstate" where
  "invalidate st = st\<lparr>ps_cache := \<lparr> lc_cached = None, lc_fetchedAt = zero_time \<rparr>\<rparr>"

definition Provider_List :: "'w provider \<Rightarrow> 'w pstate \<Rightarrow> (go_error + Server list) \<times> 'w pstate" where
  "Provider_List P st =
     (if pv_clusterName P = [] then (Inl errNoClusterName, st)
      else (case cache_list P (ManagedBySelector (pv_clusterName P)) st of
              (Inl err, st1) \<Rightarrow> (Inl err, st1)
            | (Inr servers, st1) \<Rightarrow> (Inr (filter (\<lambda>srv. IsManagedBy (Some srv) (pv_clusterName P)) servers), st1)))"

text \<open>What \<^verbatim>\<open>Get\<close> does once it has a server, or nothing.\<close>

definition owned_or_nil :: "string \<Rightarrow> Server option \<Rightarrow> Server option" where
  "owned_or_nil clusterName srv = (case srv of None \<Rightarrow> None
     | Some s \<Rightarrow> if IsManagedBy (Some s) clusterName then Some s else None)"

definition Provider_Get ::
    "'w provider \<Rightarrow> string \<Rightarrow> 'w pstate \<Rightarrow> (go_error + Server option) \<times> 'w pstate" where
  "Provider_Get P providerID st =
     (if pv_clusterName P = [] then (Inl errNoClusterName, st)
      else (case ServerIDFromProviderID providerID of
          Inl err \<Rightarrow> (Inl err, st)
        | Inr i \<Rightarrow> (case cache_list P (ManagedBySelector (pv_clusterName P)) st of
             (Inl err, st1) \<Rightarrow> (Inl err, st1)
           | (Inr servers, st1) \<Rightarrow>
               (case find (\<lambda>s. srv_ID s = i) servers of
                  Some srv \<Rightarrow> (Inr (owned_or_nil (pv_clusterName P) (Some srv)), st1)
                | None \<Rightarrow> (case Servers_Get (pv_servers P) i (ps_world st1) of
                     (Inl err, w2) \<Rightarrow> (Inl err, st1\<lparr>ps_world := w2\<rparr>)
                   | (Inr srv, w2) \<Rightarrow> (Inr (owned_or_nil (pv_clusterName P) srv), st1\<lparr>ps_world := w2\<rparr>))))))"

definition Provider_Delete :: "'w provider \<Rightarrow> string \<Rightarrow> 'w pstate \<Rightarrow> go_error option \<times> 'w pstate" where
  "Provider_Delete P providerID st =
     (case ServerIDFromProviderID providerID of
        Inl err \<Rightarrow> (Some err, st)
      | Inr i \<Rightarrow> (case Servers_Get (pv_servers P) i (ps_world st) of
          (Inl err, w1) \<Rightarrow> (Some err, st\<lparr>ps_world := w1\<rparr>)
        | (Inr None, w1) \<Rightarrow> (Some (NotFoundError ''server'' providerID), st\<lparr>ps_world := w1\<rparr>)
        | (Inr (Some srv), w1) \<Rightarrow>
            if \<not> IsManagedBy (Some srv) (pv_clusterName P)
            then (Some (ErrNotManaged (srv_Name srv) (srv_ID srv)), st\<lparr>ps_world := w1\<rparr>)
            else (case Servers_Delete (pv_servers P) i w1 of
                    (Some err, w2) \<Rightarrow> (Some err, st\<lparr>ps_world := w2\<rparr>)
                  | (None, w2) \<Rightarrow> (None, invalidate (st\<lparr>ps_world := w2\<rparr>)))))"

section \<open>Create\<close>

definition adopt ::
    "'w provider \<Rightarrow> string \<Rightarrow> 'q NodeClaim \<Rightarrow> 'w \<Rightarrow> (go_error + Server) \<times> 'w" where
  "adopt P name nodeClaim w = (case Servers_GetByName (pv_servers P) name w of
       (Inl err, w1) \<Rightarrow> (Inl err, w1)
     | (Inr None, w1) \<Rightarrow> (Inl (TextError (''server '' @ go_quote name @ '' reported as duplicate but not found'')), w1)
     | (Inr (Some srv), w1) \<Rightarrow>
         if \<not> IsManagedBy (Some srv) (pv_clusterName P) \<or> mget (srv_Labels srv) LabelNodeClaim \<noteq> cl_Name nodeClaim
         then (Inl (TextError (''server '' @ go_quote name @ '' exists but is not ours to adopt'')), w1)
         else (Inr srv, w1))"

text \<open>How one pass of the loop ends: \<open>Done\<close> returns from \<^verbatim>\<open>Create\<close>, \<open>Continue\<close> goes on with \<^verbatim>\<open>lastErr\<close>.\<close>

datatype 'r attempt_end =
    Done "go_error + Server \<times> 'r InstanceType option"
  | Continue go_error

definition attempt ::
    "'w provider \<Rightarrow> 'q NodeClaim \<Rightarrow> 'r InstanceType list \<Rightarrow> CreateServerRequest \<Rightarrow> 'r Candidate \<Rightarrow>
     'w pstate \<Rightarrow> 'r attempt_end \<times> 'w pstate" where
  "attempt P nodeClaim instanceTypes req0 c st =
     (let name = it_Name (ca_InstanceType c); loc = ca_Location c;
          req = req0\<lparr>req_ServerType := name, req_Location := loc\<rparr> in
      case Servers_Create (pv_servers P) req (ps_world st) of
        (Inr srv, w1) \<Rightarrow>
          (Done (Inr (srv, Some (ca_InstanceType c))),
           invalidate (observe [LaunchDuration name loc ''succeeded''] (st\<lparr>ps_world := w1\<rparr>)))
      | (Inl err, w1) \<Rightarrow>
         (let class = Classify (Some err);
              code = (case Code (Some err) of None \<Rightarrow> [] | Some cd \<Rightarrow> cd);
              st1 = observe (LaunchFailures name loc (class_String class) #
                       (if code \<noteq> [] \<and> \<not> IsKnownCode (Some err) then [UnknownErrorCodes code] else []))
                      (st\<lparr>ps_world := w1\<rparr>) in
          case class of
            ClassCapacity \<Rightarrow>
              (Continue err,
               observe [OfferingUnavailable name loc code 1]
                 (st1\<lparr>ps_unavailable := Mark (pv_now P w1) (ps_unavailable st1) name loc code\<rparr>))
          | ClassConfig \<Rightarrow>
              (let failed = (\<lambda>s. (Done (Inl (CreateError err ''CreateFailed'' (pv_etext P err))),
                                  observe [LaunchDuration name loc ''failed''] s)) in
               if code = CodeUniqueness then
                 (case adopt P (req_Name req) nodeClaim w1 of
                    (Inl aErr, w2) \<Rightarrow> failed (st1\<lparr>ps_world := w2\<rparr>)
                  | (Inr adopted, w2) \<Rightarrow>
                      (Done (Inr (adopted, findInstanceType instanceTypes (srv_ServerType adopted))),
                       observe [LaunchDuration (srv_ServerType adopted) (srv_Location adopted) ''adopted'']
                         (invalidate (st1\<lparr>ps_world := w2\<rparr>))))
               else failed st1)
          | ClassQuota \<Rightarrow>
              (Done (Inl (InsufficientCapacityError err)), observe [LaunchDuration name loc ''quota''] st1)
          | ClassFatal \<Rightarrow>
              (Done (Inl (CreateError err ''CredentialRejected'' (pv_etext P err))),
               observe [LaunchDuration name loc ''credential''] st1)
          | _ \<Rightarrow>
              (Done (Inl (WrapError ''creating server, '' err)), observe [LaunchDuration name loc ''transient''] st1)))"

fun create_loop ::
    "'w provider \<Rightarrow> 'q NodeClaim \<Rightarrow> 'r InstanceType list \<Rightarrow> CreateServerRequest \<Rightarrow> 'r Candidate list \<Rightarrow>
     go_error option \<Rightarrow> 'w pstate \<Rightarrow>
     ((go_error + Server \<times> 'r InstanceType option) + go_error option) \<times> 'w pstate" where
  "create_loop P nodeClaim its req [] lastErr st = (Inr lastErr, st)"
| "create_loop P nodeClaim its req (c # cs) lastErr st =
     (case attempt P nodeClaim its req c st of
        (Done r, st1) \<Rightarrow> (Inl r, st1)
      | (Continue err, st1) \<Rightarrow> create_loop P nodeClaim its req cs (Some err) st1)"

text \<open>
  \<^verbatim>\<open>Create\<close>. With no attempt allowed the source indexes its candidates at -1 and panics; the
  constructor sets eight attempts, so this does not happen, and the panic is a value here.
\<close>

definition Provider_Create ::
    "('r, 'q) karpenter \<Rightarrow> 'w provider \<Rightarrow> 'c HCloudNodeClass \<Rightarrow> 'q NodeClaim \<Rightarrow> 'r InstanceType list \<Rightarrow> string \<Rightarrow>
     'w pstate \<Rightarrow> (go_error + Server \<times> 'r InstanceType option) \<times> 'w pstate" where
  "Provider_Create K P nodeClass nodeClaim instanceTypes userData st =
     (let candidates = orderedCandidates K nodeClaim instanceTypes in
      if candidates = [] then
        (Inl (InsufficientCapacityError (TextError
           ''no instance type in this NodeClaim's requirements is offered in any location the NodeClass allows'')), st)
      else (case baseRequest P nodeClass nodeClaim userData of
          Inl err \<Rightarrow> (Inl err, st)
        | Inr req \<Rightarrow>
           (let attempts = min (length candidates) (pv_maxAttempts P) in
            case create_loop P nodeClaim instanceTypes req (take attempts candidates) None st of
              (Inl r, st1) \<Rightarrow> (r, st1)
            | (Inr None, st1) \<Rightarrow> (Inl (TextError ''panic: index out of range [-1]''), st1)
            | (Inr (Some lastErr), st1) \<Rightarrow>
                (let l = candidates ! (attempts - 1) in
                 (Inl (InsufficientCapacityError (WrapError
                    (''no capacity after '' @ format_int (int attempts) @ '' attempts across ''
                      @ format_int (int (length candidates)) @ '' candidates, last error: '') lastErr)),
                  observe [LaunchDuration (it_Name (ca_InstanceType l)) (ca_Location l) ''exhausted''] st1)))))"

section \<open>Reboot\<close>

definition commandReset :: string where "commandReset = ''reset_server''"

definition heldDown :: "string \<Rightarrow> bool" where
  "heldDown c \<longleftrightarrow> c \<in> {''stop_server'', ''shutdown_server'', ''enable_rescue''}"

definition rebootError :: "go_error \<Rightarrow> go_error" where
  "rebootError err = (if Classify (Some err) = ClassFatal then NodeRebootFailedError err else err)"

text \<open>The loop over the recent actions: an action that holds the server down, or whether a reset was issued.\<close>

fun scan_actions :: "gotime \<Rightarrow> Action list \<Rightarrow> bool \<Rightarrow> Action + bool" where
  "scan_actions requestedAt [] issued = Inr issued"
| "scan_actions requestedAt (a # as) issued =
     (if act_Status a = ''error'' then scan_actions requestedAt as issued
      else if heldDown (act_Command a) then Inl a
      else if act_Command a = commandReset \<and> requestedAt \<noteq> zero_time \<and> \<not> time_before (act_Started a) requestedAt
        then scan_actions requestedAt as True
      else scan_actions requestedAt as issued)"

definition server_text :: "Server \<Rightarrow> string" where
  "server_text srv = ''server '' @ go_quote (srv_Name srv) @ '' (id '' @ format_int (srv_ID srv) @ '')''"

definition Provider_Reboot ::
    "'w provider \<Rightarrow> string \<Rightarrow> string \<Rightarrow> gotime \<Rightarrow> 'w pstate \<Rightarrow> go_error option \<times> 'w pstate" where
  "Provider_Reboot P providerID nodeClaimName requestedAt st =
     (case ServerIDFromProviderID providerID of
        Inl err \<Rightarrow> (Some (NodeRebootFailedError err), st)
      | Inr i \<Rightarrow> (case Servers_Get (pv_servers P) i (ps_world st) of
          (Inl err, w1) \<Rightarrow> (Some (rebootError err), st\<lparr>ps_world := w1\<rparr>)
        | (Inr None, w1) \<Rightarrow> (Some (NotFoundError ''server'' providerID), st\<lparr>ps_world := w1\<rparr>)
        | (Inr (Some srv), w1) \<Rightarrow>
            if \<not> IsManagedBy (Some srv) (pv_clusterName P)
            then (Some (NodeRebootFailedError (ErrNotManaged (srv_Name srv) (srv_ID srv))), st\<lparr>ps_world := w1\<rparr>)
            else if mget (srv_Labels srv) LabelNodeClaim \<noteq> nodeClaimName
            then (Some (NodeRebootFailedError (TextError (server_text srv @ '' does not belong to nodeclaim ''
                    @ go_quote nodeClaimName @ ''; refusing to reset it''))), st\<lparr>ps_world := w1\<rparr>)
            else (case Servers_RecentActions (pv_servers P) i w1 of
                (Inl err, w2) \<Rightarrow> (Some (rebootError err), st\<lparr>ps_world := w2\<rparr>)
              | (Inr actions, w2) \<Rightarrow> (case scan_actions requestedAt actions False of
                  Inl a \<Rightarrow> (Some (NodeRebootFailedError (TextError (server_text srv @ '' has a '' @ act_Command a
                      @ '' action karpenter did not issue; refusing to reset it''))), st\<lparr>ps_world := w2\<rparr>)
                | Inr issued \<Rightarrow>
                    if issued then (None, st\<lparr>ps_world := w2\<rparr>)
                    else if srv_Status srv = ''off''
                    then (Some (NodeRebootFailedError (TextError (server_text srv
                            @ '' is off; refusing to power it on''))), st\<lparr>ps_world := w2\<rparr>)
                    else (case Servers_Reset (pv_servers P) i w2 of
                            (Some err, w3) \<Rightarrow> (Some (rebootError err), st\<lparr>ps_world := w3\<rparr>)
                          | (None, w3) \<Rightarrow> (None, st\<lparr>ps_world := w3\<rparr>))))))"

end
