(* ===== verification/Instance_Log.thy ===== *)
theory Instance_Log
  imports Instance
begin

text \<open>
  Which calls to Hetzner the instance provider makes. \<open>logged\<close> puts a recorder around an
  implementation of the interface \<^verbatim>\<open>Servers\<close>: the world becomes a pair with the list of calls so
  far, each with the answer the caller got. The provider is polymorphic in the world, so its
  methods run on the recorded world unchanged, and the statements below are about that run.
\<close>

section \<open>Recording\<close>

datatype api_call =
    CallCreate CreateServerRequest "go_error option"
  | CallDelete id64
  | CallGet id64 "Server option"
  | CallGetByName string
  | CallList string
  | CallReset id64
  | CallActions id64 "Action list"

definition recorded :: "('a \<Rightarrow> api_call) \<Rightarrow> ('w \<Rightarrow> 'a \<times> 'w) \<Rightarrow> 'w \<times> api_call list \<Rightarrow> 'a \<times> 'w \<times> api_call list" where
  "recorded call f wl = (case f (fst wl) of (r, w) \<Rightarrow> (r, w, snd wl @ [call r]))"

definition answer :: "(go_error + 'a option) \<Rightarrow> 'a option" where
  "answer r = (case r of Inl _ \<Rightarrow> None | Inr a \<Rightarrow> a)"

definition logged :: "'w servers_api \<Rightarrow> ('w \<times> api_call list) servers_api" where
  "logged S =
     \<lparr> Servers_Create = (\<lambda>req. recorded (\<lambda>r. CallCreate req (case r of Inl e \<Rightarrow> Some e | Inr _ \<Rightarrow> None)) (Servers_Create S req)),
       Servers_Delete = (\<lambda>i. recorded (\<lambda>_. CallDelete i) (Servers_Delete S i)),
       Servers_Get = (\<lambda>i. recorded (\<lambda>r. CallGet i (answer r)) (Servers_Get S i)),
       Servers_GetByName = (\<lambda>n. recorded (\<lambda>_. CallGetByName n) (Servers_GetByName S n)),
       Servers_List = (\<lambda>sel. recorded (\<lambda>_. CallList sel) (Servers_List S sel)),
       Servers_Reset = (\<lambda>i. recorded (\<lambda>_. CallReset i) (Servers_Reset S i)),
       Servers_RecentActions = (\<lambda>i. recorded (\<lambda>r. CallActions i (case r of Inl _ \<Rightarrow> [] | Inr as \<Rightarrow> as))
          (Servers_RecentActions S i)) \<rparr>"

definition logged_provider :: "'w provider \<Rightarrow> ('w \<times> api_call list) provider" where
  "logged_provider P =
     \<lparr> pv_servers = logged (pv_servers P), pv_clusterName = pv_clusterName P, pv_maxAttempts = pv_maxAttempts P,
       pv_ttl = pv_ttl P, pv_now = (\<lambda>wl. pv_now P (fst wl)), pv_etext = pv_etext P \<rparr>"

abbreviation calls :: "('w \<times> api_call list) pstate \<Rightarrow> api_call list" where
  "calls st \<equiv> snd (ps_world st)"

section \<open>Guarded calls\<close>

text \<open>
  A delete is guarded when the call just before it read the same server live and saw the
  cluster's own label; a reset, when the server was read so, was not off, and the list of its
  actions, read in between, shows none that holds it down. A create is guarded when it
  carries the cluster's label and the name of its NodeClaim.
\<close>

definition guarded_at :: "string \<Rightarrow> api_call list \<Rightarrow> nat \<Rightarrow> bool" where
  "guarded_at cluster tr n = (case tr ! n of
       CallDelete i \<Rightarrow> 0 < n \<and> (case tr ! (n - 1) of
           CallGet j (Some srv) \<Rightarrow> j = i \<and> IsManagedBy (Some srv) cluster | _ \<Rightarrow> False)
     | CallReset i \<Rightarrow> 1 < n \<and> (case (tr ! (n - 2), tr ! (n - 1)) of
           (CallGet j (Some srv), CallActions k as) \<Rightarrow>
              j = i \<and> k = i \<and> IsManagedBy (Some srv) cluster \<and> srv_Status srv \<noteq> ''off''
              \<and> list_all (\<lambda>a. act_Status a = ''error'' \<or> \<not> heldDown (act_Command a)) as
         | _ \<Rightarrow> False)
     | CallCreate req _ \<Rightarrow> cluster \<noteq> [] \<and> mget (req_Labels req) LabelManagedBy = cluster
           \<and> mget (req_Labels req) LabelNodeClaim = req_Name req
     | _ \<Rightarrow> True)"

definition guarded :: "string \<Rightarrow> api_call list \<Rightarrow> bool" where
  "guarded cluster tr \<longleftrightarrow> (\<forall>n < length tr. guarded_at cluster tr n)"

lemma guarded_Nil [simp]: "guarded c []"
  by (simp add: guarded_def)

lemma guarded_at_shift: "n < length b \<Longrightarrow> guarded_at c b n \<Longrightarrow> guarded_at c (a @ b) (length a + n)"
  by (auto simp: guarded_at_def nth_append split: api_call.splits option.splits)

lemma guarded_at_prefix: "n < length a \<Longrightarrow> guarded_at c (a @ b) n = guarded_at c a n"
proof -
  assume "n < length a"
  then have "(a @ b) ! n = a ! n" "(a @ b) ! (n - 1) = a ! (n - 1)" "(a @ b) ! (n - 2) = a ! (n - 2)"
    by (simp_all add: nth_append less_imp_diff_less)
  then show ?thesis by (simp only: guarded_at_def)
qed

lemma guarded_append: "guarded c a \<Longrightarrow> guarded c b \<Longrightarrow> guarded c (a @ b)"
proof (unfold guarded_def, intro allI impI)
  fix n
  assume a: "\<forall>n<length a. guarded_at c a n" and b: "\<forall>n<length b. guarded_at c b n" and n: "n < length (a @ b)"
  show "guarded_at c (a @ b) n"
  proof (cases "n < length a")
    case True
    with a show ?thesis by (simp add: guarded_at_prefix)
  next
    case False
    with n b guarded_at_shift [of "n - length a" b c a] show ?thesis by simp
  qed
qed

section \<open>The calls of each method\<close>

text \<open>What a recorded call does to the world: the answer of the API, and one more entry.\<close>

lemma logged_simps [simp]:
  "Servers_Create (logged S) req wl = (case Servers_Create S req (fst wl) of
     (r, w) \<Rightarrow> (r, w, snd wl @ [CallCreate req (case r of Inl e \<Rightarrow> Some e | Inr _ \<Rightarrow> None)]))"
  "Servers_Delete (logged S) i wl = (case Servers_Delete S i (fst wl) of (r2, w) \<Rightarrow> (r2, w, snd wl @ [CallDelete i]))"
  "Servers_Get (logged S) i wl = (case Servers_Get S i (fst wl) of (r3, w) \<Rightarrow> (r3, w, snd wl @ [CallGet i (answer r3)]))"
  "Servers_GetByName (logged S) n wl = (case Servers_GetByName S n (fst wl) of (r4, w) \<Rightarrow> (r4, w, snd wl @ [CallGetByName n]))"
  "Servers_List (logged S) sel wl = (case Servers_List S sel (fst wl) of (r5, w) \<Rightarrow> (r5, w, snd wl @ [CallList sel]))"
  "Servers_Reset (logged S) i wl = (case Servers_Reset S i (fst wl) of (r6, w) \<Rightarrow> (r6, w, snd wl @ [CallReset i]))"
  "Servers_RecentActions (logged S) i wl = (case Servers_RecentActions S i (fst wl) of
     (r7, w) \<Rightarrow> (r7, w, snd wl @ [CallActions i (case r7 of Inl _ \<Rightarrow> [] | Inr as \<Rightarrow> as)]))"
  by (simp_all add: logged_def recorded_def)

lemma logged_provider_simps [simp]:
  "pv_servers (logged_provider P) = logged (pv_servers P)"
  "pv_clusterName (logged_provider P) = pv_clusterName P"
  "pv_maxAttempts (logged_provider P) = pv_maxAttempts P"
  "pv_ttl (logged_provider P) = pv_ttl P"
  "pv_now (logged_provider P) wl = pv_now P (fst wl)"
  "pv_etext (logged_provider P) = pv_etext P"
  by (simp_all add: logged_provider_def)

lemma ps_world_simps [simp]:
  "ps_world (observe ms st) = ps_world st"
  "ps_world (invalidate st) = ps_world st"
  by (simp_all add: observe_def invalidate_def)

lemma observe_simps [simp]:
  "observe a (observe b st) = observe (b @ a) st"
  "(observe ms st)\<lparr>ps_world := w\<rparr> = observe ms (st\<lparr>ps_world := w\<rparr>)"
  "(observe ms st)\<lparr>ps_unavailable := u\<rparr> = observe ms (st\<lparr>ps_unavailable := u\<rparr>)"
  "ps_unavailable (observe ms st) = ps_unavailable st"
  "ps_cache (observe ms st) = ps_cache st"
  "observe ms (invalidate st) = invalidate (observe ms st)"
  "ps_unavailable (invalidate st) = ps_unavailable st"
  by (simp_all add: observe_def invalidate_def)

lemma cache_list_calls:
  assumes "cache_list (logged_provider P) sel st = (r, st')"
  shows "\<exists>new. calls st' = calls st @ new \<and> new \<in> {[], [CallList sel]}"
  using assms by (auto simp: cache_list_def split: option.splits sum.splits prod.splits)

lemma List_calls:
  assumes "Provider_List (logged_provider P) st = (r, st')"
  shows "\<exists>new. calls st' = calls st @ new \<and> new \<in> {[], [CallList (ManagedBySelector (pv_clusterName P))]}"
proof (cases "cache_list (logged_provider P) (ManagedBySelector (pv_clusterName P)) st")
  case (Pair r1 st1)
  with assms have "st' = st \<or> st' = st1" by (auto simp: Provider_List_def split: sum.splits if_splits)
  with cache_list_calls [OF Pair] show ?thesis by auto
qed

lemma Get_calls:
  assumes "Provider_Get (logged_provider P) pid st = (r, st')"
  shows "\<exists>new. calls st' = calls st @ new \<and> (\<forall>n i req e. CallDelete i \<notin> set new \<and> CallReset i \<notin> set new \<and> CallCreate req e \<notin> set new)"
proof (cases "cache_list (logged_provider P) (ManagedBySelector (pv_clusterName P)) st")
  case (Pair r1 st1)
  with assms have "st' = st \<or> st' = st1 \<or> (\<exists>i a. calls st' = calls st1 @ [CallGet i a])"
    by (auto simp: Provider_Get_def split: sum.splits if_splits option.splits prod.splits)
  with cache_list_calls [OF Pair] show ?thesis by fastforce
qed

lemma Delete_calls:
  assumes "Provider_Delete (logged_provider P) pid st = (r, st')"
  shows "\<exists>new. calls st' = calls st @ new \<and>
     (new = [] \<or> (\<exists>i a. new = [CallGet i a]) \<or>
      (\<exists>i srv. ServerIDFromProviderID pid = Inr i \<and> IsManagedBy (Some srv) (pv_clusterName P)
         \<and> new = [CallGet i (Some srv), CallDelete i]))"
  using assms
  by (auto simp: Provider_Delete_def answer_def split: sum.splits if_splits option.splits prod.splits)

lemma scan_actions_Inr:
  "scan_actions t as issued = Inr b \<Longrightarrow> list_all (\<lambda>a. act_Status a = ''error'' \<or> \<not> heldDown (act_Command a)) as"
  by (induction t as issued rule: scan_actions.induct) (auto split: if_splits)

lemma Reboot_calls:
  assumes "Provider_Reboot (logged_provider P) pid cn t st = (r, st')"
  shows "\<exists>new. calls st' = calls st @ new \<and>
     (new = [] \<or> (\<exists>i a. new = [CallGet i a]) \<or> (\<exists>i a as. new = [CallGet i a, CallActions i as]) \<or>
      (\<exists>i srv as. ServerIDFromProviderID pid = Inr i \<and> IsManagedBy (Some srv) (pv_clusterName P)
         \<and> mget (srv_Labels srv) LabelNodeClaim = cn \<and> srv_Status srv \<noteq> ''off''
         \<and> scan_actions t as False = Inr False
         \<and> new = [CallGet i (Some srv), CallActions i as, CallReset i]))"
  using assms
  by (auto simp: Provider_Reboot_def answer_def split: sum.splits if_splits option.splits prod.splits)

section \<open>The walk of Create\<close>

definition candidate_request :: "CreateServerRequest \<Rightarrow> 'r Candidate \<Rightarrow> CreateServerRequest" where
  "candidate_request req c = req\<lparr>req_ServerType := it_Name (ca_InstanceType c), req_Location := ca_Location c\<rparr>"

definition candidate_pair :: "'r Candidate \<Rightarrow> string \<times> string" where
  "candidate_pair c = (it_Name (ca_InstanceType c), ca_Location c)"

lemma attempt_created:
  assumes "Servers_Create (pv_servers P) (candidate_request req c) (ps_world st) = (Inr srv, w1)"
  shows "attempt P ncl its req c st = (Done (Inr (srv, Some (ca_InstanceType c))),
     invalidate (observe [LaunchDuration (it_Name (ca_InstanceType c)) (ca_Location c) ''succeeded''] (st\<lparr>ps_world := w1\<rparr>)))"
  using assms by (simp add: attempt_def candidate_request_def)

lemma attempt_capacity:
  assumes "Servers_Create (pv_servers P) (candidate_request req c) (ps_world st) = (Inl err, w1)"
    and "Classify (Some err) = ClassCapacity"
  shows "\<exists>ms code. attempt P ncl its req c st = (Continue err, observe ms (st\<lparr>ps_world := w1,
     ps_unavailable := Mark (pv_now P w1) (ps_unavailable st) (it_Name (ca_InstanceType c)) (ca_Location c) code\<rparr>))"
  using assms by (auto simp: attempt_def candidate_request_def Let_def)

lemma attempt_refused:
  assumes "Servers_Create (pv_servers P) (candidate_request req c) (ps_world st) = (Inl err, w1)"
    and "Classify (Some err) \<noteq> ClassCapacity" and "Code (Some err) \<noteq> Some CodeUniqueness"
  shows "\<exists>ms e. attempt P ncl its req c st = (Done (Inl e), observe ms (st\<lparr>ps_world := w1\<rparr>))"
proof -
  have n: "(case Code (Some err) of None \<Rightarrow> [] | Some cd \<Rightarrow> cd) \<noteq> CodeUniqueness"
    using assms(3) by (auto simp: CodeUniqueness_def split: option.splits)
  show ?thesis
    using assms(1,2) n by (cases "Classify (Some err)") (auto simp: attempt_def candidate_request_def Let_def)
qed

lemma Classify_uniqueness: "Code (Some err) = Some CodeUniqueness \<Longrightarrow> Classify (Some err) = ClassConfig"
  by (simp add: Classify_def CodeUniqueness_def classes_def)

lemma attempt_duplicate:
  assumes "Servers_Create (pv_servers P) (candidate_request req c) (ps_world st) = (Inl err, w1)"
    and "Code (Some err) = Some CodeUniqueness"
  shows "\<exists>ms. attempt P ncl its req c st = (case adopt P (req_Name req) ncl w1 of
      (Inl aErr, w2) \<Rightarrow> (Done (Inl (CreateError err ''CreateFailed'' (pv_etext P err))), observe ms (st\<lparr>ps_world := w2\<rparr>))
    | (Inr srv, w2) \<Rightarrow> (Done (Inr (srv, findInstanceType its (srv_ServerType srv))),
                         invalidate (observe ms (st\<lparr>ps_world := w2\<rparr>))))"
  using assms Classify_uniqueness [OF assms(2)]
  by (auto simp: attempt_def candidate_request_def Let_def split: prod.splits sum.splits)

lemma adopt_calls:
  assumes "adopt (logged_provider P) n ncl wl = (r, wl')"
  shows "snd wl' = snd wl @ [CallGetByName n]"
  using assms by (auto simp: adopt_def split: sum.splits option.splits prod.splits if_splits)

text \<open>One attempt: one create, and a read by name only after a create that failed on a duplicate name.\<close>

definition attempt_spec ::
    "'w provider \<Rightarrow> 'r Candidate \<Rightarrow> CreateServerRequest \<Rightarrow> 'r attempt_end \<Rightarrow> ('w \<times> api_call list) pstate \<Rightarrow>
     ('w \<times> api_call list) pstate \<Rightarrow> bool" where
  "attempt_spec P c req r st st' \<longleftrightarrow> (case r of
       Continue err \<Rightarrow> Classify (Some err) = ClassCapacity
         \<and> calls st' = calls st @ [CallCreate (candidate_request req c) (Some err)]
         \<and> (\<exists>w code. ps_unavailable st' = Mark (pv_now P w) (ps_unavailable st) (fst (candidate_pair c)) (snd (candidate_pair c)) code)
     | Done res \<Rightarrow> ps_unavailable st' = ps_unavailable st \<and>
         (\<exists>e more. calls st' = calls st @ CallCreate (candidate_request req c) e # more
            \<and> (more = [] \<or> more = [CallGetByName (req_Name req)])
            \<and> (case e of None \<Rightarrow> True | Some err \<Rightarrow> Classify (Some err) \<noteq> ClassCapacity)))"

lemma attempt_meets_spec:
  assumes "attempt (logged_provider P) ncl its req c st = (r, st')"
  shows "attempt_spec P c req r st st'"
proof (cases "Servers_Create (pv_servers P) (candidate_request req c) (fst (ps_world st))")
  case (Pair cr w1)
  define e where "e = (case cr of Inl e \<Rightarrow> Some e | Inr (_ :: Server) \<Rightarrow> None)"
  define wl where "wl = (w1, calls st @ [CallCreate (candidate_request req c) e])"
  have lc: "Servers_Create (pv_servers (logged_provider P)) (candidate_request req c) (ps_world st) = (cr, wl)"
    using Pair by (simp add: wl_def e_def)
  show ?thesis
  proof (cases cr)
    case (Inr srv)
    with assms attempt_created [OF lc [unfolded Inr], of ncl its] show ?thesis
      by (auto simp: attempt_spec_def wl_def e_def)
  next
    case (Inl err)
    note f = lc [unfolded Inl]
    consider "Classify (Some err) = ClassCapacity"
      | "Classify (Some err) \<noteq> ClassCapacity" "Code (Some err) \<noteq> Some CodeUniqueness"
      | "Code (Some err) = Some CodeUniqueness" by blast
    then show ?thesis
    proof cases
      case 1
      with assms attempt_capacity [OF f, of ncl its] Inl show ?thesis
        by (force simp: attempt_spec_def wl_def e_def candidate_pair_def)
    next
      case 2
      with assms attempt_refused [OF f, of ncl its] Inl show ?thesis
        by (force simp: attempt_spec_def wl_def e_def)
    next
      case 3
      then have cf: "Classify (Some err) = ClassConfig" by (rule Classify_uniqueness)
      obtain ar wl2 where a: "adopt (logged_provider P) (req_Name req) ncl wl = (ar, wl2)"
        by (rule prod.exhaust)
      then have "snd wl2 = snd wl @ [CallGetByName (req_Name req)]" by (rule adopt_calls)
      moreover obtain ms where "attempt (logged_provider P) ncl its req c st = (case (ar, wl2) of
          (Inl aErr, w2) \<Rightarrow> (Done (Inl (CreateError err ''CreateFailed'' (pv_etext (logged_provider P) err))), observe ms (st\<lparr>ps_world := w2\<rparr>))
        | (Inr srv, w2) \<Rightarrow> (Done (Inr (srv, findInstanceType its (srv_ServerType srv))),
                             invalidate (observe ms (st\<lparr>ps_world := w2\<rparr>))))"
        using attempt_duplicate [OF f 3, of ncl its] unfolding a by blast
      ultimately show ?thesis using assms Inl cf
        by (auto simp: attempt_spec_def wl_def e_def split: sum.splits)
    qed
  qed
qed

text \<open>
  The loop: a run of capacity failures, each marked and each followed by the next candidate,
  then either the end of the list or one attempt that returned.
\<close>

definition walk_spec ::
    "'w provider \<Rightarrow> 'r Candidate list \<Rightarrow> CreateServerRequest \<Rightarrow> bool \<Rightarrow> ('w \<times> api_call list) pstate \<Rightarrow> ('w \<times> api_call list) pstate \<Rightarrow> bool" where
  "walk_spec P cs req returned st st' \<longleftrightarrow>
     (\<exists>errs marks rest. length errs \<le> length cs \<and> (\<forall>e \<in> set errs. Classify (Some e) = ClassCapacity)
       \<and> calls st' = calls st @ map2 (\<lambda>c e. CallCreate (candidate_request req c) (Some e)) cs errs @ rest
       \<and> map (\<lambda>(t0, ty, lo, code). (ty, lo)) marks = map candidate_pair (take (length errs) cs)
       \<and> (\<forall>m \<in> set marks. fst m \<in> range (pv_now P))
       \<and> ps_unavailable st' = unav.marks (ps_unavailable st) marks
       \<and> (if returned
          then length errs < length cs \<and>
            (\<exists>e more. rest = CallCreate (candidate_request req (cs ! length errs)) e # more
              \<and> (more = [] \<or> more = [CallGetByName (req_Name req)])
              \<and> (case e of None \<Rightarrow> True | Some err \<Rightarrow> Classify (Some err) \<noteq> ClassCapacity))
          else length errs = length cs \<and> rest = []))"

lemma create_loop_meets_spec:
  "create_loop (logged_provider P) ncl its req cs lastErr st = (r, st') \<Longrightarrow> walk_spec P cs req (isl r) st st'"
proof (induction cs arbitrary: lastErr st)
  case Nil
  then show ?case by (auto simp: walk_spec_def intro!: exI [of _ "[]"])
next
  case (Cons c cs)
  obtain a st1 where a: "attempt (logged_provider P) ncl its req c st = (a, st1)" by fastforce
  note sp = attempt_meets_spec [OF a]
  show ?case
  proof (cases a)
    case (Done res)
    with Cons.prems a have r: "isl r" "st' = st1" by auto
    from sp Done obtain e more where
      "ps_unavailable st1 = ps_unavailable st"
      "calls st1 = calls st @ CallCreate (candidate_request req c) e # more"
      "more = [] \<or> more = [CallGetByName (req_Name req)]"
      "case e of None \<Rightarrow> True | Some err \<Rightarrow> Classify (Some err) \<noteq> ClassCapacity"
      by (auto simp: attempt_spec_def)
    then show ?thesis
      using r unfolding walk_spec_def
      by (intro exI [of _ "[]"] exI [of _ "CallCreate (candidate_request req c) e # more"]) simp
  next
    case (Continue err)
    with Cons.prems a have "create_loop (logged_provider P) ncl its req cs (Some err) st1 = (r, st')" by simp
    from Cons.IH [OF this] obtain errs marks rest where
      w: "length errs \<le> length cs" "\<forall>e \<in> set errs. Classify (Some e) = ClassCapacity"
         "calls st' = calls st1 @ map2 (\<lambda>c e. CallCreate (candidate_request req c) (Some e)) cs errs @ rest"
         "map (\<lambda>(t0, ty, lo, code). (ty, lo)) marks = map candidate_pair (take (length errs) cs)"
         "\<forall>m \<in> set marks. fst m \<in> range (pv_now P)"
         "ps_unavailable st' = unav.marks (ps_unavailable st1) marks"
         "if isl r then length errs < length cs \<and>
            (\<exists>e more. rest = CallCreate (candidate_request req (cs ! length errs)) e # more
              \<and> (more = [] \<or> more = [CallGetByName (req_Name req)])
              \<and> (case e of None \<Rightarrow> True | Some err \<Rightarrow> Classify (Some err) \<noteq> ClassCapacity))
          else length errs = length cs \<and> rest = []"
      unfolding walk_spec_def by auto
    from sp Continue obtain w0 code where
      "Classify (Some err) = ClassCapacity" "calls st1 = calls st @ [CallCreate (candidate_request req c) (Some err)]"
      "ps_unavailable st1 = Mark (pv_now P w0) (ps_unavailable st) (fst (candidate_pair c)) (snd (candidate_pair c)) code"
      by (auto simp: attempt_spec_def)
    then show ?thesis
      using w unfolding walk_spec_def
      by (intro exI [of _ "err # errs"] exI [of _ "(pv_now P w0, fst (candidate_pair c), snd (candidate_pair c), code) # marks"]
           exI [of _ rest]) auto
  qed
qed

end
