(* ===== verification/Example_Data.thy ===== *)
theory Example_Data
  imports Instance
begin

text \<open>
  Concrete inputs the witnesses evaluate the model on: a NodeClass with a resolved status, a
  NodeClaim, two instance types with one offering each, and a small Hetzner whose world is
  the list of the servers that exist.
\<close>

definition ex_kubelet :: KubeletConfiguration where
  "ex_kubelet = \<lparr> KubeReserved = [], SystemReserved = [], EvictionHard = [], EvictionSoft = [],
     EvictionSoftGracePeriod = [], MaxPods = None, ClusterDNS = [], ExtraArgs = [] \<rparr>"

definition ex_bootstrap :: BootstrapSpec where
  "ex_bootstrap = \<lparr> boot_OSFamily = ''Debian'', boot_Mode = ''Generated'', KubernetesVersion = ''1.33.1'',
     PackageRevision = [], boot_APIServerEndpoint = [], boot_CACertHashes = [],
     Containerd = \<lparr> SystemdCgroup = None, AptPin = [], ExtraConfig = [] \<rparr>,
     UnattendedUpgrades = \<lparr> uu_Enabled = None, ExtraOrigins = [], RemoveUnusedKernelPackages = None \<rparr>,
     Sysctls = [], KernelModules = [], PackageUpgradeOnBoot = None, ExtraPackages = [], ExtraFiles = [],
     PreJoinCommands = [], PostJoinCommands = [], Revision = [] \<rparr>"

definition ex_spec :: HCloudNodeClassSpec where
  "ex_spec = \<lparr> spec_ImageSelector = \<lparr> sel_Name = ''debian-12'', sel_ID = None \<rparr>, spec_ImageDriftPolicy = [],
     spec_MaxNodeAge = None, spec_Locations = [], spec_NetworkSelector = None, spec_FirewallSelectors = [],
     spec_SSHKeySelectors = [], spec_PlacementGroup = None, spec_PublicIPv4 = None, spec_PublicIPv6 = None,
     spec_ServerLabels = [], spec_Kubelet = ex_kubelet, spec_Bootstrap = ex_bootstrap \<rparr>"

definition ex_status :: "unit HCloudNodeClassStatus" where
  "ex_status = \<lparr> st_Image = Some \<lparr> img_ID = 7, img_Name = ''debian-12'', img_Description = [],
       img_Architecture = ''x86'', img_Created = [] \<rparr>,
     st_Network = None, st_Firewalls = [], st_SSHKeys = [], st_PlacementGroup = None, st_Locations = [],
     st_APIServerEndpoint = [], st_CACertHashes = [], st_Conditions = () \<rparr>"

definition ex_class :: "unit HCloudNodeClass" where
  "ex_class = \<lparr> nc_Name = ''default'', nc_UID = ''u1'', nc_Annotations = [], nc_Finalizers = [],
     nc_DeletionTimestamp = zero_time, nc_Generation = 1, nc_Spec = ex_spec, nc_Status = ex_status \<rparr>"

definition ex_claim :: "(string \<times> string list) list NodeClaim" where
  "ex_claim = \<lparr> cl_Name = ''pool-x1'', cl_UID = ''c1'', cl_Labels = [], cl_Annotations = [],
     cl_CreationTimestamp = zero_time, cl_NodeClassRef = None, cl_Requirements = [], cl_Requests = [(''cpu'', 1)],
     cl_Taints = [], cl_StartupTaints = [], cl_ProviderID = [], cl_Capacity = [], cl_Allocatable = [],
     cl_Rebooting = None, cl_Drifted = False \<rparr>"

definition ex_type :: "string \<Rightarrow> string \<Rightarrow> rat \<Rightarrow> (string \<times> string list) list InstanceType" where
  "ex_type name loc price = \<lparr> it_Name = name, it_Capacity = [(''cpu'', 2)],
     it_Overhead = \<lparr> oh_KubeReserved = [], oh_SystemReserved = [], oh_EvictionThreshold = [] \<rparr>,
     it_Offerings = [\<lparr> of_Requirements = [(LabelTopologyRegion, [loc])], of_Price = Fin price, of_Available = True \<rparr>],
     it_Requirements = [], it_VolumeAttachmentLimits = [] \<rparr>"

definition ex_types :: "(string \<times> string list) list InstanceType list" where
  "ex_types = [ex_type ''cx32'' ''fsn1'' 2, ex_type ''cx22'' ''nbg1'' 1]"

definition ex_server :: "id64 \<Rightarrow> string \<Rightarrow> strmap \<Rightarrow> Server" where
  "ex_server i name labels = \<lparr> srv_ID = i, srv_Name = name, srv_ServerType = ''cx22'', srv_Location = ''nbg1'',
     srv_Status = ''running'', srv_Labels = labels, srv_ImageID = 7, srv_Created = 0, srv_PrivateIPv4 = [],
     srv_PublicIPv4 = [], srv_NetworkIDs = [], srv_FirewallIDs = [], srv_PlacementGroupID = 0,
     srv_HasPublicIPv4 = True, srv_HasPublicIPv6 = True \<rparr>"

text \<open>A Hetzner without stock of one server type; the world is the list of its servers.\<close>

definition ex_hetzner :: "string \<Rightarrow> Server list servers_api" where
  "ex_hetzner out_of_stock =
     \<lparr> Servers_Create = (\<lambda>req w.
          if req_ServerType req = out_of_stock then (Inl (HcloudError ''resource_unavailable'' [] None), w)
          else (let srv = (ex_server (int (length w) + 1) (req_Name req) (req_Labels req))
                      \<lparr>srv_ServerType := req_ServerType req, srv_Location := req_Location req\<rparr>
                in (Inr srv, w @ [srv]))),
       Servers_Delete = (\<lambda>i w. (None, filter (\<lambda>s. srv_ID s \<noteq> i) w)),
       Servers_Get = (\<lambda>i w. (Inr (find (\<lambda>s. srv_ID s = i) w), w)),
       Servers_GetByName = (\<lambda>n w. (Inr (find (\<lambda>s. srv_Name s = n) w), w)),
       Servers_List = (\<lambda>sel w. (Inr w, w)),
       Servers_Reset = (\<lambda>i w. (None, w)),
       Servers_RecentActions = (\<lambda>i w. (Inr [], w)) \<rparr>"

definition ex_provider :: "string \<Rightarrow> Server list provider" where
  "ex_provider out_of_stock = NewProvider (ex_hetzner out_of_stock) ''prod'' (\<lambda>_. 1000) (\<lambda>_. [])"

lemmas ex_defs = ex_kubelet_def ex_bootstrap_def ex_spec_def ex_status_def ex_class_def ex_claim_def
  ex_type_def ex_types_def ex_server_def ex_hetzner_def ex_provider_def NewProvider_def newListCache_def

lemma ex_provider_simps:
  "pv_servers (ex_provider t) = ex_hetzner t"
  "pv_clusterName (ex_provider t) = ''prod''"
  by (simp_all add: ex_provider_def NewProvider_def)

end
