(* ===== verification/Instance_Props.thy ===== *)
theory Instance_Props
  imports Instance_Log Example_Data
begin

text \<open>
  What the instance provider guarantees: the order of the candidates, the walk of \<^verbatim>\<open>Create\<close>
  over them, the labels of every server it orders, and that nothing but a server of the
  cluster, seen live, is ever deleted or reset.
\<close>

section \<open>Order of the candidates\<close>

lemma f64_less_finite:
  "a \<noteq> NaN \<Longrightarrow> b \<noteq> NaN \<Longrightarrow> c \<noteq> NaN \<Longrightarrow> f64_less a b \<Longrightarrow> \<not> f64_less b a"
  "a \<noteq> NaN \<Longrightarrow> b \<noteq> NaN \<Longrightarrow> f64_less a b \<or> f64_less b a \<or> a = b"
  "f64_less a b \<Longrightarrow> f64_less b c \<Longrightarrow> f64_less a c"
  "\<not> f64_less a a"
  by (cases a; cases b; cases c; auto)+

interpretation candidate_order: sort_order_on candidate_lt "\<lambda>c. ca_Price c \<noteq> NaN"
proof unfold_locales
  fix x y :: "'r Candidate"
  assume "ca_Price x \<noteq> NaN" "ca_Price y \<noteq> NaN" "candidate_lt x y"
  then show "\<not> candidate_lt y x"
    using f64_less_finite(1) [of "ca_Price x" "ca_Price y" "ca_Price x"]
    by (auto simp: candidate_lt_def f64_eq_def split: if_splits)
next
  fix x y z :: "'r Candidate"
  assume "ca_Price x \<noteq> NaN" "ca_Price y \<noteq> NaN" "ca_Price z \<noteq> NaN" "\<not> candidate_lt y x" "\<not> candidate_lt z y"
  then show "\<not> candidate_lt z x"
    using f64_less_finite(2) [of "ca_Price x" "ca_Price y"] f64_less_finite(2) [of "ca_Price y" "ca_Price z"]
      f64_less_finite(3) [of "ca_Price x" "ca_Price y" "ca_Price z"]
      f64_less_finite(1) [of "ca_Price x" "ca_Price z" "ca_Price x"] f64_less_finite(4) [of "ca_Price x"]
    by (auto simp: candidate_lt_def f64_eq_def split: if_splits)
qed

lemma candidate_mem:
  "c \<in> set (orderedCandidates K claim its) \<longleftrightarrow>
   (\<exists>it \<in> set its. \<exists>off \<in> set (it_Offerings it). k_Intersects K (it_Requirements it) (k_FromNodeSelector K (cl_Requirements claim))
      \<and> resourcesFit K claim it
      \<and> offering_candidate K (k_FromNodeSelector K (cl_Requirements claim)) it off = Some c)"
  by (auto simp: orderedCandidates_def type_candidates_def Let_def set_map_filter split: if_splits)

lemma offering_candidate_Some:
  "offering_candidate K reqs it off = Some c \<longleftrightarrow> of_Available off \<and> k_IsCompatible K reqs (of_Requirements off)
     \<and> k_Len K (of_Requirements off) LabelTopologyRegion = 1
     \<and> (\<exists>v vs. k_Values K (of_Requirements off) LabelTopologyRegion = v # vs
          \<and> c = \<lparr> ca_InstanceType = it, ca_Location = v, ca_Price = of_Price off \<rparr>)"
  by (cases "k_Values K (of_Requirements off) LabelTopologyRegion") (auto simp: offering_candidate_def)

lemma candidate_price_not_NaN:
  assumes "\<forall>it \<in> set its. \<forall>off \<in> set (it_Offerings it). of_Price off \<noteq> NaN" and "c \<in> set (orderedCandidates K claim its)"
  shows "ca_Price c \<noteq> NaN"
  using assms by (auto simp: candidate_mem offering_candidate_Some)

lemma orderedCandidates_sorted_lt:
  assumes "\<forall>it \<in> set its. \<forall>off \<in> set (it_Offerings it). of_Price off \<noteq> NaN"
  shows "sorted_wrt (\<lambda>a b. \<not> candidate_lt b a) (orderedCandidates K claim its)"
proof -
  have "\<forall>c \<in> set (concat (map (type_candidates K claim) its)). ca_Price c \<noteq> NaN"
    using candidate_price_not_NaN [OF assms, of _ K claim] by (simp add: orderedCandidates_def)
  then show ?thesis unfolding orderedCandidates_def by (rule candidate_order.sorted_go_sort)
qed

lemma price_not_greater: "\<not> candidate_lt b a \<Longrightarrow> \<not> f64_less (ca_Price b) (ca_Price a)"
  using f64_less_finite(4) by (auto simp: candidate_lt_def f64_eq_def split: if_splits)



section \<open>Labels of an order\<close>

lemma label_names_distinct:
  "LabelManagedBy \<noteq> LabelNodeClaim" "LabelManagedBy \<noteq> LabelNodePool" "LabelNodeClaim \<noteq> LabelNodePool"
  by (simp_all add: LabelManagedBy_def LabelNodeClaim_def LabelNodePool_def)

lemma operator_labels_keep:
  "k = LabelManagedBy \<or> k = LabelNodeClaim \<Longrightarrow>
   mget (foldl (\<lambda>m (k, v). if k = LabelManagedBy \<or> k = LabelNodeClaim then m else mput k v m) m ls) k = mget m k"
  by (induction ls arbitrary: m) auto

lemma baseRequest_owned:
  assumes "baseRequest P ncl claim ud = Inr req"
  shows "pv_clusterName P \<noteq> [] \<and> mget (req_Labels req) LabelManagedBy = pv_clusterName P
     \<and> mget (req_Labels req) LabelNodeClaim = cl_Name claim \<and> req_Name req = cl_Name claim"
  using assms label_names_distinct
  by (auto simp: baseRequest_def Let_def operator_labels_keep mget_def [of "_ # _"] split: if_splits)

lemma baseRequest_logged [simp]: "baseRequest (logged_provider P) ncl claim ud = baseRequest P ncl claim ud"
  by (simp add: baseRequest_def Let_def)

text \<open>
  Whatever labels the operator puts into the NodeClass, an order carries the label of the
  cluster and the name of its NodeClaim, and is refused outright when the cluster has no
  name or the NodeClass no resolved image. Every id of the order is one of the status.
\<close>

theorem baseRequest_exact:
  "case baseRequest P ncl claim ud of
     Inl err \<Rightarrow> (case st_Image (nc_Status ncl) of None \<Rightarrow> True | Some img \<Rightarrow> img_ID img = 0 \<or> pv_clusterName P = [])
   | Inr req \<Rightarrow> pv_clusterName P \<noteq> [] \<and> (\<exists>img. st_Image (nc_Status ncl) = Some img \<and> req_ImageID req = img_ID img \<and> img_ID img \<noteq> 0)
       \<and> mget (req_Labels req) LabelManagedBy = pv_clusterName P \<and> mget (req_Labels req) LabelNodeClaim = cl_Name claim
       \<and> req_Name req = cl_Name claim \<and> req_UserData req = ud
       \<and> req_FirewallIDs req = map fw_ID (st_Firewalls (nc_Status ncl)) \<and> req_SSHKeyIDs req = map key_ID (st_SSHKeys (nc_Status ncl))
       \<and> set (req_NetworkIDs req) = {i. i \<noteq> 0 \<and> (\<exists>net. st_Network (nc_Status ncl) = Some net \<and> net_ID net = i)}"
proof (cases "baseRequest P ncl claim ud")
  case (Inl err)
  then show ?thesis by (auto simp: baseRequest_def Let_def split: if_splits option.splits)
next
  case (Inr req)
  have "(\<exists>img. st_Image (nc_Status ncl) = Some img \<and> req_ImageID req = img_ID img \<and> img_ID img \<noteq> 0)
      \<and> req_UserData req = ud \<and> req_FirewallIDs req = map fw_ID (st_Firewalls (nc_Status ncl))
      \<and> req_SSHKeyIDs req = map key_ID (st_SSHKeys (nc_Status ncl))
      \<and> set (req_NetworkIDs req) = {i. i \<noteq> 0 \<and> (\<exists>net. st_Network (nc_Status ncl) = Some net \<and> net_ID net = i)}"
    using Inr by (auto simp: baseRequest_def Let_def split: if_splits option.splits)
  with baseRequest_owned [OF Inr] Inr show ?thesis by simp
qed

section \<open>Every destructive call is guarded\<close>

lemma guarded_block:
  "guarded c [CallGet i a]" "guarded c [CallGet i a, CallActions i as]" "guarded c [CallList sel]"
  "IsManagedBy (Some srv) c \<Longrightarrow> guarded c [CallGet i (Some srv), CallDelete i]"
  by (auto simp: guarded_def guarded_at_def less_Suc_eq)

lemma guarded_reset:
  assumes "IsManagedBy (Some srv) c" "srv_Status srv \<noteq> ''off''" "scan_actions t as False = Inr b"
  shows "guarded c [CallGet i (Some srv), CallActions i as, CallReset i]"
  using assms scan_actions_Inr [OF assms(3)] by (auto simp: guarded_def guarded_at_def less_Suc_eq numeral_2_eq_2)

lemma guarded_harmless:
  assumes "\<forall>i req e. CallDelete i \<notin> set new \<and> CallReset i \<notin> set new \<and> CallCreate req e \<notin> set new"
  shows "guarded c new"
  unfolding guarded_def
proof (intro allI impI)
  fix n
  assume "n < length new"
  then have "new ! n \<in> set new" by simp
  with assms show "guarded_at c new n" by (cases "new ! n") (auto simp: guarded_at_def)
qed

lemma guarded_creates:
  assumes "\<forall>x \<in> set new. (\<exists>n. x = CallGetByName n) \<or> (\<exists>req e. x = CallCreate req e \<and> cl \<noteq> []
      \<and> mget (req_Labels req) LabelManagedBy = cl \<and> mget (req_Labels req) LabelNodeClaim = req_Name req)"
  shows "guarded cl new"
  unfolding guarded_def
proof (intro allI impI)
  fix n
  assume "n < length new"
  then have "new ! n \<in> set new" by simp
  with assms show "guarded_at cl new n" by (force simp: guarded_at_def)
qed

lemma walk_guarded:
  assumes "walk_spec P0 cs req returned st st'" and "baseRequest P ncl claim ud = Inr req"
  shows "\<exists>new. calls st' = calls st @ new \<and> guarded (pv_clusterName P) new"
proof -
  from assms(1) obtain errs rest where
    n: "calls st' = calls st @ map2 (\<lambda>c e. CallCreate (candidate_request req c) (Some e)) cs errs @ rest"
    and i: "if returned
          then length errs < length cs \<and>
            (\<exists>e more. rest = CallCreate (candidate_request req (cs ! length errs)) e # more
              \<and> (more = [] \<or> more = [CallGetByName (req_Name req)])
              \<and> (case e of None \<Rightarrow> True | Some err \<Rightarrow> Classify (Some err) \<noteq> ClassCapacity))
          else length errs = length cs \<and> rest = []"
    unfolding walk_spec_def by blast
  from i have r: "rest = [] \<or> (\<exists>e more. rest = CallCreate (candidate_request req (cs ! length errs)) e # more
               \<and> (more = [] \<or> more = [CallGetByName (req_Name req)]))"
    by (auto split: if_splits)
  have lab: "req_Labels (candidate_request req c) = req_Labels req" "req_Name (candidate_request req c) = req_Name req" for c
    by (simp_all add: candidate_request_def)
  have "guarded (pv_clusterName P) (map2 (\<lambda>c e. CallCreate (candidate_request req c) (Some e)) cs errs @ rest)"
    using r baseRequest_owned [OF assms(2)]
    by (intro guarded_creates) (auto simp: lab)
  with n show ?thesis by blast
qed

text \<open>\<^verbatim>\<open>Create\<close> ends before any call, or it walks the first candidates it may try.\<close>

lemma Create_walk:
  assumes "Provider_Create K (logged_provider P) ncl claim its ud st = (r, st')"
  shows "(orderedCandidates K claim its = [] \<or> (\<exists>e. baseRequest P ncl claim ud = Inl e)) \<and> st' = st \<and> isl r \<or>
    (\<exists>req st1 lr. orderedCandidates K claim its \<noteq> [] \<and> baseRequest P ncl claim ud = Inr req
       \<and> create_loop (logged_provider P) claim its req
            (take (pv_maxAttempts P) (orderedCandidates K claim its)) None st = (lr, st1)
       \<and> calls st' = calls st1 \<and> ps_unavailable st' = ps_unavailable st1
       \<and> (case lr of Inl r1 \<Rightarrow> r = r1 | Inr _ \<Rightarrow> isl r))"
proof (cases "orderedCandidates K claim its = [] \<or> (\<exists>e. baseRequest P ncl claim ud = Inl e)")
  case True
  with assms show ?thesis by (auto simp: Provider_Create_def Let_def split: if_splits)
next
  case False
  then obtain req where req: "baseRequest P ncl claim ud = Inr req" by (cases "baseRequest P ncl claim ud") auto
  obtain lr st1 where l: "create_loop (logged_provider P) claim its req
      (take (pv_maxAttempts P) (orderedCandidates K claim its)) None st = (lr, st1)" by (rule prod.exhaust)
  have t: "take (min (length (orderedCandidates K claim its)) (pv_maxAttempts P)) (orderedCandidates K claim its)
      = take (pv_maxAttempts P) (orderedCandidates K claim its)" by (simp add: min_def)
  show ?thesis
    using assms False req l t unfolding Provider_Create_def Let_def
    by (auto split: sum.splits option.splits)
qed

lemma Create_guarded:
  assumes "Provider_Create K (logged_provider P) ncl claim its ud st = (r, st')"
  shows "\<exists>new. calls st' = calls st @ new \<and> guarded (pv_clusterName P) new"
  using Create_walk [OF assms]
proof (elim disjE exE conjE)
  fix req st1 lr
  assume b: "baseRequest P ncl claim ud = Inr req" and c: "calls st' = calls st1"
    and l: "create_loop (logged_provider P) claim its req
            (take (pv_maxAttempts P) (orderedCandidates K claim its)) None st = (lr, st1)"
  from walk_guarded [OF create_loop_meets_spec [OF l] b] c show ?thesis by simp
qed (auto intro!: exI [of _ "[]"])

text \<open>The methods of the provider, and what happens between them, as a sequence of operations.\<close>

datatype ('w, 'r, 'q, 'c) op =
    OpCreate "'c HCloudNodeClass" "'q NodeClaim" "'r InstanceType list" string
  | OpList
  | OpGet string
  | OpDelete string
  | OpReboot string string gotime
  | OpSync
  | OpWorld "'w \<Rightarrow> 'w"

definition exec ::
    "('r, 'q) karpenter \<Rightarrow> 'w provider \<Rightarrow> ('w, 'r, 'q, 'c) op \<Rightarrow> ('w \<times> api_call list) pstate \<Rightarrow> ('w \<times> api_call list) pstate" where
  "exec K P a st = (case a of
       OpCreate ncl claim its ud \<Rightarrow> snd (Provider_Create K (logged_provider P) ncl claim its ud st)
     | OpList \<Rightarrow> snd (Provider_List (logged_provider P) st)
     | OpGet pid \<Rightarrow> snd (Provider_Get (logged_provider P) pid st)
     | OpDelete pid \<Rightarrow> snd (Provider_Delete (logged_provider P) pid st)
     | OpReboot pid cn t \<Rightarrow> snd (Provider_Reboot (logged_provider P) pid cn t st)
     | OpSync \<Rightarrow> (case sync_tick (pv_now P (fst (ps_world st))) (ps_unavailable st) (ps_metrics st) of
         (u, ms) \<Rightarrow> st\<lparr>ps_unavailable := u, ps_metrics := ms\<rparr>)
     | OpWorld f \<Rightarrow> st\<lparr>ps_world := (f (fst (ps_world st)), snd (ps_world st))\<rparr>)"

definition run ::
    "('r, 'q) karpenter \<Rightarrow> 'w provider \<Rightarrow> ('w, 'r, 'q, 'c) op list \<Rightarrow> ('w \<times> api_call list) pstate \<Rightarrow> ('w \<times> api_call list) pstate" where
  "run K P ops st = foldl (\<lambda>s a. exec K P a s) st ops"

lemma exec_guarded: "\<exists>new. calls (exec K P a st) = calls st @ new \<and> guarded (pv_clusterName P) new"
proof (cases a)
  case (OpCreate ncl claim its ud)
  then show ?thesis
    using Create_guarded [of K P ncl claim its ud st] by (cases "Provider_Create K (logged_provider P) ncl claim its ud st")
      (simp add: exec_def)
next
  case OpList
  then show ?thesis
    using List_calls [of P st] guarded_block(3) by (cases "Provider_List (logged_provider P) st") (auto simp: exec_def)
next
  case (OpGet pid)
  then show ?thesis
    using Get_calls [of P pid st] guarded_harmless by (cases "Provider_Get (logged_provider P) pid st") (fastforce simp: exec_def)
next
  case (OpDelete pid)
  then show ?thesis
    using Delete_calls [of P pid st] guarded_block by (cases "Provider_Delete (logged_provider P) pid st") (auto simp: exec_def)
next
  case (OpReboot pid cn t)
  then show ?thesis
    using Reboot_calls [of P pid cn t st] guarded_block guarded_reset
    by (cases "Provider_Reboot (logged_provider P) pid cn t st") (fastforce simp: exec_def)
qed (auto simp: exec_def split: prod.splits intro!: exI [of _ "[]"])

lemma run_guarded:
  "guarded (pv_clusterName P) (calls st) \<Longrightarrow> guarded (pv_clusterName P) (calls (run K P ops st))"
proof (induction ops arbitrary: st)
  case (Cons a ops)
  from exec_guarded [of K P a st] Cons.prems have "guarded (pv_clusterName P) (calls (exec K P a st))"
    by (auto intro: guarded_append)
  from Cons.IH [OF this] show ?case by (simp add: run_def)
qed (simp add: run_def)

text \<open>
  C1. Over any sequence of creates, reads, deletes, reboots and gauge updates, with the world
  changing in between in any way, every delete of a server is made right after a live read of
  that server that showed the label of this cluster; every reset follows such a read, of a
  server that was not off, and a read of its actions that shows none holding it down; and
  every order carries the label of the cluster and of its NodeClaim.
\<close>

theorem provider_calls_guarded:
  "guarded (pv_clusterName P) (calls (run K P ops (initial_pstate (w, []) u)))"
  using run_guarded [of P "initial_pstate (w, []) u"] by (simp add: initial_pstate_def)

section \<open>The walk of Create\<close>

lemma create_loop_exhausted:
  "create_loop P claim its req cs lastErr st = (Inr l, st') \<Longrightarrow> cs \<noteq> [] \<or> lastErr \<noteq> None \<Longrightarrow> \<exists>e. l = Some e"
  by (induction cs arbitrary: lastErr st) (auto split: prod.splits attempt_end.splits)

lemma Create_walks:
  assumes c: "Provider_Create K (logged_provider P) ncl claim its ud st = (r, st')"
    and b: "baseRequest P ncl claim ud = Inr req" and n: "orderedCandidates K claim its \<noteq> []" and m: "0 < pv_maxAttempts P"
  shows "\<exists>returned. walk_spec P (take (pv_maxAttempts P) (orderedCandidates K claim its)) req returned st st'
     \<and> (returned \<or> (\<exists>e. r = Inl (InsufficientCapacityError e)))"
proof -
  from Create_walk [OF c] b n obtain st1 lr where
    l: "create_loop (logged_provider P) claim its req (take (pv_maxAttempts P) (orderedCandidates K claim its)) None st = (lr, st1)"
    and e: "calls st' = calls st1" "ps_unavailable st' = ps_unavailable st1" by auto
  have w: "walk_spec P (take (pv_maxAttempts P) (orderedCandidates K claim its)) req (isl lr) st st'"
    using create_loop_meets_spec [OF l] e by (simp add: walk_spec_def)
  show ?thesis
  proof (cases lr)
    case (Inl x)
    with w show ?thesis by auto
  next
    case (Inr o1)
    have "take (pv_maxAttempts P) (orderedCandidates K claim its) \<noteq> []" using n m by simp
    with create_loop_exhausted l Inr obtain x where o1: "o1 = Some x" by blast
    have t: "take (min (length (orderedCandidates K claim its)) (pv_maxAttempts P)) (orderedCandidates K claim its)
      = take (pv_maxAttempts P) (orderedCandidates K claim its)" by (simp add: min_def)
    have "\<exists>e. r = Inl (InsufficientCapacityError e)"
      using c b n l Inr o1 t by (auto simp: Provider_Create_def Let_def)
    with w show ?thesis by blast
  qed
qed

text \<open>
  C16. A create walks the candidates in their order, at most as many as the bound, one order
  each. It goes on to the next candidate after a failure for capacity, and after nothing
  else: the orders before the last are exactly failures of the capacity class, and the walk
  ends with the first order that did anything else (with, on a duplicate name, one read by
  that name), or with an insufficient-capacity error when every order allowed failed so.
\<close>

theorem Create_falls_through_on_capacity_only:
  assumes "Provider_Create K (logged_provider P) ncl claim its ud st = (r, st')"
    and "baseRequest P ncl claim ud = Inr req" and "orderedCandidates K claim its \<noteq> []" and "0 < pv_maxAttempts P"
  shows "\<exists>errs rest. calls st' = calls st
        @ map2 (\<lambda>c e. CallCreate (candidate_request req c) (Some e)) (take (pv_maxAttempts P) (orderedCandidates K claim its)) errs @ rest
     \<and> (\<forall>e \<in> set errs. Classify (Some e) = ClassCapacity)
     \<and> (length errs = min (pv_maxAttempts P) (length (orderedCandidates K claim its)) \<and> rest = []
           \<and> (\<exists>e. r = Inl (InsufficientCapacityError e))
        \<or> length errs < min (pv_maxAttempts P) (length (orderedCandidates K claim its))
           \<and> (\<exists>e more. rest = CallCreate (candidate_request req (orderedCandidates K claim its ! length errs)) e # more
                \<and> (more = [] \<or> more = [CallGetByName (req_Name req)])
                \<and> (case e of None \<Rightarrow> True | Some err \<Rightarrow> Classify (Some err) \<noteq> ClassCapacity)))"
proof -
  obtain returned where
    w: "walk_spec P (take (pv_maxAttempts P) (orderedCandidates K claim its)) req returned st st'"
    and r: "returned \<or> (\<exists>e. r = Inl (InsufficientCapacityError e))"
    using Create_walks [OF assms] by blast
  have l: "length (take (pv_maxAttempts P) (orderedCandidates K claim its)) =
      min (pv_maxAttempts P) (length (orderedCandidates K claim its))" by simp
  show ?thesis
  proof (cases returned)
    case True
    with w obtain errs rest where
      f: "calls st' = calls st @ map2 (\<lambda>c e. CallCreate (candidate_request req c) (Some e))
            (take (pv_maxAttempts P) (orderedCandidates K claim its)) errs @ rest"
      "\<forall>e \<in> set errs. Classify (Some e) = ClassCapacity"
      "length errs < min (pv_maxAttempts P) (length (orderedCandidates K claim its))"
      "\<exists>e more. rest = CallCreate (candidate_request req (take (pv_maxAttempts P) (orderedCandidates K claim its) ! length errs)) e # more
              \<and> (more = [] \<or> more = [CallGetByName (req_Name req)])
              \<and> (case e of None \<Rightarrow> True | Some err \<Rightarrow> Classify (Some err) \<noteq> ClassCapacity)"
      unfolding walk_spec_def l by (simp only: if_True) blast
    moreover have "take (pv_maxAttempts P) (orderedCandidates K claim its) ! length errs = orderedCandidates K claim its ! length errs"
      using f(3) by simp
    ultimately show ?thesis by (intro exI [of _ errs] exI [of _ rest]) simp
  next
    case False
    with w obtain errs rest where
      "calls st' = calls st @ map2 (\<lambda>c e. CallCreate (candidate_request req c) (Some e))
            (take (pv_maxAttempts P) (orderedCandidates K claim its)) errs @ rest"
      "\<forall>e \<in> set errs. Classify (Some e) = ClassCapacity"
      "length errs = min (pv_maxAttempts P) (length (orderedCandidates K claim its))" "rest = []"
      unfolding walk_spec_def l by (simp only: if_False) blast
    with False r show ?thesis by (intro exI [of _ errs] exI [of _ rest]) simp
  qed
qed

text \<open>In the example the cheapest type is out of stock, so the second order goes to the other one.\<close>

definition ex_request :: CreateServerRequest where
  "ex_request = \<lparr> req_Name = ''pool-x1'', req_ServerType = [], req_Location = [], req_ImageID = 7, req_SSHKeyIDs = [],
     req_NetworkIDs = [], req_FirewallIDs = [], req_PlacementGroupID = None, req_UserData = ''data'',
     req_Labels = [(LabelManagedBy, ''prod''), (LabelNodeClaim, ''pool-x1'')], req_PublicIPv4 = True, req_PublicIPv6 = True \<rparr>"

definition ex_start :: "(Server list \<times> api_call list) pstate" where
  "ex_start = initial_pstate ([], []) NewUnavailable"

lemma ex_baseRequest: "baseRequest (ex_provider t) ex_class ex_claim ''data'' = Inr ex_request"
  by (simp add: baseRequest_def Let_def ex_defs ex_request_def PublicIPv4Enabled_def PublicIPv6Enabled_def)

lemma ex_candidates: "map candidate_pair (orderedCandidates list_karpenter ex_claim ex_types) = [(''cx22'', ''nbg1''), (''cx32'', ''fsn1'')]"
  by code_simp

lemma ex_candidates_nonempty: "orderedCandidates list_karpenter ex_claim ex_types \<noteq> []"
  using ex_candidates by auto

lemma ex_attempts: "pv_maxAttempts (ex_provider t) = 8"
  by (simp add: ex_defs DefaultMaxCreateAttempts_def)

theorem Create_falls_through_witness:
  "\<exists>errs rest. calls (snd (Provider_Create list_karpenter (logged_provider (ex_provider ''cx22'')) ex_class ex_claim ex_types ''data'' ex_start))
        = map2 (\<lambda>c e. CallCreate (candidate_request ex_request c) (Some e)) (take 8 (orderedCandidates list_karpenter ex_claim ex_types)) errs @ rest
     \<and> (\<forall>e \<in> set errs. Classify (Some e) = ClassCapacity)"
proof -
  obtain r st' where c: "Provider_Create list_karpenter (logged_provider (ex_provider ''cx22'')) ex_class ex_claim ex_types ''data'' ex_start
      = (r, st')" by (rule prod.exhaust)
  have "calls ex_start = []" by (simp add: ex_start_def initial_pstate_def)
  with Create_falls_through_on_capacity_only [OF c ex_baseRequest ex_candidates_nonempty] c show ?thesis
    unfolding ex_attempts by auto
qed

lemma sorted_before:
  assumes "sorted_wrt (\<lambda>a b. \<not> candidate_lt b a) cs" "k < length cs" "c' \<in> set cs" "f64_less (ca_Price c') (ca_Price (cs ! k))"
  shows "\<exists>j < k. cs ! j = c'"
proof -
  from assms(3) obtain j where j: "j < length cs" "cs ! j = c'" by (auto simp: in_set_conv_nth)
  have "\<not> k < j" using sorted_wrt_nth_less [OF assms(1), of k j] j assms(4) price_not_greater by blast
  moreover have "j \<noteq> k" using j assms(4) f64_less_finite(4) by auto
  ultimately show ?thesis using j by (intro exI [of _ j]) auto
qed

text \<open>A walk that ends with a successful order: where it stands in the list, and what was tried before.\<close>

lemma walk_ordered:
  assumes w: "walk_spec P cs req returned st st'" and c: "calls st' = calls st @ new @ [CallCreate req' None]"
  shows "\<exists>k < length cs. req' = candidate_request req (cs ! k) \<and>
     (\<forall>j < k. \<exists>e. Classify (Some e) = ClassCapacity \<and> CallCreate (candidate_request req (cs ! j)) (Some e) \<in> set new)"
proof -
  obtain errs rest where
    n: "calls st' = calls st @ map2 (\<lambda>c e. CallCreate (candidate_request req c) (Some e)) cs errs @ rest"
    and cap: "\<forall>e \<in> set errs. Classify (Some e) = ClassCapacity"
    and i: "if returned then length errs < length cs \<and>
        (\<exists>e more. rest = CallCreate (candidate_request req (cs ! length errs)) e # more
           \<and> (more = [] \<or> more = [CallGetByName (req_Name req)])
           \<and> (case e of None \<Rightarrow> True | Some err \<Rightarrow> Classify (Some err) \<noteq> ClassCapacity))
      else length errs = length cs \<and> rest = []"
    using w unfolding walk_spec_def by blast
  define tried where "tried = map2 (\<lambda>c e. CallCreate (candidate_request req c) (Some e)) cs errs"
  have eq: "tried @ rest = new @ [CallCreate req' None]" using n c by (simp add: tried_def)
  have "rest \<noteq> []"
  proof
    assume "rest = []"
    with eq have "CallCreate req' None \<in> set tried" by (metis append_Nil2 in_set_conv_decomp)
    then show False by (auto simp: tried_def)
  qed
  with i obtain e more where k: "length errs < length cs"
    and rest: "rest = CallCreate (candidate_request req (cs ! length errs)) e # more"
    and more: "more = [] \<or> more = [CallGetByName (req_Name req)]" by (auto split: if_splits)
  have "last rest = CallCreate req' None" using eq \<open>rest \<noteq> []\<close> by (metis last_appendR last_snoc)
  with rest more have "more = []" by auto
  with eq rest have new: "new = tried" and req': "req' = candidate_request req (cs ! length errs)" by auto
  have "CallCreate (candidate_request req (cs ! j)) (Some (errs ! j)) \<in> set new \<and> Classify (Some (errs ! j)) = ClassCapacity"
    if "j < length errs" for j
  proof -
    have "tried ! j = CallCreate (candidate_request req (cs ! j)) (Some (errs ! j))" "j < length tried"
      using that k by (simp_all add: tried_def)
    then show ?thesis using new cap that by (metis nth_mem)
  qed
  with k req' show ?thesis by blast
qed

text \<open>
  C4. When a create orders a server, every candidate that is strictly cheaper than the one
  that was ordered was tried first and failed for capacity.
\<close>

theorem Create_orders_cheapest_in_stock:
  assumes "Provider_Create K (logged_provider P) ncl claim its ud st = (r, st')"
    and "baseRequest P ncl claim ud = Inr req" and "0 < pv_maxAttempts P"
    and "\<forall>it \<in> set its. \<forall>off \<in> set (it_Offerings it). of_Price off \<noteq> NaN"
    and "calls st' = calls st @ new @ [CallCreate req' None]"
  shows "\<exists>c \<in> set (orderedCandidates K claim its). req' = candidate_request req c \<and>
     (\<forall>c' \<in> set (orderedCandidates K claim its). f64_less (ca_Price c') (ca_Price c) \<longrightarrow>
        (\<exists>e. Classify (Some e) = ClassCapacity \<and> CallCreate (candidate_request req c') (Some e) \<in> set new))"
proof -
  define cs where "cs = orderedCandidates K claim its"
  have "cs \<noteq> []" using Create_walk [OF assms(1)] assms(5) by (auto simp: cs_def)
  then obtain returned where "walk_spec P (take (pv_maxAttempts P) cs) req returned st st'"
    using Create_walks [OF assms(1,2) _ assms(3)] unfolding cs_def by blast
  from walk_ordered [OF this assms(5)] obtain k where k: "k < length cs" "req' = candidate_request req (cs ! k)"
    and before: "\<forall>j < k. \<exists>e. Classify (Some e) = ClassCapacity \<and> CallCreate (candidate_request req (cs ! j)) (Some e) \<in> set new"
    by auto
  have srt: "sorted_wrt (\<lambda>a b. \<not> candidate_lt b a) cs"
    unfolding cs_def using assms(4) by (rule orderedCandidates_sorted_lt)
  have "\<exists>e. Classify (Some e) = ClassCapacity \<and> CallCreate (candidate_request req c') (Some e) \<in> set new"
    if c': "c' \<in> set cs" "f64_less (ca_Price c') (ca_Price (cs ! k))" for c'
    using sorted_before [OF srt k(1) c'] before by auto
  with k show ?thesis unfolding cs_def by (metis nth_mem)
qed

lemma ex_run:
  "calls (snd (Provider_Create list_karpenter (logged_provider (ex_provider ''cx22'')) ex_class ex_claim ex_types ''data'' ex_start))
   = calls ex_start
     @ [CallCreate (ex_request\<lparr>req_ServerType := ''cx22'', req_Location := ''nbg1''\<rparr>) (Some (HcloudError ''resource_unavailable'' [] None))]
     @ [CallCreate (ex_request\<lparr>req_ServerType := ''cx32'', req_Location := ''fsn1''\<rparr>) None]"
  by code_simp

theorem Create_orders_cheapest_witness:
  "\<exists>c \<in> set (orderedCandidates list_karpenter ex_claim ex_types).
     ex_request\<lparr>req_ServerType := ''cx32'', req_Location := ''fsn1''\<rparr> = candidate_request ex_request c \<and>
     (\<forall>c' \<in> set (orderedCandidates list_karpenter ex_claim ex_types). f64_less (ca_Price c') (ca_Price c) \<longrightarrow>
        (\<exists>e. Classify (Some e) = ClassCapacity \<and> CallCreate (candidate_request ex_request c') (Some e)
           \<in> {CallCreate (ex_request\<lparr>req_ServerType := ''cx22'', req_Location := ''nbg1''\<rparr>) (Some (HcloudError ''resource_unavailable'' [] None))}))"
proof -
  obtain r st' where c: "Provider_Create list_karpenter (logged_provider (ex_provider ''cx22'')) ex_class ex_claim ex_types ''data'' ex_start
      = (r, st')" by (rule prod.exhaust)
  have "\<forall>it \<in> set ex_types. \<forall>off \<in> set (it_Offerings it). of_Price off \<noteq> NaN"
    by (simp add: ex_types_def ex_type_def)
  from Create_orders_cheapest_in_stock [OF c ex_baseRequest _ this] ex_run c show ?thesis
    by (simp add: ex_attempts)
qed

section \<open>Suppression\<close>

lemma walk_suppression:
  assumes "walk_spec P cs req returned st st'" and "unavailable_ok (ps_unavailable st)"
  shows "\<exists>k \<le> length cs.
     (\<forall>now ty lo. (ty, lo) \<notin> candidate_pair ` set (take k cs) \<longrightarrow>
        Has now (ps_unavailable st') ty lo = Has now (ps_unavailable st) ty lo) \<and>
     (\<forall>now t ty lo. (\<forall>w. t \<le> pv_now P w) \<longrightarrow> now < t + u_ttl (ps_unavailable st) \<longrightarrow>
        (ty, lo) \<in> candidate_pair ` set (take k cs) \<longrightarrow> Has now (ps_unavailable st') ty lo) \<and>
     (\<exists>errs rest. length errs = k \<and> (\<forall>e \<in> set errs. Classify (Some e) = ClassCapacity) \<and>
        calls st' = calls st @ map2 (\<lambda>c e. CallCreate (candidate_request req c) (Some e)) cs errs @ rest)"
proof -
  obtain errs marks rest where k: "length errs \<le> length cs"
    and cap: "\<forall>e \<in> set errs. Classify (Some e) = ClassCapacity"
    and n: "calls st' = calls st @ map2 (\<lambda>c e. CallCreate (candidate_request req c) (Some e)) cs errs @ rest"
    and p: "map (\<lambda>(t0, ty, lo, code). (ty, lo)) marks = map candidate_pair (take (length errs) cs)"
    and t: "\<forall>m \<in> set marks. fst m \<in> range (pv_now P)"
    and u: "ps_unavailable st' = unav.marks (ps_unavailable st) marks"
    using assms(1) unfolding walk_spec_def by blast
  have pairs: "candidate_pair ` set (take (length errs) cs) = (\<lambda>(t0, ty, lo, code). (ty, lo)) ` set marks"
    using p by (metis list.set_map)
  have "Has now (ps_unavailable st') ty lo = Has now (ps_unavailable st) ty lo"
    if "(ty, lo) \<notin> candidate_pair ` set (take (length errs) cs)" for now ty lo
    unfolding u using that assms(2) unfolding pairs by (intro unav.has_marks_other) force+
  moreover have "Has now (ps_unavailable st') ty lo"
    if "\<forall>w. t \<le> pv_now P w" "now < t + u_ttl (ps_unavailable st)" "(ty, lo) \<in> candidate_pair ` set (take (length errs) cs)"
    for now t ty lo
    unfolding u
  proof (rule unav.has_marks_recent [OF assms(2)])
    show "\<exists>(t0, ty', lo', c) \<in> set marks. (ty', lo') = (ty, lo)" using that(3) unfolding pairs by force
    show "\<forall>(t0, ty', lo', c) \<in> set marks. now < t0 + u_ttl (ps_unavailable st)"
    proof
      fix m
      assume "m \<in> set marks"
      with t that(1) have "t \<le> fst m" by auto
      with that(2) show "case m of (t0, ty', lo', c) \<Rightarrow> now < t0 + u_ttl (ps_unavailable st)" by (auto split: prod.splits)
    qed
  qed
  ultimately show ?thesis using k cap n by blast
qed



section \<open>Adoption\<close>

lemma adopt_owned:
  "adopt P name claim w = (Inr srv, w') \<Longrightarrow>
     IsManagedBy (Some srv) (pv_clusterName P) \<and> mget (srv_Labels srv) LabelNodeClaim = cl_Name claim"
  by (auto simp: adopt_def split: sum.splits option.splits prod.splits if_splits)

lemma findInstanceType_name: "findInstanceType its name = Some it \<Longrightarrow> it_Name it = name \<and> it \<in> set its"
  by (induction its) (auto split: if_splits)

text \<open>What one attempt returns when it returns a server: the one it ordered, or one it adopted.\<close>

lemma attempt_result:
  assumes "attempt P claim its req c st = (Done (Inr (srv, ty)), st')"
  shows "(\<exists>w w'. Servers_Create (pv_servers P) (candidate_request req c) w = (Inr srv, w')) \<and> ty = Some (ca_InstanceType c) \<or>
    IsManagedBy (Some srv) (pv_clusterName P) \<and> mget (srv_Labels srv) LabelNodeClaim = cl_Name claim
      \<and> ty = findInstanceType its (srv_ServerType srv)"
proof (cases "Servers_Create (pv_servers P) (candidate_request req c) (ps_world st)")
  case (Pair cr w1)
  show ?thesis
  proof (cases cr)
    case (Inr s)
    with assms attempt_created [OF Pair [unfolded Inr], of claim its] show ?thesis using Pair by auto
  next
    case (Inl err)
    note f = Pair [unfolded Inl]
    have "Code (Some err) = Some CodeUniqueness"
    proof (rule ccontr)
      assume n: "Code (Some err) \<noteq> Some CodeUniqueness"
      show False
        using assms attempt_capacity [OF f, of claim its] attempt_refused [OF f _ n, of claim its] by fastforce
    qed
    note d = attempt_duplicate [OF f this, of claim its]
    obtain ar w2 where a: "adopt P (req_Name req) claim w1 = (ar, w2)" by (rule prod.exhaust)
    show ?thesis
    proof (cases ar)
      case (Inl x)
      with d assms show ?thesis unfolding a by auto
    next
      case (Inr s)
      with d assms have "srv = s" "ty = findInstanceType its (srv_ServerType s)" unfolding a by auto
      with adopt_owned [OF a [unfolded Inr]] show ?thesis by simp
    qed
  qed
qed

lemma create_loop_result:
  "create_loop P claim its req cs l st = (Inl (Inr (srv, ty)), st') \<Longrightarrow>
   (\<exists>c \<in> set cs. (\<exists>w w'. Servers_Create (pv_servers P) (candidate_request req c) w = (Inr srv, w')) \<and> ty = Some (ca_InstanceType c)) \<or>
    IsManagedBy (Some srv) (pv_clusterName P) \<and> mget (srv_Labels srv) LabelNodeClaim = cl_Name claim
      \<and> ty = findInstanceType its (srv_ServerType srv)"
proof (induction cs arbitrary: l st)
  case (Cons c cs)
  obtain a st1 where a: "attempt P claim its req c st = (a, st1)" by (rule prod.exhaust)
  show ?case
  proof (cases a)
    case (Done res)
    with a Cons.prems have "attempt P claim its req c st = (Done (Inr (srv, ty)), st')" by simp
    from attempt_result [OF this] show ?thesis by auto
  next
    case (Continue err)
    with a Cons.prems Cons.IH show ?thesis by fastforce
  qed
qed simp

text \<open>
  C18. A server that a create returns was either ordered by this create, and then comes with the
  instance type of its candidate, or it was adopted after a duplicate name: then it carries
  this cluster's label and this NodeClaim's name, and the instance type reported is the one of
  the server itself, or none when the catalog does not have it.
\<close>

theorem Create_returns_own_server:
  assumes "Provider_Create K P ncl claim its ud st = (Inr (srv, ty), st')"
  shows "(\<exists>c req w w'. baseRequest P ncl claim ud = Inr req \<and> c \<in> set (orderedCandidates K claim its)
            \<and> Servers_Create (pv_servers P) (candidate_request req c) w = (Inr srv, w') \<and> ty = Some (ca_InstanceType c))
     \<or> IsManagedBy (Some srv) (pv_clusterName P) \<and> mget (srv_Labels srv) LabelNodeClaim = cl_Name claim
         \<and> (case ty of None \<Rightarrow> findInstanceType its (srv_ServerType srv) = None
             | Some it \<Rightarrow> it \<in> set its \<and> it_Name it = srv_ServerType srv)"
proof -
  from assms obtain req where req: "baseRequest P ncl claim ud = Inr req"
    by (cases "baseRequest P ncl claim ud") (auto simp: Provider_Create_def Let_def split: if_splits)
  obtain lr st1 where l: "create_loop P claim its req (take (min (length (orderedCandidates K claim its)) (pv_maxAttempts P))
      (orderedCandidates K claim its)) None st = (lr, st1)" by (rule prod.exhaust)
  with assms req have "lr = Inl (Inr (srv, ty))"
    by (auto simp: Provider_Create_def Let_def split: if_splits sum.splits option.splits)
  from create_loop_result [OF l [unfolded this]] req findInstanceType_name show ?thesis
    by (auto split: option.splits dest!: in_set_takeD) blast+
qed

definition ex_created :: Server where
  "ex_created = (ex_server 1 ''pool-x1'' [(LabelManagedBy, ''prod''), (LabelNodeClaim, ''pool-x1'')])
     \<lparr>srv_ServerType := ''cx22'', srv_Location := ''nbg1''\<rparr>"

lemma ex_create: "fst (Provider_Create list_karpenter (ex_provider ''none'') ex_class ex_claim ex_types ''data'' (initial_pstate [] NewUnavailable))
   = Inr (ex_created, Some (ex_type ''cx22'' ''nbg1'' 1))"
  by code_simp

theorem Create_returns_own_server_witness:
  "(\<exists>c req w w'. baseRequest (ex_provider ''none'') ex_class ex_claim ''data'' = Inr req
      \<and> c \<in> set (orderedCandidates list_karpenter ex_claim ex_types)
      \<and> Servers_Create (ex_hetzner ''none'') (candidate_request req c) w = (Inr ex_created, w')
      \<and> Some (ex_type ''cx22'' ''nbg1'' 1) = Some (ca_InstanceType c))
   \<or> IsManagedBy (Some ex_created) ''prod'' \<and> mget (srv_Labels ex_created) LabelNodeClaim = ''pool-x1''"
proof -
  obtain st' where "Provider_Create list_karpenter (ex_provider ''none'') ex_class ex_claim ex_types ''data'' (initial_pstate [] NewUnavailable)
      = (Inr (ex_created, Some (ex_type ''cx22'' ''nbg1'' 1)), st')"
    using ex_create by (metis prod.collapse)
  from Create_returns_own_server [OF this] show ?thesis
    by (auto simp: ex_provider_def NewProvider_def ex_claim_def)
qed

section \<open>Reading and deleting\<close>

lemma List_owned:
  assumes "Provider_List P st = (Inr srvs, st')"
  shows "pv_clusterName P \<noteq> [] \<and> (\<forall>s \<in> set srvs. IsManagedBy (Some s) (pv_clusterName P))"
  using assms by (auto simp: Provider_List_def split: if_splits sum.splits prod.splits)

lemma Get_owned:
  assumes "Provider_Get P pid st = (Inr (Some s), st')"
  shows "pv_clusterName P \<noteq> [] \<and> IsManagedBy (Some s) (pv_clusterName P)"
  using assms
  by (auto simp: Provider_Get_def owned_or_nil_def split: if_splits sum.splits prod.splits option.splits)

lemma cache_list_fresh_or_live:
  assumes "cache_list P sel st = (r, st')"
  shows "cache_fresh P st = None \<and> r = fst (Servers_List (pv_servers P) sel (ps_world st))
         \<and> ps_world st' = snd (Servers_List (pv_servers P) sel (ps_world st))
      \<or> (\<exists>srvs. cache_fresh P st = Some srvs \<and> r = Inr srvs \<and> st' = st)"
  using assms by (auto simp: cache_list_def split: option.splits sum.splits prod.splits)

text \<open>
  C20. A point read answers nil only on live evidence: when it returns no server, either the
  listing it used holds a server of that id without this cluster's label, or the listing
  does not hold the id and a read of that very id, made after it, found nothing or found a
  server of someone else. Absence from a listing alone never makes a server gone.
\<close>

theorem Get_nil_needs_evidence:
  assumes "Provider_Get P pid st = (Inr None, st')"
  shows "\<exists>i servers st1. ServerIDFromProviderID pid = Inr i
      \<and> cache_list P (ManagedBySelector (pv_clusterName P)) st = (Inr servers, st1)
      \<and> (case find (\<lambda>s. srv_ID s = i) servers of
           Some s \<Rightarrow> \<not> IsManagedBy (Some s) (pv_clusterName P)
         | None \<Rightarrow> (\<exists>srv w2. Servers_Get (pv_servers P) i (ps_world st1) = (Inr srv, w2) \<and> \<not> IsManagedBy srv (pv_clusterName P)))"
  using assms
  by (auto simp: Provider_Get_def owned_or_nil_def split: if_splits sum.splits prod.splits option.splits)

theorem Get_nil_needs_evidence_witness:
  "\<exists>i servers st1. ServerIDFromProviderID ''hcloud://5'' = Inr i
      \<and> cache_list (ex_provider ''none'') (ManagedBySelector ''prod'') (initial_pstate [ex_server 5 ''cp-1'' []] NewUnavailable) = (Inr servers, st1)
      \<and> (case find (\<lambda>s. srv_ID s = i) servers of
           Some s \<Rightarrow> \<not> IsManagedBy (Some s) ''prod''
         | None \<Rightarrow> (\<exists>srv w2. Servers_Get (ex_hetzner ''none'') i (ps_world st1) = (Inr srv, w2) \<and> \<not> IsManagedBy srv ''prod''))"
proof -
  have "fst (Provider_Get (ex_provider ''none'') ''hcloud://5'' (initial_pstate [ex_server 5 ''cp-1'' []] NewUnavailable)) = Inr None"
    by code_simp
  then obtain st' where
    "Provider_Get (ex_provider ''none'') ''hcloud://5'' (initial_pstate [ex_server 5 ''cp-1'' []] NewUnavailable) = (Inr None, st')"
    by (metis prod.collapse)
  from Get_nil_needs_evidence [OF this] show ?thesis unfolding ex_provider_simps .
qed

end
