(* ===== verification/Catalog_Provider.thy ===== *)
theory Catalog_Provider
  imports Hcloud_Catalog Metrics "HOL-Library.Word"
begin

text \<open>
  The catalog provider (\<^verbatim>\<open>src/internal/providers/catalog/catalog.go\<close>): the last good snapshot of
  the server types, refreshed on a timer. The atomics of the struct are the fields of
  \<open>catalog_state\<close>; the channel \<^verbatim>\<open>refreshed\<close> has one slot, so it is a flag. One goroutine refreshes.
\<close>

section \<open>State and operations\<close>

definition DefaultRefreshInterval :: duration where "DefaultRefreshInterval = 10 * minute"
definition DefaultJitter :: duration where "DefaultJitter = 60 * second"

record Snapshot =
  sn_Generation :: "64 word"
  sn_ServerTypes :: "ServerType list"
  sn_PrimaryIPv4Monthly :: f64
  sn_FetchedAt :: gotime

record catalog_state =
  cs_generation :: "64 word"
  cs_snapshot :: "Snapshot option"
  cs_stale :: bool
  cs_refreshed :: bool

record 'w catalog_config =
  cc_client :: "'w catalog_api"
  cc_interval :: duration
  cc_jitter :: duration
  cc_now :: "'w \<Rightarrow> gotime"

text \<open>\<^verbatim>\<open>NewProvider\<close> and its options, which are applied in their order.\<close>

type_synonym 'w catalog_option = "'w catalog_config \<Rightarrow> 'w catalog_config"

definition WithInterval :: "duration \<Rightarrow> 'w catalog_option" where "WithInterval d P = P\<lparr>cc_interval := d\<rparr>"
definition WithJitter :: "duration \<Rightarrow> 'w catalog_option" where "WithJitter d P = P\<lparr>cc_jitter := d\<rparr>"
definition WithClock :: "('w \<Rightarrow> gotime) \<Rightarrow> 'w catalog_option" where "WithClock now P = P\<lparr>cc_now := now\<rparr>"

definition NewCatalogProvider ::
    "'w catalog_api \<Rightarrow> ('w \<Rightarrow> gotime) \<Rightarrow> 'w catalog_option list \<Rightarrow> 'w catalog_config \<times> catalog_state" where
  "NewCatalogProvider client clk opts =
     (foldl (\<lambda>p opt. opt p)
        \<lparr> cc_client = client, cc_interval = DefaultRefreshInterval, cc_jitter = DefaultJitter, cc_now = clk \<rparr> opts,
      \<lparr> cs_generation = 0, cs_snapshot = None, cs_stale = False, cs_refreshed = False \<rparr>)"

definition Catalog_Get :: "catalog_state \<Rightarrow> Snapshot option" where
  "Catalog_Get cs = cs_snapshot cs"

definition Catalog_Stale :: "catalog_state \<Rightarrow> bool" where
  "Catalog_Stale cs = cs_stale cs"

definition boolToFloat :: "bool \<Rightarrow> int" where
  "boolToFloat b = (if b then 1 else 0)"

definition availability_flags :: "ServerType list \<Rightarrow> metric list" where
  "availability_flags sts = concat (map (\<lambda>st. map (\<lambda>l.
      OfferingAvailabilityFlag (ty_Name st) (stl_Location l) (boolToFloat (stl_Available l))) (ty_Locations st)) sts)"

definition Refresh ::
    "'w catalog_config \<Rightarrow> catalog_state \<times> metric list \<times> 'w \<Rightarrow> go_error option \<times> catalog_state \<times> metric list \<times> 'w" where
  "Refresh P s = (case s of (cs, ms, w) \<Rightarrow>
     (case Catalog_ServerTypes (cc_client P) w of
        (Inl err, w1) \<Rightarrow>
          (Some (WrapError ''refreshing server types: '' err), cs\<lparr>cs_stale := True\<rparr>, ms @ [CatalogStale 1], w1)
      | (Inr serverTypes, w1) \<Rightarrow>
         (case Catalog_PrimaryIPv4MonthlyNet (cc_client P) w1 of (ip, w2) \<Rightarrow>
           (let primaryIPv4 = (case ip of Inl _ \<Rightarrow> Fin 0 | Inr v \<Rightarrow> v);
                gen = cs_generation cs + 1 in
            (None,
             cs\<lparr>cs_generation := gen,
                cs_snapshot := Some \<lparr> sn_Generation = gen, sn_ServerTypes = serverTypes,
                   sn_PrimaryIPv4Monthly = primaryIPv4, sn_FetchedAt = cc_now P w2 \<rparr>,
                cs_stale := False, cs_refreshed := True\<rparr>,
             ms @ [CatalogStale 0, CatalogLastSuccess, OfferingAvailabilityFlag_Reset] @ availability_flags serverTypes,
             w2)))))"

text \<open>The reader of the channel takes the signal.\<close>

definition take_refreshed :: "catalog_state \<Rightarrow> bool \<times> catalog_state" where
  "take_refreshed cs = (cs_refreshed cs, cs\<lparr>cs_refreshed := False\<rparr>)"

text \<open>\<^verbatim>\<open>nextInterval\<close>; \<open>r\<close> is what the random source draws from \<open>{0..<jitter}\<close>.\<close>

definition nextInterval :: "'w catalog_config \<Rightarrow> (duration \<Rightarrow> duration) \<Rightarrow> duration" where
  "nextInterval P r = (if cc_jitter P \<le> 0 then cc_interval P else cc_interval P + r (cc_jitter P))"

text \<open>
  \<^verbatim>\<open>Start\<close> up to the cancellation of its context after \<open>ticks\<close> timer ticks: an error at once
  when the first refresh is fatal, otherwise the loop, which ignores errors.
\<close>

fun refresh_ticks :: "'w catalog_config \<Rightarrow> nat \<Rightarrow> catalog_state \<times> metric list \<times> 'w \<Rightarrow> catalog_state \<times> metric list \<times> 'w" where
  "refresh_ticks P 0 s = s"
| "refresh_ticks P (Suc n) s = refresh_ticks P n (snd (Refresh P s))"

definition Catalog_Start ::
    "'w catalog_config \<Rightarrow> nat \<Rightarrow> catalog_state \<times> metric list \<times> 'w \<Rightarrow> go_error option \<times> catalog_state \<times> metric list \<times> 'w" where
  "Catalog_Start P ticks s = (case Refresh P s of (e, s1) \<Rightarrow>
     (case e of
        Some err \<Rightarrow> if Classify (Some err) = ClassFatal then (Some err, s1)
                    else (Some (TextError ''context canceled''), refresh_ticks P ticks s1)
      | None \<Rightarrow> (Some (TextError ''context canceled''), refresh_ticks P ticks s1)))"

text \<open>
  \<^verbatim>\<open>staleFor\<close>, for the log line of a failed refresh: the age cut to whole seconds, as \<^verbatim>\<open>Duration.String\<close> writes it.
\<close>

definition seconds_String :: "int \<Rightarrow> string" where
  "seconds_String n = (let u = \<bar>n\<bar> in
     (if n < 0 then ''-'' else []) @ (if 3600 \<le> u then format_int (u div 3600) @ ''h'' else [])
       @ (if 60 \<le> u then format_int (u div 60 mod 60) @ ''m'' else []) @ format_int (u mod 60) @ ''s'')"

definition staleFor :: "'w catalog_config \<Rightarrow> catalog_state \<Rightarrow> 'w \<Rightarrow> string" where
  "staleFor P cs w = (case cs_snapshot cs of
       None \<Rightarrow> ''never fetched''
     | Some s \<Rightarrow> (let d = time_sub (cc_now P w) (sn_FetchedAt s) in seconds_String (sgn d * (\<bar>d\<bar> div second))))"

section \<open>Invariant\<close>

text \<open>The served snapshot carries the number of successful refreshes; without one there is none.\<close>

definition catalog_ok :: "catalog_state \<Rightarrow> bool" where
  "catalog_ok cs \<longleftrightarrow> (case cs_snapshot cs of None \<Rightarrow> cs_generation cs = 0 | Some sn \<Rightarrow> sn_Generation sn = cs_generation cs)"

lemma NewCatalogProvider_ok: "catalog_ok (snd (NewCatalogProvider c k opts))"
  by (simp add: catalog_ok_def NewCatalogProvider_def)

lemma Refresh_ok: "catalog_ok (fst s) \<Longrightarrow> catalog_ok (fst (snd (Refresh P s)))"
  by (auto simp: Refresh_def catalog_ok_def Let_def split: prod.splits sum.splits option.splits)

lemma Refresh_failed:
  assumes "Refresh P (cs, ms, w) = (Some err, cs', ms', w')"
  shows "cs' = cs\<lparr>cs_stale := True\<rparr>"
  using assms by (auto simp: Refresh_def Let_def split: prod.splits sum.splits)

lemma Refresh_succeeded:
  assumes "Refresh P (cs, ms, w) = (None, cs', ms', w')"
  shows "\<exists>sn. cs_snapshot cs' = Some sn \<and> sn_Generation sn = cs_generation cs + 1 \<and> cs_generation cs' = cs_generation cs + 1
    \<and> \<not> cs_stale cs' \<and> cs_refreshed cs'
    \<and> fst (Catalog_ServerTypes (cc_client P) w) = Inr (sn_ServerTypes sn)
    \<and> ms' = ms @ [CatalogStale 0, CatalogLastSuccess, OfferingAvailabilityFlag_Reset] @ availability_flags (sn_ServerTypes sn)"
  using assms by (auto simp: Refresh_def Let_def split: prod.splits sum.splits)

lemma Refresh_keeps_snapshot:
  "cs_snapshot (fst s) \<noteq> None \<Longrightarrow> cs_snapshot (fst (snd (Refresh P s))) \<noteq> None"
  by (auto simp: Refresh_def Let_def split: prod.splits sum.splits)

lemma refresh_ticks_keeps: "cs_snapshot (fst s) \<noteq> None \<Longrightarrow> cs_snapshot (fst (refresh_ticks P n s)) \<noteq> None"
proof (induction P n s rule: refresh_ticks.induct)
  case (2 P n s)
  then show ?case using Refresh_keeps_snapshot [of s P] by simp
qed simp

lemma refresh_ticks_ok: "catalog_ok (fst s) \<Longrightarrow> catalog_ok (fst (refresh_ticks P n s))"
  by (induction P n s rule: refresh_ticks.induct) (auto intro: Refresh_ok)

section \<open>Properties\<close>

text \<open>
  A refresh that fails changes nothing but the stale mark: the previous snapshot is
  served on. One that succeeds replaces the snapshot by what Hetzner listed, under the next
  generation, clears the mark and leaves a wake-up for the waiting controllers. The missing
  price of an address does not fail it.
\<close>

theorem Refresh_exact:
  "case Refresh P (cs, ms, w) of (e, cs', ms', w') \<Rightarrow>
     (case e of
        Some err \<Rightarrow> cs' = cs\<lparr>cs_stale := True\<rparr> \<and> isl (fst (Catalog_ServerTypes (cc_client P) w))
      | None \<Rightarrow> (\<exists>sn. cs_snapshot cs' = Some sn \<and> fst (Catalog_ServerTypes (cc_client P) w) = Inr (sn_ServerTypes sn)
          \<and> sn_Generation sn = cs_generation cs + 1 \<and> cs_generation cs' = cs_generation cs + 1
          \<and> \<not> Catalog_Stale cs' \<and> fst (take_refreshed cs')))"
  by (auto simp: Refresh_def Catalog_Stale_def take_refreshed_def Let_def split: prod.splits sum.splits)


text \<open>The time to the next refresh, for every draw of the random source.\<close>

lemma nextInterval_bounds:
  assumes "\<forall>n. 0 < n \<longrightarrow> 0 \<le> r n \<and> r n < n"
  shows "cc_interval P \<le> nextInterval P r \<and> nextInterval P r < cc_interval P + max 1 (cc_jitter P)"
  using assms by (auto simp: nextInterval_def)

end
