(* ===== verification/Cloud_Provider.thy ===== *)
theory Cloud_Provider
  imports Instance_Props Catalog_Provider
begin

text \<open>
  karpenter's CloudProvider (\<^verbatim>\<open>src/internal/cloudprovider/cloudprovider.go\<close>). It composes the
  instance provider, the catalog and the instance types. What it needs of Kubernetes, of
  operatorpkg's conditions and of the bootstrapper are the fields of the record \<open>cloud\<close>.
\<close>

section \<open>Environment\<close>

record ('w, 'c, 'q) cloud =
  cp_GetNodeClass :: "string \<Rightarrow> 'w \<Rightarrow> (go_error + 'c HCloudNodeClass) \<times> 'w"
  cp_RootIsTrue :: "'c HCloudNodeClass \<Rightarrow> bool"
  cp_RootMessage :: "'c HCloudNodeClass \<Rightarrow> string"
  cp_catalog :: "'w \<Rightarrow> Snapshot option"
  cp_Render :: "'c HCloudNodeClass \<Rightarrow> 'q NodeClaim \<Rightarrow> 'w \<Rightarrow> (go_error + string) \<times> 'w"
  cp_hashstructure :: "hashed_spec \<Rightarrow> nat"
  cp_zeroNodeClaim :: "'q NodeClaim"

text \<open>The operations that only read the world, on the provider's state.\<close>

definition on_world :: "('w \<Rightarrow> 'a \<times> 'w) \<Rightarrow> 'w pstate \<Rightarrow> 'a \<times> 'w pstate" where
  "on_world f st = (case f (ps_world st) of (r, w) \<Rightarrow> (r, st\<lparr>ps_world := w\<rparr>))"

section \<open>Repair policies\<close>

datatype repair_action = ReplaceNode | RebootNode

record RepairPolicy =
  rp_ConditionType :: string
  rp_ConditionStatus :: string
  rp_ReasonRegex :: string
  rp_TolerationDuration :: duration
  rp_TerminationGracePeriod :: "duration option"
  rp_Action :: repair_action

definition RepairPolicies :: "RepairPolicy list" where
  "RepairPolicies =
     [\<lparr> rp_ConditionType = ''Ready'', rp_ConditionStatus = ''False'', rp_ReasonRegex = [],
        rp_TolerationDuration = 30 * minute, rp_TerminationGracePeriod = Some 0, rp_Action = ReplaceNode \<rparr>,
      \<lparr> rp_ConditionType = ''Ready'', rp_ConditionStatus = ''Unknown'', rp_ReasonRegex = ''.*'',
        rp_TolerationDuration = 10 * minute, rp_TerminationGracePeriod = Some 0, rp_Action = RebootNode \<rparr>,
      \<lparr> rp_ConditionType = ''Ready'', rp_ConditionStatus = ''Unknown'', rp_ReasonRegex = ''.*'',
        rp_TolerationDuration = 30 * minute, rp_TerminationGracePeriod = Some 0, rp_Action = ReplaceNode \<rparr>]"

section \<open>NodeClasses\<close>

definition resolveNodeClass ::
    "('w, 'c, 'q) cloud \<Rightarrow> 'q NodeClaim \<Rightarrow> 'w \<Rightarrow> (go_error + 'c HCloudNodeClass) \<times> 'w" where
  "resolveNodeClass C nodeClaim w = (case cl_NodeClassRef nodeClaim of
       None \<Rightarrow> (Inl (NodeClassNotReadyError (TextError (''nodeclaim '' @ go_quote (cl_Name nodeClaim) @ '' has no nodeClassRef''))), w)
     | Some ref \<Rightarrow> (case cp_GetNodeClass C (ref_Name ref) w of
          (Inl err, w1) \<Rightarrow>
            (Inl (NodeClassNotReadyError (WrapError (''getting nodeclass '' @ go_quote (ref_Name ref) @ '', '') err)), w1)
        | (Inr nodeClass, w1) \<Rightarrow>
            if nc_DeletionTimestamp nodeClass \<noteq> zero_time
            then (Inl (NodeClassNotReadyError (TextError (''nodeclass '' @ go_quote (ref_Name ref) @ '' is terminating''))), w1)
            else if \<not> cp_RootIsTrue C nodeClass
            then (Inl (NodeClassNotReadyError (TextError (''nodeclass '' @ go_quote (ref_Name ref) @ '' is not ready: ''
                     @ cp_RootMessage C nodeClass))), w1)
            else (Inr nodeClass, w1)))"

text \<open>The nodeClassRef of a NodePool's template; \<open>None\<close> when the pool or the reference is nil.\<close>

definition nodeClassForNodePool ::
    "('w, 'c, 'q) cloud \<Rightarrow> NodeClassReference option \<Rightarrow> 'w \<Rightarrow> (go_error + 'c HCloudNodeClass) \<times> 'w" where
  "nodeClassForNodePool C poolRef w = (case poolRef of
       None \<Rightarrow> (Inl (TextError ''nodepool has no nodeClassRef''), w)
     | Some ref \<Rightarrow> (case cp_GetNodeClass C (ref_Name ref) w of
          (Inl err, w1) \<Rightarrow> (Inl (WrapError (''getting nodeclass '' @ go_quote (ref_Name ref) @ '', '') err), w1)
        | (Inr nodeClass, w1) \<Rightarrow> (Inr nodeClass, w1)))"

definition nodeClassKey :: "'q NodeClaim \<Rightarrow> string" where
  "nodeClassKey nodeClaim = (case cl_NodeClassRef nodeClaim of None \<Rightarrow> [] | Some ref \<Rightarrow> ref_Name ref)"

section \<open>Instance types\<close>

definition instanceTypes ::
    "('r, 'q) karpenter \<Rightarrow> ('w, 'c, 'q) cloud \<Rightarrow> 'w provider \<Rightarrow> 'c HCloudNodeClass \<Rightarrow> 'w pstate \<Rightarrow>
     go_error + 'r InstanceType list" where
  "instanceTypes K C P nodeClass st = (case cp_catalog C (ps_world st) of
       None \<Rightarrow> Inl (TextError ''the Hetzner server type catalog has not been fetched yet'')
     | Some snapshot \<Rightarrow> Inr (Build K (pv_now P (ps_world st)) (sn_ServerTypes snapshot) nodeClass
          (sn_PrimaryIPv4Monthly snapshot) (ps_unavailable st) zero_Options))"

definition GetInstanceTypes ::
    "('r, 'q) karpenter \<Rightarrow> ('w, 'c, 'q) cloud \<Rightarrow> 'w provider \<Rightarrow> NodeClassReference option \<Rightarrow> 'w pstate \<Rightarrow>
     (go_error + 'r InstanceType list) \<times> 'w pstate" where
  "GetInstanceTypes K C P poolRef st = (case on_world (nodeClassForNodePool C poolRef) st of
       (Inl err, st1) \<Rightarrow> (Inl err, st1)
     | (Inr nodeClass, st1) \<Rightarrow> (instanceTypes K C P nodeClass st1, st1))"

text \<open>The loop over the snapshot: the first server type of that name.\<close>

definition capacityFor :: "('r, 'q) karpenter \<Rightarrow> Snapshot option \<Rightarrow> string \<Rightarrow> resource_list option" where
  "capacityFor K snapshot serverType = (case snapshot of None \<Rightarrow> None
     | Some sn \<Rightarrow> map_option (\<lambda>st. Capacity K (ty_Cores st) (ty_MemoryGiB st) (ty_DiskGB st) DefaultMaxPods
          DefaultVMMemoryOverheadPercent DefaultVMDiskOverheadPercent)
          (find (\<lambda>st. ty_Name st = serverType) (sn_ServerTypes sn)))"

section \<open>NodeClaims of servers\<close>

text \<open>The requirements of the type that are pinned to one value, as labels.\<close>

definition pinned_labels :: "('r, 'q) karpenter \<Rightarrow> 'r \<Rightarrow> strmap" where
  "pinned_labels K r = List.map_filter (\<lambda>k. if k_Len K r k = 1 then (case k_Values K r k of v # _ \<Rightarrow> Some (k, v) | [] \<Rightarrow> None) else None)
     (k_Keys K r)"

definition toNodeClaim ::
    "('r, 'q) karpenter \<Rightarrow> ('w, 'c, 'q) cloud \<Rightarrow> Server \<Rightarrow> 'r InstanceType option \<Rightarrow> 'q NodeClaim \<Rightarrow>
     'c HCloudNodeClass option \<Rightarrow> 'q NodeClaim" where
  "toNodeClaim K C srv it claim nodeClass =
     (let out1 = (case nodeClass of None \<Rightarrow> claim
            | Some ncl \<Rightarrow> claim\<lparr>cl_Annotations := massign (cl_Annotations claim)
                 [(AnnotationHash, Hash (cp_hashstructure C) ncl), (AnnotationHashVersion, HashVersion)]\<rparr>);
          out2 = (case it of None \<Rightarrow> out1
            | Some ity \<Rightarrow> out1\<lparr>cl_Labels := massign (cl_Labels out1) (pinned_labels K (it_Requirements ity)),
                 cl_Capacity := it_Capacity ity, cl_Allocatable := k_Allocatable K ity\<rparr>);
          labels = mput LabelTopologyZone (LegacyDatacenterForLocation (srv_Location srv))
                    (mput CapacityTypeLabelKey CapacityTypeOnDemand
                    (mput LabelCSILocation (srv_Location srv)
                    (mput LabelTopologyRegion (srv_Location srv)
                    (mput LabelInstanceTypeStable (srv_ServerType srv) (cl_Labels out2)))))
      in out2\<lparr>cl_Labels := labels, cl_ProviderID := ProviderID srv, cl_CreationTimestamp := srv_Created srv\<rparr>)"

definition toNodeClaimFromServer ::
    "('r, 'q) karpenter \<Rightarrow> ('w, 'c, 'q) cloud \<Rightarrow> 'w \<Rightarrow> Server \<Rightarrow> 'q NodeClaim" where
  "toNodeClaimFromServer K C w srv =
     (let labels0 = [(LabelInstanceTypeStable, srv_ServerType srv), (LabelTopologyRegion, srv_Location srv),
            (LabelTopologyZone, LegacyDatacenterForLocation (srv_Location srv)), (LabelCSILocation, srv_Location srv),
            (CapacityTypeLabelKey, CapacityTypeOnDemand)];
          pool = mget (srv_Labels srv) LabelNodePool;
          labels = (if pool \<noteq> [] then mput NodePoolLabelKey pool labels0 else labels0);
          nc = (cp_zeroNodeClaim C)\<lparr>cl_Name := srv_Name srv, cl_CreationTimestamp := srv_Created srv,
                 cl_Labels := labels, cl_ProviderID := ProviderID srv\<rparr>
      in (case capacityFor K (cp_catalog C w) (srv_ServerType srv) of
            None \<Rightarrow> nc | Some capacity \<Rightarrow> nc\<lparr>cl_Capacity := capacity\<rparr>))"

section \<open>Operations\<close>

definition CP_Create ::
    "('r, 'q) karpenter \<Rightarrow> ('w, 'c, 'q) cloud \<Rightarrow> 'w provider \<Rightarrow> 'q NodeClaim \<Rightarrow> 'w pstate \<Rightarrow>
     (go_error + 'q NodeClaim) \<times> 'w pstate" where
  "CP_Create K C P nodeClaim st = (case on_world (resolveNodeClass C nodeClaim) st of
       (Inl err, st1) \<Rightarrow> (Inl err, st1)
     | (Inr nodeClass, st1) \<Rightarrow> (case instanceTypes K C P nodeClass st1 of
          Inl err \<Rightarrow> (Inl err, st1)
        | Inr its \<Rightarrow>
            if \<not> HasCandidates K nodeClaim its
            then (Inl (InsufficientCapacityError (TextError
                   (''no instance type in this NodeClaim's requirements is offered in any location nodeclass ''
                    @ go_quote (nc_Name nodeClass) @ '' allows''))), st1)
            else (case on_world (cp_Render C nodeClass nodeClaim) st1 of
                (Inl err, st2) \<Rightarrow> (Inl (CreateError err ''BootstrapRenderFailed'' (pv_etext P err)), st2)
              | (Inr userData, st2) \<Rightarrow> (case Provider_Create K P nodeClass nodeClaim its userData st2 of
                   (Inl err, st3) \<Rightarrow> (Inl err, st3)
                 | (Inr (srv, it), st3) \<Rightarrow> (Inr (toNodeClaim K C srv it nodeClaim (Some nodeClass)), st3)))))"

definition CP_Delete :: "'w provider \<Rightarrow> 'q NodeClaim \<Rightarrow> 'w pstate \<Rightarrow> go_error option \<times> 'w pstate" where
  "CP_Delete P nodeClaim st =
     (if cl_ProviderID nodeClaim = [] then
        (Some (NodeClaimNotFoundError (TextError (''nodeclaim '' @ go_quote (cl_Name nodeClaim) @ '' has no providerID''))), st)
      else (case Provider_Delete P (cl_ProviderID nodeClaim) st of
          (None, st1) \<Rightarrow> (None, st1)
        | (Some err, st1) \<Rightarrow> if IsNotFound (Some err) then (Some (NodeClaimNotFoundError err), st1) else (Some err, st1)))"

definition CP_Reboot :: "'w provider \<Rightarrow> 'q NodeClaim \<Rightarrow> 'w pstate \<Rightarrow> go_error option \<times> 'w pstate" where
  "CP_Reboot P nodeClaim st =
     (if cl_ProviderID nodeClaim = [] then
        (Some (NodeClaimNotFoundError (TextError (''nodeclaim '' @ go_quote (cl_Name nodeClaim) @ '' has no providerID''))), st)
      else (let requestedAt = (case cl_Rebooting nodeClaim of None \<Rightarrow> zero_time | Some t \<Rightarrow> t) in
        (case Provider_Reboot P (cl_ProviderID nodeClaim) (cl_Name nodeClaim) requestedAt st of (err, st1) \<Rightarrow>
           if IsNotFound err then (map_option NodeClaimNotFoundError err, st1) else (err, st1))))"

definition CP_Get ::
    "('r, 'q) karpenter \<Rightarrow> ('w, 'c, 'q) cloud \<Rightarrow> 'w provider \<Rightarrow> string \<Rightarrow> 'w pstate \<Rightarrow> (go_error + 'q NodeClaim) \<times> 'w pstate" where
  "CP_Get K C P providerID st = (case Provider_Get P providerID st of
       (Inl err, st1) \<Rightarrow> (Inl err, st1)
     | (Inr None, st1) \<Rightarrow> (Inl (NodeClaimNotFoundError (TextError (''server '' @ go_quote providerID @ '' not found''))), st1)
     | (Inr (Some srv), st1) \<Rightarrow> (Inr (toNodeClaimFromServer K C (ps_world st1) srv), st1))"

definition CP_List ::
    "('r, 'q) karpenter \<Rightarrow> ('w, 'c, 'q) cloud \<Rightarrow> 'w provider \<Rightarrow> 'w pstate \<Rightarrow> (go_error + 'q NodeClaim list) \<times> 'w pstate" where
  "CP_List K C P st = (case Provider_List P st of
       (Inl err, st1) \<Rightarrow> (Inl err, st1)
     | (Inr servers, st1) \<Rightarrow> (Inr (map (toNodeClaimFromServer K C (ps_world st1)) servers), st1))"

end
