(* ===== verification/Drift.thy ===== *)
theory Drift
  imports Cloud_Provider
begin

text \<open>
  Drift detection (\<^verbatim>\<open>src/internal/cloudprovider/drift.go\<close>). A drift reason is a string, empty when
  nothing drifted.
\<close>

section \<open>Reasons\<close>

definition NodeClassDrift :: string where "NodeClassDrift = ''NodeClassDrift''"
definition LocationDrift :: string where "LocationDrift = ''LocationDrift''"
definition NetworkDrift :: string where "NetworkDrift = ''NetworkDrift''"
definition FirewallDrift :: string where "FirewallDrift = ''FirewallDrift''"
definition PlacementGroupDrift :: string where "PlacementGroupDrift = ''PlacementGroupDrift''"
definition PublicNetDrift :: string where "PublicNetDrift = ''PublicNetDrift''"
definition ImageDrift :: string where "ImageDrift = ''ImageDrift''"
definition NodeAgeDrift :: string where "NodeAgeDrift = ''NodeAgeDrift''"

lemmas drift_reasons = NodeClassDrift_def LocationDrift_def NetworkDrift_def FirewallDrift_def
  PlacementGroupDrift_def PublicNetDrift_def ImageDrift_def NodeAgeDrift_def

section \<open>Comparisons\<close>

text \<open>\<^verbatim>\<open>slices.Compact\<close>: of equal neighbours the first stays.\<close>

fun compact :: "'a list \<Rightarrow> 'a list" where
  "compact [] = []"
| "compact [x] = [x]"
| "compact (x # y # zs) = (if x = y then compact (x # zs) else x # compact (y # zs))"

definition sameSet :: "id64 list \<Rightarrow> id64 list \<Rightarrow> bool" where
  "sameSet a b \<longleftrightarrow> compact (sort a) = compact (sort b)"

definition nodeClassHashDrift :: "'c HCloudNodeClass \<Rightarrow> 'q NodeClaim \<Rightarrow> string" where
  "nodeClassHashDrift nodeClass nodeClaim =
     (if mget (nc_Annotations nodeClass) AnnotationHashVersion \<noteq> HashVersion
         \<or> mget (cl_Annotations nodeClaim) AnnotationHashVersion \<noteq> HashVersion then []
      else (case map_of (nc_Annotations nodeClass) AnnotationHash of
          None \<Rightarrow> []
        | Some classHash \<Rightarrow> (case map_of (cl_Annotations nodeClaim) AnnotationHash of
             None \<Rightarrow> []
           | Some claimHash \<Rightarrow> if classHash \<noteq> claimHash then NodeClassDrift else [])))"

definition nodeAgeDrift :: "gotime \<Rightarrow> 'c HCloudNodeClass \<Rightarrow> 'q NodeClaim \<Rightarrow> string" where
  "nodeAgeDrift now nodeClass nodeClaim = (case spec_MaxNodeAge (nc_Spec nodeClass) of
       None \<Rightarrow> []
     | Some maxAge \<Rightarrow>
         if cl_CreationTimestamp nodeClaim = zero_time then []
         else if maxAge < time_sub now (cl_CreationTimestamp nodeClaim) then NodeAgeDrift else [])"

definition networkDrifted :: "NetworkStatus option \<Rightarrow> Server \<Rightarrow> bool" where
  "networkDrifted net srv = (case net of
       None \<Rightarrow> srv_NetworkIDs srv \<noteq> []
     | Some n \<Rightarrow> if net_ID n = 0 then False else net_ID n \<notin> set (srv_NetworkIDs srv))"

definition serverDrift :: "'c HCloudNodeClass \<Rightarrow> Server \<Rightarrow> string" where
  "serverDrift nodeClass srv =
     (let status = nc_Status nodeClass; spec = nc_Spec nodeClass in
      if spec_Locations spec \<noteq> [] \<and> st_Locations status \<noteq> [] \<and> srv_Location srv \<noteq> []
         \<and> \<not> list_ex (\<lambda>l. loc_Name l = srv_Location srv) (st_Locations status) then LocationDrift
      else if networkDrifted (st_Network status) srv then NetworkDrift
      else if \<not> sameSet (map fw_ID (st_Firewalls status)) (srv_FirewallIDs srv) then FirewallDrift
      else if (case st_PlacementGroup status of None \<Rightarrow> 0 | Some pg \<Rightarrow> pg_ID pg) \<noteq> srv_PlacementGroupID srv then PlacementGroupDrift
      else if PublicIPv4Enabled (Some spec) \<noteq> srv_HasPublicIPv4 srv \<or> PublicIPv6Enabled (Some spec) \<noteq> srv_HasPublicIPv6 srv
        then PublicNetDrift
      else if ImageDriftPolicyOrDefault (Some spec) = ImageDriftPolicyReplace
         \<and> (case st_Image status of None \<Rightarrow> False
             | Some img \<Rightarrow> img_ID img \<noteq> 0 \<and> srv_ImageID srv \<noteq> 0 \<and> img_ID img \<noteq> srv_ImageID srv) then ImageDrift
      else [])"

text \<open>\<open>now\<close> is the clock of the cloud provider, read only when it is needed.\<close>

definition IsDrifted ::
    "('w, 'c, 'q) cloud \<Rightarrow> 'w provider \<Rightarrow> ('w \<Rightarrow> gotime) \<Rightarrow> 'q NodeClaim \<Rightarrow> 'w pstate \<Rightarrow> (go_error + string) \<times> 'w pstate" where
  "IsDrifted C P clk nodeClaim st =
     (if cl_ProviderID nodeClaim = [] then (Inr [], st)
      else (case on_world (cp_GetNodeClass C (nodeClassKey nodeClaim)) st of
          (Inl err, st1) \<Rightarrow> (Inl (WrapError ''getting nodeclass for drift evaluation, '' err), st1)
        | (Inr nodeClass, st1) \<Rightarrow>
            if nc_DeletionTimestamp nodeClass \<noteq> zero_time then (Inr [], st1)
            else if \<not> cp_RootIsTrue C nodeClass then (Inr [], st1)
            else if nodeClassHashDrift nodeClass nodeClaim \<noteq> [] then (Inr (nodeClassHashDrift nodeClass nodeClaim), st1)
            else if nodeAgeDrift (clk (ps_world st1)) nodeClass nodeClaim \<noteq> []
              then (Inr (nodeAgeDrift (clk (ps_world st1)) nodeClass nodeClaim), st1)
            else (case Provider_Get P (cl_ProviderID nodeClaim) st1 of
                (Inl err, st2) \<Rightarrow> (Inl (WrapError ''getting server for drift evaluation, '' err), st2)
              | (Inr None, st2) \<Rightarrow> (Inr [], st2)
              | (Inr (Some srv), st2) \<Rightarrow> (Inr (serverDrift nodeClass srv), st2))))"

section \<open>Sets of ids\<close>

lemma set_compact [simp]: "set (compact xs) = set xs"
  by (induction xs rule: compact.induct) auto

lemma compact_Cons: "\<exists>ys. compact (x # xs) = x # ys"
  by (induction "x # xs" arbitrary: xs rule: compact.induct) auto

lemma sorted_compact:
  fixes xs :: "'a :: linorder list"
  shows "sorted xs \<Longrightarrow> sorted_wrt (<) (compact xs)"
proof (induction xs rule: compact.induct)
  case (3 x y zs)
  show ?case
  proof (cases "x = y")
    case True
    with 3 show ?thesis by auto
  next
    case False
    with 3 have "sorted_wrt (<) (compact (y # zs))" by simp
    moreover have "\<forall>z \<in> set (compact (y # zs)). x < z"
      using False 3(3) by auto
    ultimately show ?thesis using False by simp
  qed
qed auto

lemma sorted_wrt_less_unique:
  fixes xs ys :: "'a :: linorder list"
  assumes "sorted_wrt (<) xs" "sorted_wrt (<) ys" "set xs = set ys"
  shows "xs = ys"
  using assms by (metis strict_sorted_equal)

lemma sameSet_iff: "sameSet a b \<longleftrightarrow> set a = set b"
proof
  assume "sameSet a b"
  then have "set (compact (sort a)) = set (compact (sort b))" unfolding sameSet_def by simp
  then show "set a = set b" by simp
next
  assume "set a = set b"
  then have "compact (sort a) = compact (sort b)"
    by (intro sorted_wrt_less_unique sorted_compact) simp_all
  then show "sameSet a b" by (simp add: sameSet_def)
qed

section \<open>When a node drifts\<close>

lemma reasons_nonempty [simp]:
  "NodeClassDrift \<noteq> []" "LocationDrift \<noteq> []" "NetworkDrift \<noteq> []" "FirewallDrift \<noteq> []"
  "PlacementGroupDrift \<noteq> []" "PublicNetDrift \<noteq> []" "ImageDrift \<noteq> []" "NodeAgeDrift \<noteq> []"
  by (simp_all add: drift_reasons)

lemma no_reason: "r \<noteq> [] \<Longrightarrow> (if c then r else x) = [] \<longleftrightarrow> \<not> c \<and> x = []"
  by simp

lemma networkDrifted_iff:
  "\<not> networkDrifted net srv \<longleftrightarrow> (case net of None \<Rightarrow> srv_NetworkIDs srv = []
        | Some n \<Rightarrow> net_ID n = 0 \<or> net_ID n \<in> set (srv_NetworkIDs srv))"
  by (auto simp: networkDrifted_def split: option.splits)

lemma image_ok_iff:
  "\<not> (pol \<and> (case img of None \<Rightarrow> False | Some i \<Rightarrow> img_ID i \<noteq> 0 \<and> s \<noteq> 0 \<and> img_ID i \<noteq> s)) \<longleftrightarrow>
   (if pol then (case img of None \<Rightarrow> True | Some i \<Rightarrow> img_ID i = 0 \<or> s = 0 \<or> img_ID i = s) else True)"
  by (auto split: option.splits)

lemma location_ok_iff:
  "\<not> (specs \<noteq> [] \<and> locs \<noteq> [] \<and> l \<noteq> [] \<and> \<not> list_ex (\<lambda>x. loc_Name x = l) locs) \<longleftrightarrow>
   specs = [] \<or> locs = [] \<or> l = [] \<or> l \<in> loc_Name ` set locs"
  by (auto simp: list_ex_iff)

text \<open>
  C24. A running server is not drifted exactly when its location is one the operator listed (if
  the operator listed any and the class resolved some), its networks, firewalls and
  placement group are those the class resolved, its public addresses are those asked for, and,
  under the policy Replace only, its image is the resolved one. Firewalls compare as sets,
  whatever their order or repetition.
\<close>

theorem serverDrift_none_iff:
  "serverDrift ncl srv = [] \<longleftrightarrow>
     (spec_Locations (nc_Spec ncl) = [] \<or> st_Locations (nc_Status ncl) = [] \<or> srv_Location srv = []
        \<or> srv_Location srv \<in> loc_Name ` set (st_Locations (nc_Status ncl)))
   \<and> (case st_Network (nc_Status ncl) of None \<Rightarrow> srv_NetworkIDs srv = []
        | Some n \<Rightarrow> net_ID n = 0 \<or> net_ID n \<in> set (srv_NetworkIDs srv))
   \<and> fw_ID ` set (st_Firewalls (nc_Status ncl)) = set (srv_FirewallIDs srv)
   \<and> (case st_PlacementGroup (nc_Status ncl) of None \<Rightarrow> 0 | Some pg \<Rightarrow> pg_ID pg) = srv_PlacementGroupID srv
   \<and> PublicIPv4Enabled (Some (nc_Spec ncl)) = srv_HasPublicIPv4 srv
   \<and> PublicIPv6Enabled (Some (nc_Spec ncl)) = srv_HasPublicIPv6 srv
   \<and> (if ImageDriftPolicyOrDefault (Some (nc_Spec ncl)) = ImageDriftPolicyReplace
       then (case st_Image (nc_Status ncl) of None \<Rightarrow> True
              | Some img \<Rightarrow> img_ID img = 0 \<or> srv_ImageID srv = 0 \<or> img_ID img = srv_ImageID srv) else True)"
  unfolding serverDrift_def Let_def no_reason [OF reasons_nonempty(2)] no_reason [OF reasons_nonempty(3)]
    no_reason [OF reasons_nonempty(4)] no_reason [OF reasons_nonempty(5)] no_reason [OF reasons_nonempty(6)]
    no_reason [OF reasons_nonempty(7)] location_ok_iff networkDrifted_iff image_ok_iff sameSet_iff
  by simp

lemma nodeClassHashDrift_cases: "nodeClassHashDrift ncl claim \<in> {[], NodeClassDrift}"
  by (auto simp: nodeClassHashDrift_def split: option.splits)

lemma nodeAgeDrift_cases: "nodeAgeDrift now ncl claim \<in> {[], NodeAgeDrift}"
  by (auto simp: nodeAgeDrift_def split: option.splits)

text \<open>
  C7. A node is reported drifted only against a NodeClass that was read, is not terminating
  and is ready, and only for a cause: its spec hash differs under the current hash version, it
  is older than allowed, or its server, which was read and belongs to the cluster, differs.
  A failed read is an error and never drift, and a server that is gone is no drift.
\<close>

theorem IsDrifted_needs_cause:
  assumes "IsDrifted C P clk claim st = (Inr reason, st')" and "reason \<noteq> []"
  shows "cl_ProviderID claim \<noteq> [] \<and> (\<exists>ncl w. cp_GetNodeClass C (nodeClassKey claim) (ps_world st) = (Inr ncl, w)
     \<and> nc_DeletionTimestamp ncl = zero_time \<and> cp_RootIsTrue C ncl
     \<and> (reason = NodeClassDrift \<and> mget (nc_Annotations ncl) AnnotationHashVersion = HashVersion
            \<and> mget (cl_Annotations claim) AnnotationHashVersion = HashVersion
            \<and> (\<exists>a b. map_of (nc_Annotations ncl) AnnotationHash = Some a \<and> map_of (cl_Annotations claim) AnnotationHash = Some b \<and> a \<noteq> b)
        \<or> reason = NodeAgeDrift \<and> cl_CreationTimestamp claim \<noteq> zero_time
            \<and> (\<exists>maxAge. spec_MaxNodeAge (nc_Spec ncl) = Some maxAge \<and> maxAge < time_sub (clk w) (cl_CreationTimestamp claim))
        \<or> (\<exists>srv st1. Provider_Get P (cl_ProviderID claim) st1 = (Inr (Some srv), st') \<and> reason = serverDrift ncl srv
            \<and> IsManagedBy (Some srv) (pv_clusterName P))))"
proof -
  obtain g w where g: "cp_GetNodeClass C (nodeClassKey claim) (ps_world st) = (g, w)" by (rule prod.exhaust)
  from assms have p: "cl_ProviderID claim \<noteq> []" by (auto simp: IsDrifted_def)
  from assms g p obtain ncl where ncl: "g = Inr ncl" by (cases g) (auto simp: IsDrifted_def on_world_def)
  define st1 where "st1 = st\<lparr>ps_world := w\<rparr>"
  have r: "nc_DeletionTimestamp ncl = zero_time" "cp_RootIsTrue C ncl"
    using assms g p ncl by (auto simp: IsDrifted_def on_world_def split: if_splits)
  consider "nodeClassHashDrift ncl claim \<noteq> []" "reason = nodeClassHashDrift ncl claim"
    | "nodeAgeDrift (clk w) ncl claim \<noteq> []" "reason = nodeAgeDrift (clk w) ncl claim"
    | srv where "Provider_Get P (cl_ProviderID claim) st1 = (Inr (Some srv), st')" "reason = serverDrift ncl srv"
    using assms g p ncl r unfolding IsDrifted_def on_world_def st1_def
    by (auto split: if_splits sum.splits option.splits prod.splits)
  then show ?thesis
  proof cases
    case 1
    then show ?thesis using g p ncl r by (auto simp: nodeClassHashDrift_def split: if_splits option.splits)
  next
    case 2
    then show ?thesis using g p ncl r by (auto simp: nodeAgeDrift_def split: if_splits option.splits)
  next
    case (3 srv)
    then show ?thesis using g p ncl r Get_owned [OF 3(1)] by blast
  qed
qed

definition ex_cloud :: "unit HCloudNodeClass \<Rightarrow> Snapshot option \<Rightarrow> (Server list, unit, (string \<times> string list) list) cloud" where
  "ex_cloud ncl sn = \<lparr> cp_GetNodeClass = (\<lambda>_ w. (Inr ncl, w)), cp_RootIsTrue = (\<lambda>_. True), cp_RootMessage = (\<lambda>_. []),
     cp_catalog = (\<lambda>_. sn), cp_Render = (\<lambda>_ _ w. (Inr ''data'', w)), cp_hashstructure = (\<lambda>_. 42), cp_zeroNodeClaim = ex_claim \<rparr>"

definition ex_old_class :: "unit HCloudNodeClass" where
  "ex_old_class = ex_class\<lparr>nc_Spec := ex_spec\<lparr>spec_MaxNodeAge := Some (60 * second)\<rparr>\<rparr>"

definition ex_running :: "(string \<times> string list) list NodeClaim" where
  "ex_running = ex_claim\<lparr>cl_ProviderID := ''hcloud://1'', cl_CreationTimestamp := 0\<rparr>"

lemma ex_drifted:
  "fst (IsDrifted (ex_cloud ex_old_class None) (ex_provider ''none'') (\<lambda>_. 90 * second) ex_running (initial_pstate [] NewUnavailable))
     = Inr NodeAgeDrift"
  by code_simp

theorem IsDrifted_needs_cause_witness:
  "cl_ProviderID ex_running \<noteq> [] \<and> (\<exists>ncl w. cp_GetNodeClass (ex_cloud ex_old_class None) (nodeClassKey ex_running) [] = (Inr ncl, w)
     \<and> nc_DeletionTimestamp ncl = zero_time)"
proof -
  obtain st' where "IsDrifted (ex_cloud ex_old_class None) (ex_provider ''none'') (\<lambda>_. 90 * second) ex_running
      (initial_pstate [] NewUnavailable) = (Inr NodeAgeDrift, st')"
    using ex_drifted by (metis prod.collapse)
  from IsDrifted_needs_cause [OF this reasons_nonempty(8)] show ?thesis
    by (simp only: initial_pstate_def pstate.simps) blast
qed

section \<open>A fresh node is not drifted\<close>

text \<open>
  What Hetzner owes an order: the server has the networks, the firewalls, the placement group,
  the public addresses, the image and the location that were asked for.
\<close>

definition honours :: "CreateServerRequest \<Rightarrow> Server \<Rightarrow> bool" where
  "honours req srv \<longleftrightarrow> set (srv_NetworkIDs srv) = set (req_NetworkIDs req) \<and> set (srv_FirewallIDs srv) = set (req_FirewallIDs req)
     \<and> srv_PlacementGroupID srv = (case req_PlacementGroupID req of None \<Rightarrow> 0 | Some i \<Rightarrow> i)
     \<and> srv_HasPublicIPv4 srv = req_PublicIPv4 req \<and> srv_HasPublicIPv6 srv = req_PublicIPv6 req
     \<and> srv_ImageID srv = req_ImageID req \<and> srv_Location srv = req_Location req"

text \<open>The class carries the hash of its own spec, as the hash controller leaves it.\<close>

definition hash_stamped :: "(hashed_spec \<Rightarrow> nat) \<Rightarrow> 'c HCloudNodeClass \<Rightarrow> bool" where
  "hash_stamped h ncl \<longleftrightarrow> map_of (nc_Annotations ncl) AnnotationHash = Some (Hash h ncl)
     \<and> map_of (nc_Annotations ncl) AnnotationHashVersion = Some HashVersion"

lemma annotation_names: "AnnotationHash \<noteq> AnnotationHashVersion"
  by (simp add: AnnotationHash_def AnnotationHashVersion_def)

lemma toNodeClaim_annotations:
  "map_of (cl_Annotations (toNodeClaim K C srv it claim (Some ncl))) AnnotationHash = Some (Hash (cp_hashstructure C) ncl)"
  "map_of (cl_Annotations (toNodeClaim K C srv it claim (Some ncl))) AnnotationHashVersion = Some HashVersion"
  using annotation_names by (auto simp: toNodeClaim_def Let_def split: option.splits)


definition ex_stamped_class :: "unit HCloudNodeClass" where
  "ex_stamped_class = ex_class\<lparr>nc_Annotations := [(AnnotationHash, ''42''), (AnnotationHashVersion, HashVersion)]\<rparr>"

definition ex_candidate :: "(string \<times> string list) list Candidate" where
  "ex_candidate = \<lparr> ca_InstanceType = ex_type ''cx22'' ''nbg1'' 1, ca_Location = ''nbg1'', ca_Price = Fin 1 \<rparr>"


section \<open>Create at the level of the cloud provider\<close>

lemma render_reached:
  assumes "CP_Create K C P claim st \<noteq> CP_Create K (C\<lparr>cp_Render := R\<rparr>) P claim st"
  shows "\<exists>ref ncl w its. cl_NodeClassRef claim = Some ref \<and> cp_GetNodeClass C (ref_Name ref) (ps_world st) = (Inr ncl, w)
     \<and> nc_DeletionTimestamp ncl = zero_time \<and> cp_RootIsTrue C ncl
     \<and> instanceTypes K C P ncl (st\<lparr>ps_world := w\<rparr>) = Inr its \<and> HasCandidates K claim its"
proof -
  have same: "resolveNodeClass (C\<lparr>cp_Render := R\<rparr>) claim w = resolveNodeClass C claim w" for w
    by (simp add: resolveNodeClass_def split: option.splits prod.splits sum.splits)
  have same2: "instanceTypes K (C\<lparr>cp_Render := R\<rparr>) P ncl s = instanceTypes K C P ncl s" for ncl s
    by (simp add: instanceTypes_def split: option.splits)
  obtain r w where r: "resolveNodeClass C claim (ps_world st) = (r, w)" by (rule prod.exhaust)
  have o1: "on_world (resolveNodeClass C claim) st = (r, st\<lparr>ps_world := w\<rparr>)"
    "on_world (resolveNodeClass (C\<lparr>cp_Render := R\<rparr>) claim) st = (r, st\<lparr>ps_world := w\<rparr>)"
    using r by (simp_all add: on_world_def same)
  obtain ncl where ncl: "r = Inr ncl"
    using assms o1 by (cases r) (auto simp: CP_Create_def)
  obtain its where its: "instanceTypes K C P ncl (st\<lparr>ps_world := w\<rparr>) = Inr its" "HasCandidates K claim its"
    using assms o1 ncl same2 by (cases "instanceTypes K C P ncl (st\<lparr>ps_world := w\<rparr>)") (auto simp: CP_Create_def split: if_splits)
  have "\<exists>ref. cl_NodeClassRef claim = Some ref \<and> cp_GetNodeClass C (ref_Name ref) (ps_world st) = (Inr ncl, w)
     \<and> nc_DeletionTimestamp ncl = zero_time \<and> cp_RootIsTrue C ncl"
    using r ncl by (auto simp: resolveNodeClass_def split: option.splits sum.splits prod.splits if_splits)
  with its show ?thesis by blast
qed

text \<open>
  C26. A join credential is minted only for a node that can be ordered: rendering the boot data
  is reached only with a NodeClass that was read, is not terminating and is ready, with a
  catalog, and with at least one candidate. In every other case the result and the state after
  do not depend on the bootstrapper at all.
\<close>

theorem Create_renders_only_with_candidates:
  "CP_Create K C P claim st = CP_Create K (C\<lparr>cp_Render := R\<rparr>) P claim st \<or>
   (\<exists>ref ncl w its. cl_NodeClassRef claim = Some ref \<and> cp_GetNodeClass C (ref_Name ref) (ps_world st) = (Inr ncl, w)
     \<and> nc_DeletionTimestamp ncl = zero_time \<and> cp_RootIsTrue C ncl
     \<and> instanceTypes K C P ncl (st\<lparr>ps_world := w\<rparr>) = Inr its \<and> HasCandidates K claim its)"
  using render_reached by blast


end
