(* ===== verification/Kube.thy ===== *)
theory Kube
  imports Hcloud_Errors Api_Types
begin

text \<open>
  What the controllers use of Kubernetes' error helpers and of multierr. An error of the API server
  is \<^term>\<open>KubeError\<close> with its reason and its text; \<^verbatim>\<open>apierrors\<close> looks for the first one along the
  chain of wrapped errors.
\<close>

definition ReasonForError :: "go_error \<Rightarrow> string" where
  "ReasonForError err = (case first_some (\<lambda>e. case e of KubeError r t \<Rightarrow> Some r | _ \<Rightarrow> None) (nodes err) of
     None \<Rightarrow> [] | Some r \<Rightarrow> r)"

definition IsConflict :: "go_error \<Rightarrow> bool" where
  "IsConflict err \<longleftrightarrow> ReasonForError err = ''Conflict''"

definition IgnoreNotFound :: "go_error \<Rightarrow> go_error option" where
  "IgnoreNotFound err = (if ReasonForError err = ''NotFound'' then None else Some err)"

text \<open>\<^verbatim>\<open>multierr.Combine\<close> of the errors that are not nil: none, the one, or all of them as one error.\<close>

definition combine_errors :: "go_error list \<Rightarrow> go_error option" where
  "combine_errors es = (case es of [] \<Rightarrow> None | [e] \<Rightarrow> Some e | _ \<Rightarrow> Some (JoinError [] es))"

lemma combine_errors_None [simp]: "combine_errors es = None \<longleftrightarrow> es = []"
  by (auto simp: combine_errors_def split: list.splits)

lemma ReasonForError_simps [simp]:
  "ReasonForError (KubeError r t) = r" "ReasonForError (WrapError p e) = ReasonForError e" "ReasonForError (TextError t) = []"
  by (simp_all add: ReasonForError_def)

end
