(* ===== verification/Instance_GC.thy ===== *)
theory Instance_GC
  imports Instance_Props Kube
begin

text \<open>
  The garbage collector of servers without a NodeClaim
  (\<^verbatim>\<open>src/internal/controllers/instancegc/controller.go\<close>). Its interface \<^verbatim>\<open>Provider\<close> is the record
  \<open>gc_api\<close>, which the instance provider implements; the Kubernetes client's list of NodeClaims is
  the parameter \<open>kubeList\<close>, which returns their names.
\<close>

section \<open>The controller\<close>

definition gc_interval :: duration where "gc_interval = 2 * minute"
definition minAge :: duration where "minAge = 5 * minute"

record 's gc_api =
  GC_List :: "'s \<Rightarrow> (go_error + Server list) \<times> 's"
  GC_Delete :: "string \<Rightarrow> 's \<Rightarrow> go_error option \<times> 's"

definition instance_gc_api :: "'w provider \<Rightarrow> 'w pstate gc_api" where
  "instance_gc_api P = \<lparr> GC_List = Provider_List P, GC_Delete = Provider_Delete P \<rparr>"

text \<open>The conditions of the loop under which a server is deleted, at the time \<open>now\<close>.\<close>

definition reapable :: "string list \<Rightarrow> gotime \<Rightarrow> Server \<Rightarrow> bool" where
  "reapable live now srv =
     (let claim = mget (srv_Labels srv) LabelNodeClaim in
      if claim = [] \<or> claim \<in> set live then False
      else if srv_Created srv = zero_time then False
      else if time_sub now (srv_Created srv) < minAge then False
      else True)"

text \<open>The loop: the errors so far, the metric writes so far.\<close>

fun gc_loop ::
    "'s gc_api \<Rightarrow> ('s \<Rightarrow> gotime) \<Rightarrow> string list \<Rightarrow> Server list \<Rightarrow> go_error list \<Rightarrow> metric list \<Rightarrow> 's \<Rightarrow>
     go_error list \<times> metric list \<times> 's" where
  "gc_loop api clk live [] errs ms st = (errs, ms, st)"
| "gc_loop api clk live (srv # srvs) errs ms st =
     (if \<not> reapable live (clk st) srv then gc_loop api clk live srvs errs ms st
      else (case GC_Delete api (ProviderID srv) st of
          (None, st1) \<Rightarrow> gc_loop api clk live srvs errs (ms @ [OrphansReaped]) st1
        | (Some err, st1) \<Rightarrow>
            if IsNotFound (Some err) then gc_loop api clk live srvs errs ms st1
            else gc_loop api clk live srvs
                   (errs @ [WrapError (''deleting orphaned server '' @ srv_Name srv @ '', '') err]) ms st1))"

text \<open>\<^verbatim>\<open>Reconcile\<close>: an error, or the time after which to run again.\<close>

definition GC_Reconcile ::
    "'s gc_api \<Rightarrow> string \<Rightarrow> ('s \<Rightarrow> gotime) \<Rightarrow> ('s \<Rightarrow> (go_error + string list) \<times> 's) \<Rightarrow> 's \<Rightarrow>
     (go_error + duration) \<times> metric list \<times> 's" where
  "GC_Reconcile api clusterName clk kubeList st =
     (if clusterName = [] then (Inl (TextError ''cluster name is empty, refusing to garbage collect''), [], st)
      else (case GC_List api st of
          (Inl err, st1) \<Rightarrow> (Inl (WrapError ''listing servers, '' err), [], st1)
        | (Inr servers, st1) \<Rightarrow>
            if servers = [] then (Inr gc_interval, [], st1)
            else (case kubeList st1 of
                (Inl err, st2) \<Rightarrow> (Inl (WrapError ''listing nodeclaims, '' err), [], st2)
              | (Inr live, st2) \<Rightarrow>
                  if live = [] then (Inr gc_interval, [], st2)
                  else (case gc_loop api clk live servers [] [] st2 of (errs, ms, st3) \<Rightarrow>
                      (case combine_errors errs of
                         Some err \<Rightarrow> (Inl (WrapError ''garbage collecting orphaned servers: '' err), ms, st3)
                       | None \<Rightarrow> (Inr gc_interval, ms, st3))))))"

section \<open>The interface\<close>

text \<open>What the collector relies on: whatever is listed carries the label of the cluster.\<close>

locale gc_provider =
  fixes api :: "'s gc_api" and cluster :: string
  assumes listed_owned: "GC_List api st = (Inr srvs, st') \<Longrightarrow> s \<in> set srvs \<Longrightarrow> IsManagedBy (Some s) cluster"
    and named: "GC_List api st = (Inr srvs, st') \<Longrightarrow> cluster \<noteq> []"

interpretation inst: gc_provider "instance_gc_api P" "pv_clusterName P" for P
  by unfold_locales (auto simp: instance_gc_api_def dest!: List_owned)

section \<open>What is deleted\<close>

text \<open>A collector's view of its provider with the ids it asked to delete written down.\<close>

definition gc_logged :: "'s gc_api \<Rightarrow> ('s \<times> string list) gc_api" where
  "gc_logged api = \<lparr> GC_List = (\<lambda>(s, l). case GC_List api s of (r, s') \<Rightarrow> (r, s', l)),
     GC_Delete = (\<lambda>pid (s, l). case GC_Delete api pid s of (r, s') \<Rightarrow> (r, s', l @ [pid])) \<rparr>"

lemma gc_loop_deletes:
  assumes "gc_loop (gc_logged api) (\<lambda>_. now) live srvs errs ms st = (errs', ms', st')"
  shows "snd st' = snd st @ map ProviderID (filter (reapable live now) srvs)"
  using assms
proof (induction srvs arbitrary: errs ms st)
  case (Cons srv srvs)
  show ?case
  proof (cases "reapable live now srv")
    case True
    obtain e s1 where d: "GC_Delete api (ProviderID srv) (fst st) = (e, s1)" by (rule prod.exhaust)
    then have "GC_Delete (gc_logged api) (ProviderID srv) st = (e, s1, snd st @ [ProviderID srv])"
      by (cases st) (simp add: gc_logged_def)
    with True Cons show ?thesis by (auto split: option.splits if_splits)
  next
    case False
    with Cons show ?thesis by auto
  qed
qed simp

context gc_provider
begin

lemma reconcile_deletes:
  assumes "GC_Reconcile (gc_logged api) c (\<lambda>_. now) kubeList st = (r, ms, st')" and "c = cluster"
    and "\<forall>s. snd (snd (kubeList s)) = snd s"
  shows "\<exists>srvs live. snd st' = snd st @ map ProviderID (filter (reapable live now) srvs)
     \<and> (\<forall>s \<in> set srvs. IsManagedBy (Some s) cluster)
     \<and> (srvs = [] \<or> live \<noteq> [] \<and> (\<exists>s. fst (GC_List api s) = Inr srvs) \<and> (\<exists>s. fst (kubeList s) = Inr live))"
proof -
  obtain lr s1 where l: "GC_List api (fst st) = (lr, s1)" by (rule prod.exhaust)
  then have gl: "GC_List (gc_logged api) st = (lr, s1, snd st)" by (cases st) (simp add: gc_logged_def)
  obtain kr s2 where k: "kubeList (s1, snd st) = (kr, s2)" by (rule prod.exhaust)
  have s2: "snd s2 = snd st" using assms(3) k by (metis snd_conv)
  have none: ?thesis if "snd st' = snd st"
    using that by (intro exI [of _ "[]"]) simp
  show ?thesis
  proof (cases "\<exists>srvs live. lr = Inr srvs \<and> srvs \<noteq> [] \<and> kr = Inr live \<and> live \<noteq> [] \<and> c \<noteq> []")
    case False
    have "snd st' = snd st"
      using assms(1) gl k s2 False unfolding GC_Reconcile_def by (auto split: sum.splits if_splits)
    then show ?thesis by (rule none)
  next
    case True
    then obtain srvs live where t: "lr = Inr srvs" "srvs \<noteq> []" "kr = Inr live" "live \<noteq> []" "c \<noteq> []" by blast
    obtain errs ms1 s3 where g: "gc_loop (gc_logged api) (\<lambda>_. now) live srvs [] [] s2 = (errs, ms1, s3)"
      by (metis prod.exhaust)
    have "s3 = st'" using assms(1) gl k t g unfolding GC_Reconcile_def by (auto split: if_splits option.splits)
    with gc_loop_deletes [OF g] s2 have "snd st' = snd st @ map ProviderID (filter (reapable live now) srvs)" by simp
    moreover have "\<forall>s \<in> set srvs. IsManagedBy (Some s) cluster" using listed_owned l t(1) by blast
    moreover have "\<exists>s. fst (GC_List api s) = Inr srvs" using l t(1) by (metis fst_conv)
    moreover have "\<exists>s. fst (kubeList s) = Inr live" using k t(3) by (metis fst_conv)
    ultimately show ?thesis using t(4) by blast
  qed
qed

end

lemma reapable_iff:
  "reapable live now s \<longleftrightarrow> mget (srv_Labels s) LabelNodeClaim \<noteq> [] \<and> mget (srv_Labels s) LabelNodeClaim \<notin> set live
     \<and> srv_Created s \<noteq> zero_time \<and> minAge \<le> time_sub now (srv_Created s)"
  by (auto simp: reapable_def Let_def)


text \<open>An orphan, a server of a live NodeClaim, and a control plane; an hour has passed.\<close>

definition ex_fleet :: "Server list" where
  "ex_fleet = [ex_server 5 ''pool-a'' [(LabelManagedBy, ''prod''), (LabelNodeClaim, ''pool-a'')],
     ex_server 6 ''pool-b'' [(LabelManagedBy, ''prod''), (LabelNodeClaim, ''pool-b'')], ex_server 7 ''cp'' []]"

definition ex_sweep ::
    "(go_error + duration) \<times> metric list \<times> Server list pstate \<times> string list" where
  "ex_sweep = GC_Reconcile (gc_logged (instance_gc_api (ex_provider ''none''))) ''prod'' (\<lambda>_. 60 * minute)
     (\<lambda>s. (Inr [''pool-b''], s)) (initial_pstate ex_fleet NewUnavailable, [])"

lemma ex_sweep_deletes: "snd (snd (snd ex_sweep)) = [''hcloud://5'']"
  by code_simp


end
