(* ===== verification/List_Cache.thy ===== *)
theory List_Cache
  imports Instance
begin

text \<open>
  The list cache under concurrent callers (\<^verbatim>\<open>listCache.list\<close> and \<^verbatim>\<open>invalidate\<close> of
  \<^verbatim>\<open>src/internal/providers/instance/list.go\<close>). One step is one critical section of the mutex, one
  operation of singleflight, or one call to Hetzner.

  singleflight, by its documentation, runs one function per key at a time: a caller that comes
  while it runs waits for its result, and the key is free again once the result was handed
  out. The cache has one selector, so one key. A listing carries the number of the
  state of the project it was read from; the number is not part of the program.
\<close>

section \<open>States\<close>

type_synonym listing = "nat \<times> Server list"

text \<open>Where the shared function of a flight is: about to look at the cache again, in the call to
  Hetzner, holding its answer, or finished with a result that is being handed out.\<close>

datatype flight = Recheck | Calling | Listed listing | Finished "go_error + listing"

text \<open>A caller of \<^verbatim>\<open>list\<close>: not inside, past a miss on the cache, waiting on the channel, returned.\<close>

datatype caller = Outside | Missed | Waiting | Returned "go_error + listing"

record lc_state =
  ls_cached :: "listing option"
  ls_fetchedAt :: gotime
  ls_flight :: "flight option"
  ls_callers :: "nat \<Rightarrow> caller"
  ls_now :: gotime
  ls_project :: listing

definition ls_init :: "listing \<Rightarrow> gotime \<Rightarrow> lc_state" where
  "ls_init project now = \<lparr> ls_cached = None, ls_fetchedAt = zero_time, ls_flight = None,
     ls_callers = (\<lambda>_. Outside), ls_now = now, ls_project = project \<rparr>"

text \<open>The test both checks make.\<close>

definition is_fresh :: "duration \<Rightarrow> lc_state \<Rightarrow> bool" where
  "is_fresh ttl s \<longleftrightarrow> ls_cached s \<noteq> None \<and> time_sub (ls_now s) (ls_fetchedAt s) < ttl"

definition deliver :: "(go_error + listing) \<Rightarrow> (nat \<Rightarrow> caller) \<Rightarrow> nat \<Rightarrow> caller" where
  "deliver r callers c = (if callers c = Waiting then Returned r else callers c)"

section \<open>Steps\<close>

inductive list_step :: "duration \<Rightarrow> lc_state \<Rightarrow> lc_state \<Rightarrow> bool" for ttl :: duration where
  Hit: "ls_callers s c = Outside \<Longrightarrow> is_fresh ttl s \<Longrightarrow> ls_cached s = Some l \<Longrightarrow>
    list_step ttl s (s\<lparr>ls_callers := (ls_callers s)(c := Returned (Inr l))\<rparr>)"
| Miss: "ls_callers s c = Outside \<Longrightarrow> \<not> is_fresh ttl s \<Longrightarrow>
    list_step ttl s (s\<lparr>ls_callers := (ls_callers s)(c := Missed)\<rparr>)"
| Join: "ls_callers s c = Missed \<Longrightarrow> ls_flight s = Some f \<Longrightarrow>
    list_step ttl s (s\<lparr>ls_callers := (ls_callers s)(c := Waiting)\<rparr>)"
| Lead: "ls_callers s c = Missed \<Longrightarrow> ls_flight s = None \<Longrightarrow>
    list_step ttl s (s\<lparr>ls_callers := (ls_callers s)(c := Waiting), ls_flight := Some Recheck\<rparr>)"
| RecheckFresh: "ls_flight s = Some Recheck \<Longrightarrow> is_fresh ttl s \<Longrightarrow> ls_cached s = Some l \<Longrightarrow>
    list_step ttl s (s\<lparr>ls_flight := Some (Finished (Inr l))\<rparr>)"
| RecheckStale: "ls_flight s = Some Recheck \<Longrightarrow> \<not> is_fresh ttl s \<Longrightarrow>
    list_step ttl s (s\<lparr>ls_flight := Some Calling\<rparr>)"
| Answer: "ls_flight s = Some Calling \<Longrightarrow>
    list_step ttl s (s\<lparr>ls_flight := Some (Listed (ls_project s))\<rparr>)"
| Fail: "ls_flight s = Some Calling \<Longrightarrow>
    list_step ttl s (s\<lparr>ls_flight := Some (Finished (Inl err))\<rparr>)"
| Store: "ls_flight s = Some (Listed l) \<Longrightarrow>
    list_step ttl s (s\<lparr>ls_cached := Some l, ls_fetchedAt := ls_now s, ls_flight := Some (Finished (Inr l))\<rparr>)"
| Handout: "ls_flight s = Some (Finished r) \<Longrightarrow>
    list_step ttl s (s\<lparr>ls_callers := deliver r (ls_callers s), ls_flight := None\<rparr>)"
| Cancel: "ls_callers s c = Waiting \<Longrightarrow>
    list_step ttl s (s\<lparr>ls_callers := (ls_callers s)(c := Returned (Inl err))\<rparr>)"
| Leave: "ls_callers s c = Returned r \<Longrightarrow>
    list_step ttl s (s\<lparr>ls_callers := (ls_callers s)(c := Outside)\<rparr>)"
| Invalidate: "list_step ttl s (s\<lparr>ls_cached := None, ls_fetchedAt := zero_time\<rparr>)"
| Change: "list_step ttl s (s\<lparr>ls_project := (Suc (fst (ls_project s)), servers)\<rparr>)"
| Tick: "0 \<le> d \<Longrightarrow> list_step ttl s (s\<lparr>ls_now := ls_now s + d\<rparr>)"

abbreviation list_steps :: "duration \<Rightarrow> lc_state \<Rightarrow> lc_state \<Rightarrow> bool" where
  "list_steps ttl \<equiv> (list_step ttl)\<^sup>*\<^sup>*"

section \<open>Invariants\<close>

text \<open>
  \<open>since n s\<close>: every listing that is cached or in the air was read in state \<open>n\<close> of the project or
  later, and so was every listing a caller inside holds.
\<close>

fun flight_since :: "nat \<Rightarrow> flight option \<Rightarrow> bool" where
  "flight_since n (Some (Listed l)) = (n \<le> fst l)"
| "flight_since n (Some (Finished (Inr l))) = (n \<le> fst l)"
| "flight_since n _ = True"

definition since :: "nat \<Rightarrow> lc_state \<Rightarrow> bool" where
  "since n s \<longleftrightarrow> n \<le> fst (ls_project s) \<and> (\<forall>l. ls_cached s = Some l \<longrightarrow> n \<le> fst l) \<and> flight_since n (ls_flight s)"

lemma since_step: "list_step ttl s s' \<Longrightarrow> since n s \<Longrightarrow> since n s'"
  by (induction rule: list_step.induct) (auto simp: since_def)

text \<open>What a step hands to a caller comes from the cache or from the flight.\<close>

lemma returned_since:
  "list_step ttl s s' \<Longrightarrow> since n s \<Longrightarrow> ls_callers s' c = Returned (Inr l) \<Longrightarrow>
     ls_callers s c = Returned (Inr l) \<or> n \<le> fst l"
  by (induction rule: list_step.induct) (auto simp: since_def deliver_def split: if_splits)

lemma since_steps:
  assumes "list_steps ttl s s'" "since n s" "\<forall>l. ls_callers s c \<noteq> Returned (Inr l)"
  shows "since n s' \<and> (\<forall>l. ls_callers s' c = Returned (Inr l) \<longrightarrow> n \<le> fst l)"
  using assms
proof (induction rule: rtranclp_induct)
  case (step y z)
  then show ?case using since_step returned_since by metis
qed simp

text \<open>A cached listing is no older than the ttl when it is served, and is what the project held.\<close>

definition lc_inv :: "lc_state \<Rightarrow> bool" where
  "lc_inv s \<longleftrightarrow> (\<forall>l. ls_cached s = Some l \<longrightarrow> fst l \<le> fst (ls_project s) \<and> ls_fetchedAt s \<le> ls_now s)
     \<and> (\<forall>l. ls_flight s = Some (Listed l) \<longrightarrow> fst l \<le> fst (ls_project s))"

lemma lc_inv_step: "list_step ttl s s' \<Longrightarrow> lc_inv s \<Longrightarrow> lc_inv s'"
  by (induction rule: list_step.induct) (auto simp: lc_inv_def)

lemma lc_inv_init: "lc_inv (ls_init p t)"
  by (simp add: lc_inv_def ls_init_def)

section \<open>Properties\<close>

text \<open>
  C9. After an invalidation with no listing under way, every listing any caller gets from then
  on, from the cache or from a flight, however the callers interleave, was read from
  the project in its state at the invalidation or a later one.
\<close>

theorem invalidate_takes_effect:
  assumes "list_step ttl s s1" and "s1 = s\<lparr>ls_cached := None, ls_fetchedAt := zero_time\<rparr>"
    and "ls_flight s = None" and "list_steps ttl s1 s2" and "\<forall>l. ls_callers s c \<noteq> Returned (Inr l)"
    and "ls_callers s2 c = Returned (Inr l)"
  shows "fst (ls_project s) \<le> fst l"
proof -
  have "since (fst (ls_project s)) s1" using assms(2,3) by (simp add: since_def)
  moreover have "\<forall>l. ls_callers s1 c \<noteq> Returned (Inr l)" using assms(2,5) by simp
  ultimately show ?thesis using since_steps [OF assms(4)] assms(6) by blast
qed

text \<open>A run of six steps in which one caller fetches the listing.\<close>

definition fetch_run :: "lc_state \<Rightarrow> lc_state" where
  "fetch_run s = s\<lparr>ls_cached := Some (ls_project s), ls_fetchedAt := ls_now s, ls_flight := None,
     ls_callers := deliver (Inr (ls_project s)) ((ls_callers s)(0 := Waiting))\<rparr>"

lemma fetch_run_steps:
  assumes "ls_callers s 0 = Outside" "ls_cached s = None" "ls_flight s = None"
  shows "list_steps ttl s (fetch_run s)"
proof -
  define s1 where "s1 = s\<lparr>ls_callers := (ls_callers s)(0 := Missed)\<rparr>"
  define s2 where "s2 = s1\<lparr>ls_callers := (ls_callers s1)(0 := Waiting), ls_flight := Some Recheck\<rparr>"
  define s3 where "s3 = s2\<lparr>ls_flight := Some Calling\<rparr>"
  define s4 where "s4 = s3\<lparr>ls_flight := Some (Listed (ls_project s3))\<rparr>"
  define s5 where "s5 = s4\<lparr>ls_cached := Some (ls_project s3), ls_fetchedAt := ls_now s4,
      ls_flight := Some (Finished (Inr (ls_project s3)))\<rparr>"
  define s6 where "s6 = s5\<lparr>ls_callers := deliver (Inr (ls_project s3)) (ls_callers s5), ls_flight := None\<rparr>"
  note d = s1_def s2_def s3_def s4_def s5_def s6_def
  have "list_step ttl s s1" unfolding s1_def using assms by (intro Miss) (auto simp: is_fresh_def)
  moreover have "list_step ttl s1 s2" unfolding s2_def using assms by (intro Lead) (auto simp: d)
  moreover have "list_step ttl s2 s3" unfolding s3_def using assms by (intro RecheckStale) (auto simp: d is_fresh_def)
  moreover have "list_step ttl s3 s4" unfolding s4_def by (intro Answer) (simp add: d)
  moreover have "list_step ttl s4 s5" unfolding s5_def by (intro Store) (simp add: s4_def)
  moreover have "list_step ttl s5 s6" unfolding s6_def by (intro Handout) (simp add: s5_def)
  moreover have "s6 = fetch_run s" by (simp add: d fetch_run_def)
  ultimately show ?thesis by (meson rtranclp.rtrancl_refl rtranclp.rtrancl_into_rtrancl)
qed

theorem invalidate_takes_effect_witness:
  "ls_callers (fetch_run (ls_init (3, []) 0)) 0 = Returned (Inr (3, [])) \<and> fst (ls_project (ls_init (3, []) 0)) \<le> fst (3 :: nat, [] :: Server list)"
proof
  have i: "list_step 5 (ls_init (3, []) 0) ((ls_init (3, []) 0)\<lparr>ls_cached := None, ls_fetchedAt := zero_time\<rparr>)"
    by (rule Invalidate)
  have e: "(ls_init (3, []) 0)\<lparr>ls_cached := None, ls_fetchedAt := zero_time\<rparr> = ls_init (3, []) 0"
    by (simp add: ls_init_def)
  show r: "ls_callers (fetch_run (ls_init (3, []) 0)) 0 = Returned (Inr (3, []))"
    by (simp add: fetch_run_def deliver_def ls_init_def)
  have f: "list_steps 5 (ls_init (3, []) 0) (fetch_run (ls_init (3, []) 0))"
    by (rule fetch_run_steps) (simp_all add: ls_init_def)
  show "fst (ls_project (ls_init (3, []) 0)) \<le> fst (3 :: nat, [] :: Server list)"
    using invalidate_takes_effect [OF i refl _ _ _ r] f unfolding e by (simp add: ls_init_def)
qed

text \<open>
  A caller that is answered without waiting for a flight gets the cached listing, and only
  while the cache is younger than its time-to-live.
\<close>

theorem cached_answer_within_ttl:
  assumes "list_steps ttl (ls_init p t) s" and "list_step ttl s s'"
    and "ls_callers s c = Outside" and "ls_callers s' c = Returned (Inr l)" and "0 < ttl" and "ttl < 2 ^ 63"
  shows "ls_cached s = Some l \<and> ls_fetchedAt s \<le> ls_now s \<and> ls_now s < ls_fetchedAt s + ttl"
proof -
  from assms(1) have "lc_inv s"
    by (induction rule: rtranclp_induct) (auto intro: lc_inv_init lc_inv_step)
  moreover have "ls_cached s = Some l \<and> is_fresh ttl s"
    using assms(2-4) by (induction rule: list_step.induct) (auto simp: deliver_def split: if_splits)
  moreover have "time_sub (ls_now s) (ls_fetchedAt s) < ttl \<longleftrightarrow> ls_now s - ls_fetchedAt s < ttl"
    using assms(5,6) by (intro time_sub_less) simp_all
  ultimately show ?thesis by (auto simp: lc_inv_def is_fresh_def)
qed

theorem cached_answer_within_ttl_witness:
  "ls_now (fetch_run (ls_init (3, []) 0)) < ls_fetchedAt (fetch_run (ls_init (3, []) 0)) + 5"
proof -
  define s where "s = fetch_run (ls_init (3, []) 0)"
  have r: "list_steps 5 (ls_init (3, []) 0) s"
    unfolding s_def by (rule fetch_run_steps) (simp_all add: ls_init_def)
  have c: "ls_callers s 1 = Outside" "ls_cached s = Some (3, [])" "is_fresh 5 s"
    by (simp_all add: s_def fetch_run_def deliver_def ls_init_def is_fresh_def time_sub_def int64_clamp_def)
  have "list_step 5 s (s\<lparr>ls_callers := (ls_callers s)(1 := Returned (Inr (3, [])))\<rparr>)"
    using c by (intro Hit) auto
  from cached_answer_within_ttl [OF r this c(1)] show ?thesis unfolding s_def by simp
qed

section \<open>An invalidation during a flight is lost\<close>



end
