(* ===== verification/Hash_Controller.thy ===== *)
theory Hash_Controller
  imports Drift Kube
begin

text \<open>
  The controller that stamps the hash of the specification onto the NodeClass
  (\<^verbatim>\<open>src/internal/controllers/nodeclass/hash/controller.go\<close>), and back-fills the NodeClaims when the
  hash version moved. The calls of the Kubernetes client are the fields of \<open>hash_kube\<close>; the list is
  the one \<^verbatim>\<open>nodeclaimutils.ForNodeClass\<close> selects.
\<close>

section \<open>The controller\<close>

record ('w, 'c, 'q) hash_kube =
  hk_List :: "'c HCloudNodeClass \<Rightarrow> 'w \<Rightarrow> (go_error + 'q NodeClaim list) \<times> 'w"
  hk_PatchClaim :: "'q NodeClaim \<Rightarrow> 'q NodeClaim \<Rightarrow> 'w \<Rightarrow> go_error option \<times> 'w"
  hk_PatchClass :: "'c HCloudNodeClass \<Rightarrow> 'c HCloudNodeClass \<Rightarrow> 'w \<Rightarrow> go_error option \<times> 'w"

text \<open>One NodeClaim as the loop leaves it in memory.\<close>

definition backfilled :: "string \<Rightarrow> 'q NodeClaim \<Rightarrow> 'q NodeClaim" where
  "backfilled hash nc = nc\<lparr>cl_Annotations := massign (cl_Annotations nc)
     ((AnnotationHashVersion, HashVersion) # (if \<not> cl_Drifted nc then [(AnnotationHash, hash)] else []))\<rparr>"

fun backfill_loop ::
    "('w, 'c, 'q) hash_kube \<Rightarrow> string \<Rightarrow> 'q NodeClaim list \<Rightarrow> go_error list \<Rightarrow> 'w \<Rightarrow> go_error list \<times> 'w" where
  "backfill_loop E hash [] errs w = (errs, w)"
| "backfill_loop E hash (nc # ncs) errs w =
     (if mget (cl_Annotations nc) AnnotationHashVersion = HashVersion then backfill_loop E hash ncs errs w
      else if backfilled hash nc \<noteq> nc then
        (case hk_PatchClaim E nc (backfilled hash nc) w of
           (Some err, w1) \<Rightarrow> (case IgnoreNotFound err of
               Some e \<Rightarrow> backfill_loop E hash ncs (errs @ [e]) w1
             | None \<Rightarrow> backfill_loop E hash ncs errs w1)
         | (None, w1) \<Rightarrow> backfill_loop E hash ncs errs w1)
      else backfill_loop E hash ncs errs w)"

definition backfillNodeClaimHashes ::
    "('w, 'c, 'q) hash_kube \<Rightarrow> (hashed_spec \<Rightarrow> nat) \<Rightarrow> 'c HCloudNodeClass \<Rightarrow> 'w \<Rightarrow> go_error option \<times> 'w" where
  "backfillNodeClaimHashes E hashstructure nodeClass w = (case hk_List E nodeClass w of
       (Inl err, w1) \<Rightarrow> (Some (WrapError ''listing nodeclaims using nodeclass, '' err), w1)
     | (Inr nodeClaims, w1) \<Rightarrow>
         (case backfill_loop E (Hash hashstructure nodeClass) nodeClaims [] w1 of
            (errs, w2) \<Rightarrow> (combine_errors errs, w2)))"

definition stamped :: "(hashed_spec \<Rightarrow> nat) \<Rightarrow> 'c HCloudNodeClass \<Rightarrow> 'c HCloudNodeClass" where
  "stamped hashstructure nodeClass = nodeClass\<lparr>nc_Annotations := massign (nc_Annotations nodeClass)
     [(AnnotationHash, Hash hashstructure nodeClass), (AnnotationHashVersion, HashVersion)]\<rparr>"

definition Hash_Reconcile ::
    "('w, 'c, 'q) hash_kube \<Rightarrow> (hashed_spec \<Rightarrow> nat) \<Rightarrow> 'c HCloudNodeClass \<Rightarrow> 'w \<Rightarrow> go_error option \<times> 'w" where
  "Hash_Reconcile E hashstructure nodeClass w =
     (if nc_DeletionTimestamp nodeClass \<noteq> zero_time then (None, w)
      else (case (if mget (nc_Annotations nodeClass) AnnotationHashVersion \<noteq> HashVersion
                  then backfillNodeClaimHashes E hashstructure nodeClass w else (None, w)) of
          (Some err, w1) \<Rightarrow> (Some err, w1)
        | (None, w1) \<Rightarrow>
            if stamped hashstructure nodeClass \<noteq> nodeClass then
              (case hk_PatchClass E nodeClass (stamped hashstructure nodeClass) w1 of
                 (Some err, w2) \<Rightarrow> (IgnoreNotFound err, w2)
               | (None, w2) \<Rightarrow> (None, w2))
            else (None, w1)))"

section \<open>The store\<close>

text \<open>
  What the controller relies on, over a reading \<open>claims\<close> and \<open>cls\<close> of the objects in the API server.
  A list returns objects of the store under distinct names. A patch that succeeds writes the
  object it was given (nobody else writes in between); one that is answered not-found finds the object
  gone; one that fails otherwise may have been applied all the same. A patch of one object does
  not touch another.
\<close>

definition hash_kube_laws ::
    "('w, 'c, 'q) hash_kube \<Rightarrow> ('w \<Rightarrow> string \<Rightarrow> 'q NodeClaim option) \<Rightarrow> ('w \<Rightarrow> 'c HCloudNodeClass) \<Rightarrow> bool" where
  "hash_kube_laws E claims cls \<longleftrightarrow>
     (\<forall>n w r w'. hk_List E n w = (r, w') \<longrightarrow> claims w' = claims w \<and> cls w' = cls w
        \<and> (case r of Inl _ \<Rightarrow> True | Inr cs \<Rightarrow> distinct (map cl_Name cs) \<and> (\<forall>c \<in> set cs. claims w (cl_Name c) = Some c)))
   \<and> (\<forall>a b w r w'. hk_PatchClaim E a b w = (r, w') \<longrightarrow> cl_Name a = cl_Name b \<longrightarrow> cls w' = cls w
        \<and> (case r of None \<Rightarrow> claims w' = (claims w)(cl_Name b \<mapsto> b)
            | Some err \<Rightarrow> if IgnoreNotFound err = None then claims w' = (claims w)(cl_Name b := None)
                          else claims w' = claims w \<or> claims w' = (claims w)(cl_Name b \<mapsto> b)))
   \<and> (\<forall>a b w r w'. hk_PatchClass E a b w = (r, w') \<longrightarrow> claims w' = claims w
        \<and> (case r of None \<Rightarrow> cls w' = b | Some _ \<Rightarrow> cls w' = cls w \<or> cls w' = b))"

lemma hash_kube_list:
  assumes "hash_kube_laws E claims cls" "hk_List E n w = (r, w')"
  shows "claims w' = claims w" "cls w' = cls w"
    and "r = Inr cs \<Longrightarrow> distinct (map cl_Name cs) \<and> (\<forall>c \<in> set cs. claims w (cl_Name c) = Some c)"
  using assms unfolding hash_kube_laws_def by (force split: sum.splits)+

lemma hash_kube_patch:
  assumes "hash_kube_laws E claims cls" "hk_PatchClaim E a b w = (r, w')" "cl_Name a = cl_Name b"
  shows "cls w' = cls w" "r = None \<Longrightarrow> claims w' = (claims w)(cl_Name b \<mapsto> b)"
    and "r = Some err \<Longrightarrow> IgnoreNotFound err = None \<Longrightarrow> claims w' = (claims w)(cl_Name b := None)"
    and "r = Some err \<Longrightarrow> IgnoreNotFound err \<noteq> None \<Longrightarrow> claims w' = claims w \<or> claims w' = (claims w)(cl_Name b \<mapsto> b)"
proof -
  have "cls w' = cls w \<and> (case r of None \<Rightarrow> claims w' = (claims w)(cl_Name b \<mapsto> b)
            | Some err \<Rightarrow> if IgnoreNotFound err = None then claims w' = (claims w)(cl_Name b := None)
                          else claims w' = claims w \<or> claims w' = (claims w)(cl_Name b \<mapsto> b))"
    using assms unfolding hash_kube_laws_def by blast
  then show "cls w' = cls w" "r = None \<Longrightarrow> claims w' = (claims w)(cl_Name b \<mapsto> b)"
    "r = Some err \<Longrightarrow> IgnoreNotFound err = None \<Longrightarrow> claims w' = (claims w)(cl_Name b := None)"
    "r = Some err \<Longrightarrow> IgnoreNotFound err \<noteq> None \<Longrightarrow> claims w' = claims w \<or> claims w' = (claims w)(cl_Name b \<mapsto> b)"
    by auto
qed

lemma hash_kube_patch_class:
  assumes "hash_kube_laws E claims cls" "hk_PatchClass E a b w = (r, w')"
  shows "claims w' = claims w" "cls w' = cls w \<or> cls w' = b" "r = None \<Longrightarrow> cls w' = b"
proof -
  have "claims w' = claims w \<and> (case r of None \<Rightarrow> cls w' = b | Some _ \<Rightarrow> cls w' = cls w \<or> cls w' = b)"
    using assms unfolding hash_kube_laws_def by blast
  then show "claims w' = claims w" "cls w' = cls w \<or> cls w' = b" "r = None \<Longrightarrow> cls w' = b"
    by (auto split: option.splits)
qed

section \<open>The back-fill\<close>

lemma backfilled_name [simp]: "cl_Name (backfilled h nc) = cl_Name nc"
  by (simp add: backfilled_def)

lemma annotation_keys_differ [simp]: "AnnotationHash \<noteq> AnnotationHashVersion" "AnnotationHashVersion \<noteq> AnnotationHash"
  by (simp_all add: AnnotationHash_def AnnotationHashVersion_def)

lemma backfilled_version [simp]: "mget (cl_Annotations (backfilled h nc)) AnnotationHashVersion = HashVersion"
  by (simp add: backfilled_def)

lemma backfilled_hash [simp]:
  "map_of (cl_Annotations (backfilled h nc)) AnnotationHash =
     (if cl_Drifted nc then map_of (cl_Annotations nc) AnnotationHash else Some h)"
  by (simp add: backfilled_def)

definition handled :: "string \<Rightarrow> 'q NodeClaim \<Rightarrow> 'q NodeClaim option \<Rightarrow> bool" where
  "handled h nc now \<longleftrightarrow> (case now of None \<Rightarrow> True
     | Some c \<Rightarrow> c = (if mget (cl_Annotations nc) AnnotationHashVersion = HashVersion then nc else backfilled h nc))"

text \<open>
  What the loop leaves of the store: it touches only the NodeClaims it was given, each becomes its
  back-filled form or stays, and when no error was collected none stayed.
\<close>

definition backfill_post ::
    "('w \<Rightarrow> string \<Rightarrow> 'q NodeClaim option) \<Rightarrow> ('w \<Rightarrow> 'c HCloudNodeClass) \<Rightarrow> string \<Rightarrow> 'q NodeClaim list \<Rightarrow>
     go_error list \<Rightarrow> 'w \<Rightarrow> go_error list \<Rightarrow> 'w \<Rightarrow> bool" where
  "backfill_post claims cls h ncs errs w errs' w' \<longleftrightarrow>
     cls w' = cls w \<and> length errs \<le> length errs'
   \<and> (\<forall>n. n \<notin> cl_Name ` set ncs \<longrightarrow> claims w' n = claims w n)
   \<and> (\<forall>c \<in> set ncs. claims w' (cl_Name c) = Some c \<or> handled h c (claims w' (cl_Name c)))
   \<and> (length errs' = length errs \<longrightarrow> (\<forall>c \<in> set ncs. handled h c (claims w' (cl_Name c))))"

lemma backfill_post_Cons:
  assumes post: "backfill_post claims cls h ncs errs1 w1 errs' w'"
    and cl: "cls w1 = cls w" and er: "length errs \<le> length errs1" and fresh: "cl_Name nc \<notin> cl_Name ` set ncs"
    and other: "\<And>n. n \<noteq> cl_Name nc \<Longrightarrow> claims w1 n = claims w n"
    and here: "claims w1 (cl_Name nc) = Some nc \<or> handled h nc (claims w1 (cl_Name nc))"
    and ok: "length errs1 = length errs \<Longrightarrow> handled h nc (claims w1 (cl_Name nc))"
  shows "backfill_post claims cls h (nc # ncs) errs w errs' w'"
proof -
  have same: "claims w' (cl_Name nc) = claims w1 (cl_Name nc)"
    using post fresh unfolding backfill_post_def by blast
  have "claims w' n = claims w n" if "n \<notin> cl_Name ` set (nc # ncs)" for n
    using post that other [of n] unfolding backfill_post_def by simp
  moreover have "\<forall>c \<in> set (nc # ncs). claims w' (cl_Name c) = Some c \<or> handled h c (claims w' (cl_Name c))"
    using post here same unfolding backfill_post_def by simp
  moreover have "\<forall>c \<in> set (nc # ncs). handled h c (claims w' (cl_Name c))" if "length errs' = length errs"
  proof -
    have "length errs1 = length errs" "length errs' = length errs1"
      using post er that unfolding backfill_post_def by linarith+
    then show ?thesis using post ok same unfolding backfill_post_def by simp
  qed
  ultimately show ?thesis using post cl er unfolding backfill_post_def by simp
qed

lemma backfill_loop_post:
  assumes laws: "hash_kube_laws E claims cls" and "backfill_loop E h ncs errs w = (errs', w')"
    and "distinct (map cl_Name ncs)" "\<forall>c \<in> set ncs. claims w (cl_Name c) = Some c"
  shows "backfill_post claims cls h ncs errs w errs' w'"
  using assms(2-)
proof (induction ncs arbitrary: errs w)
  case Nil
  then show ?case by (simp add: backfill_post_def)
next
  case (Cons nc ncs)
  have fresh: "cl_Name nc \<notin> cl_Name ` set ncs" and d: "distinct (map cl_Name ncs)" using Cons.prems(2) by auto
  have ne: "backfilled h nc \<noteq> nc" if "mget (cl_Annotations nc) AnnotationHashVersion \<noteq> HashVersion"
    using that backfilled_version by metis
  have rest: "\<forall>c \<in> set ncs. claims w1 (cl_Name c) = Some c" if "\<And>n. n \<noteq> cl_Name nc \<Longrightarrow> claims w1 n = claims w n" for w1
    using that Cons.prems(3) fresh by (metis imageI list.set_intros(2))
  have here: "claims w (cl_Name nc) = Some nc" using Cons.prems(3) by simp
  note step = backfill_post_Cons [OF Cons.IH [OF _ d rest] _ _ fresh]
  show ?case
  proof (cases "mget (cl_Annotations nc) AnnotationHashVersion = HashVersion")
    case True
    with Cons.prems(1) here show ?thesis by (intro step [of errs w]) (auto simp: handled_def)
  next
    case False
    obtain r w1 where p: "hk_PatchClaim E nc (backfilled h nc) w = (r, w1)" by (rule prod.exhaust)
    note P = hash_kube_patch [OF laws p, simplified]
    consider "r = None" | err where "r = Some err" "IgnoreNotFound err = None"
      | err e where "r = Some err" "IgnoreNotFound err = Some e" by fastforce
    then show ?thesis
    proof cases
      case 1
      with Cons.prems(1) False ne p P show ?thesis by (intro step [of errs w1]) (auto simp: handled_def)
    next
      case 2
      with Cons.prems(1) False ne p P show ?thesis by (intro step [of errs w1]) (auto simp: handled_def)
    next
      case 3
      with Cons.prems(1) here False ne p P(4) [OF 3(1)] P(1) show ?thesis
        by (intro step [of "errs @ [e]" w1]) (auto simp: handled_def)
    qed
  qed
qed

section \<open>Upgrades\<close>

lemma hash_drift_other_version [simp]:
  "mget (nc_Annotations ncl) AnnotationHashVersion \<noteq> HashVersion \<Longrightarrow> nodeClassHashDrift ncl c = []"
  by (simp add: nodeClassHashDrift_def)

lemma hash_drift_backfilled:
  "nodeClassHashDrift (stamped hs ncl) (backfilled (Hash hs ncl) c) =
     (if cl_Drifted c \<and> map_of (cl_Annotations c) AnnotationHash \<notin> {None, Some (Hash hs ncl)} then NodeClassDrift else [])"
  by (auto simp: nodeClassHashDrift_def stamped_def split: option.splits)

lemma Hash_Reconcile_order:
  assumes laws: "hash_kube_laws E claims cls" and rec: "Hash_Reconcile E hs (cls w) w = (r, w')"
    and old: "mget (nc_Annotations (cls w)) AnnotationHashVersion \<noteq> HashVersion"
    and l: "hk_List E (cls w) w = (Inr cs, w1)" and c: "c \<in> set cs"
  shows "cls w' = cls w \<or> cls w' = stamped hs (cls w) \<and> handled (Hash hs (cls w)) c (claims w' (cl_Name c))"
proof (cases "nc_DeletionTimestamp (cls w) = zero_time")
  case False
  with rec show ?thesis by (simp add: Hash_Reconcile_def)
next
  case True
  note L = hash_kube_list [OF laws l]
  obtain errs w2 where b: "backfill_loop E (Hash hs (cls w)) cs [] w1 = (errs, w2)" by (rule prod.exhaust)
  have post: "backfill_post claims cls (Hash hs (cls w)) cs [] w1 errs w2"
    by (rule backfill_loop_post [OF laws b]) (use L in auto)
  have bf: "backfillNodeClaimHashes E hs (cls w) w = (combine_errors errs, w2)"
    by (simp add: backfillNodeClaimHashes_def l b)
  have cl2: "cls w2 = cls w" using post L(2) by (simp add: backfill_post_def)
  show ?thesis
  proof (cases "errs = []")
    case False
    then obtain e where "combine_errors errs = Some e" by fastforce
    then show ?thesis using rec True old bf cl2 by (simp add: Hash_Reconcile_def)
  next
    case e: True
    then have h: "handled (Hash hs (cls w)) c (claims w2 (cl_Name c))" using post c by (simp add: backfill_post_def)
    obtain e2 w3 where p: "hk_PatchClass E (cls w) (stamped hs (cls w)) w2 = (e2, w3)" by (rule prod.exhaust)
    have "w' = w2 \<or> w' = w3"
      using rec True old bf e p by (auto simp: Hash_Reconcile_def combine_errors_def split: if_splits option.splits)
    with hash_kube_patch_class [OF laws p] cl2 h show ?thesis by auto
  qed
qed

text \<open>
  C6. When the hash version moved (a new release of the controller), a pass of the hash controller
  makes no node drifted, whichever of its calls fail: a NodeClaim of the class that was stamped by
  the older version and is not condemned already compares equal or is not compared at all, and
  one that carries a Drifted condition keeps its old hash, so that once the class is stamped it
  stays drifted unless that hash is the current one.
\<close>

theorem hash_upgrade_drifts_nobody:
  assumes "hash_kube_laws E claims cls" and "Hash_Reconcile E hs (cls w) w = (r, w')"
    and "mget (nc_Annotations (cls w)) AnnotationHashVersion \<noteq> HashVersion"
    and "hk_List E (cls w) w = (Inr cs, w1)" and "c \<in> set cs"
    and "mget (cl_Annotations c) AnnotationHashVersion \<noteq> HashVersion" and "claims w' (cl_Name c) = Some c'"
  shows "nodeClassHashDrift (cls w') c' =
    (if cls w' \<noteq> cls w \<and> cl_Drifted c \<and> map_of (cl_Annotations c) AnnotationHash \<notin> {None, Some (Hash hs (cls w))}
     then NodeClassDrift else [])"
proof (cases "cls w' = cls w")
  case True
  with assms(3) show ?thesis by simp
next
  case False
  with Hash_Reconcile_order [OF assms(1-5)]
  have "cls w' = stamped hs (cls w)" "handled (Hash hs (cls w)) c (Some c')" using assms(7) by auto
  with assms(6) False show ?thesis by (simp add: handled_def hash_drift_backfilled)
qed

text \<open>An API server of one class and its NodeClaims by name, which answers every call.\<close>

definition ex_store :: "(unit HCloudNodeClass \<times> (string \<times> (string \<times> string list) list NodeClaim) list, unit, (string \<times> string list) list) hash_kube" where
  "ex_store = \<lparr> hk_List = (\<lambda>_ w. (Inr (map snd (filter (\<lambda>(n, c). cl_Name c = n) (AList.clearjunk (snd w)))), w)),
     hk_PatchClaim = (\<lambda>a b w. (None, fst w, mput (cl_Name b) b (snd w))),
     hk_PatchClass = (\<lambda>a b w. (None, b, snd w)) \<rparr>"

lemma distinct_names_clearjunk:
  "distinct (map cl_Name (map snd (filter (\<lambda>(n, c). cl_Name c = n) (AList.clearjunk xs))))"
proof -
  have "map cl_Name (map snd (filter (\<lambda>(n, c). cl_Name c = n) ys)) = map fst (filter (\<lambda>(n, c). cl_Name c = n) ys)" for ys
    by (induction ys) auto
  moreover have "distinct (map fst (filter P (AList.clearjunk xs)))" for P
    by (rule distinct_map_filter [OF distinct_clearjunk])
  ultimately show ?thesis by metis
qed

lemma ex_store_laws: "hash_kube_laws ex_store (\<lambda>w. map_of (snd w)) fst"
proof -
  have "map_of xs (cl_Name c) = Some c" if "(cl_Name c, c) \<in> set (AList.clearjunk xs)" for xs and c :: "(string \<times> string list) list NodeClaim"
    using that by (metis distinct_clearjunk map_of_clearjunk map_of_is_SomeI)
  then show ?thesis
    using distinct_names_clearjunk by (auto simp: hash_kube_laws_def ex_store_def)
qed

definition ex_old_claims :: "(string \<times> string list) list NodeClaim list" where
  "ex_old_claims = [ex_claim\<lparr>cl_Name := ''a'', cl_Annotations := [(AnnotationHash, ''1''), (AnnotationHashVersion, ''v0'')]\<rparr>,
     ex_claim\<lparr>cl_Name := ''b'', cl_Drifted := True, cl_Annotations := [(AnnotationHash, ''1''), (AnnotationHashVersion, ''v0'')]\<rparr>]"

definition ex_upgrade where
  "ex_upgrade = (ex_class\<lparr>nc_Annotations := [(AnnotationHash, ''1''), (AnnotationHashVersion, ''v0'')]\<rparr>,
     map (\<lambda>c. (cl_Name c, c)) ex_old_claims)"

theorem hash_upgrade_witness:
  "(let w' = snd (Hash_Reconcile ex_store (\<lambda>_. 7) (fst ex_upgrade) ex_upgrade) in
     map (\<lambda>n. nodeClassHashDrift (fst w') (the (map_of (snd w') n))) [''a'', ''b''] = [[], NodeClassDrift])"
proof -
  let ?w' = "snd (Hash_Reconcile ex_store (\<lambda>_. 7) (fst ex_upgrade) ex_upgrade)"
  have r: "Hash_Reconcile ex_store (\<lambda>_. 7) (fst ex_upgrade) ex_upgrade = (None, ?w')" by code_simp
  have o: "mget (nc_Annotations (fst ex_upgrade)) AnnotationHashVersion \<noteq> HashVersion" by code_simp
  have l: "hk_List ex_store (fst ex_upgrade) ex_upgrade = (Inr ex_old_claims, ex_upgrade)" by code_simp
  note T = hash_upgrade_drifts_nobody [OF ex_store_laws r o l]
  have "nodeClassHashDrift (fst ?w') (the (map_of (snd ?w') ''a'')) = []"
    by (subst T [of "ex_old_claims ! 0"]) (simp add: ex_old_claims_def, code_simp, code_simp, code_simp)
  moreover have "nodeClassHashDrift (fst ?w') (the (map_of (snd ?w') ''b'')) = NodeClassDrift"
    by (subst T [of "ex_old_claims ! 1"]) (simp add: ex_old_claims_def, code_simp, code_simp, code_simp)
  ultimately show ?thesis by simp
qed

end
