(* ===== verification/Conditions.thy ===== *)
theory Conditions
  imports Hcloud_Catalog Catalog_Provider Kube
begin

text \<open>
  Status conditions, and the environment of the reconcilers of the HCloudNodeClass
  (\<^verbatim>\<open>src/internal/controllers/nodeclass\<close>, \<^verbatim>\<open>src/api/v1alpha1/hcloudnodeclass_status.go\<close>).

  Conditions are kept by operatorpkg, which is not code of this repository: \<open>'c\<close> is its list of
  conditions and the record \<open>condition_set\<close> its operations, each with the time of the clock
  and the generation of the object. \<open>cn_For\<close> is what constructing the set does to the
  object: absent conditions become Unknown.
\<close>

section \<open>operatorpkg\<close>

datatype cond_status = CondTrue | CondFalse | CondUnknown

record Condition =
  cd_Status :: cond_status
  cd_Reason :: string
  cd_Message :: string
  cd_ObservedGeneration :: int

record 'c condition_set =
  cn_Get :: "'c \<Rightarrow> string \<Rightarrow> Condition option"
  cn_For :: "gotime \<Rightarrow> int \<Rightarrow> 'c \<Rightarrow> 'c"
  cn_SetTrue :: "gotime \<Rightarrow> int \<Rightarrow> string \<Rightarrow> 'c \<Rightarrow> 'c"
  cn_SetTrueWithReason :: "gotime \<Rightarrow> int \<Rightarrow> string \<Rightarrow> string \<Rightarrow> string \<Rightarrow> 'c \<Rightarrow> 'c"
  cn_SetFalse :: "gotime \<Rightarrow> int \<Rightarrow> string \<Rightarrow> string \<Rightarrow> string \<Rightarrow> 'c \<Rightarrow> 'c"
  cn_SetUnknownWithReason :: "gotime \<Rightarrow> int \<Rightarrow> string \<Rightarrow> string \<Rightarrow> string \<Rightarrow> 'c \<Rightarrow> 'c"

text \<open>On a nil condition \<^verbatim>\<open>IsUnknown\<close> is true and \<^verbatim>\<open>IsFalse\<close> false.\<close>

definition IsUnknown :: "Condition option \<Rightarrow> bool" where
  "IsUnknown c = (case c of None \<Rightarrow> True | Some x \<Rightarrow> cd_Status x = CondUnknown)"

definition IsFalse :: "Condition option \<Rightarrow> bool" where
  "IsFalse c = (case c of None \<Rightarrow> False | Some x \<Rightarrow> cd_Status x = CondFalse)"

text \<open>The conditions the Ready condition is rolled up from.\<close>

definition conditionTypes :: "string list" where
  "conditionTypes = [ConditionTypeImageReady, ConditionTypeNetworkReady, ConditionTypeFirewallsReady,
     ConditionTypeSSHKeysReady, ConditionTypePlacementGroupReady, ConditionTypeBootstrapDiscoveryReady,
     ConditionTypeValidationSucceeded]"

lemmas condition_type_defs = ConditionTypeImageReady_def ConditionTypeNetworkReady_def
  ConditionTypeFirewallsReady_def ConditionTypeSSHKeysReady_def ConditionTypePlacementGroupReady_def
  ConditionTypeBootstrapDiscoveryReady_def ConditionTypeValidationSucceeded_def

lemma condition_types_in [simp]:
  "ConditionTypeImageReady \<in> set conditionTypes" "ConditionTypeNetworkReady \<in> set conditionTypes"
  "ConditionTypeFirewallsReady \<in> set conditionTypes" "ConditionTypeSSHKeysReady \<in> set conditionTypes"
  "ConditionTypePlacementGroupReady \<in> set conditionTypes" "ConditionTypeBootstrapDiscoveryReady \<in> set conditionTypes"
  "ConditionTypeValidationSucceeded \<in> set conditionTypes"
  by (simp_all add: conditionTypes_def)

text \<open>
  What the reconcilers rely on: setting a condition changes that one and no other, at the
  current generation; constructing the set adds the missing ones as Unknown.
\<close>

definition sets_to :: "('c \<Rightarrow> string \<Rightarrow> Condition option) \<Rightarrow> (string \<Rightarrow> 'c \<Rightarrow> 'c) \<Rightarrow> (Condition \<Rightarrow> bool) \<Rightarrow> bool" where
  "sets_to get put P \<longleftrightarrow> (\<forall>t \<in> set conditionTypes. \<forall>c. (\<exists>x. get (put t c) t = Some x \<and> P x)
     \<and> (\<forall>t' \<in> set conditionTypes. t' \<noteq> t \<longrightarrow> get (put t c) t' = get c t'))"

definition condition_laws :: "'c condition_set \<Rightarrow> bool" where
  "condition_laws S \<longleftrightarrow> (\<forall>now g.
     (\<forall>t \<in> set conditionTypes. \<forall>c. case cn_Get S c t of
        Some x \<Rightarrow> cn_Get S (cn_For S now g c) t = Some x
      | None \<Rightarrow> (\<exists>x. cn_Get S (cn_For S now g c) t = Some x \<and> cd_Status x = CondUnknown \<and> cd_ObservedGeneration x = g))
   \<and> sets_to (cn_Get S) (cn_SetTrue S now g) (\<lambda>x. cd_Status x = CondTrue \<and> cd_ObservedGeneration x = g)
   \<and> (\<forall>r m. sets_to (cn_Get S) (\<lambda>t. cn_SetTrueWithReason S now g t r m)
        (\<lambda>x. x = \<lparr> cd_Status = CondTrue, cd_Reason = r, cd_Message = m, cd_ObservedGeneration = g \<rparr>))
   \<and> (\<forall>r m. sets_to (cn_Get S) (\<lambda>t. cn_SetFalse S now g t r m)
        (\<lambda>x. x = \<lparr> cd_Status = CondFalse, cd_Reason = r, cd_Message = m, cd_ObservedGeneration = g \<rparr>))
   \<and> (\<forall>r m. sets_to (cn_Get S) (\<lambda>t. cn_SetUnknownWithReason S now g t r m)
        (\<lambda>x. x = \<lparr> cd_Status = CondUnknown, cd_Reason = r, cd_Message = m, cd_ObservedGeneration = g \<rparr>)))"

text \<open>An instance: conditions as an association list, without transition times.\<close>

definition put_condition :: "cond_status \<Rightarrow> int \<Rightarrow> string \<Rightarrow> string \<Rightarrow> string \<Rightarrow> (string \<times> Condition) list \<Rightarrow> (string \<times> Condition) list" where
  "put_condition s g t r m = mput t \<lparr> cd_Status = s, cd_Reason = r, cd_Message = m, cd_ObservedGeneration = g \<rparr>"

definition list_conditions :: "(string \<times> Condition) list condition_set" where
  "list_conditions = \<lparr> cn_Get = map_of,
     cn_For = (\<lambda>_ g c. foldr (\<lambda>t c. if mhas c t then c else put_condition CondUnknown g t ''AwaitingReconciliation'' [] c) conditionTypes c),
     cn_SetTrue = (\<lambda>_ g t. put_condition CondTrue g t t []),
     cn_SetTrueWithReason = (\<lambda>_. put_condition CondTrue),
     cn_SetFalse = (\<lambda>_. put_condition CondFalse),
     cn_SetUnknownWithReason = (\<lambda>_. put_condition CondUnknown) \<rparr>"

lemma foldr_put_condition:
  "map_of (foldr (\<lambda>t c. if mhas c t then c else put_condition s g t r m c) ts c) t =
     (case map_of c t of Some x \<Rightarrow> Some x
      | None \<Rightarrow> if t \<in> set ts then Some \<lparr> cd_Status = s, cd_Reason = r, cd_Message = m, cd_ObservedGeneration = g \<rparr> else None)"
  by (induction ts) (auto simp: put_condition_def mhas_def split: option.splits)

lemma map_of_put_condition [simp]:
  "map_of (put_condition s g t r m c) =
     (map_of c)(t \<mapsto> \<lparr> cd_Status = s, cd_Reason = r, cd_Message = m, cd_ObservedGeneration = g \<rparr>)"
  by (simp add: put_condition_def)

lemma list_conditions_laws: "condition_laws list_conditions"
  by (auto simp: condition_laws_def sets_to_def list_conditions_def foldr_put_condition split: option.splits)

section \<open>Environment\<close>

record Event =
  ev_Object :: string
  ev_Type :: string
  ev_Reason :: string
  ev_Message :: string
  ev_DedupeValues :: "string list"

text \<open>
  The struct fields of the reconcilers and what they call: the clock, Hetzner's resources, the
  event recorder, the catalog, and the two operations of the interface \<^verbatim>\<open>Discovery\<close>.
  \<open>ne_text\<close> renders an error.
\<close>

record ('w, 'c) nodeclass_env =
  ne_conds :: "'c condition_set"
  ne_clk :: "'w \<Rightarrow> gotime"
  ne_text :: "go_error \<Rightarrow> string"
  ne_resources :: "'w resources_api"
  ne_Publish :: "Event \<Rightarrow> 'w \<Rightarrow> 'w"
  ne_catalog :: "'w \<Rightarrow> Snapshot option"
  ne_Refresh :: "'w \<Rightarrow> go_error option \<times> 'w"
  ne_Resolve :: "string \<Rightarrow> string list \<Rightarrow> 'w \<Rightarrow> go_error + string \<times> string list"

text \<open>What a reconciler returns: an error or the time to run again, the object as it left it, the world.\<close>

type_synonym ('w, 'c) reconciler =
  "'c HCloudNodeClass \<Rightarrow> 'w \<Rightarrow> (go_error + duration) \<times> 'c HCloudNodeClass \<times> 'w"

definition with_status :: "('c HCloudNodeClassStatus \<Rightarrow> 'c HCloudNodeClassStatus) \<Rightarrow> 'c HCloudNodeClass \<Rightarrow> 'c HCloudNodeClass" where
  "with_status f ncl = ncl\<lparr>nc_Status := f (nc_Status ncl)\<rparr>"

definition on_conditions :: "('c \<Rightarrow> 'c) \<Rightarrow> 'c HCloudNodeClass \<Rightarrow> 'c HCloudNodeClass" where
  "on_conditions f = with_status (\<lambda>s. s\<lparr>st_Conditions := f (st_Conditions s)\<rparr>)"

definition StatusConditions :: "('w, 'c) nodeclass_env \<Rightarrow> 'w \<Rightarrow> 'c HCloudNodeClass \<Rightarrow> 'c HCloudNodeClass" where
  "StatusConditions E w ncl = on_conditions (cn_For (ne_conds E) (ne_clk E w) (nc_Generation ncl)) ncl"

definition SetTrue where
  "SetTrue E w t ncl = on_conditions (cn_SetTrue (ne_conds E) (ne_clk E w) (nc_Generation ncl) t) ncl"

definition SetTrueWithReason where
  "SetTrueWithReason E w t r m ncl = on_conditions (cn_SetTrueWithReason (ne_conds E) (ne_clk E w) (nc_Generation ncl) t r m) ncl"

definition SetFalse where
  "SetFalse E w t r m ncl = on_conditions (cn_SetFalse (ne_conds E) (ne_clk E w) (nc_Generation ncl) t r m) ncl"

definition SetUnknownWithReason where
  "SetUnknownWithReason E w t r m ncl = on_conditions (cn_SetUnknownWithReason (ne_conds E) (ne_clk E w) (nc_Generation ncl) t r m) ncl"

definition cond :: "('w, 'c) nodeclass_env \<Rightarrow> 'c HCloudNodeClass \<Rightarrow> string \<Rightarrow> Condition option" where
  "cond E ncl t = cn_Get (ne_conds E) (st_Conditions (nc_Status ncl)) t"

section \<open>What the operations do\<close>

text \<open>
  A condition counts when it is True at the current generation of the object: the roll-up treats one
  that was observed on an older specification as unhealthy. \<open>rolled_up\<close> is the Ready condition.
\<close>

definition true_at :: "('w, 'c) nodeclass_env \<Rightarrow> 'c HCloudNodeClass \<Rightarrow> string \<Rightarrow> bool" where
  "true_at E ncl t = (case cond E ncl t of None \<Rightarrow> False
     | Some x \<Rightarrow> cd_Status x = CondTrue \<and> cd_ObservedGeneration x = nc_Generation ncl)"

definition rolled_up :: "('w, 'c) nodeclass_env \<Rightarrow> 'c HCloudNodeClass \<Rightarrow> bool" where
  "rolled_up E ncl \<longleftrightarrow> list_all (true_at E ncl) conditionTypes"

definition observed :: "('w, 'c) nodeclass_env \<Rightarrow> 'c HCloudNodeClass \<Rightarrow> bool" where
  "observed E ncl \<longleftrightarrow> (\<forall>t \<in> set conditionTypes. \<forall>x. cond E ncl t = Some x \<longrightarrow> cd_ObservedGeneration x \<le> nc_Generation ncl)"

named_theorems conds "effect of the condition operations"

lemma with_status_simps [simp]:
  "nc_Status (with_status f ncl) = f (nc_Status ncl)" "nc_Spec (with_status f ncl) = nc_Spec ncl"
  "nc_Generation (with_status f ncl) = nc_Generation ncl" "nc_Name (with_status f ncl) = nc_Name ncl"
  "nc_UID (with_status f ncl) = nc_UID ncl" "nc_Status_update g (with_status f ncl) = nc_Status_update (\<lambda>s. g (f s)) ncl"
  by (simp_all add: with_status_def)

lemmas condition_op_defs = StatusConditions_def SetTrue_def SetTrueWithReason_def SetFalse_def
  SetUnknownWithReason_def on_conditions_def

lemma cond_on_conditions [simp]: "cond E (on_conditions f ncl) t = cn_Get (ne_conds E) (f (st_Conditions (nc_Status ncl))) t"
  by (simp add: cond_def on_conditions_def)

lemma cond_with_status [simp]:
  "st_Conditions (f (nc_Status ncl)) = st_Conditions (nc_Status ncl) \<Longrightarrow> cond E (with_status f ncl) t = cond E ncl t"
  by (simp add: cond_def)

lemma sets_toD:
  assumes "sets_to get put P" "t \<in> set conditionTypes"
  shows "\<exists>x. get (put t c) t = Some x \<and> P x"
    and "\<lbrakk> t' \<in> set conditionTypes; t' \<noteq> t \<rbrakk> \<Longrightarrow> get (put t c) t' = get c t'"
  using assms by (auto simp: sets_to_def)

lemma on_conditions_simps [simp]:
  "nc_Generation (on_conditions f ncl) = nc_Generation ncl" "nc_Spec (on_conditions f ncl) = nc_Spec ncl"
  "nc_Name (on_conditions f ncl) = nc_Name ncl" "nc_UID (on_conditions f ncl) = nc_UID ncl"
  "nc_Status (on_conditions f ncl) = (nc_Status ncl)\<lparr>st_Conditions := f (st_Conditions (nc_Status ncl))\<rparr>"
  "(on_conditions f ncl)\<lparr>nc_Status := s\<rparr> = ncl\<lparr>nc_Status := s\<rparr>"
  by (simp_all add: on_conditions_def with_status_def)

lemma condition_ops_keep [simp]:
  "nc_Generation (StatusConditions E w ncl) = nc_Generation ncl" "nc_Spec (StatusConditions E w ncl) = nc_Spec ncl"
  "nc_Generation (SetTrue E w t ncl) = nc_Generation ncl" "nc_Spec (SetTrue E w t ncl) = nc_Spec ncl"
  "nc_Generation (SetTrueWithReason E w t r m ncl) = nc_Generation ncl" "nc_Spec (SetTrueWithReason E w t r m ncl) = nc_Spec ncl"
  "nc_Generation (SetFalse E w t r m ncl) = nc_Generation ncl" "nc_Spec (SetFalse E w t r m ncl) = nc_Spec ncl"
  "nc_Generation (SetUnknownWithReason E w t r m ncl) = nc_Generation ncl" "nc_Spec (SetUnknownWithReason E w t r m ncl) = nc_Spec ncl"
  by (simp_all add: StatusConditions_def SetTrue_def SetTrueWithReason_def SetFalse_def SetUnknownWithReason_def)

lemma cond_StatusConditions [conds]:
  assumes "condition_laws (ne_conds E)" "t \<in> set conditionTypes"
  shows "true_at E (StatusConditions E w ncl) t = true_at E ncl t"
    and "IsUnknown (cond E (StatusConditions E w ncl) t) = IsUnknown (cond E ncl t)"
    and "IsFalse (cond E (StatusConditions E w ncl) t) = IsFalse (cond E ncl t)"
proof -
  have "case cond E ncl t of Some x \<Rightarrow> cond E (StatusConditions E w ncl) t = Some x
      | None \<Rightarrow> (\<exists>x. cond E (StatusConditions E w ncl) t = Some x \<and> cd_Status x = CondUnknown)"
    using assms unfolding condition_laws_def StatusConditions_def cond_def by (fastforce split: option.splits)
  then show "true_at E (StatusConditions E w ncl) t = true_at E ncl t"
    "IsUnknown (cond E (StatusConditions E w ncl) t) = IsUnknown (cond E ncl t)"
    "IsFalse (cond E (StatusConditions E w ncl) t) = IsFalse (cond E ncl t)"
    by (auto simp: true_at_def IsUnknown_def IsFalse_def split: option.splits)
qed

lemma true_at_SetTrue [conds]:
  assumes "condition_laws (ne_conds E)" "t \<in> set conditionTypes" "t' \<in> set conditionTypes"
  shows "true_at E (SetTrue E w t ncl) t' \<longleftrightarrow> t' = t \<or> true_at E ncl t'"
proof -
  have "sets_to (cn_Get (ne_conds E)) (cn_SetTrue (ne_conds E) (ne_clk E w) (nc_Generation ncl))
      (\<lambda>x. cd_Status x = CondTrue \<and> cd_ObservedGeneration x = nc_Generation ncl)"
    using assms(1) by (simp add: condition_laws_def)
  from sets_toD [OF this assms(2), where c = "st_Conditions (nc_Status ncl)"] assms(3) show ?thesis
    by (cases "t' = t") (force simp: true_at_def SetTrue_def cond_def, simp add: true_at_def SetTrue_def cond_def split: option.splits)
qed

lemma cond_SetTrueWithReason:
  assumes "condition_laws (ne_conds E)" "t \<in> set conditionTypes" "t' \<in> set conditionTypes"
  shows "cond E (SetTrueWithReason E w t r m ncl) t' = (if t' = t
    then Some \<lparr> cd_Status = CondTrue, cd_Reason = r, cd_Message = m, cd_ObservedGeneration = nc_Generation ncl \<rparr>
    else cond E ncl t')"
  using assms by (auto simp: condition_laws_def sets_to_def SetTrueWithReason_def cond_def)

lemma cond_SetFalse:
  assumes "condition_laws (ne_conds E)" "t \<in> set conditionTypes" "t' \<in> set conditionTypes"
  shows "cond E (SetFalse E w t r m ncl) t' = (if t' = t
    then Some \<lparr> cd_Status = CondFalse, cd_Reason = r, cd_Message = m, cd_ObservedGeneration = nc_Generation ncl \<rparr>
    else cond E ncl t')"
  using assms by (auto simp: condition_laws_def sets_to_def SetFalse_def cond_def)

lemma cond_SetUnknownWithReason:
  assumes "condition_laws (ne_conds E)" "t \<in> set conditionTypes" "t' \<in> set conditionTypes"
  shows "cond E (SetUnknownWithReason E w t r m ncl) t' = (if t' = t
    then Some \<lparr> cd_Status = CondUnknown, cd_Reason = r, cd_Message = m, cd_ObservedGeneration = nc_Generation ncl \<rparr>
    else cond E ncl t')"
  using assms by (auto simp: condition_laws_def sets_to_def SetUnknownWithReason_def cond_def)

lemma true_at_setters [conds]:
  assumes "condition_laws (ne_conds E)" "t \<in> set conditionTypes" "t' \<in> set conditionTypes"
  shows "true_at E (SetTrueWithReason E w t r m ncl) t' \<longleftrightarrow> t' = t \<or> true_at E ncl t'"
    and "true_at E (SetFalse E w t r m ncl) t' \<longleftrightarrow> t' \<noteq> t \<and> true_at E ncl t'"
    and "true_at E (SetUnknownWithReason E w t r m ncl) t' \<longleftrightarrow> t' \<noteq> t \<and> true_at E ncl t'"
  using assms by (auto simp: true_at_def cond_SetTrueWithReason cond_SetFalse cond_SetUnknownWithReason split: option.splits)

lemma true_at_with_status [simp]:
  "st_Conditions (f (nc_Status ncl)) = st_Conditions (nc_Status ncl) \<Longrightarrow> true_at E (with_status f ncl) t = true_at E ncl t"
  by (simp add: true_at_def split: option.splits)

lemma not_true_at: "IsUnknown (cond E ncl t) \<Longrightarrow> \<not> true_at E ncl t" "IsFalse (cond E ncl t) \<Longrightarrow> \<not> true_at E ncl t"
  by (auto simp: true_at_def IsUnknown_def IsFalse_def split: option.splits)

lemma observed_ops:
  assumes "condition_laws (ne_conds E)" "t \<in> set conditionTypes" "observed E ncl"
  shows "observed E (StatusConditions E w ncl)" "observed E (SetTrue E w t ncl)" "observed E (SetTrueWithReason E w t r m ncl)"
    "observed E (SetFalse E w t r m ncl)" "observed E (SetUnknownWithReason E w t r m ncl)"
proof -
  have "case cond E ncl t of Some x \<Rightarrow> cond E (StatusConditions E w ncl) t = Some x
      | None \<Rightarrow> (\<exists>x. cond E (StatusConditions E w ncl) t = Some x \<and> cd_ObservedGeneration x = nc_Generation ncl)"
    if "t \<in> set conditionTypes" for t
    using assms(1) that unfolding condition_laws_def StatusConditions_def cond_def by (fastforce split: option.splits)
  then show "observed E (StatusConditions E w ncl)"
    using assms(3) unfolding observed_def by (fastforce split: option.splits)
  have "sets_to (cn_Get (ne_conds E)) (cn_SetTrue (ne_conds E) (ne_clk E w) (nc_Generation ncl))
      (\<lambda>x. cd_Status x = CondTrue \<and> cd_ObservedGeneration x = nc_Generation ncl)"
    using assms(1) by (simp add: condition_laws_def)
  note S = sets_toD [OF this assms(2), where c = "st_Conditions (nc_Status ncl)"]
  have "cd_ObservedGeneration x \<le> nc_Generation ncl"
    if "t' \<in> set conditionTypes" "cond E (SetTrue E w t ncl) t' = Some x" for t' x
    using S that assms(3) by (cases "t' = t") (auto simp: observed_def SetTrue_def cond_def)
  then show "observed E (SetTrue E w t ncl)" by (simp add: observed_def)
qed (use assms in \<open>simp_all add: observed_def cond_SetTrueWithReason cond_SetFalse cond_SetUnknownWithReason\<close>)

lemma observed_with_status [simp]:
  "st_Conditions (f (nc_Status ncl)) = st_Conditions (nc_Status ncl) \<Longrightarrow> observed E (with_status f ncl) = observed E ncl"
  by (simp add: observed_def)

end
