(* ===== verification/Cluster_Info.thy ===== *)
theory Cluster_Info
  imports Kube Go_Numbers
begin

text \<open>
  Discovery of the join parameters (\<^verbatim>\<open>src/internal/providers/bootstrap/clusterinfo.go\<close>): the endpoint
  of the API server and the pins of its CA, read from \<^verbatim>\<open>kube-public/cluster-info\<close>.

  The record \<open>info_libs\<close> holds what the source calls: the read of the ConfigMap, client-go's
  kubeconfig loader (the server and CA data of each cluster, in the order the map is ranged over,
  \<open>None\<close> for a nil entry), the URL parser (the host of a URL), the PEM decoder (the blocks, type
  and bytes, that repeated decoding yields), the certificate parser with the encoder of its public key,
  and SHA-256.
\<close>

section \<open>Environment\<close>

record 'w info_libs =
  il_GetConfigMap :: "string \<Rightarrow> string \<Rightarrow> 'w \<Rightarrow> (go_error + strmap) \<times> 'w"
  il_Load :: "string \<Rightarrow> go_error + (string \<times> string) option list"
  il_UrlParse :: "string \<Rightarrow> go_error + string"
  il_PemBlocks :: "string \<Rightarrow> (string \<times> string) list"
  il_ParseCertificate :: "string \<Rightarrow> go_error + string"
  il_MarshalPKIXPublicKey :: "string \<Rightarrow> go_error + string"
  il_Sum256 :: "string \<Rightarrow> string"

definition ClusterInfoNamespace :: string where "ClusterInfoNamespace = ''kube-public''"
definition ClusterInfoName :: string where "ClusterInfoName = ''cluster-info''"

text \<open>\<^verbatim>\<open>Discovery\<close>: what the last successful refresh found.\<close>

record discovery_state =
  ds_endpoint :: string
  ds_hashes :: "string list"

section \<open>Parsing\<close>

text \<open>\<^verbatim>\<open>hex.EncodeToString\<close> and the check of \<^verbatim>\<open>hex.DecodeString\<close>.\<close>

definition hex_encode :: "string \<Rightarrow> string" where
  "hex_encode bs = concat (map (\<lambda>b. [hex_char ((of_char b :: nat) div 16), hex_char ((of_char b :: nat) mod 16)]) bs)"

definition is_hex :: "char \<Rightarrow> bool" where
  "is_hex c \<longleftrightarrow> is_digit c \<or> is_hex_letter c"

definition hex_decodes :: "string \<Rightarrow> bool" where
  "hex_decodes s \<longleftrightarrow> list_all is_hex s \<and> even (length s)"

definition ValidHash :: "string \<Rightarrow> bool" where
  "ValidHash s = (case cut_prefix ''sha256:'' s of
       None \<Rightarrow> False
     | Some h \<Rightarrow> if length h \<noteq> 64 then False else hex_decodes h)"

text \<open>
  \<^verbatim>\<open>(*URL).Port\<close>: what follows the last colon of the host, when it is all digits; else nothing.
\<close>

definition url_Port :: "string \<Rightarrow> string" where
  "url_Port host =
     (let tail = takeWhile (\<lambda>c. c \<noteq> CHR '':'') (rev host) in
      if length tail < length host \<and> list_all is_digit tail then rev tail else [])"

definition hostPort :: "'w info_libs \<Rightarrow> string \<Rightarrow> go_error + string" where
  "hostPort L server = (case il_UrlParse L server of
       Inl err \<Rightarrow> Inl (WrapError (''parsing server URL '' @ go_quote server @ '': '') err)
     | Inr host \<Rightarrow>
         if host = [] then Inl (TextError (''server URL '' @ go_quote server @ '' has no host''))
         else if url_Port host = [] then Inr (host @ '':6443'') else Inr host)"

text \<open>The loop over the PEM blocks.\<close>

fun cert_loop :: "'w info_libs \<Rightarrow> (string \<times> string) list \<Rightarrow> string list \<Rightarrow> go_error + string list" where
  "cert_loop L [] hashes = Inr hashes"
| "cert_loop L ((ty, bytes) # blocks) hashes =
     (if ty \<noteq> ''CERTIFICATE'' then cert_loop L blocks hashes
      else (case il_ParseCertificate L bytes of
          Inl err \<Rightarrow> Inl (WrapError ''parsing CA certificate: '' err)
        | Inr key \<Rightarrow> (case il_MarshalPKIXPublicKey L key of
             Inl err \<Rightarrow> Inl (WrapError ''marshalling CA public key: '' err)
           | Inr spki \<Rightarrow> cert_loop L blocks (hashes @ [''sha256:'' @ hex_encode (il_Sum256 L spki)]))))"

definition caCertHashes :: "'w info_libs \<Rightarrow> string \<Rightarrow> go_error + string list" where
  "caCertHashes L caPEM = (case cert_loop L (il_PemBlocks L caPEM) [] of
       Inl err \<Rightarrow> Inl err
     | Inr hashes \<Rightarrow>
         if hashes = [] then Inl (TextError ''no CERTIFICATE block in certificate-authority-data'') else Inr hashes)"

definition parseClusterInfo :: "'w info_libs \<Rightarrow> string \<Rightarrow> go_error + string \<times> string list" where
  "parseClusterInfo L raw = (case il_Load L raw of
       Inl err \<Rightarrow> Inl (WrapError ''parsing cluster-info kubeconfig: '' err)
     | Inr clusters \<Rightarrow>
        (let (server, caPEM) = (case first_some (\<lambda>c. c) clusters of None \<Rightarrow> ([], []) | Some c \<Rightarrow> c) in
         if server = [] then Inl (TextError ''cluster-info kubeconfig has no server'')
         else if caPEM = [] then Inl (TextError ''cluster-info kubeconfig has no certificate-authority-data'')
         else (case hostPort L server of
             Inl err \<Rightarrow> Inl err
           | Inr endpoint \<Rightarrow> (case caCertHashes L caPEM of
                Inl err \<Rightarrow> Inl err
              | Inr hashes \<Rightarrow> Inr (endpoint, hashes)))))"

section \<open>Discovery\<close>

definition asConfigError :: "go_error \<Rightarrow> go_error" where
  "asConfigError err =
     (if ReasonForError err \<in> {''NotFound'', ''Forbidden'', ''Unauthorized'', ''BadRequest''} then ConfigError err else err)"

definition Discovery_Refresh ::
    "'w info_libs \<Rightarrow> discovery_state \<Rightarrow> 'w \<Rightarrow> go_error option \<times> discovery_state \<times> 'w" where
  "Discovery_Refresh L d w = (case il_GetConfigMap L ClusterInfoNamespace ClusterInfoName w of
       (Inl err, w1) \<Rightarrow> (Some (asConfigError (WrapError (''reading '' @ ClusterInfoNamespace @ ''/'' @ ClusterInfoName @ '': '') err)), d, w1)
     | (Inr cm, w1) \<Rightarrow> (case map_of cm ''kubeconfig'' of
          None \<Rightarrow> (Some (ConfigError (TextError (ClusterInfoNamespace @ ''/'' @ ClusterInfoName @ '' has no kubeconfig key''))), d, w1)
        | Some raw \<Rightarrow> (case parseClusterInfo L raw of
             Inl err \<Rightarrow> (Some (ConfigError err), d, w1)
           | Inr (endpoint, hashes) \<Rightarrow> (None, d\<lparr>ds_endpoint := endpoint, ds_hashes := hashes\<rparr>, w1))))"

definition Discovery_Get :: "discovery_state \<Rightarrow> (string \<times> string list) option" where
  "Discovery_Get d = (if ds_endpoint d = [] \<or> ds_hashes d = [] then None else Some (ds_endpoint d, ds_hashes d))"

definition Discovery_Resolve :: "discovery_state \<Rightarrow> string \<Rightarrow> string list \<Rightarrow> go_error + string \<times> string list" where
  "Discovery_Resolve d endpointOverride hashOverride =
     (let got = Discovery_Get d;
          endpoint = (if endpointOverride \<noteq> [] then endpointOverride else case got of None \<Rightarrow> [] | Some (e, _) \<Rightarrow> e);
          hashes = (if hashOverride \<noteq> [] then hashOverride else case got of None \<Rightarrow> [] | Some (_, h) \<Rightarrow> h) in
      if endpoint = [] \<or> hashes = [] then
        (if got = None then Inl (TextError ''cluster-info has not been read yet and no override was given'')
         else Inl (TextError ''no API server endpoint or CA pin available''))
      else Inr (endpoint, hashes))"

section \<open>Pins\<close>

lemma is_hex_hex_char [simp]: "d < 16 \<Longrightarrow> is_hex (hex_char d)"
proof -
  assume "d < 16"
  then have "d \<in> {0..<16}" by simp
  then show ?thesis
    by (auto simp: atLeastLessThan_nat_numeral is_hex_def hex_char_def is_digit_def is_hex_letter_def lower_char_def)
qed

lemma hex_encode_simps [simp]:
  "hex_encode [] = []"
  "hex_encode (b # bs) = hex_char ((of_char b :: nat) div 16) # hex_char ((of_char b :: nat) mod 16) # hex_encode bs"
  by (simp_all add: hex_encode_def)

lemma length_hex_encode [simp]: "length (hex_encode bs) = 2 * length bs"
  by (induction bs) auto

lemma hex_encode_is_hex: "list_all is_hex (hex_encode bs)"
proof (induction bs)
  case (Cons b bs)
  have "(of_char b :: nat) < 256" by simp
  then have "(of_char b :: nat) div 16 < 16" by presburger
  with Cons show ?case by simp
qed simp

lemma ValidHash_pin: "length bs = 32 \<Longrightarrow> ValidHash (''sha256:'' @ hex_encode bs)"
  using hex_encode_is_hex [of bs] by (simp add: ValidHash_def hex_decodes_def cut_prefix_def)

lemma cert_loop_valid:
  assumes "\<forall>m. length (il_Sum256 L m) = 32" "cert_loop L blocks hashes = Inr out" "list_all ValidHash hashes"
  shows "list_all ValidHash out"
  using assms(2,3)
proof (induction blocks arbitrary: hashes)
  case (Cons b blocks)
  obtain ty bytes where b: "b = (ty, bytes)" by (rule prod.exhaust)
  have pin: "list_all ValidHash (hashes @ [''sha256:'' @ hex_encode (il_Sum256 L m)])" for m
    using Cons.prems(2) ValidHash_pin assms(1) by simp
  show ?case
    using Cons.prems Cons.IH [OF _ pin] Cons.IH [of hashes] unfolding b
    by (auto split: if_splits sum.splits)
qed simp

lemma caCertHashes_valid:
  "\<lbrakk> \<forall>m. length (il_Sum256 L m) = 32; caCertHashes L pem = Inr hashes \<rbrakk> \<Longrightarrow> hashes \<noteq> [] \<and> list_all ValidHash hashes"
  using cert_loop_valid [of L _ "[]"] by (auto simp: caCertHashes_def split: sum.splits if_splits)

lemma hostPort_nonempty: "hostPort L server = Inr e \<Longrightarrow> e \<noteq> []"
  by (auto simp: hostPort_def split: sum.splits if_splits)

lemma parseClusterInfo_valid:
  "\<lbrakk> \<forall>m. length (il_Sum256 L m) = 32; parseClusterInfo L raw = Inr (e, hs) \<rbrakk> \<Longrightarrow>
     e \<noteq> [] \<and> hs \<noteq> [] \<and> list_all ValidHash hs"
  using caCertHashes_valid [of L] hostPort_nonempty [of L]
  by (auto simp: parseClusterInfo_def Let_def split: sum.splits if_splits prod.splits)

lemma Discovery_Refresh_cases:
  "case Discovery_Refresh L d w of (e, d', w') \<Rightarrow>
     (case e of Some err \<Rightarrow> d' = d
      | None \<Rightarrow> \<exists>raw. parseClusterInfo L raw = Inr (ds_endpoint d', ds_hashes d'))"
  by (auto simp: Discovery_Refresh_def split: sum.splits option.splits prod.splits)

text \<open>
  What the reconciler of the NodeClass relies on: the pair is complete, an override wins, and
  with both given nothing discovered is consulted.
\<close>

lemma Discovery_Resolve_complete:
  "Discovery_Resolve d eo ho = Inr (e, hs) \<Longrightarrow> e \<noteq> [] \<and> hs \<noteq> []
     \<and> (eo \<noteq> [] \<longrightarrow> e = eo) \<and> (ho \<noteq> [] \<longrightarrow> hs = ho) \<and> (eo = [] \<longrightarrow> e = ds_endpoint d) \<and> (ho = [] \<longrightarrow> hs = ds_hashes d)"
  by (auto simp: Discovery_Resolve_def Discovery_Get_def Let_def split: if_splits option.splits)

definition discovery_ok :: "discovery_state \<Rightarrow> bool" where
  "discovery_ok d \<longleftrightarrow> (ds_endpoint d = [] \<longleftrightarrow> ds_hashes d = []) \<and> list_all ValidHash (ds_hashes d)"

text \<open>
  C33. Discovery always holds a whole pair of join parameters or none, and every pin it holds has the
  form kubeadm accepts: a refresh keeps this, and one that fails keeps the parameters it
  had. Once a refresh succeeded, join parameters resolve, with or without overrides.
\<close>

theorem Refresh_keeps_whole_pair:
  assumes "discovery_ok d" and "\<forall>m. length (il_Sum256 L m) = 32"
    and "Discovery_Refresh L d w = (e, d', w')"
  shows "discovery_ok d' \<and> (if e = None then Discovery_Get d' = Some (ds_endpoint d', ds_hashes d')
           \<and> (\<exists>p. Discovery_Resolve d' eo ho = Inr p) else d' = d)"
proof (cases e)
  case None
  with Discovery_Refresh_cases [of L d w] assms(3)
  obtain raw where "parseClusterInfo L raw = Inr (ds_endpoint d', ds_hashes d')" by auto
  from parseClusterInfo_valid [OF assms(2) this] None show ?thesis
    by (simp add: discovery_ok_def Discovery_Get_def Discovery_Resolve_def Let_def)
next
  case (Some err)
  with Discovery_Refresh_cases [of L d w] assms(1,3) show ?thesis by simp
qed

definition ex_libs :: "unit info_libs" where
  "ex_libs = \<lparr> il_GetConfigMap = (\<lambda>_ _ w. (Inr [(''kubeconfig'', ''k'')], w)),
     il_Load = (\<lambda>_. Inr [None, Some (''https://10.1.0.2'', ''pem'')]), il_UrlParse = (\<lambda>_. Inr ''10.1.0.2''),
     il_PemBlocks = (\<lambda>_. [(''CERTIFICATE'', ''c'')]), il_ParseCertificate = Inr, il_MarshalPKIXPublicKey = Inr,
     il_Sum256 = (\<lambda>_. replicate 32 (CHR 0xA5)) \<rparr>"

theorem Refresh_keeps_whole_pair_witness:
  "(let d' = fst (snd (Discovery_Refresh ex_libs \<lparr> ds_endpoint = [], ds_hashes = [] \<rparr> ())) in
     discovery_ok d' \<and> Discovery_Get d' = Some (''10.1.0.2:6443'', ds_hashes d'))"
proof -
  let ?d = "\<lparr> ds_endpoint = [], ds_hashes = [] \<rparr>"
  have d: "discovery_ok ?d" by (simp add: discovery_ok_def)
  have l: "\<forall>m. length (il_Sum256 ex_libs m) = 32" by (simp add: ex_libs_def)
  have r: "Discovery_Refresh ex_libs ?d () = (None, fst (snd (Discovery_Refresh ex_libs ?d ())), ())" by code_simp
  have "ds_endpoint (fst (snd (Discovery_Refresh ex_libs ?d ()))) = ''10.1.0.2:6443''" by code_simp
  with Refresh_keeps_whole_pair [OF d l r, of "[]" "[]"] show ?thesis by (simp add: Let_def)
qed

end
