(* ===== verification/Node_Class.thy ===== *)
theory Node_Class
  imports Conditions Cluster_Info
begin

text \<open>
  The reconcilers that resolve the selectors of an HCloudNodeClass into its status
  (\<^verbatim>\<open>resolve.go\<close>, \<^verbatim>\<open>image.go\<close>, \<^verbatim>\<open>network.go\<close>, \<^verbatim>\<open>firewall.go\<close>, \<^verbatim>\<open>sshkey.go\<close>, \<^verbatim>\<open>placementgroup.go\<close>,
  \<^verbatim>\<open>bootstrap.go\<close> and \<^verbatim>\<open>events.go\<close> of \<^verbatim>\<open>src/internal/controllers/nodeclass\<close>). Each changes the
  object in memory and returns; log lines are left out.
\<close>

section \<open>Failures\<close>

definition resolvedRequeue :: duration where "resolvedRequeue = 5 * minute"
definition misconfiguredRequeue :: duration where "misconfiguredRequeue = minute"

definition reasonNotFound :: string where "reasonNotFound = ''NotFound''"
definition reasonInvalidConfiguration :: string where "reasonInvalidConfiguration = ''InvalidConfiguration''"
definition reasonCredentialRejected :: string where "reasonCredentialRejected = ''CredentialRejected''"

definition configFailure :: "go_error \<Rightarrow> string option" where
  "configFailure err =
     (if IsNotFound (Some err) then Some reasonNotFound
      else (case Classify (Some err) of
          ClassConfig \<Rightarrow> Some reasonInvalidConfiguration
        | ClassFatal \<Rightarrow> Some reasonCredentialRejected
        | _ \<Rightarrow> None))"

definition noteUnreachable ::
    "('w, 'c) nodeclass_env \<Rightarrow> 'w \<Rightarrow> string \<Rightarrow> string \<Rightarrow> go_error \<Rightarrow> 'c HCloudNodeClass \<Rightarrow> 'c HCloudNodeClass" where
  "noteUnreachable E w conditionType kind err ncl =
     (if \<not> IsUnknown (cond E ncl conditionType) then ncl
      else SetUnknownWithReason E w conditionType (kind @ ''Unreachable'')
             (''the Hetzner API could not be reached to resolve the '' @ kind @ '', retrying: '' @ ne_text E err) ncl)"

definition failureMessage :: "('w, 'c) nodeclass_env \<Rightarrow> string \<Rightarrow> string \<Rightarrow> go_error \<Rightarrow> string" where
  "failureMessage E what reason err =
     (if reason = reasonCredentialRejected then
        ''the Hetzner API rejected this controller's credential while resolving '' @ what @ '': '' @ ne_text E err
          @ ''. The token is wrong, revoked, or read-only; the selector is not at fault''
      else ''resolving '' @ what @ '': '' @ ne_text E err)"

definition describeSelector :: "string \<Rightarrow> id64 option \<Rightarrow> string" where
  "describeSelector name i = (case i of Some n \<Rightarrow> ''id '' @ format_int n | None \<Rightarrow> ''name '' @ go_quote name)"

section \<open>Image\<close>

definition SupportedArchitecture :: string where "SupportedArchitecture = ''x86''"

definition image_status :: "Image \<Rightarrow> ImageStatus" where
  "image_status img = \<lparr> img_ID = Image_ID img, img_Name = Image_Name img, img_Description = Image_Description img,
     img_Architecture = Image_Architecture img, img_Created = Image_Created img \<rparr>"

definition Image_Reconcile :: "('w, 'c) nodeclass_env \<Rightarrow> ('w, 'c) reconciler" where
  "Image_Reconcile E ncl w =
     (let sel = spec_ImageSelector (nc_Spec ncl); t = ConditionTypeImageReady in
      case Resources_Image (ne_resources E) (sel_Name sel) (sel_ID sel) SupportedArchitecture w of
        (Inl err, w1) \<Rightarrow> (case configFailure err of
            Some reason \<Rightarrow>
              (Inr misconfiguredRequeue,
               SetFalse E w1 t (''Image'' @ reason)
                 (failureMessage E (''imageSelector '' @ describeSelector (sel_Name sel) (sel_ID sel)) reason err)
                 (StatusConditions E w1 (with_status (\<lambda>s. s\<lparr>st_Image := None\<rparr>) ncl)), w1)
          | None \<Rightarrow>
              (Inl (WrapError ''resolving image, '' err), noteUnreachable E w1 t ''Image'' err (StatusConditions E w1 ncl), w1))
      | (Inr img, w1) \<Rightarrow>
          (Inr resolvedRequeue,
           SetTrue E w1 t (StatusConditions E w1 (with_status (\<lambda>s. s\<lparr>st_Image := Some (image_status img)\<rparr>) ncl)), w1))"

section \<open>Network\<close>

definition network_status :: "Network \<Rightarrow> NetworkStatus" where
  "network_status net = \<lparr> net_ID = Network_ID net, net_Name = Network_Name net,
     net_IPRange = Network_IPRange net, net_Zone = Network_Zone net \<rparr>"

definition Network_Reconcile :: "('w, 'c) nodeclass_env \<Rightarrow> ('w, 'c) reconciler" where
  "Network_Reconcile E ncl w =
     (let t = ConditionTypeNetworkReady in
      case spec_NetworkSelector (nc_Spec ncl) of
        None \<Rightarrow>
          (Inr resolvedRequeue, SetTrue E w t (StatusConditions E w (with_status (\<lambda>s. s\<lparr>st_Network := None\<rparr>) ncl)), w)
      | Some sel \<Rightarrow> (case Resources_Network (ne_resources E) (sel_Name sel) (sel_ID sel) w of
          (Inl err, w1) \<Rightarrow> (case configFailure err of
              Some reason \<Rightarrow>
                (Inr misconfiguredRequeue,
                 SetFalse E w1 t (''Network'' @ reason)
                   (failureMessage E (''networkSelector '' @ describeSelector (sel_Name sel) (sel_ID sel)) reason err)
                   (StatusConditions E w1 (with_status (\<lambda>s. s\<lparr>st_Network := None\<rparr>) ncl)), w1)
            | None \<Rightarrow>
                (Inl (WrapError ''resolving network, '' err), noteUnreachable E w1 t ''Network'' err (StatusConditions E w1 ncl), w1))
        | (Inr net, w1) \<Rightarrow>
            if Network_Zone net = [] then
              (Inr misconfiguredRequeue,
               SetFalse E w1 t ''NetworkHasNoSubnet''
                 (''network '' @ describeSelector (sel_Name sel) (sel_ID sel)
                   @ '' has no subnet, so it has no network zone and no server can attach to it'')
                 (StatusConditions E w1 (with_status (\<lambda>s. s\<lparr>st_Network := None\<rparr>) ncl)), w1)
            else
              (Inr resolvedRequeue,
               SetTrue E w1 t (StatusConditions E w1 (with_status (\<lambda>s. s\<lparr>st_Network := Some (network_status net)\<rparr>) ncl)), w1)))"

section \<open>Firewalls and SSH keys\<close>

text \<open>
  The variables of the two loops over selectors: what was resolved, what is missing, the most
  severe reason with its cause, and whether a failure was anything but a missing object.
\<close>

record 'a resolve_acc =
  ra_resolved :: "'a list"
  ra_missing :: "string list"
  ra_reason :: string
  ra_cause :: "go_error option"
  ra_failClosed :: bool

definition ra_init :: "'a resolve_acc" where
  "ra_init = \<lparr> ra_resolved = [], ra_missing = [], ra_reason = [], ra_cause = None, ra_failClosed = False \<rparr>"

definition note_failure :: "string \<Rightarrow> go_error \<Rightarrow> selector_term \<Rightarrow> 'a resolve_acc \<Rightarrow> 'a resolve_acc" where
  "note_failure r err sel acc =
     (let acc1 = (if r \<noteq> reasonNotFound then acc\<lparr>ra_failClosed := True\<rparr> else acc);
          acc2 = (if ra_reason acc1 = [] \<or> r \<noteq> reasonNotFound \<and> ra_reason acc1 = reasonNotFound
                  then acc1\<lparr>ra_reason := r, ra_cause := Some err\<rparr> else acc1)
      in acc2\<lparr>ra_missing := ra_missing acc2 @ [describeSelector (sel_Name sel) (sel_ID sel)]\<rparr>)"

text \<open>The loop: a transient failure returns at once.\<close>

fun resolve_loop ::
    "(string \<Rightarrow> id64 option \<Rightarrow> 'w \<Rightarrow> (go_error + 'a) \<times> 'w) \<Rightarrow> ('a \<Rightarrow> 'b) \<Rightarrow> selector_term list \<Rightarrow> 'b resolve_acc \<Rightarrow> 'w \<Rightarrow>
     (go_error + 'b resolve_acc) \<times> 'w" where
  "resolve_loop get f [] acc w = (Inr acc, w)"
| "resolve_loop get f (sel # sels) acc w = (case get (sel_Name sel) (sel_ID sel) w of
       (Inl err, w1) \<Rightarrow> (case configFailure err of
           None \<Rightarrow> (Inl err, w1)
         | Some r \<Rightarrow> resolve_loop get f sels (note_failure r err sel acc) w1)
     | (Inr x, w1) \<Rightarrow> resolve_loop get f sels (acc\<lparr>ra_resolved := ra_resolved acc @ [f x]\<rparr>) w1)"

definition cause_message :: "('w, 'c) nodeclass_env \<Rightarrow> string \<Rightarrow> 'a resolve_acc \<Rightarrow> string" where
  "cause_message E what acc = (case ra_cause acc of None \<Rightarrow> []
     | Some cause \<Rightarrow> failureMessage E (what @ str_join '', '' (ra_missing acc)) (ra_reason acc) cause)"

definition firewall_status :: "Firewall \<Rightarrow> FirewallStatus" where
  "firewall_status fw = \<lparr> fw_ID = Firewall_ID fw, fw_Name = Firewall_Name fw \<rparr>"

definition Firewalls_Reconcile :: "('w, 'c) nodeclass_env \<Rightarrow> ('w, 'c) reconciler" where
  "Firewalls_Reconcile E ncl w =
     (let t = ConditionTypeFirewallsReady; sels = spec_FirewallSelectors (nc_Spec ncl) in
      if sels = [] then
        (Inr resolvedRequeue, SetTrue E w t (StatusConditions E w (with_status (\<lambda>s. s\<lparr>st_Firewalls := []\<rparr>) ncl)), w)
      else (case resolve_loop (Resources_Firewall (ne_resources E)) firewall_status sels ra_init w of
          (Inl err, w1) \<Rightarrow>
            (Inl (WrapError ''resolving firewall, '' err), noteUnreachable E w1 t ''Firewalls'' err (StatusConditions E w1 ncl), w1)
        | (Inr acc, w1) \<Rightarrow>
            if ra_missing acc \<noteq> [] then
              (Inr misconfiguredRequeue,
               SetFalse E w1 t (''Firewall'' @ ra_reason acc) (cause_message E ''firewallSelectors '' acc)
                 (StatusConditions E w1 (with_status (\<lambda>s. s\<lparr>st_Firewalls := []\<rparr>) ncl)), w1)
            else
              (Inr resolvedRequeue,
               SetTrue E w1 t (StatusConditions E w1 (with_status (\<lambda>s. s\<lparr>st_Firewalls := ra_resolved acc\<rparr>) ncl)), w1)))"

definition key_status :: "SSHKey \<Rightarrow> SSHKeyStatus" where
  "key_status key = \<lparr> key_ID = SSHKey_ID key, key_Name = SSHKey_Name key, key_Fingerprint = SSHKey_Fingerprint key \<rparr>"

definition SSHKeysNarrowedEvent :: "'c HCloudNodeClass \<Rightarrow> string \<Rightarrow> Event" where
  "SSHKeysNarrowedEvent ncl message = \<lparr> ev_Object = nc_Name ncl, ev_Type = ''Warning'', ev_Reason = ''SSHKeysNarrowed'',
     ev_Message = message, ev_DedupeValues = [nc_UID ncl] \<rparr>"

text \<open>The reason and message of a previous condition differ from the new ones, or there is none.\<close>

definition first_time :: "Condition option \<Rightarrow> string \<Rightarrow> string \<Rightarrow> bool" where
  "first_time prev reason message = (case prev of None \<Rightarrow> True
     | Some p \<Rightarrow> cd_Reason p \<noteq> reason \<or> cd_Message p \<noteq> message)"

definition SSHKeys_Reconcile :: "('w, 'c) nodeclass_env \<Rightarrow> ('w, 'c) reconciler" where
  "SSHKeys_Reconcile E ncl w =
     (let t = ConditionTypeSSHKeysReady; sels = spec_SSHKeySelectors (nc_Spec ncl) in
      if sels = [] then
        (Inr resolvedRequeue, SetTrue E w t (StatusConditions E w (with_status (\<lambda>s. s\<lparr>st_SSHKeys := []\<rparr>) ncl)), w)
      else (case resolve_loop (Resources_SSHKey (ne_resources E)) key_status sels ra_init w of
          (Inl err, w1) \<Rightarrow>
            (Inl (WrapError ''resolving ssh key, '' err), noteUnreachable E w1 t ''SSHKeys'' err (StatusConditions E w1 ncl), w1)
        | (Inr acc, w1) \<Rightarrow>
           (let ncl1 = StatusConditions E w1 ncl in
            if ra_failClosed acc then
              (Inr misconfiguredRequeue,
               SetFalse E w1 t (''SSHKey'' @ ra_reason acc) (cause_message E ''sshKeySelectors '' acc)
                 (with_status (\<lambda>s. s\<lparr>st_SSHKeys := []\<rparr>) ncl1), w1)
            else
              (let ncl2 = with_status (\<lambda>s. s\<lparr>st_SSHKeys := ra_resolved acc\<rparr>) ncl1 in
               if ra_missing acc \<noteq> [] then
                 (let message = ''continuing without sshKeySelectors '' @ str_join '', '' (ra_missing acc)
                        @ '', which no longer exist in the Hetzner project; nodes built from now on will not accept those keys'';
                      ncl3 = SetTrueWithReason E w1 t ''SSHKeysNarrowed'' message ncl2
                  in (Inr resolvedRequeue, ncl3,
                      if first_time (cond E ncl2 t) ''SSHKeysNarrowed'' message
                      then ne_Publish E (SSHKeysNarrowedEvent ncl3 message) w1 else w1))
               else (Inr resolvedRequeue, SetTrue E w1 t ncl2, w1)))))"

section \<open>Placement group\<close>

definition PlacementGroupMaxServers :: int where "PlacementGroupMaxServers = 10"
definition PlacementGroupWarnServers :: int where "PlacementGroupWarnServers = PlacementGroupMaxServers - 2"

definition group_status :: "PlacementGroup \<Rightarrow> PlacementGroupStatus" where
  "group_status pg = \<lparr> pg_ID = PlacementGroup_ID pg, pg_Name = PlacementGroup_Name pg,
     pg_Type = PlacementGroup_Type pg, pg_ServerCount = PlacementGroup_ServerCount pg \<rparr>"

definition PlacementGroup_Reconcile :: "('w, 'c) nodeclass_env \<Rightarrow> ('w, 'c) reconciler" where
  "PlacementGroup_Reconcile E ncl w =
     (let t = ConditionTypePlacementGroupReady in
      case spec_PlacementGroup (nc_Spec ncl) of
        None \<Rightarrow>
          (Inr resolvedRequeue, SetTrue E w t (StatusConditions E w (with_status (\<lambda>s. s\<lparr>st_PlacementGroup := None\<rparr>) ncl)), w)
      | Some sel \<Rightarrow> (case Resources_PlacementGroup (ne_resources E) (sel_Name sel) (sel_ID sel) w of
          (Inl err, w1) \<Rightarrow> (case configFailure err of
              Some reason \<Rightarrow>
                (Inr misconfiguredRequeue,
                 SetFalse E w1 t (''PlacementGroup'' @ reason)
                   (failureMessage E (''placementGroup '' @ describeSelector (sel_Name sel) (sel_ID sel)) reason err)
                   (StatusConditions E w1 (with_status (\<lambda>s. s\<lparr>st_PlacementGroup := None\<rparr>) ncl)), w1)
            | None \<Rightarrow>
                (Inl (WrapError ''resolving placement group, '' err),
                 noteUnreachable E w1 t ''PlacementGroup'' err (StatusConditions E w1 ncl), w1))
        | (Inr pg, w1) \<Rightarrow>
           (let ncl1 = StatusConditions E w1 (with_status (\<lambda>s. s\<lparr>st_PlacementGroup := Some (group_status pg)\<rparr>) ncl) in
            (Inr resolvedRequeue,
             (if PlacementGroupMaxServers \<le> PlacementGroup_ServerCount pg then
                SetTrueWithReason E w1 t ''PlacementGroupAtCapacity''
                  (''placement group is at Hetzner's limit of '' @ format_int PlacementGroupMaxServers
                    @ '' servers; the next create fails with placement_error, which is indistinguishable from a stockout'') ncl1
              else if PlacementGroupWarnServers \<le> PlacementGroup_ServerCount pg then
                SetTrueWithReason E w1 t ''PlacementGroupNearCapacity''
                  (''placement group is within '' @ format_int (PlacementGroupMaxServers - PlacementGroupWarnServers)
                    @ '' servers of Hetzner's limit of '' @ format_int PlacementGroupMaxServers
                    @ ''; at the limit creates fail with placement_error, which is indistinguishable from a stockout'') ncl1
              else SetTrue E w1 t ncl1), w1))))"

section \<open>Bootstrap discovery\<close>

definition invalidHashes :: "string list \<Rightarrow> string list" where
  "invalidHashes hashes = filter (\<lambda>h. \<not> ValidHash h) hashes"

fun as_config_error :: "go_error \<Rightarrow> unit option" where
  "as_config_error (ConfigError e) = Some ()"
| "as_config_error _ = None"

definition join_params :: "string \<Rightarrow> string list \<Rightarrow> 'c HCloudNodeClass \<Rightarrow> 'c HCloudNodeClass" where
  "join_params endpoint hashes = with_status (\<lambda>s. s\<lparr>st_APIServerEndpoint := endpoint, st_CACertHashes := hashes\<rparr>)"

definition BootstrapDiscovery_Reconcile :: "('w, 'c) nodeclass_env \<Rightarrow> ('w, 'c) reconciler" where
  "BootstrapDiscovery_Reconcile E ncl w =
     (let spec = spec_Bootstrap (nc_Spec ncl); t = ConditionTypeBootstrapDiscoveryReady;
          ncl1 = StatusConditions E w ncl;
          misconfigured = (\<lambda>reason message w1. (Inr misconfiguredRequeue, SetFalse E w1 t reason message (join_params [] [] ncl1), w1));
          (refreshed, w1) = (if boot_APIServerEndpoint spec = [] \<or> boot_CACertHashes spec = [] then ne_Refresh E w else (None, w)) in
      case refreshed of
        Some err \<Rightarrow>
          if first_some as_config_error (nodes err) = None then
            (Inl (WrapError ''reading cluster-info, '' err), noteUnreachable E w1 t ''ClusterInfo'' err ncl1, w1)
          else misconfigured ''ClusterInfoUnavailable''
                 (''reading the join parameters from '' @ ClusterInfoNamespace @ ''/'' @ ClusterInfoName @ '': '' @ ne_text E err) w1
      | None \<Rightarrow> (case ne_Resolve E (boot_APIServerEndpoint spec) (boot_CACertHashes spec) w1 of
          Inl err \<Rightarrow> misconfigured ''JoinParametersIncomplete'' (ne_text E err) w1
        | Inr (endpoint, hashes) \<Rightarrow>
            if invalidHashes hashes \<noteq> [] then
              misconfigured ''InvalidCACertHash''
                (''CA pins are not in sha256:<64 hex> form: '' @ str_join '', '' (invalidHashes hashes)) w1
            else (Inr resolvedRequeue, SetTrue E w1 t (join_params endpoint hashes ncl1), w1)))"

end
