(* ===== verification/Resolvers.thy ===== *)
theory Resolvers
  imports Node_Class
begin

text \<open>
  The contract of the six resolving reconcilers, and what their conditions promise. A condition that is
  True at the current generation means that the status holds what Hetzner (or the control plane)
  answered to the selectors of the current specification.
\<close>

section \<open>What resolved means\<close>

definition answers :: "('w \<Rightarrow> (go_error + 'a) \<times> 'w) \<Rightarrow> go_error + 'a \<Rightarrow> bool" where
  "answers call r \<longleftrightarrow> (\<exists>w w'. call w = (r, w'))"

definition image_resolved where
  "image_resolved E spec img \<longleftrightarrow> (\<exists>i. img = Some (image_status i) \<and>
     answers (Resources_Image (ne_resources E) (sel_Name (spec_ImageSelector spec)) (sel_ID (spec_ImageSelector spec)) SupportedArchitecture) (Inr i))"

definition network_resolved where
  "network_resolved E spec net = (case spec_NetworkSelector spec of None \<Rightarrow> net = None
     | Some sel \<Rightarrow> (\<exists>n. net = Some (network_status n) \<and> Network_Zone n \<noteq> [] \<and>
          answers (Resources_Network (ne_resources E) (sel_Name sel) (sel_ID sel)) (Inr n)))"

definition firewalls_resolved where
  "firewalls_resolved E spec fws \<longleftrightarrow> (\<exists>xs. fws = map firewall_status xs \<and>
     list_all2 (\<lambda>sel x. answers (Resources_Firewall (ne_resources E) (sel_Name sel) (sel_ID sel)) (Inr x)) (spec_FirewallSelectors spec) xs)"

text \<open>An SSH key may be missing, and nothing else may have gone wrong.\<close>

definition rights :: "('e + 'a) list \<Rightarrow> 'a list" where
  "rights xs = List.map_filter (\<lambda>x. case x of Inl _ \<Rightarrow> None | Inr a \<Rightarrow> Some a) xs"

definition keys_resolved where
  "keys_resolved E spec keys \<longleftrightarrow> (\<exists>rs. keys = map key_status (rights rs) \<and>
     list_all2 (\<lambda>sel r. answers (Resources_SSHKey (ne_resources E) (sel_Name sel) (sel_ID sel)) r
        \<and> (case r of Inl err \<Rightarrow> IsNotFound (Some err) | Inr _ \<Rightarrow> True)) (spec_SSHKeySelectors spec) rs)"

definition group_resolved where
  "group_resolved E spec pg = (case spec_PlacementGroup spec of None \<Rightarrow> pg = None
     | Some sel \<Rightarrow> (\<exists>g. pg = Some (group_status g) \<and>
          answers (Resources_PlacementGroup (ne_resources E) (sel_Name sel) (sel_ID sel)) (Inr g)))"

definition join_resolved where
  "join_resolved E spec endpoint hashes \<longleftrightarrow> list_all ValidHash hashes \<and>
     (\<exists>w. ne_Resolve E (boot_APIServerEndpoint (spec_Bootstrap spec)) (boot_CACertHashes (spec_Bootstrap spec)) w = Inr (endpoint, hashes))"

definition resolved :: "('w, 'c) nodeclass_env \<Rightarrow> string \<Rightarrow> 'c HCloudNodeClass \<Rightarrow> bool" where
  "resolved E t ncl =
     (let spec = nc_Spec ncl; st = nc_Status ncl in
      if t = ConditionTypeImageReady then image_resolved E spec (st_Image st)
      else if t = ConditionTypeNetworkReady then network_resolved E spec (st_Network st)
      else if t = ConditionTypeFirewallsReady then firewalls_resolved E spec (st_Firewalls st)
      else if t = ConditionTypeSSHKeysReady then keys_resolved E spec (st_SSHKeys st)
      else if t = ConditionTypePlacementGroupReady then group_resolved E spec (st_PlacementGroup st)
      else if t = ConditionTypeBootstrapDiscoveryReady then join_resolved E spec (st_APIServerEndpoint st) (st_CACertHashes st)
      else True)"

lemma resolved_simps:
  "resolved E ConditionTypeImageReady ncl = image_resolved E (nc_Spec ncl) (st_Image (nc_Status ncl))"
  "resolved E ConditionTypeNetworkReady ncl = network_resolved E (nc_Spec ncl) (st_Network (nc_Status ncl))"
  "resolved E ConditionTypeFirewallsReady ncl = firewalls_resolved E (nc_Spec ncl) (st_Firewalls (nc_Status ncl))"
  "resolved E ConditionTypeSSHKeysReady ncl = keys_resolved E (nc_Spec ncl) (st_SSHKeys (nc_Status ncl))"
  "resolved E ConditionTypePlacementGroupReady ncl = group_resolved E (nc_Spec ncl) (st_PlacementGroup (nc_Status ncl))"
  "resolved E ConditionTypeBootstrapDiscoveryReady ncl = join_resolved E (nc_Spec ncl) (st_APIServerEndpoint (nc_Status ncl)) (st_CACertHashes (nc_Status ncl))"
  "resolved E ConditionTypeValidationSucceeded ncl"
  by (simp_all add: resolved_def Let_def condition_type_defs)

lemma resolved_cong:
  assumes "nc_Spec ncl' = nc_Spec ncl" "st_Image (nc_Status ncl') = st_Image (nc_Status ncl)"
    "st_Network (nc_Status ncl') = st_Network (nc_Status ncl)" "st_Firewalls (nc_Status ncl') = st_Firewalls (nc_Status ncl)"
    "st_SSHKeys (nc_Status ncl') = st_SSHKeys (nc_Status ncl)" "st_PlacementGroup (nc_Status ncl') = st_PlacementGroup (nc_Status ncl)"
    "st_APIServerEndpoint (nc_Status ncl') = st_APIServerEndpoint (nc_Status ncl)"
    "st_CACertHashes (nc_Status ncl') = st_CACertHashes (nc_Status ncl)"
  shows "resolved E t ncl' = resolved E t ncl"
  using assms unfolding resolved_def Let_def by presburger

section \<open>The contract\<close>

text \<open>
  A reconciler of the condition \<open>t\<close> changes the status only; it leaves the other conditions
  and what they speak about alone; when it leaves \<open>t\<close> True, the status is resolved, or it did not touch
  it; it is True exactly when the reconciler asks for the slow requeue of a resolved class; and a transient
  failure leaves everything as it was.
\<close>

locale resolver =
  fixes E :: "('w, 'c) nodeclass_env" and R :: "('w, 'c) reconciler" and t :: string
  assumes own_type: "t \<in> set conditionTypes" "t \<noteq> ConditionTypeValidationSucceeded"
    and metadata: "R ncl w = (r, ncl', w') \<Longrightarrow> ncl'\<lparr>nc_Status := s\<rparr> = ncl\<lparr>nc_Status := s\<rparr>"
    and others: "\<lbrakk> condition_laws (ne_conds E); R ncl w = (r, ncl', w'); t' \<in> set conditionTypes; t' \<noteq> t \<rbrakk> \<Longrightarrow>
        true_at E ncl' t' = true_at E ncl t' \<and> resolved E t' ncl' = resolved E t' ncl"
    and own: "\<lbrakk> condition_laws (ne_conds E); R ncl w = (Inr d, ncl', w'); true_at E ncl' t \<rbrakk> \<Longrightarrow> resolved E t ncl'"
    and verdict: "\<lbrakk> condition_laws (ne_conds E); R ncl w = (Inr d, ncl', w') \<rbrakk> \<Longrightarrow> true_at E ncl' t \<longleftrightarrow> d = resolvedRequeue"
    and transient: "\<lbrakk> condition_laws (ne_conds E); R ncl w = (Inl err, ncl', w') \<rbrakk> \<Longrightarrow>
        true_at E ncl' t = true_at E ncl t \<and> resolved E t ncl' = resolved E t ncl"
    and generations: "\<lbrakk> condition_laws (ne_conds E); R ncl w = (r, ncl', w'); observed E ncl \<rbrakk> \<Longrightarrow> observed E ncl'"

definition sound :: "('w, 'c) nodeclass_env \<Rightarrow> 'c HCloudNodeClass \<Rightarrow> bool" where
  "sound E ncl \<longleftrightarrow> observed E ncl \<and> (\<forall>t \<in> set conditionTypes. true_at E ncl t \<longrightarrow> resolved E t ncl)"

context resolver
begin

lemma keeps_sound:
  assumes laws: "condition_laws (ne_conds E)" and R: "R ncl w = (r, ncl', w')" and s: "sound E ncl"
  shows "sound E ncl'"
  unfolding sound_def
proof (intro conjI ballI impI)
  show "observed E ncl'" using generations [OF laws R] s by (simp add: sound_def)
next
  fix t' assume t': "t' \<in> set conditionTypes" "true_at E ncl' t'"
  show "resolved E t' ncl'"
  proof (cases "t' = t")
    case False
    with others [OF laws R t'(1)] t' s show ?thesis by (simp add: sound_def)
  next
    case True
    then show ?thesis using own [OF laws] transient [OF laws] R t' s by (cases r) (auto simp: sound_def)
  qed
qed

lemma keeps_spec:
  assumes "R ncl w = (r, ncl', w')"
  shows "nc_Spec ncl' = nc_Spec ncl" "nc_Generation ncl' = nc_Generation ncl"
  using metadata [OF assms, of "nc_Status ncl"] by (metis HCloudNodeClass.simps HCloudNodeClass.ext_inject HCloudNodeClass.surjective)+

end

section \<open>Operations on the object\<close>

lemma resolved_ops [simp]:
  "resolved E t' (StatusConditions E w ncl) = resolved E t' ncl" "resolved E t' (SetTrue E w t ncl) = resolved E t' ncl"
  "resolved E t' (SetTrueWithReason E w t r m ncl) = resolved E t' ncl" "resolved E t' (SetFalse E w t r m ncl) = resolved E t' ncl"
  "resolved E t' (SetUnknownWithReason E w t r m ncl) = resolved E t' ncl"
  by (rule resolved_cong; simp add: StatusConditions_def SetTrue_def SetTrueWithReason_def SetFalse_def SetUnknownWithReason_def)+

lemma metadata_ops [simp]:
  "(StatusConditions E w ncl)\<lparr>nc_Status := s\<rparr> = ncl\<lparr>nc_Status := s\<rparr>" "(SetTrue E w t ncl)\<lparr>nc_Status := s\<rparr> = ncl\<lparr>nc_Status := s\<rparr>"
  "(SetTrueWithReason E w t r m ncl)\<lparr>nc_Status := s\<rparr> = ncl\<lparr>nc_Status := s\<rparr>" "(SetFalse E w t r m ncl)\<lparr>nc_Status := s\<rparr> = ncl\<lparr>nc_Status := s\<rparr>"
  "(SetUnknownWithReason E w t r m ncl)\<lparr>nc_Status := s\<rparr> = ncl\<lparr>nc_Status := s\<rparr>" "(with_status f ncl)\<lparr>nc_Status := s\<rparr> = ncl\<lparr>nc_Status := s\<rparr>"
  "(noteUnreachable E w t k e ncl)\<lparr>nc_Status := s\<rparr> = ncl\<lparr>nc_Status := s\<rparr>"
  by (simp_all add: StatusConditions_def SetTrue_def SetTrueWithReason_def SetFalse_def SetUnknownWithReason_def with_status_def noteUnreachable_def)

lemma resolved_noteUnreachable [simp]: "resolved E t' (noteUnreachable E w t k e ncl) = resolved E t' ncl"
  by (simp add: noteUnreachable_def)

lemma true_at_noteUnreachable [conds]:
  assumes "condition_laws (ne_conds E)" "t \<in> set conditionTypes" "t' \<in> set conditionTypes"
  shows "true_at E (noteUnreachable E w t k e ncl) t' = true_at E ncl t'"
  using assms not_true_at(1) [of E ncl t] by (auto simp: noteUnreachable_def true_at_setters)

lemma observed_noteUnreachable:
  "\<lbrakk> condition_laws (ne_conds E); t \<in> set conditionTypes; observed E ncl \<rbrakk> \<Longrightarrow> observed E (noteUnreachable E w t k e ncl)"
  by (simp add: noteUnreachable_def observed_ops)

text \<open>Each reconciler writes its own part of the status.\<close>

lemma resolved_with_status:
  assumes "t' \<in> set conditionTypes"
  shows "t' \<noteq> ConditionTypeImageReady \<Longrightarrow> resolved E t' (with_status (\<lambda>s. s\<lparr>st_Image := a\<rparr>) ncl) = resolved E t' ncl"
    "t' \<noteq> ConditionTypeNetworkReady \<Longrightarrow> resolved E t' (with_status (\<lambda>s. s\<lparr>st_Network := b\<rparr>) ncl) = resolved E t' ncl"
    "t' \<noteq> ConditionTypeFirewallsReady \<Longrightarrow> resolved E t' (with_status (\<lambda>s. s\<lparr>st_Firewalls := c\<rparr>) ncl) = resolved E t' ncl"
    "t' \<noteq> ConditionTypeSSHKeysReady \<Longrightarrow> resolved E t' (with_status (\<lambda>s. s\<lparr>st_SSHKeys := d\<rparr>) ncl) = resolved E t' ncl"
    "t' \<noteq> ConditionTypePlacementGroupReady \<Longrightarrow> resolved E t' (with_status (\<lambda>s. s\<lparr>st_PlacementGroup := e\<rparr>) ncl) = resolved E t' ncl"
    "t' \<noteq> ConditionTypeBootstrapDiscoveryReady \<Longrightarrow> resolved E t' (join_params f g ncl) = resolved E t' ncl"
    "resolved E t' (with_status (\<lambda>s. s\<lparr>st_Locations := h\<rparr>) ncl) = resolved E t' ncl"
  using assms by (auto simp: conditionTypes_def join_params_def resolved_simps)

lemma resolved_own:
  "resolved E ConditionTypeImageReady (with_status (\<lambda>s. s\<lparr>st_Image := a\<rparr>) ncl) = image_resolved E (nc_Spec ncl) a"
  "resolved E ConditionTypeNetworkReady (with_status (\<lambda>s. s\<lparr>st_Network := b\<rparr>) ncl) = network_resolved E (nc_Spec ncl) b"
  "resolved E ConditionTypeFirewallsReady (with_status (\<lambda>s. s\<lparr>st_Firewalls := c\<rparr>) ncl) = firewalls_resolved E (nc_Spec ncl) c"
  "resolved E ConditionTypeSSHKeysReady (with_status (\<lambda>s. s\<lparr>st_SSHKeys := d\<rparr>) ncl) = keys_resolved E (nc_Spec ncl) d"
  "resolved E ConditionTypePlacementGroupReady (with_status (\<lambda>s. s\<lparr>st_PlacementGroup := e\<rparr>) ncl) = group_resolved E (nc_Spec ncl) e"
  "resolved E ConditionTypeBootstrapDiscoveryReady (join_params f g ncl) = join_resolved E (nc_Spec ncl) f g"
  by (simp_all add: resolved_simps join_params_def)

lemma true_at_join_params [simp]: "true_at E (join_params a b ncl) t = true_at E ncl t"
  by (simp add: join_params_def)

lemma observed_join_params [simp]: "observed E (join_params a b ncl) = observed E ncl"
  by (simp add: join_params_def)

lemma metadata_join_params [simp]: "(join_params a b ncl)\<lparr>nc_Status := s\<rparr> = ncl\<lparr>nc_Status := s\<rparr>"
  by (simp add: join_params_def)

lemma not_validation [simp]:
  "ConditionTypeImageReady \<noteq> ConditionTypeValidationSucceeded" "ConditionTypeNetworkReady \<noteq> ConditionTypeValidationSucceeded"
  "ConditionTypeFirewallsReady \<noteq> ConditionTypeValidationSucceeded" "ConditionTypeSSHKeysReady \<noteq> ConditionTypeValidationSucceeded"
  "ConditionTypePlacementGroupReady \<noteq> ConditionTypeValidationSucceeded"
  "ConditionTypeBootstrapDiscoveryReady \<noteq> ConditionTypeValidationSucceeded"
  by (simp_all add: condition_type_defs)

lemma observed_StatusConditions:
  "\<lbrakk> condition_laws (ne_conds E); observed E ncl \<rbrakk> \<Longrightarrow> observed E (StatusConditions E w ncl)"
  using observed_ops(1) [OF _ condition_types_in(1)] .

lemma requeues_differ [simp]: "resolvedRequeue \<noteq> misconfiguredRequeue" "misconfiguredRequeue \<noteq> resolvedRequeue"
  by (simp_all add: resolvedRequeue_def misconfiguredRequeue_def minute_def second_def)

lemmas resolver_facts = conds resolved_with_status resolved_own observed_StatusConditions observed_ops(2-)
  observed_noteUnreachable Let_def

section \<open>Image, network, placement group, discovery\<close>

interpretation image: resolver E "Image_Reconcile E" ConditionTypeImageReady for E
  by unfold_locales
    (auto simp: Image_Reconcile_def resolver_facts image_resolved_def answers_def
      split: prod.splits sum.splits option.splits)

interpretation network: resolver E "Network_Reconcile E" ConditionTypeNetworkReady for E
  by unfold_locales
    (auto simp: Network_Reconcile_def resolver_facts network_resolved_def answers_def
      split: prod.splits sum.splits option.splits if_splits)

interpretation group: resolver E "PlacementGroup_Reconcile E" ConditionTypePlacementGroupReady for E
  by unfold_locales
    (auto simp: PlacementGroup_Reconcile_def resolver_facts group_resolved_def answers_def
      split: prod.splits sum.splits option.splits if_splits)

interpretation discovery: resolver E "BootstrapDiscovery_Reconcile E" ConditionTypeBootstrapDiscoveryReady for E
  by unfold_locales
    (auto simp: BootstrapDiscovery_Reconcile_def resolver_facts join_resolved_def invalidHashes_def filter_empty_conv list_all_iff
      split: prod.splits sum.splits option.splits if_splits)

section \<open>Firewalls and SSH keys\<close>

lemma reasons_differ [simp]:
  "reasonInvalidConfiguration \<noteq> reasonNotFound" "reasonCredentialRejected \<noteq> reasonNotFound"
  by (simp_all add: reasonInvalidConfiguration_def reasonCredentialRejected_def reasonNotFound_def)

lemma configFailure_NotFound: "configFailure err = Some reasonNotFound \<longleftrightarrow> IsNotFound (Some err)"
  by (auto simp: configFailure_def split: error_class.splits)

lemma note_failure_simps [simp]:
  "ra_resolved (note_failure r err sel acc) = ra_resolved acc"
  "ra_missing (note_failure r err sel acc) = ra_missing acc @ [describeSelector (sel_Name sel) (sel_ID sel)]"
  "ra_failClosed (note_failure r err sel acc) \<longleftrightarrow> ra_failClosed acc \<or> r \<noteq> reasonNotFound"
  by (simp_all add: note_failure_def Let_def)

lemma rights_simps [simp]: "rights [] = []" "rights (Inl e # rs) = rights rs" "rights (Inr a # rs) = a # rights rs"
  by (simp_all add: rights_def List.map_filter_simps)

text \<open>
  What a loop that ran to its end has collected: an answer per selector, those that are objects in
  their order, the others described, and whether one of them was more than a missing object.
\<close>

lemma resolve_loop_answers:
  assumes "resolve_loop get f sels acc w = (Inr acc', w')"
  shows "\<exists>rs. list_all2 (\<lambda>sel r. answers (get (sel_Name sel) (sel_ID sel)) r) sels rs
    \<and> ra_resolved acc' = ra_resolved acc @ map f (rights rs)
    \<and> (ra_missing acc' = ra_missing acc \<longleftrightarrow> (\<forall>r \<in> set rs. \<not> isl r))
    \<and> length (ra_missing acc) \<le> length (ra_missing acc')
    \<and> (ra_failClosed acc' \<longleftrightarrow> ra_failClosed acc \<or> (\<exists>err. Inl err \<in> set rs \<and> \<not> IsNotFound (Some err)))"
  using assms
proof (induction sels arbitrary: acc w)
  case Nil
  then show ?case by (auto intro: exI [of _ "[]"])
next
  case (Cons sel sels)
  obtain r w1 where g: "get (sel_Name sel) (sel_ID sel) w = (r, w1)" by (rule prod.exhaust)
  then have a: "answers (get (sel_Name sel) (sel_ID sel)) r" by (auto simp: answers_def)
  show ?case
  proof (cases r)
    case (Inr x)
    with Cons.prems g have "resolve_loop get f sels (acc\<lparr>ra_resolved := ra_resolved acc @ [f x]\<rparr>) w1 = (Inr acc', w')" by simp
    from Cons.IH [OF this] obtain rs where "list_all2 (\<lambda>sel r. answers (get (sel_Name sel) (sel_ID sel)) r) sels rs"
      "ra_resolved acc' = (ra_resolved acc @ [f x]) @ map f (rights rs)"
      "ra_missing acc' = ra_missing acc \<longleftrightarrow> (\<forall>r \<in> set rs. \<not> isl r)" "length (ra_missing acc) \<le> length (ra_missing acc')"
      "ra_failClosed acc' \<longleftrightarrow> ra_failClosed acc \<or> (\<exists>err. Inl err \<in> set rs \<and> \<not> IsNotFound (Some err))" by auto
    with a Inr show ?thesis by (intro exI [of _ "r # rs"]) auto
  next
    case (Inl err)
    with Cons.prems g obtain rsn where c: "configFailure err = Some rsn"
      and l: "resolve_loop get f sels (note_failure rsn err sel acc) w1 = (Inr acc', w')" by (auto split: option.splits)
    from Cons.IH [OF l] obtain rs where "list_all2 (\<lambda>sel r. answers (get (sel_Name sel) (sel_ID sel)) r) sels rs"
      "ra_resolved acc' = ra_resolved acc @ map f (rights rs)" "Suc (length (ra_missing acc)) \<le> length (ra_missing acc')"
      "ra_failClosed acc' \<longleftrightarrow> ra_failClosed acc \<or> rsn \<noteq> reasonNotFound \<or> (\<exists>err. Inl err \<in> set rs \<and> \<not> IsNotFound (Some err))" by auto
    with a Inl c configFailure_NotFound [of err] show ?thesis
      by (intro exI [of _ "r # rs"]) auto
  qed
qed

lemma list_all2_rights:
  "\<lbrakk> list_all2 P sels rs; \<forall>r \<in> set rs. \<not> isl r \<rbrakk> \<Longrightarrow> list_all2 (\<lambda>sel x. P sel (Inr x)) sels (rights rs)"
proof (induction rule: list_all2_induct)
  case (Cons sel sels r rs)
  then show ?case by (cases r) auto
qed simp

lemma firewalls_loop:
  assumes "resolve_loop (Resources_Firewall (ne_resources E)) firewall_status (spec_FirewallSelectors spec) ra_init w = (Inr acc, w')"
    and "ra_missing acc = []"
  shows "firewalls_resolved E spec (ra_resolved acc)"
  using resolve_loop_answers [OF assms(1)] assms(2) list_all2_rights
  unfolding firewalls_resolved_def by (fastforce simp: ra_init_def)

lemma keys_loop:
  assumes "resolve_loop (Resources_SSHKey (ne_resources E)) key_status (spec_SSHKeySelectors spec) ra_init w = (Inr acc, w')"
    and "\<not> ra_failClosed acc"
  shows "keys_resolved E spec (ra_resolved acc)"
proof -
  obtain rs where rs: "list_all2 (\<lambda>sel r. answers (Resources_SSHKey (ne_resources E) (sel_Name sel) (sel_ID sel)) r) (spec_SSHKeySelectors spec) rs"
    "ra_resolved acc = map key_status (rights rs)" "\<forall>err. Inl err \<in> set rs \<longrightarrow> IsNotFound (Some err)"
    using resolve_loop_answers [OF assms(1)] assms(2) by (auto simp: ra_init_def)
  have "list_all2 (\<lambda>sel r. answers (Resources_SSHKey (ne_resources E) (sel_Name sel) (sel_ID sel)) r
      \<and> (case r of Inl err \<Rightarrow> IsNotFound (Some err) | Inr _ \<Rightarrow> True)) (spec_SSHKeySelectors spec) rs"
    using rs(1,3) by (auto simp: list_all2_conv_all_nth split: sum.splits) (metis nth_mem)
  with rs(2) show ?thesis unfolding keys_resolved_def by blast
qed

lemma nothing_selected [simp]:
  "spec_FirewallSelectors spec = [] \<Longrightarrow> firewalls_resolved E spec []"
  "spec_SSHKeySelectors spec = [] \<Longrightarrow> keys_resolved E spec []"
  by (auto simp: firewalls_resolved_def keys_resolved_def intro: exI [of _ "[]"])

interpretation firewalls: resolver E "Firewalls_Reconcile E" ConditionTypeFirewallsReady for E
  by unfold_locales
    (auto simp: Firewalls_Reconcile_def resolver_facts firewalls_loop
      split: prod.splits sum.splits if_splits)

interpretation keys: resolver E "SSHKeys_Reconcile E" ConditionTypeSSHKeysReady for E
  by unfold_locales
    (auto simp: SSHKeys_Reconcile_def resolver_facts keys_loop
      split: prod.splits sum.splits if_splits)

end
