(* ===== verification/Validation.thy ===== *)
theory Validation
  imports Resolvers
begin

text \<open>
  Validation of a resolved NodeClass (\<^verbatim>\<open>src/internal/controllers/nodeclass/validation.go\<close>): the
  conditions it depends on, the architecture of the image, and the locations a node may be placed in.
\<close>

section \<open>Location scope\<close>

record scope =
  sc_inScope :: "LocationStatus list"
  sc_outsideZone :: "string list"
  sc_unknown :: "string list"
  sc_catalogEmpty :: bool
  sc_explicit :: bool
  sc_zone :: string

text \<open>The map \<^verbatim>\<open>zones\<close>: the zone of every location a supported type is sold in, later entries win.\<close>

definition type_zones :: "strmap \<Rightarrow> ServerType \<Rightarrow> strmap" where
  "type_zones zones st =
     (if ty_Deprecated st \<or> ty_Architecture st \<noteq> SupportedArchitecture then zones
      else foldl (\<lambda>zs l. if stl_Deprecated l then zs else mput (stl_Location l) (stl_NetworkZone l) zs) zones (ty_Locations st))"

definition catalog_zones :: "Snapshot option \<Rightarrow> strmap" where
  "catalog_zones snapshot = (case snapshot of None \<Rightarrow> [] | Some s \<Rightarrow> foldl type_zones [] (sn_ServerTypes s))"

text \<open>The loop over the candidate names, with the names seen so far.\<close>

fun scope_loop :: "strmap \<Rightarrow> string \<Rightarrow> string list \<Rightarrow> string list \<Rightarrow> scope \<Rightarrow> scope" where
  "scope_loop zones networkZone [] seen out = out"
| "scope_loop zones networkZone (name # names) seen out =
     (if name \<in> set seen then scope_loop zones networkZone names seen out
      else scope_loop zones networkZone names (name # seen)
        (case map_of zones name of
           None \<Rightarrow> out\<lparr>sc_unknown := sc_unknown out @ [name]\<rparr>
         | Some zone \<Rightarrow>
             if zone \<noteq> [] \<and> networkZone \<noteq> [] \<and> zone \<noteq> networkZone
             then out\<lparr>sc_outsideZone := sc_outsideZone out @ [name]\<rparr>
             else out\<lparr>sc_inScope := sc_inScope out @
                    [\<lparr> loc_Name = name, loc_NetworkZone = zone, loc_Datacenters = [] \<rparr>]\<rparr>))"

definition network_zone :: "'c HCloudNodeClass \<Rightarrow> string" where
  "network_zone ncl = (case st_Network (nc_Status ncl) of None \<Rightarrow> [] | Some n \<Rightarrow> net_Zone n)"

definition candidate_names :: "Snapshot option \<Rightarrow> 'c HCloudNodeClass \<Rightarrow> string list" where
  "candidate_names snapshot ncl =
     (if spec_Locations (nc_Spec ncl) = [] then sort_strings (map fst (catalog_zones snapshot)) else spec_Locations (nc_Spec ncl))"

definition locationScope :: "Snapshot option \<Rightarrow> 'c HCloudNodeClass \<Rightarrow> scope" where
  "locationScope snapshot ncl =
     (let zones = catalog_zones snapshot; networkZone = network_zone ncl in
      scope_loop zones networkZone (candidate_names snapshot ncl) []
        \<lparr> sc_inScope = [], sc_outsideZone = [], sc_unknown = [], sc_catalogEmpty = (zones = []),
          sc_explicit = (spec_Locations (nc_Spec ncl) \<noteq> []), sc_zone = networkZone \<rparr>)"

definition emptyFailure :: "scope \<Rightarrow> string \<times> string" where
  "emptyFailure s =
     (if sc_outsideZone s \<noteq> [] \<and> sc_unknown s \<noteq> [] then
        (''NoUsableLocations'', ''no location is usable: '' @ str_join '', '' (sc_outsideZone s)
           @ '' are outside the private network's zone '' @ go_quote (sc_zone s) @ '', and ''
           @ str_join '', '' (sc_unknown s) @ '' are not offered by any supported server type'')
      else if sc_outsideZone s \<noteq> [] then
        (''LocationsOutsideNetworkZone'', ''every location in scope ('' @ str_join '', '' (sc_outsideZone s)
           @ '') is outside the private network's zone '' @ go_quote (sc_zone s)
           @ '', and a server cannot attach to a network in another zone'')
      else if sc_unknown s \<noteq> [] then
        (''UnknownLocations'', ''no supported server type is offered in any location in scope (''
           @ str_join '', '' (sc_unknown s) @ '')'')
      else (''NoLocationsAvailable'', ''the Hetzner catalog offers no location for any supported server type''))"

definition excludedMessage :: "scope \<Rightarrow> string" where
  "excludedMessage s =
     (if \<not> sc_explicit s \<or> sc_outsideZone s = [] \<and> sc_unknown s = [] then []
      else
        (let parts = (if sc_outsideZone s \<noteq> [] then
                 [str_join '', '' (sc_outsideZone s) @ '' outside the private network's zone '' @ go_quote (sc_zone s)] else [])
               @ (if sc_unknown s \<noteq> [] then
                 [str_join '', '' (sc_unknown s) @ '' not offered by any supported server type''] else [])
         in ''spec.locations was narrowed, dropping '' @ str_join '' and '' parts))"

section \<open>The reconciler\<close>

definition reasonDependenciesNotReady :: string where "reasonDependenciesNotReady = ''DependenciesNotReady''"
definition reasonCatalogNotFetched :: string where "reasonCatalogNotFetched = ''CatalogNotFetched''"
definition reasonCatalogEmpty :: string where "reasonCatalogEmpty = ''CatalogEmpty''"

definition dependenciesMessage :: "string list \<Rightarrow> string" where
  "dependenciesMessage failing = ''awaiting '' @ str_join '', '' failing"

definition requiredConditions :: "string list" where
  "requiredConditions = [ConditionTypeImageReady, ConditionTypeNetworkReady, ConditionTypeFirewallsReady,
     ConditionTypeSSHKeysReady, ConditionTypePlacementGroupReady, ConditionTypeBootstrapDiscoveryReady]"

definition LocationsNarrowedEvent :: "'c HCloudNodeClass \<Rightarrow> string \<Rightarrow> Event" where
  "LocationsNarrowedEvent ncl message = \<lparr> ev_Object = nc_Name ncl, ev_Type = ''Warning'', ev_Reason = ''LocationsNarrowed'',
     ev_Message = message, ev_DedupeValues = [nc_UID ncl] \<rparr>"

text \<open>The loop over the required conditions: a pending one is Unknown or of an older generation.\<close>

definition failed_conditions :: "('w, 'c) nodeclass_env \<Rightarrow> 'c HCloudNodeClass \<Rightarrow> string list" where
  "failed_conditions E ncl = filter (\<lambda>t. IsFalse (cond E ncl t)) requiredConditions"

definition pending_conditions :: "('w, 'c) nodeclass_env \<Rightarrow> 'c HCloudNodeClass \<Rightarrow> string list" where
  "pending_conditions E ncl = filter (\<lambda>t. \<not> IsFalse (cond E ncl t) \<and>
     (IsUnknown (cond E ncl t) \<or> (case cond E ncl t of None \<Rightarrow> True | Some c \<Rightarrow> cd_ObservedGeneration c \<noteq> nc_Generation ncl)))
     requiredConditions"

definition set_locations :: "LocationStatus list \<Rightarrow> 'c HCloudNodeClass \<Rightarrow> 'c HCloudNodeClass" where
  "set_locations locs = with_status (\<lambda>s. s\<lparr>st_Locations := locs\<rparr>)"

definition wrong_architecture :: "'c HCloudNodeClass \<Rightarrow> string option" where
  "wrong_architecture ncl = (case st_Image (nc_Status ncl) of None \<Rightarrow> None
     | Some img \<Rightarrow> if img_Architecture img \<noteq> [] \<and> img_Architecture img \<noteq> SupportedArchitecture
                   then Some (img_Architecture img) else None)"

definition Validation_Reconcile :: "('w, 'c) nodeclass_env \<Rightarrow> ('w, 'c) reconciler" where
  "Validation_Reconcile E ncl0 w =
     (let t = ConditionTypeValidationSucceeded; ncl = StatusConditions E w ncl0; none = set_locations [] ncl in
      if failed_conditions E ncl \<noteq> [] then
        (Inr misconfiguredRequeue,
         SetFalse E w t reasonDependenciesNotReady (dependenciesMessage (failed_conditions E ncl)) none, w)
      else if pending_conditions E ncl \<noteq> [] then
        (Inr misconfiguredRequeue,
         SetUnknownWithReason E w t reasonDependenciesNotReady (dependenciesMessage (pending_conditions E ncl)) none, w)
      else (case wrong_architecture ncl of
        Some arch \<Rightarrow>
          (Inr misconfiguredRequeue,
           SetFalse E w t ''ImageArchitectureUnsupported''
             (''image architecture '' @ go_quote arch @ '' is not '' @ go_quote SupportedArchitecture
               @ '', which is the only architecture this provider offers instance types for'') none, w)
      | None \<Rightarrow>
         (let snapshot = ne_catalog E w; locations = locationScope snapshot ncl in
          if snapshot = None \<or> sc_catalogEmpty locations then
            (Inr misconfiguredRequeue,
             (if snapshot = None then
                SetUnknownWithReason E w t reasonCatalogNotFetched ''the Hetzner server type catalog has not been fetched yet'' none
              else
                SetUnknownWithReason E w t reasonCatalogEmpty
                  ''the Hetzner server type catalog reports no location offering any supported server type'' none), w)
          else if sc_inScope locations = [] then
            (Inr misconfiguredRequeue, SetFalse E w t (fst (emptyFailure locations)) (snd (emptyFailure locations)) none, w)
          else
            (let ncl1 = set_locations (sc_inScope locations) ncl; excluded = excludedMessage locations in
             if excluded \<noteq> [] then
               (let ncl2 = SetTrueWithReason E w t ''LocationsNarrowed'' excluded ncl1 in
                (Inr resolvedRequeue, ncl2,
                 if first_time (cond E ncl1 t) ''LocationsNarrowed'' excluded
                 then ne_Publish E (LocationsNarrowedEvent ncl2 excluded) w else w))
             else (Inr resolvedRequeue, SetTrue E w t ncl1, w)))))"

section \<open>The scope is a partition\<close>

text \<open>A location is sold when a supported server type that is not deprecated is, there.\<close>

definition sold_in :: "Snapshot option \<Rightarrow> string \<Rightarrow> bool" where
  "sold_in snapshot n \<longleftrightarrow> (\<exists>s. snapshot = Some s \<and> (\<exists>st \<in> set (sn_ServerTypes s). \<not> ty_Deprecated st
     \<and> ty_Architecture st = SupportedArchitecture \<and> (\<exists>l \<in> set (ty_Locations st). stl_Location l = n \<and> \<not> stl_Deprecated l)))"

lemma fst_mput [simp]: "fst ` set (mput k v m) = insert k (fst ` set m)"
  using map_of_mput [of k v m] by (metis dom_fun_upd dom_map_of_conv_image_fst option.distinct(1))

lemma fst_zone_fold:
  "fst ` set (foldl (\<lambda>zs l. if stl_Deprecated l then zs else mput (stl_Location l) (stl_NetworkZone l) zs) zones ls) =
     fst ` set zones \<union> {n. \<exists>l \<in> set ls. stl_Location l = n \<and> \<not> stl_Deprecated l}"
  by (induction ls arbitrary: zones) auto

lemma fst_type_zones:
  "fst ` set (foldl type_zones zones sts) = fst ` set zones \<union>
     {n. \<exists>st \<in> set sts. \<not> ty_Deprecated st \<and> ty_Architecture st = SupportedArchitecture
        \<and> (\<exists>l \<in> set (ty_Locations st). stl_Location l = n \<and> \<not> stl_Deprecated l)}"
  by (induction sts arbitrary: zones) (auto simp: type_zones_def fst_zone_fold)

lemma catalog_zones_keys: "fst ` set (catalog_zones snapshot) = {n. sold_in snapshot n}"
  by (cases snapshot) (simp_all add: catalog_zones_def sold_in_def fst_type_zones)

lemma catalog_zones_None: "map_of (catalog_zones snapshot) n = None \<longleftrightarrow> \<not> sold_in snapshot n"
  using catalog_zones_keys [of snapshot] by (auto simp: map_of_eq_None_iff)

text \<open>The names in the order of their first occurrence, less those seen.\<close>

fun firsts :: "string list \<Rightarrow> string list \<Rightarrow> string list" where
  "firsts [] seen = []"
| "firsts (n # ns) seen = (if n \<in> set seen then firsts ns seen else n # firsts ns (n # seen))"

lemma set_firsts: "set (firsts ns seen) = set ns - set seen"
  by (induction ns arbitrary: seen) auto

lemma distinct_firsts: "distinct (firsts ns seen)"
  by (induction ns arbitrary: seen) (auto simp: set_firsts)

definition outside :: "strmap \<Rightarrow> string \<Rightarrow> string \<Rightarrow> bool" where
  "outside zones nz n \<longleftrightarrow> (case map_of zones n of None \<Rightarrow> False | Some z \<Rightarrow> z \<noteq> [] \<and> nz \<noteq> [] \<and> z \<noteq> nz)"

definition inside :: "strmap \<Rightarrow> string \<Rightarrow> string \<Rightarrow> bool" where
  "inside zones nz n \<longleftrightarrow> (case map_of zones n of None \<Rightarrow> False | Some z \<Rightarrow> \<not> (z \<noteq> [] \<and> nz \<noteq> [] \<and> z \<noteq> nz))"

lemma scope_loop_parts:
  "scope_loop zones nz names seen out = out\<lparr>
     sc_inScope := sc_inScope out @ map (\<lambda>n. \<lparr> loc_Name = n, loc_NetworkZone = the (map_of zones n), loc_Datacenters = [] \<rparr>)
       (filter (inside zones nz) (firsts names seen)),
     sc_outsideZone := sc_outsideZone out @ filter (outside zones nz) (firsts names seen),
     sc_unknown := sc_unknown out @ filter (\<lambda>n. map_of zones n = None) (firsts names seen)\<rparr>"
proof (induction names arbitrary: seen out)
  case (Cons n names)
  then show ?case
    by (cases "map_of zones n") (auto simp: inside_def outside_def)
qed simp

lemma locationScope_fields:
  fixes ncl :: "'c HCloudNodeClass"
  defines "zones snapshot \<equiv> catalog_zones snapshot" and "ns snapshot \<equiv> firsts (candidate_names snapshot ncl) []"
  shows "sc_inScope (locationScope snapshot ncl) = map (\<lambda>n. \<lparr> loc_Name = n, loc_NetworkZone = the (map_of (zones snapshot) n), loc_Datacenters = [] \<rparr>)
       (filter (inside (zones snapshot) (network_zone ncl)) (ns snapshot))"
    "sc_outsideZone (locationScope snapshot ncl) = filter (outside (zones snapshot) (network_zone ncl)) (ns snapshot)"
    "sc_unknown (locationScope snapshot ncl) = filter (\<lambda>n. map_of (zones snapshot) n = None) (ns snapshot)"
    "sc_catalogEmpty (locationScope snapshot ncl) \<longleftrightarrow> zones snapshot = []"
  by (simp_all add: locationScope_def Let_def scope_loop_parts zones_def ns_def)

text \<open>
  C32. The locations of a NodeClass are partitioned: every location the operator wrote down (or,
  with none written, every location in which a supported server type is sold) ends in exactly
  one of three sets, once. Unknown are those in which no supported type is sold; outside are those
  whose zone is known and differs from that of the private network; every other one is in scope.
  A location of unknown zone is never excluded.
\<close>

theorem locationScope_partition:
  "(let sc = locationScope snapshot ncl; nz = network_zone ncl;
        cands = (if spec_Locations (nc_Spec ncl) = [] then {n. sold_in snapshot n} else set (spec_Locations (nc_Spec ncl))) in
    distinct (map loc_Name (sc_inScope sc) @ sc_outsideZone sc @ sc_unknown sc)
    \<and> set (map loc_Name (sc_inScope sc) @ sc_outsideZone sc @ sc_unknown sc) = cands
    \<and> set (sc_unknown sc) = {n \<in> cands. \<not> sold_in snapshot n}
    \<and> set (sc_outsideZone sc) = {n \<in> cands. \<exists>z. map_of (catalog_zones snapshot) n = Some z \<and> z \<noteq> [] \<and> nz \<noteq> [] \<and> z \<noteq> nz}
    \<and> set (sc_inScope sc) = {\<lparr> loc_Name = n, loc_NetworkZone = z, loc_Datacenters = [] \<rparr> | n z.
          n \<in> cands \<and> map_of (catalog_zones snapshot) n = Some z \<and> (z = [] \<or> nz = [] \<or> z = nz)})"
proof -
  let ?sc = "locationScope snapshot ncl" and ?nz = "network_zone ncl" and ?z = "catalog_zones snapshot"
  let ?ns = "firsts (candidate_names snapshot ncl) []"
  let ?cands = "if spec_Locations (nc_Spec ncl) = [] then {n. sold_in snapshot n} else set (spec_Locations (nc_Spec ncl))"
  have ns: "set ?ns = ?cands"
    using catalog_zones_keys [of snapshot] by (simp add: set_firsts candidate_names_def)
  have names: "map loc_Name (sc_inScope ?sc) = filter (inside ?z ?nz) ?ns"
    by (simp add: locationScope_fields comp_def)
  have d: "distinct (filter (inside ?z ?nz) ?ns @ filter (outside ?z ?nz) ?ns @ filter (\<lambda>n. map_of ?z n = None) ?ns)"
    by (auto simp: distinct_firsts inside_def outside_def split: option.splits)
  have "set (filter (inside ?z ?nz) ?ns @ filter (outside ?z ?nz) ?ns @ filter (\<lambda>n. map_of ?z n = None) ?ns) = set ?ns"
    by (auto simp: inside_def outside_def split: option.splits)
  moreover have "set (sc_unknown ?sc) = {n \<in> ?cands. \<not> sold_in snapshot n}"
    by (auto simp: locationScope_fields ns [symmetric] catalog_zones_None)
  moreover have "set (sc_outsideZone ?sc) = {n \<in> ?cands. \<exists>z. map_of ?z n = Some z \<and> z \<noteq> [] \<and> ?nz \<noteq> [] \<and> z \<noteq> ?nz}"
    unfolding ns [symmetric] by (auto simp: locationScope_fields outside_def split: option.splits)
  moreover have "set (sc_inScope ?sc) = {\<lparr> loc_Name = n, loc_NetworkZone = z, loc_Datacenters = [] \<rparr> | n z.
          n \<in> ?cands \<and> map_of ?z n = Some z \<and> (z = [] \<or> ?nz = [] \<or> z = ?nz)}"
    unfolding ns [symmetric] by (auto simp: locationScope_fields inside_def split: option.splits)
  ultimately show ?thesis
    unfolding Let_def names using d by (simp only: locationScope_fields(2,3) [symmetric] ns)
qed

section \<open>What a validated class is\<close>

definition validated :: "('w, 'c) nodeclass_env \<Rightarrow> 'c HCloudNodeClass \<Rightarrow> bool" where
  "validated E ncl \<longleftrightarrow> list_all (true_at E ncl) requiredConditions \<and> wrong_architecture ncl = None
     \<and> st_Locations (nc_Status ncl) \<noteq> [] \<and> (\<exists>snapshot. st_Locations (nc_Status ncl) = sc_inScope (locationScope snapshot ncl))"

lemma requiredConditions_subset: "set requiredConditions \<subseteq> set conditionTypes - {ConditionTypeValidationSucceeded}"
  by (simp add: requiredConditions_def)

lemma set_conditionTypes: "set conditionTypes = insert ConditionTypeValidationSucceeded (set requiredConditions)"
  by (auto simp: conditionTypes_def requiredConditions_def)

lemma all_conditions_true:
  assumes "failed_conditions E ncl = []" "pending_conditions E ncl = []"
  shows "list_all (true_at E ncl) requiredConditions"
  unfolding list_all_iff
proof
  fix t assume "t \<in> set requiredConditions"
  with assms have "\<not> IsFalse (cond E ncl t)" "\<not> IsUnknown (cond E ncl t)"
    "\<exists>c. cond E ncl t = Some c \<and> cd_ObservedGeneration c = nc_Generation ncl"
    by (auto simp: failed_conditions_def pending_conditions_def filter_empty_conv split: option.splits)
  then show "true_at E ncl t"
    by (auto simp: true_at_def IsFalse_def IsUnknown_def intro: cond_status.exhaust)
qed

lemma scope_ops [simp]:
  "locationScope sn (set_locations ls ncl) = locationScope sn ncl" "locationScope sn (SetTrue E w t ncl) = locationScope sn ncl"
  "locationScope sn (SetTrueWithReason E w t r m ncl) = locationScope sn ncl"
  "wrong_architecture (set_locations ls ncl) = wrong_architecture ncl" "wrong_architecture (SetTrue E w t ncl) = wrong_architecture ncl"
  "wrong_architecture (SetTrueWithReason E w t r m ncl) = wrong_architecture ncl"
  "st_Locations (nc_Status (SetTrue E w t ncl)) = st_Locations (nc_Status ncl)"
  "st_Locations (nc_Status (SetTrueWithReason E w t r m ncl)) = st_Locations (nc_Status ncl)"
  "st_Locations (nc_Status (set_locations ls ncl)) = ls"
  by (simp_all add: locationScope_def Let_def network_zone_def candidate_names_def set_locations_def SetTrue_def
      SetTrueWithReason_def wrong_architecture_def split: option.splits)

lemma set_locations_simps [simp]:
  "true_at E (set_locations ls ncl) t = true_at E ncl t" "observed E (set_locations ls ncl) = observed E ncl"
  "(set_locations ls ncl)\<lparr>nc_Status := s\<rparr> = ncl\<lparr>nc_Status := s\<rparr>"
  "t \<in> set conditionTypes \<Longrightarrow> resolved E t (set_locations ls ncl) = resolved E t ncl"
  by (simp_all add: set_locations_def resolved_with_status)

lemmas validation_split = if_splits option.splits

lemma Validation_frame:
  assumes "Validation_Reconcile E ncl w = (r, ncl', w')"
  shows "ncl'\<lparr>nc_Status := s\<rparr> = ncl\<lparr>nc_Status := s\<rparr>"
    and "condition_laws (ne_conds E) \<Longrightarrow> t \<in> set conditionTypes \<Longrightarrow> t \<noteq> ConditionTypeValidationSucceeded \<Longrightarrow> true_at E ncl' t = true_at E ncl t"
    and "condition_laws (ne_conds E) \<Longrightarrow> t \<in> set conditionTypes \<Longrightarrow> resolved E t ncl' = resolved E t ncl"
    and "condition_laws (ne_conds E) \<Longrightarrow> observed E ncl \<Longrightarrow> observed E ncl'"
  using assms unfolding Validation_Reconcile_def Let_def
  by (auto simp: resolver_facts split: validation_split)

lemma Validation_true:
  assumes laws: "condition_laws (ne_conds E)" and V: "Validation_Reconcile E ncl w = (r, ncl', w')"
    and t: "true_at E ncl' ConditionTypeValidationSucceeded"
  shows "validated E ncl'"
proof -
  let ?n = "StatusConditions E w ncl"
  have all: "list_all (true_at E ?n) requiredConditions"
    if "failed_conditions E ?n = []" "pending_conditions E ?n = []" using that by (rule all_conditions_true)
  have same: "true_at E ncl' t' = true_at E ?n t'" if "t' \<in> set requiredConditions" for t'
    using Validation_frame(2) [OF V laws, of t'] cond_StatusConditions(1) [OF laws] that requiredConditions_subset by blast
  have "failed_conditions E ?n = [] \<and> pending_conditions E ?n = [] \<and> wrong_architecture ncl' = None
      \<and> st_Locations (nc_Status ncl') \<noteq> [] \<and> st_Locations (nc_Status ncl') = sc_inScope (locationScope (ne_catalog E w) ncl')"
    using V t unfolding Validation_Reconcile_def Let_def
    by (auto simp: laws conds split: validation_split)
  with all same show ?thesis unfolding validated_def list_all_iff by blast
qed

end
