(* ===== verification/Node_Class_Controller.thy ===== *)
theory Node_Class_Controller
  imports Validation Example_Data
begin

text \<open>
  The status controller of the HCloudNodeClass (\<^verbatim>\<open>controller.go\<close>, \<^verbatim>\<open>termination.go\<close> and the event of
  \<^verbatim>\<open>events.go\<close> it publishes, in \<^verbatim>\<open>src/internal/controllers/nodeclass\<close>). The calls of the Kubernetes
  client are the fields of \<open>nodeclass_kube\<close>: the list returns the names of the NodeClaims of the
  class, a metadata patch the object as the API server answers it. \<open>nk_Min\<close> is karpenter's
  \<^verbatim>\<open>result.Min\<close>, \<open>nk_pretty\<close> its \<^verbatim>\<open>pretty.Slice\<close>. A result is the time after which to run again, zero for never.
\<close>

section \<open>Termination\<close>

record ('w, 'c) nodeclass_kube =
  nk_ListClaims :: "'c HCloudNodeClass \<Rightarrow> 'w \<Rightarrow> (go_error + string list) \<times> 'w"
  nk_Patch :: "'c HCloudNodeClass \<Rightarrow> 'c HCloudNodeClass \<Rightarrow> 'w \<Rightarrow> (go_error + 'c HCloudNodeClass) \<times> 'w"
  nk_StatusPatch :: "'c HCloudNodeClass \<Rightarrow> 'c HCloudNodeClass \<Rightarrow> 'w \<Rightarrow> go_error option \<times> 'w"
  nk_Min :: "duration list \<Rightarrow> duration"
  nk_pretty :: "string list \<Rightarrow> nat \<Rightarrow> string"

definition terminationBlockedRequeue :: duration where "terminationBlockedRequeue = 10 * minute"
definition conflictRequeue :: duration where "conflictRequeue = second"

definition WaitingOnNodeClaimTerminationEvent :: "('w, 'c) nodeclass_kube \<Rightarrow> 'c HCloudNodeClass \<Rightarrow> string list \<Rightarrow> Event" where
  "WaitingOnNodeClaimTerminationEvent K ncl names = \<lparr> ev_Object = nc_Name ncl, ev_Type = ''Normal'',
     ev_Reason = ''WaitingOnNodeClaimTermination'',
     ev_Message = ''Waiting on NodeClaim termination for '' @ nk_pretty K names 5, ev_DedupeValues = [nc_UID ncl] \<rparr>"

definition ContainsFinalizer :: "'c HCloudNodeClass \<Rightarrow> bool" where
  "ContainsFinalizer ncl \<longleftrightarrow> TerminationFinalizer \<in> set (nc_Finalizers ncl)"

definition RemoveFinalizer :: "'c HCloudNodeClass \<Rightarrow> 'c HCloudNodeClass" where
  "RemoveFinalizer ncl = ncl\<lparr>nc_Finalizers := filter (\<lambda>f. f \<noteq> TerminationFinalizer) (nc_Finalizers ncl)\<rparr>"

definition AddFinalizer :: "'c HCloudNodeClass \<Rightarrow> 'c HCloudNodeClass" where
  "AddFinalizer ncl = ncl\<lparr>nc_Finalizers := nc_Finalizers ncl @ [TerminationFinalizer]\<rparr>"

definition Finalize :: "('w, 'c) nodeclass_env \<Rightarrow> ('w, 'c) nodeclass_kube \<Rightarrow> ('w, 'c) reconciler" where
  "Finalize E K ncl w =
     (if \<not> ContainsFinalizer ncl then (Inr 0, ncl, w)
      else (case nk_ListClaims K ncl w of
          (Inl err, w1) \<Rightarrow> (Inl (WrapError ''listing nodeclaims using nodeclass, '' err), ncl, w1)
        | (Inr names, w1) \<Rightarrow>
            if names \<noteq> [] then
              (Inr terminationBlockedRequeue, ncl,
               ne_Publish E (WaitingOnNodeClaimTerminationEvent K ncl (sort_strings names)) w1)
            else if RemoveFinalizer ncl \<noteq> ncl then
              (case nk_Patch K ncl (RemoveFinalizer ncl) w1 of
                 (Inl err, w2) \<Rightarrow>
                   if IsConflict err then (Inr conflictRequeue, RemoveFinalizer ncl, w2)
                   else (case IgnoreNotFound (WrapError ''removing termination finalizer, '' err) of
                           None \<Rightarrow> (Inr 0, RemoveFinalizer ncl, w2)
                         | Some e \<Rightarrow> (Inl e, RemoveFinalizer ncl, w2))
               | (Inr patched, w2) \<Rightarrow> (Inr 0, patched, w2))
            else (Inr 0, RemoveFinalizer ncl, w1)))"

section \<open>The controller\<close>

definition reconcilers :: "('w, 'c) nodeclass_env \<Rightarrow> ('w, 'c) reconciler list" where
  "reconcilers E = [Image_Reconcile E, Network_Reconcile E, Firewalls_Reconcile E, SSHKeys_Reconcile E,
     PlacementGroup_Reconcile E, BootstrapDiscovery_Reconcile E, Validation_Reconcile E]"

text \<open>The loop over the reconcilers: every one runs, whatever the others returned.\<close>

fun run_reconcilers ::
    "('w, 'c) reconciler list \<Rightarrow> go_error list \<Rightarrow> duration list \<Rightarrow> 'c HCloudNodeClass \<Rightarrow> 'w \<Rightarrow>
     go_error list \<times> duration list \<times> 'c HCloudNodeClass \<times> 'w" where
  "run_reconcilers [] errs results ncl w = (errs, results, ncl, w)"
| "run_reconcilers (R # Rs) errs results ncl w = (case R ncl w of
       (Inl err, ncl1, w1) \<Rightarrow> run_reconcilers Rs (errs @ [err]) (results @ [0]) ncl1 w1
     | (Inr d, ncl1, w1) \<Rightarrow> run_reconcilers Rs errs (results @ [d]) ncl1 w1)"

text \<open>From the snapshot of the object to the end: the reconcilers and the one write of the status.\<close>

definition status_pass :: "('w, 'c) nodeclass_env \<Rightarrow> ('w, 'c) nodeclass_kube \<Rightarrow> ('w, 'c) reconciler" where
  "status_pass E K stored w = (case run_reconcilers (reconcilers E) [] [] stored w of
     (errs, results, ncl, w1) \<Rightarrow>
       (case (if stored \<noteq> ncl then nk_StatusPatch K stored ncl w1 else (None, w1)) of
          (None, w2) \<Rightarrow> (case combine_errors errs of Some e \<Rightarrow> (Inl e, ncl, w2) | None \<Rightarrow> (Inr (nk_Min K results), ncl, w2))
        | (Some err, w2) \<Rightarrow>
            if IsConflict err \<and> errs = [] then (Inr conflictRequeue, ncl, w2)
            else (case combine_errors (errs @ (case IgnoreNotFound err of None \<Rightarrow> [] | Some e \<Rightarrow> [e])) of
                    Some e \<Rightarrow> (Inl e, ncl, w2) | None \<Rightarrow> (Inr (nk_Min K results), ncl, w2))))"

definition Controller_Reconcile :: "('w, 'c) nodeclass_env \<Rightarrow> ('w, 'c) nodeclass_kube \<Rightarrow> ('w, 'c) reconciler" where
  "Controller_Reconcile E K ncl w =
     (if nc_DeletionTimestamp ncl \<noteq> zero_time then Finalize E K ncl w
      else if \<not> ContainsFinalizer ncl then
        (case nk_Patch K ncl (AddFinalizer ncl) w of
           (Inl err, w1) \<Rightarrow>
             if IgnoreNotFound err \<noteq> None then
               (if IsConflict err then (Inr conflictRequeue, AddFinalizer ncl, w1) else (Inl err, AddFinalizer ncl, w1))
             else status_pass E K (AddFinalizer ncl) w1
         | (Inr patched, w1) \<Rightarrow> status_pass E K patched w1)
      else status_pass E K ncl w)"

section \<open>Watches\<close>

text \<open>The map function of the NodeClaim watch; only deletions reach it. \<open>get\<close> reads a NodeClass from the cache.\<close>

definition enqueueForNodeClaim :: "(string \<Rightarrow> go_error + 'c HCloudNodeClass) \<Rightarrow> 'q NodeClaim \<Rightarrow> string list" where
  "enqueueForNodeClaim get nc = (case cl_NodeClassRef nc of
       None \<Rightarrow> []
     | Some ref \<Rightarrow>
         if ref_Group ref \<noteq> Group \<or> ref_Kind ref \<noteq> ''HCloudNodeClass'' then []
         else (case get (ref_Name ref) of
             Inl _ \<Rightarrow> []
           | Inr ncl \<Rightarrow> if nc_DeletionTimestamp ncl = zero_time then [] else [ref_Name ref]))"

definition waitingOnCatalog :: "('w, 'c) nodeclass_env \<Rightarrow> 'c HCloudNodeClass \<Rightarrow> bool" where
  "waitingOnCatalog E ncl = (case cond E ncl ConditionTypeValidationSucceeded of
       None \<Rightarrow> True
     | Some c \<Rightarrow> cd_Status c = CondUnknown \<and> (cd_Reason c = reasonCatalogNotFetched \<or> cd_Reason c = reasonCatalogEmpty))"

definition enqueueCatalogWaiters :: "('w, 'c) nodeclass_env \<Rightarrow> go_error + 'c HCloudNodeClass list \<Rightarrow> string list" where
  "enqueueCatalogWaiters E listed = (case listed of
       Inl _ \<Rightarrow> []
     | Inr ncls \<Rightarrow> map nc_Name (filter (waitingOnCatalog E) ncls))"

section \<open>A pass keeps the conditions sound\<close>

lemma run_reconcilers_append:
  "run_reconcilers (Rs @ Ss) errs results ncl w = (case run_reconcilers Rs errs results ncl w of
     (errs1, results1, ncl1, w1) \<Rightarrow> run_reconcilers Ss errs1 results1 ncl1 w1)"
  by (induction Rs arbitrary: errs results ncl w) (auto split: prod.splits sum.splits)

definition resolving :: "('w, 'c) nodeclass_env \<Rightarrow> (('w, 'c) reconciler \<times> string) list" where
  "resolving E = [(Image_Reconcile E, ConditionTypeImageReady), (Network_Reconcile E, ConditionTypeNetworkReady),
     (Firewalls_Reconcile E, ConditionTypeFirewallsReady), (SSHKeys_Reconcile E, ConditionTypeSSHKeysReady),
     (PlacementGroup_Reconcile E, ConditionTypePlacementGroupReady),
     (BootstrapDiscovery_Reconcile E, ConditionTypeBootstrapDiscoveryReady)]"

lemma resolving_resolver: "(R, t) \<in> set (resolving E) \<Longrightarrow> resolver E R t"
  using image.resolver_axioms network.resolver_axioms firewalls.resolver_axioms keys.resolver_axioms
    group.resolver_axioms discovery.resolver_axioms
  by (auto simp: resolving_def)

lemma run_resolving:
  assumes "condition_laws (ne_conds E)" "set Rs \<subseteq> set (resolving E)" "sound E ncl"
    and "run_reconcilers (map fst Rs) errs results ncl w = (errs', results', ncl', w')"
  shows "sound E ncl' \<and> nc_Spec ncl' = nc_Spec ncl \<and> nc_Generation ncl' = nc_Generation ncl"
  using assms(2-)
proof (induction Rs arbitrary: errs results ncl w)
  case (Cons Rt Rs)
  obtain R t where Rt: "Rt = (R, t)" by (rule prod.exhaust)
  have res: "resolver E R t" using Cons.prems(1) resolving_resolver Rt by auto
  obtain r ncl1 w1 where s: "R ncl w = (r, ncl1, w1)" using prod_cases3 by blast
  have "sound E ncl1" using resolver.keeps_sound [OF res assms(1) s Cons.prems(2)] .
  with Cons resolver.keeps_spec [OF res s] s Rt show ?case by (cases r) (auto 0 3)
qed simp

lemma reconcilers_split: "reconcilers E = map fst (resolving E) @ [Validation_Reconcile E]"
  by (simp add: reconcilers_def resolving_def)

lemma Validation_keeps_spec:
  assumes "Validation_Reconcile E ncl w = (r, ncl', w')"
  shows "nc_Spec ncl' = nc_Spec ncl" "nc_Generation ncl' = nc_Generation ncl"
  using Validation_frame(1) [OF assms, of "nc_Status ncl"]
  by (metis HCloudNodeClass.simps HCloudNodeClass.ext_inject HCloudNodeClass.surjective)+

lemma Validation_sound:
  assumes "condition_laws (ne_conds E)" "Validation_Reconcile E ncl w = (r, ncl', w')" "sound E ncl"
  shows "sound E ncl'"
  using Validation_frame(2-4) [OF assms(2,1)] assms(3) unfolding sound_def
  by (metis resolved_simps(7))

lemma pass_sound:
  assumes laws: "condition_laws (ne_conds E)" and "sound E ncl"
    and pass: "run_reconcilers (reconcilers E) [] [] ncl w = (errs, results, ncl', w')"
  shows "sound E ncl'" "true_at E ncl' ConditionTypeValidationSucceeded \<Longrightarrow> validated E ncl'"
    "nc_Spec ncl' = nc_Spec ncl" "nc_Generation ncl' = nc_Generation ncl"
proof -
  obtain errs1 results1 ncl1 w1 where r: "run_reconcilers (map fst (resolving E)) [] [] ncl w = (errs1, results1, ncl1, w1)"
    by (metis prod_cases4)
  note R = run_resolving [OF laws subset_refl assms(2) r]
  obtain rv nv wv where v: "Validation_Reconcile E ncl1 w1 = (rv, nv, wv)" using prod_cases3 by blast
  have nv: "nv = ncl'"
    using pass r v by (cases rv) (auto simp: reconcilers_split run_reconcilers_append)
  note v = v [unfolded nv]
  show "sound E ncl'" using Validation_sound [OF laws v] R by simp
  show "true_at E ncl' ConditionTypeValidationSucceeded \<Longrightarrow> validated E ncl'" by (rule Validation_true [OF laws v])
  show "nc_Spec ncl' = nc_Spec ncl" "nc_Generation ncl' = nc_Generation ncl"
    using Validation_keeps_spec [OF v] R by simp_all
qed

section \<open>The life of a NodeClass\<close>

text \<open>
  The object as the API server stores it: created without conditions, given the outcome of a pass
  of the controller (with the world in any state), edited by an operator, which raises the generation,
  and changed in its metadata.
\<close>

inductive lifecycle :: "('w, 'c) nodeclass_env \<Rightarrow> 'c HCloudNodeClass \<Rightarrow> bool" for E where
  created: "(\<And>t. t \<in> set conditionTypes \<Longrightarrow> cond E ncl t = None) \<Longrightarrow> lifecycle E ncl"
| reconciled: "\<lbrakk> lifecycle E ncl; run_reconcilers (reconcilers E) [] [] ncl w = (errs, results, ncl', w') \<rbrakk> \<Longrightarrow> lifecycle E ncl'"
| edited: "\<lbrakk> lifecycle E ncl; nc_Generation ncl < g \<rbrakk> \<Longrightarrow> lifecycle E (ncl\<lparr>nc_Spec := spec, nc_Generation := g\<rparr>)"
| described: "lifecycle E ncl \<Longrightarrow> lifecycle E (ncl\<lparr>nc_Annotations := an, nc_Finalizers := fs, nc_DeletionTimestamp := d\<rparr>)"

lemma cond_metadata [simp]:
  "cond E (ncl\<lparr>nc_Spec := spec, nc_Generation := g\<rparr>) t = cond E ncl t"
  "cond E (ncl\<lparr>nc_Annotations := an, nc_Finalizers := fs, nc_DeletionTimestamp := d\<rparr>) t = cond E ncl t"
  by (simp_all add: cond_def)

lemma described_same:
  "true_at E (ncl\<lparr>nc_Annotations := an, nc_Finalizers := fs, nc_DeletionTimestamp := d\<rparr>) t = true_at E ncl t"
  "resolved E t (ncl\<lparr>nc_Annotations := an, nc_Finalizers := fs, nc_DeletionTimestamp := d\<rparr>) = resolved E t ncl"
  "observed E (ncl\<lparr>nc_Annotations := an, nc_Finalizers := fs, nc_DeletionTimestamp := d\<rparr>) = observed E ncl"
  "validated E (ncl\<lparr>nc_Annotations := an, nc_Finalizers := fs, nc_DeletionTimestamp := d\<rparr>) = validated E ncl"
proof -
  show t: "true_at E (ncl\<lparr>nc_Annotations := an, nc_Finalizers := fs, nc_DeletionTimestamp := d\<rparr>) t = true_at E ncl t" for t
    by (simp add: true_at_def split: option.splits)
  show "resolved E t (ncl\<lparr>nc_Annotations := an, nc_Finalizers := fs, nc_DeletionTimestamp := d\<rparr>) = resolved E t ncl"
    by (rule resolved_cong) simp_all
  show "observed E (ncl\<lparr>nc_Annotations := an, nc_Finalizers := fs, nc_DeletionTimestamp := d\<rparr>) = observed E ncl"
    by (simp add: observed_def)
  show "validated E (ncl\<lparr>nc_Annotations := an, nc_Finalizers := fs, nc_DeletionTimestamp := d\<rparr>) = validated E ncl"
    unfolding validated_def list_all_iff t
    by (simp add: wrong_architecture_def locationScope_def Let_def candidate_names_def network_zone_def cong: if_cong)
qed

lemma edited_not_true:
  "\<lbrakk> observed E ncl; nc_Generation ncl < g; t \<in> set conditionTypes \<rbrakk> \<Longrightarrow>
     \<not> true_at E (ncl\<lparr>nc_Spec := spec, nc_Generation := g\<rparr>) t"
  by (force simp: true_at_def observed_def split: option.splits)

lemma lifecycle_sound:
  assumes laws: "condition_laws (ne_conds E)" and "lifecycle E ncl"
  shows "sound E ncl \<and> (true_at E ncl ConditionTypeValidationSucceeded \<longrightarrow> validated E ncl)"
  using assms(2)
proof induction
  case (created ncl)
  then show ?case by (auto simp: sound_def observed_def true_at_def)
next
  case (reconciled ncl w errs results ncl' w')
  with pass_sound [OF laws] show ?case by blast
next
  case (edited ncl g spec)
  have ob: "observed E ncl" using edited.IH by (simp add: sound_def)
  then have "observed E (ncl\<lparr>nc_Spec := spec, nc_Generation := g\<rparr>)"
    using edited.hyps(2) by (force simp: observed_def)
  with edited_not_true [OF ob edited.hyps(2)] show ?case by (simp add: sound_def)
next
  case (described ncl an fs d)
  then show ?case by (simp add: sound_def described_same)
qed

text \<open>
  C2. A NodeClass that is Ready is resolved, at every point of its life: whatever passes ran,
  whichever calls failed in them, however the specification was edited in between. Its status holds the
  image, network, placement group and every one of the firewalls Hetzner answered to the selectors
  of the current specification (an SSH key may be missing at Hetzner, and nothing else), the CA pins are well
  formed, the image is of the supported architecture, and the locations are those in scope of a catalog, at least one.
\<close>

theorem ready_means_resolved:
  assumes "condition_laws (ne_conds E)" and "lifecycle E ncl" and "rolled_up E ncl"
  shows "image_resolved E (nc_Spec ncl) (st_Image (nc_Status ncl))
    \<and> network_resolved E (nc_Spec ncl) (st_Network (nc_Status ncl))
    \<and> firewalls_resolved E (nc_Spec ncl) (st_Firewalls (nc_Status ncl))
    \<and> keys_resolved E (nc_Spec ncl) (st_SSHKeys (nc_Status ncl))
    \<and> group_resolved E (nc_Spec ncl) (st_PlacementGroup (nc_Status ncl))
    \<and> join_resolved E (nc_Spec ncl) (st_APIServerEndpoint (nc_Status ncl)) (st_CACertHashes (nc_Status ncl))
    \<and> wrong_architecture ncl = None \<and> st_Locations (nc_Status ncl) \<noteq> []
    \<and> (\<exists>snapshot. st_Locations (nc_Status ncl) = sc_inScope (locationScope snapshot ncl))"
proof -
  have t: "true_at E ncl t" if "t \<in> set conditionTypes" for t using assms(3) that by (simp add: rolled_up_def list_all_iff)
  with lifecycle_sound [OF assms(1,2)] have s: "resolved E t ncl" if "t \<in> set conditionTypes" for t
    using that by (simp add: sound_def)
  have "validated E ncl" using lifecycle_sound [OF assms(1,2)] t by simp
  then show ?thesis
    using s [OF condition_types_in(1)] s [OF condition_types_in(2)] s [OF condition_types_in(3)] s [OF condition_types_in(4)]
      s [OF condition_types_in(5)] s [OF condition_types_in(6)]
    unfolding resolved_simps validated_def by blast
qed

section \<open>When a pass makes a class ready\<close>

lemma run_frame:
  assumes "condition_laws (ne_conds E)" "set Rs \<subseteq> set (resolving E)" "t \<notin> snd ` set Rs" "t \<in> set conditionTypes"
    and "run_reconcilers (map fst Rs) errs results ncl w = (errs', results', ncl', w')"
  shows "true_at E ncl' t = true_at E ncl t"
  using assms(2,3,5)
proof (induction Rs arbitrary: errs results ncl w)
  case (Cons Rt Rs)
  obtain R u where Rt: "Rt = (R, u)" by (rule prod.exhaust)
  have res: "resolver E R u" using Cons.prems(1) resolving_resolver Rt by auto
  obtain r ncl1 w1 where s: "R ncl w = (r, ncl1, w1)" using prod_cases3 by blast
  have "true_at E ncl1 t = true_at E ncl t"
    using resolver.others [OF res assms(1) s assms(4)] Cons.prems(2) Rt by auto
  with Cons s Rt show ?case by (cases r) (auto 0 3)
qed simp

lemma run_keeps_errors: "run_reconcilers Rs (e # errs) rs n v \<noteq> ([], rs', n', v')"
  by (induction Rs arbitrary: errs rs n v) (auto split: prod.splits sum.splits)

lemma run_verdict:
  assumes "condition_laws (ne_conds E)" "set Rs \<subseteq> set (resolving E)" "distinct (map snd Rs)"
    and "run_reconcilers (map fst Rs) [] results ncl w = ([], results', ncl', w')"
  shows "\<exists>ds. results' = results @ ds \<and> list_all2 (\<lambda>(R, t) d. true_at E ncl' t \<longleftrightarrow> d = resolvedRequeue) Rs ds"
  using assms(2-)
proof (induction Rs arbitrary: results ncl w)
  case (Cons Rt Rs)
  obtain R t where Rt: "Rt = (R, t)" by (rule prod.exhaust)
  have res: "resolver E R t" using Cons.prems(1) resolving_resolver Rt by auto
  obtain r ncl1 w1 where s: "R ncl w = (r, ncl1, w1)" using prod_cases3 by blast
  from Cons.prems(3) Rt s obtain d where r: "r = Inr d"
    and rest: "run_reconcilers (map fst Rs) [] (results @ [d]) ncl1 w1 = ([], results', ncl', w')"
    by (cases r) (auto simp: run_keeps_errors)
  have "true_at E ncl' t = true_at E ncl1 t"
    using run_frame [OF assms(1) _ _ _ rest] Cons.prems(1,2) Rt resolver.own_type(1) [OF res] by force
  then have "true_at E ncl' t \<longleftrightarrow> d = resolvedRequeue"
    using resolver.verdict [OF res assms(1)] s r by simp
  with Cons.IH [OF _ _ rest] Cons.prems(1,2) Rt show ?case by force
qed simp

lemma Validation_no_error: "\<exists>d. fst (Validation_Reconcile E ncl w) = Inr d"
  unfolding Validation_Reconcile_def Let_def by (simp split: option.split)

lemma Validation_verdict:
  assumes "condition_laws (ne_conds E)" "Validation_Reconcile E ncl w = (Inr d, ncl', w')"
  shows "true_at E ncl' ConditionTypeValidationSucceeded \<longleftrightarrow> d = resolvedRequeue"
  using assms unfolding Validation_Reconcile_def Let_def
  by (simp add: conds split: if_split_asm option.split_asm) (auto simp: conds)

lemma list_all2_verdict:
  "list_all2 (\<lambda>(R, t) d. P t \<longleftrightarrow> Q d) Rs ds \<Longrightarrow> list_all P (map snd Rs) = list_all Q ds \<and> length ds = length Rs"
  by (induction rule: list_all2_induct) auto

text \<open>
  C29. A pass in which no call failed makes the class Ready exactly when each of its seven reconcilers asks
  for the slow requeue of a resolved class: one that found something to fix asks to run again soon, and
  keeps the class from being Ready.
\<close>

theorem pass_ready_iff_all_resolved:
  assumes "condition_laws (ne_conds E)" and "run_reconcilers (reconcilers E) [] [] ncl w = ([], results, ncl', w')"
  shows "length results = 7 \<and> (rolled_up E ncl' \<longleftrightarrow> list_all (\<lambda>d. d = resolvedRequeue) results)"
proof -
  obtain errs1 results1 ncl1 w1 where r: "run_reconcilers (map fst (resolving E)) [] [] ncl w = (errs1, results1, ncl1, w1)"
    by (metis prod_cases4)
  obtain rv nv wv where v: "Validation_Reconcile E ncl1 w1 = (rv, nv, wv)" using prod_cases3 by blast
  obtain d where rv: "rv = Inr d" using Validation_no_error [of E ncl1 w1] v by auto
  note d = rv Validation_verdict [OF assms(1) v [unfolded rv]]
  have eq: "errs1 = []" "results = results1 @ [d]" "nv = ncl'"
    using assms(2) r v d(1) by (auto simp: reconcilers_split run_reconcilers_append)
  have snds: "map snd (resolving E) = requiredConditions" by (simp add: resolving_def requiredConditions_def)
  have dist: "distinct requiredConditions" by (simp add: requiredConditions_def condition_type_defs)
  from dist have "distinct (map snd (resolving E))" by (simp only: snds)
  from run_verdict [OF assms(1) subset_refl this r [unfolded eq]]
  have "list_all2 (\<lambda>(R, t) d. true_at E ncl1 t \<longleftrightarrow> d = resolvedRequeue) (resolving E) results1" by auto
  from list_all2_verdict [OF this]
  have verdicts: "list_all (true_at E ncl1) requiredConditions = list_all (\<lambda>d. d = resolvedRequeue) results1" "length results1 = 6"
    by (simp_all only: snds) (simp add: resolving_def)
  have "true_at E ncl' t = true_at E ncl1 t" if "t \<in> set requiredConditions" for t
    using Validation_frame(2) [OF v assms(1)] that requiredConditions_subset eq(3) by blast
  then have "list_all (true_at E ncl') requiredConditions = list_all (true_at E ncl1) requiredConditions"
    by (simp add: list_all_iff)
  moreover have "rolled_up E ncl' \<longleftrightarrow> list_all (true_at E ncl') requiredConditions \<and> true_at E ncl' ConditionTypeValidationSucceeded"
    unfolding rolled_up_def list_all_iff set_conditionTypes by blast
  ultimately show ?thesis using verdicts d(2) eq by simp
qed

section \<open>An example\<close>

text \<open>A project with one image, one network and one firewall, and no key.\<close>

definition ex_resources :: "unit resources_api" where
  "ex_resources = \<lparr>
     Resources_Image = (\<lambda>n i a w. (Inr \<lparr> Image_ID = 7, Image_Name = n, Image_Description = [], Image_Architecture = a, Image_Created = [] \<rparr>, w)),
     Resources_Network = (\<lambda>n i w. (Inr \<lparr> Network_ID = 8, Network_Name = n, Network_IPRange = ''10.0.0.0/8'', Network_Zone = ''eu-central'' \<rparr>, w)),
     Resources_Firewall = (\<lambda>n i w. if n = ''web'' then (Inr \<lparr> Firewall_ID = 9, Firewall_Name = n \<rparr>, w) else (Inl (NotFoundError ''firewall'' n), w)),
     Resources_SSHKey = (\<lambda>n i w. (Inl (NotFoundError ''ssh key'' n), w)),
     Resources_PlacementGroup = (\<lambda>n i w. (Inl (TextError ''timeout''), w)) \<rparr>"

definition ex_pin :: string where "ex_pin = ''sha256:'' @ replicate 64 (CHR ''a'')"

definition ex_env :: "(unit, (string \<times> Condition) list) nodeclass_env" where
  "ex_env = \<lparr> ne_conds = list_conditions, ne_clk = (\<lambda>_. 0), ne_text = (\<lambda>_. ''error''), ne_resources = ex_resources,
     ne_Publish = (\<lambda>_ w. w),
     ne_catalog = (\<lambda>_. Some \<lparr> sn_Generation = 1, sn_ServerTypes =
        [\<lparr> ty_ID = 1, ty_Name = ''cx22'', ty_Cores = 2, ty_MemoryGiB = Fin 4, ty_DiskGB = 40, ty_Architecture = ''x86'',
           ty_CPUType = ''shared'', ty_StorageType = ''local'', ty_Deprecated = False, ty_Prices = [],
           ty_Locations = [\<lparr> stl_Location = ''fsn1'', stl_NetworkZone = ''eu-central'', stl_Available = True,
             stl_Recommended = True, stl_Deprecated = False \<rparr>] \<rparr>],
        sn_PrimaryIPv4Monthly = Fin 0, sn_FetchedAt = 0 \<rparr>),
     ne_Refresh = (\<lambda>w. (None, w)),
     ne_Resolve = (\<lambda>e h w. Discovery_Resolve \<lparr> ds_endpoint = ''10.1.0.2:6443'', ds_hashes = [ex_pin] \<rparr> e h) \<rparr>"

definition ex_new_class :: "HCloudNodeClassSpec \<Rightarrow> (string \<times> Condition) list HCloudNodeClass" where
  "ex_new_class spec = \<lparr> nc_Name = ''default'', nc_UID = ''u1'', nc_Annotations = [], nc_Finalizers = [],
     nc_DeletionTimestamp = zero_time, nc_Generation = 1, nc_Spec = spec,
     nc_Status = \<lparr> st_Image = None, st_Network = None, st_Firewalls = [], st_SSHKeys = [], st_PlacementGroup = None,
       st_Locations = [], st_APIServerEndpoint = [], st_CACertHashes = [], st_Conditions = [] \<rparr> \<rparr>"

definition ex_new_spec :: HCloudNodeClassSpec where
  "ex_new_spec = ex_spec\<lparr>spec_Locations := [], spec_NetworkSelector := Some \<lparr> sel_Name = ''net'', sel_ID = None \<rparr>,
     spec_FirewallSelectors := [\<lparr> sel_Name = ''web'', sel_ID = None \<rparr>],
     spec_SSHKeySelectors := [\<lparr> sel_Name = ''old'', sel_ID = None \<rparr>], spec_PlacementGroup := None,
     spec_Bootstrap := ex_bootstrap\<lparr>boot_APIServerEndpoint := [], boot_CACertHashes := []\<rparr>\<rparr>"

lemma ex_env_simps:
  "ne_conds ex_env = list_conditions" "ne_clk ex_env w = 0" "ne_resources ex_env = ex_resources" "ne_Publish ex_env ev w = w"
  "ne_Refresh ex_env w = (None, w)" "ne_Resolve ex_env [] [] w = Inr (''10.1.0.2:6443'', [ex_pin])"
  by (simp_all add: ex_env_def Discovery_Resolve_def Discovery_Get_def Let_def)

lemma ex_resources_simps:
  "Resources_Image ex_resources n i a w = (Inr \<lparr> Image_ID = 7, Image_Name = n, Image_Description = [], Image_Architecture = a, Image_Created = [] \<rparr>, w)"
  "Resources_Network ex_resources n i w = (Inr \<lparr> Network_ID = 8, Network_Name = n, Network_IPRange = ''10.0.0.0/8'', Network_Zone = ''eu-central'' \<rparr>, w)"
  "Resources_Firewall ex_resources ''web'' i w = (Inr \<lparr> Firewall_ID = 9, Firewall_Name = ''web'' \<rparr>, w)"
  "Resources_SSHKey ex_resources n i w = (Inl (NotFoundError ''ssh key'' n), w)"
  by (simp_all add: ex_resources_def)

lemma ex_new_spec_simps:
  "spec_Locations ex_new_spec = []" "spec_NetworkSelector ex_new_spec = Some \<lparr> sel_Name = ''net'', sel_ID = None \<rparr>"
  "spec_FirewallSelectors ex_new_spec = [\<lparr> sel_Name = ''web'', sel_ID = None \<rparr>]"
  "spec_SSHKeySelectors ex_new_spec = [\<lparr> sel_Name = ''old'', sel_ID = None \<rparr>]" "spec_PlacementGroup ex_new_spec = None"
  "boot_APIServerEndpoint (spec_Bootstrap ex_new_spec) = []" "boot_CACertHashes (spec_Bootstrap ex_new_spec) = []"
  by (simp_all add: ex_new_spec_def)

lemma ex_pin_valid: "ValidHash ex_pin"
  by code_simp

lemmas ex_pass_simps = ex_env_simps ex_resources_simps ex_new_spec_simps Let_def

lemma status_ops:
  "st_Image (nc_Status (StatusConditions E w ncl)) = st_Image (nc_Status ncl)" "st_Network (nc_Status (StatusConditions E w ncl)) = st_Network (nc_Status ncl)"
  "st_Image (nc_Status (SetTrue E w t ncl)) = st_Image (nc_Status ncl)" "st_Network (nc_Status (SetTrue E w t ncl)) = st_Network (nc_Status ncl)"
  "st_Image (nc_Status (SetTrueWithReason E w t r m ncl)) = st_Image (nc_Status ncl)"
  "st_Network (nc_Status (SetTrueWithReason E w t r m ncl)) = st_Network (nc_Status ncl)"
  "nc_Spec (join_params a b ncl) = nc_Spec ncl" "nc_Generation (join_params a b ncl) = nc_Generation ncl"
  "st_Image (nc_Status (join_params a b ncl)) = st_Image (nc_Status ncl)" "st_Network (nc_Status (join_params a b ncl)) = st_Network (nc_Status ncl)"
  by (simp_all add: StatusConditions_def SetTrue_def SetTrueWithReason_def join_params_def)

definition ex_run where
  "ex_run = run_reconcilers (map fst (resolving ex_env)) [] [] (ex_new_class ex_new_spec) ()"

abbreviation ex_resolved where "ex_resolved \<equiv> fst (snd (snd ex_run))"

lemma ex_run_results:
  "fst ex_run = [] \<and> fst (snd ex_run) = replicate 6 resolvedRequeue \<and> nc_Spec ex_resolved = ex_new_spec
    \<and> nc_Generation ex_resolved = 1 \<and> st_Network (nc_Status ex_resolved) =
        Some \<lparr> net_ID = 8, net_Name = ''net'', net_IPRange = ''10.0.0.0/8'', net_Zone = ''eu-central'' \<rparr>
    \<and> map_option img_Architecture (st_Image (nc_Status ex_resolved)) = Some SupportedArchitecture"
  unfolding ex_run_def resolving_def
  by (simp add: Image_Reconcile_def Network_Reconcile_def Firewalls_Reconcile_def SSHKeys_Reconcile_def
      PlacementGroup_Reconcile_def BootstrapDiscovery_Reconcile_def ex_pass_simps ex_new_class_def invalidHashes_def
      note_failure_def configFailure_def ra_init_def IsNotFound_def ex_pin_valid eval_nat_numeral status_ops
      network_status_def image_status_def)

lemma ex_scope: "sc_inScope (locationScope (ne_catalog ex_env ()) ex_resolved) \<noteq> []
   \<and> \<not> sc_catalogEmpty (locationScope (ne_catalog ex_env ()) ex_resolved)"
proof -
  have z: "catalog_zones (ne_catalog ex_env ()) = [(''fsn1'', ''eu-central'')]"
    by (simp add: ex_env_def catalog_zones_def type_zones_def SupportedArchitecture_def mput_def)
  show ?thesis
    by (simp add: locationScope_fields z candidate_names_def network_zone_def ex_run_results ex_new_spec_simps
        sort_strings_def inside_def)
qed

lemma all_true_not_waiting:
  "list_all (true_at E ncl) requiredConditions \<Longrightarrow> failed_conditions E ncl = [] \<and> pending_conditions E ncl = []"
  unfolding failed_conditions_def pending_conditions_def filter_empty_conv list_all_iff
  by (auto simp: true_at_def IsFalse_def IsUnknown_def split: option.splits)

lemma ex_laws: "condition_laws (ne_conds ex_env)"
  by (simp add: ex_env_simps list_conditions_laws)

lemma ex_resolved_true: "list_all (true_at ex_env ex_resolved) requiredConditions"
proof -
  have run: "run_reconcilers (map fst (resolving ex_env)) [] [] (ex_new_class ex_new_spec) () = ([], replicate 6 resolvedRequeue, ex_resolved, ())"
    unfolding ex_run_def [symmetric] using ex_run_results by (simp add: prod_eq_iff)
  have snds: "map snd (resolving ex_env) = requiredConditions" by (simp add: resolving_def requiredConditions_def)
  have "distinct requiredConditions" by (simp add: requiredConditions_def condition_type_defs)
  then have "distinct (map snd (resolving ex_env))" by (simp only: snds)
  from run_verdict [OF ex_laws subset_refl this run]
  have "list_all2 (\<lambda>(R, t) d. true_at ex_env ex_resolved t \<longleftrightarrow> d = resolvedRequeue) (resolving ex_env) (replicate 6 resolvedRequeue)" by auto
  from list_all2_verdict [OF this] show ?thesis by (simp add: snds list_all_iff)
qed

lemma ex_validation: "fst (Validation_Reconcile ex_env ex_resolved ()) = Inr resolvedRequeue"
proof -
  let ?n = "StatusConditions ex_env () ex_resolved"
  have "true_at ex_env ?n t" if "t \<in> set requiredConditions" for t
    using ex_resolved_true that cond_StatusConditions(1) [OF ex_laws] requiredConditions_subset by (auto simp: list_all_iff)
  then have "failed_conditions ex_env ?n = []" "pending_conditions ex_env ?n = []"
    using all_true_not_waiting [of ex_env ?n] by (auto simp: list_all_iff)
  moreover have "wrong_architecture ?n = None"
    using ex_run_results by (auto simp: wrong_architecture_def status_ops)
  moreover have "locationScope sn ?n = locationScope sn ex_resolved" for sn
    by (simp add: locationScope_def Let_def candidate_names_def network_zone_def status_ops cong: if_cong)
  moreover have "ne_catalog ex_env () \<noteq> None" by (simp add: ex_env_def)
  ultimately show ?thesis
    unfolding Validation_Reconcile_def Let_def using ex_scope by simp
qed

definition ex_passed :: "(string \<times> Condition) list HCloudNodeClass" where
  "ex_passed = fst (snd (Validation_Reconcile ex_env ex_resolved ()))"

lemma ex_pass: "run_reconcilers (reconcilers ex_env) [] [] (ex_new_class ex_new_spec) () = ([], replicate 7 resolvedRequeue, ex_passed, ())"
proof -
  obtain n w where v: "Validation_Reconcile ex_env ex_resolved () = (Inr resolvedRequeue, n, w)"
    using ex_validation by (metis prod.collapse)
  have "run_reconcilers (map fst (resolving ex_env)) [] [] (ex_new_class ex_new_spec) () = ([], replicate 6 resolvedRequeue, ex_resolved, ())"
    unfolding ex_run_def [symmetric] using ex_run_results by (simp add: prod_eq_iff)
  then show ?thesis
    by (simp add: reconcilers_split run_reconcilers_append v ex_passed_def eval_nat_numeral)
qed

lemma ex_passed_life: "lifecycle ex_env ex_passed"
proof (rule lifecycle.reconciled [OF lifecycle.created ex_pass])
  show "cond ex_env (ex_new_class ex_new_spec) t = None" for t
    by (simp add: ex_env_simps list_conditions_def ex_new_class_def cond_def)
qed

theorem pass_ready_witness: "rolled_up ex_env ex_passed"
  using pass_ready_iff_all_resolved [OF ex_laws ex_pass] by (simp add: list_all_iff)

lemma ex_passed_ready: "list_all (true_at ex_env ex_passed) conditionTypes"
proof -
  have v: "Validation_Reconcile ex_env ex_resolved () = (Inr resolvedRequeue, ex_passed, ())"
    using ex_validation by (simp add: prod_eq_iff ex_passed_def)
  have "true_at ex_env ex_passed t" if "t \<in> set requiredConditions" for t
    using Validation_frame(2) [OF v ex_laws] that requiredConditions_subset ex_resolved_true by (auto simp: list_all_iff)
  with Validation_verdict [OF ex_laws v] show ?thesis by (auto simp: list_all_iff set_conditionTypes)
qed

theorem ready_means_resolved_witness:
  "\<exists>i. st_Image (nc_Status ex_passed) = Some (image_status i) \<and> st_Locations (nc_Status ex_passed) \<noteq> []"
  using ready_means_resolved [OF ex_laws ex_passed_life] ex_passed_ready
  by (simp add: rolled_up_def image_resolved_def) blast

section \<open>Termination\<close>

text \<open>
  C30. A NodeClass is released only when nothing refers to it: unless the list of its NodeClaims was
  read and was empty, the finalizer is not removed, no patch is sent (the outcome is the same whatever a
  patch would do), and the object stays as it was. A failed list is an error that is retried. Under
  deletion nothing is resolved any more.
\<close>

theorem release_needs_empty_list:
  "Controller_Reconcile E K ncl w = Controller_Reconcile E (K\<lparr>nk_Patch := P\<rparr>) ncl w \<and> fst (snd (Controller_Reconcile E K ncl w)) = ncl
   \<or> nc_DeletionTimestamp ncl = zero_time
   \<or> ContainsFinalizer ncl \<and> fst (nk_ListClaims K ncl w) = Inr []"
  by (auto simp: Controller_Reconcile_def Finalize_def WaitingOnNodeClaimTerminationEvent_def
      split: prod.splits sum.splits)

section \<open>Wake-up\<close>

lemma catalog_reasons [simp]: "reasonDependenciesNotReady \<noteq> reasonCatalogNotFetched" "reasonDependenciesNotReady \<noteq> reasonCatalogEmpty"
  by (simp_all add: reasonDependenciesNotReady_def reasonCatalogNotFetched_def reasonCatalogEmpty_def)

text \<open>
  C31. A class whose validation lacks only the catalog is woken when a catalog lands: when every other
  condition holds, the image is of the supported architecture and there is no snapshot, or one without
  any supported type, then after the pass the class is among those the refresh signal enqueues, and it is
  not reported as failed.
\<close>

theorem parked_on_catalog_is_woken:
  assumes "condition_laws (ne_conds E)" and "Validation_Reconcile E ncl w = (r, ncl', w')"
    and "list_all (true_at E ncl) requiredConditions" and "wrong_architecture ncl = None"
    and "case ne_catalog E w of None \<Rightarrow> True | Some s \<Rightarrow> \<forall>n. \<not> sold_in (Some s) n"
  shows "nc_Name ncl' \<in> set (enqueueCatalogWaiters E (Inr [ncl'])) \<and> \<not> IsFalse (cond E ncl' ConditionTypeValidationSucceeded)"
proof -
  let ?n = "StatusConditions E w ncl"
  have "true_at E ?n t" if "t \<in> set requiredConditions" for t
    using assms(3) that cond_StatusConditions(1) [OF assms(1)] requiredConditions_subset by (auto simp: list_all_iff)
  then have d: "failed_conditions E ?n = []" "pending_conditions E ?n = []"
    using all_true_not_waiting [of E ?n] by (auto simp: list_all_iff)
  have "wrong_architecture ?n = None" using assms(4) by (simp add: wrong_architecture_def status_ops)
  moreover have "ne_catalog E w = None \<or> sc_catalogEmpty (locationScope (ne_catalog E w) ?n)"
    using assms(5) catalog_zones_keys [of "ne_catalog E w"] by (auto simp: locationScope_fields split: option.splits)
  ultimately obtain m where "ncl' = SetUnknownWithReason E w ConditionTypeValidationSucceeded
      (if ne_catalog E w = None then reasonCatalogNotFetched else reasonCatalogEmpty) m (set_locations [] ?n)"
    using assms(2) d unfolding Validation_Reconcile_def Let_def by (auto split: if_splits)
  then show ?thesis
    using assms(1) by (auto simp: enqueueCatalogWaiters_def waitingOnCatalog_def cond_SetUnknownWithReason IsFalse_def)
qed

lemma cond_other_catalog:
  "cond (ex_env\<lparr>ne_catalog := f\<rparr>) ncl t = cond ex_env ncl t" "true_at (ex_env\<lparr>ne_catalog := f\<rparr>) ncl t = true_at ex_env ncl t"
  by (simp_all add: cond_def true_at_def)

theorem parked_on_catalog_witness:
  "nc_Name (fst (snd (Validation_Reconcile (ex_env\<lparr>ne_catalog := \<lambda>_. None\<rparr>) ex_resolved ())))
     \<in> set (enqueueCatalogWaiters (ex_env\<lparr>ne_catalog := \<lambda>_. None\<rparr>) (Inr [fst (snd (Validation_Reconcile (ex_env\<lparr>ne_catalog := \<lambda>_. None\<rparr>) ex_resolved ()))]))"
proof -
  let ?E = "ex_env\<lparr>ne_catalog := \<lambda>_. None\<rparr>"
  have laws: "condition_laws (ne_conds ?E)" using ex_laws by simp
  obtain r n w where v: "Validation_Reconcile ?E ex_resolved () = (r, n, w)" using prod_cases3 by blast
  have t: "list_all (true_at ?E ex_resolved) requiredConditions"
    using ex_resolved_true by (simp add: list_all_iff cond_other_catalog)
  have a: "wrong_architecture ex_resolved = None" using ex_run_results by (auto simp: wrong_architecture_def)
  have c: "case ne_catalog ?E () of None \<Rightarrow> True | Some s \<Rightarrow> \<forall>n. \<not> sold_in (Some s) n" by simp
  from parked_on_catalog_is_woken [OF laws v t a c] show ?thesis unfolding v by simp
qed

section \<open>Outages\<close>

lemma noteUnreachable_status [simp]:
  "on_conditions (\<lambda>_. c) (noteUnreachable E w t k e ncl) = on_conditions (\<lambda>_. c) ncl"
  "on_conditions (\<lambda>_. c) (StatusConditions E w ncl) = on_conditions (\<lambda>_. c) ncl"
  by (simp_all add: noteUnreachable_def SetUnknownWithReason_def StatusConditions_def on_conditions_def with_status_def)

lemma transient_status:
  assumes "(R, t) \<in> set (resolving E)" "R ncl w = (Inl err, ncl', w')"
  shows "on_conditions (\<lambda>_. c) ncl' = on_conditions (\<lambda>_. c) ncl"
  using assms
  by (auto simp: resolving_def Image_Reconcile_def Network_Reconcile_def Firewalls_Reconcile_def SSHKeys_Reconcile_def
      PlacementGroup_Reconcile_def BootstrapDiscovery_Reconcile_def Let_def
      split: prod.splits sum.splits option.splits if_splits)

text \<open>
  C28. An outage does not take a NodeClass down: when a reconciler returns an error (Hetzner or the API
  server could not be reached, was rate limited, or answered with an unknown code), every condition
  holds afterwards exactly if it held before, and nothing of what was resolved earlier is changed.
\<close>

theorem outage_changes_nothing:
  assumes "condition_laws (ne_conds E)" and "(R, t) \<in> set (resolving E)" and "R ncl w = (Inl err, ncl', w')"
  shows "map (true_at E ncl') conditionTypes = map (true_at E ncl) conditionTypes
    \<and> on_conditions (\<lambda>_. c) ncl' = on_conditions (\<lambda>_. c) ncl"
proof -
  have res: "resolver E R t" using assms(2) by (rule resolving_resolver)
  have "true_at E ncl' t' = true_at E ncl t'" if "t' \<in> set conditionTypes" for t'
    using resolver.others [OF res assms(1,3) that] resolver.transient [OF res assms(1,3)] by (cases "t' = t") auto
  with transient_status [OF assms(2,3)] show ?thesis by simp
qed

definition ex_grouped :: "(string \<times> Condition) list HCloudNodeClass" where
  "ex_grouped = ex_passed\<lparr>nc_Spec := ex_new_spec\<lparr>spec_PlacementGroup := Some \<lparr> sel_Name = ''spread'', sel_ID = None \<rparr>\<rparr>\<rparr>"

theorem outage_witness:
  "\<exists>err ncl'. PlacementGroup_Reconcile ex_env ex_grouped () = (Inl err, ncl', ())
     \<and> map (true_at ex_env ncl') conditionTypes = map (true_at ex_env ex_grouped) conditionTypes"
proof -
  have c: "configFailure (TextError ''timeout'') = None"
    by (simp add: configFailure_def IsNotFound_def Classify_def)
  have r: "PlacementGroup_Reconcile ex_env ex_grouped () = (Inl (WrapError ''resolving placement group, '' (TextError ''timeout'')),
      noteUnreachable ex_env () ConditionTypePlacementGroupReady ''PlacementGroup'' (TextError ''timeout'') (StatusConditions ex_env () ex_grouped), ())"
    by (simp add: PlacementGroup_Reconcile_def ex_grouped_def ex_env_simps ex_resources_def c)
  have g: "(PlacementGroup_Reconcile ex_env, ConditionTypePlacementGroupReady) \<in> set (resolving ex_env)"
    by (simp add: resolving_def)
  show ?thesis using r outage_changes_nothing [OF ex_laws g r] by blast
qed

end
