(* ===== verification/Kubeadm.thy ===== *)
theory Kubeadm
  imports Instance_Types Example_Data
begin

text \<open>
  The kubeadm join configuration (\<^verbatim>\<open>src/internal/providers/bootstrap/kubeadm.go\<close>). The text of a
  \<^verbatim>\<open>resource.Quantity\<close> and \<^verbatim>\<open>yaml.Marshal\<close> are parameters. A quantity of the model is its value, without
  the format it is shown in, so its text is a function of the value.
\<close>

section \<open>Rendering\<close>

record kubeletArg =
  ka_Name :: string
  ka_Value :: string

record bootstrapTokenDiscovery =
  btd_APIServerEndpoint :: string
  btd_Token :: string
  btd_CACertHashes :: "string list"

record nodeRegistration =
  nr_Taints :: "Taint list"
  nr_KubeletExtraArgs :: "kubeletArg list"

record joinConfiguration =
  jc_APIVersion :: string
  jc_Kind :: string
  jc_Discovery :: "bootstrapTokenDiscovery option"
  jc_NodeRegistration :: nodeRegistration

text \<open>The pointer to the kubelet configuration is not nil: its one caller takes an address.\<close>

record JoinInput =
  ji_APIServerEndpoint :: string
  ji_Token :: string
  ji_CACertHashes :: "string list"
  ji_Taints :: "Taint list"
  ji_NodeLabels :: strmap
  ji_Kubelet :: KubeletConfiguration

definition UnregisteredTaint :: Taint where
  "UnregisteredTaint = \<lparr> taint_Key = ''karpenter.sh/unregistered'', taint_Value = [], taint_Effect = ''NoExecute'' \<rparr>"

definition resourceListArg :: "(quantity \<Rightarrow> string) \<Rightarrow> resource_list \<Rightarrow> string" where
  "resourceListArg quantityString rl =
     str_join '','' (sort_strings (map (\<lambda>(name, q). name @ ''='' @ quantityString q) rl))"

definition evictionArg :: "strmap \<Rightarrow> string" where
  "evictionArg m = str_join '','' (sort_strings (map (\<lambda>(signal, threshold). signal @ ''<'' @ threshold) m))"

definition mapArg :: "strmap \<Rightarrow> string" where
  "mapArg m = str_join '','' (sort_strings (map (\<lambda>(k, v). k @ ''='' @ v) m))"

definition kubeletArgs :: "(quantity \<Rightarrow> string) \<Rightarrow> JoinInput \<Rightarrow> kubeletArg list" where
  "kubeletArgs quantityString i =
     (let k = ji_Kubelet i in
      [\<lparr> ka_Name = ''cloud-provider'', ka_Value = ''external'' \<rparr>,
       \<lparr> ka_Name = ''kube-reserved'', ka_Value = resourceListArg quantityString (KubeReservedOrDefault (Some k)) \<rparr>,
       \<lparr> ka_Name = ''system-reserved'', ka_Value = resourceListArg quantityString (SystemReservedOrDefault (Some k)) \<rparr>,
       \<lparr> ka_Name = ''eviction-hard'', ka_Value = evictionArg (EvictionHardOrDefault (Some k)) \<rparr>,
       \<lparr> ka_Name = ''max-pods'', ka_Value = format_int (MaxPodsOrDefault (Some k)) \<rparr>]
      @ (if ji_NodeLabels i \<noteq> [] then [\<lparr> ka_Name = ''node-labels'', ka_Value = mapArg (ji_NodeLabels i) \<rparr>] else [])
      @ (if ClusterDNS k \<noteq> [] then [\<lparr> ka_Name = ''cluster-dns'', ka_Value = str_join '','' (ClusterDNS k) \<rparr>] else [])
      @ map (\<lambda>extra. \<lparr> ka_Name = arg_Name extra, ka_Value = arg_Value extra \<rparr>) (ExtraArgs k))"

definition joinConfig :: "(quantity \<Rightarrow> string) \<Rightarrow> JoinInput \<Rightarrow> joinConfiguration" where
  "joinConfig quantityString i =
     \<lparr> jc_APIVersion = ''kubeadm.k8s.io/v1beta4'', jc_Kind = ''JoinConfiguration'',
       jc_Discovery = Some \<lparr> btd_APIServerEndpoint = ji_APIServerEndpoint i, btd_Token = ji_Token i,
         btd_CACertHashes = ji_CACertHashes i \<rparr>,
       jc_NodeRegistration = \<lparr> nr_Taints = UnregisteredTaint # ji_Taints i,
         nr_KubeletExtraArgs = kubeletArgs quantityString i \<rparr> \<rparr>"

definition renderJoinConfiguration ::
    "(quantity \<Rightarrow> string) \<Rightarrow> (joinConfiguration \<Rightarrow> go_error + string) \<Rightarrow> JoinInput \<Rightarrow> go_error + string" where
  "renderJoinConfiguration quantityString marshal i =
     (if ji_APIServerEndpoint i = [] then Inl (TextError ''apiServerEndpoint is required'')
      else if ji_Token i = [] then Inl (TextError ''token is required'')
      else if ji_CACertHashes i = [] then
        Inl (TextError ''caCertHashes is required: joining without a CA pin trusts any endpoint that answers'')
      else (case marshal (joinConfig quantityString i) of
          Inl err \<Rightarrow> Inl (WrapError ''marshalling join configuration: '' err)
        | Inr out \<Rightarrow> Inr out))"

section \<open>Reading an argument back\<close>

text \<open>
  How a kubelet reads such an argument: pieces between commas, each cut at its first separator. Of an
  argument that is given twice the last one counts.
\<close>

fun split_on :: "char \<Rightarrow> string \<Rightarrow> string list" where
  "split_on c [] = [[]]"
| "split_on c (x # xs) = (if x = c then [] # split_on c xs
     else (case split_on c xs of [] \<Rightarrow> [[x]] | y # ys \<Rightarrow> (x # y) # ys))"

definition cut_at :: "char \<Rightarrow> string \<Rightarrow> string \<times> string" where
  "cut_at c s = (takeWhile (\<lambda>x. x \<noteq> c) s, drop 1 (dropWhile (\<lambda>x. x \<noteq> c) s))"

definition read_pairs :: "char \<Rightarrow> string \<Rightarrow> strmap" where
  "read_pairs sep s = (if s = [] then [] else map (cut_at sep) (split_on (CHR '','') s))"

definition effective :: "kubeletArg list \<Rightarrow> string \<Rightarrow> string option" where
  "effective args = map_of (rev (map (\<lambda>a. (ka_Name a, ka_Value a)) args))"

lemma split_on_nonempty [simp]: "split_on c s \<noteq> []"
  by (cases s) (auto split: list.splits)

lemma split_on_absent [simp]: "c \<notin> set s \<Longrightarrow> split_on c s = [s]"
  by (induction s) auto

lemma split_on_append: "c \<notin> set s \<Longrightarrow> split_on c (s @ c # t) = s # split_on c t"
  by (induction s) auto

lemma split_on_join:
  "xs \<noteq> [] \<Longrightarrow> \<forall>x \<in> set xs. c \<notin> set x \<Longrightarrow> split_on c (str_join [c] xs) = xs"
  by (induction "[c]" xs rule: str_join.induct) (auto simp: split_on_append)

lemma str_join_eq_Nil: "[] \<notin> set xs \<Longrightarrow> str_join sep xs = [] \<longleftrightarrow> xs = []"
  by (induction sep xs rule: str_join.induct) auto

lemma cut_at_append: "c \<notin> set s \<Longrightarrow> cut_at c (s @ c # t) = (s, t)"
  by (induction s) (auto simp: cut_at_def)

text \<open>A map whose rendering reads back: no separator in a key, no comma anywhere.\<close>

definition clean_map :: "char \<Rightarrow> strmap \<Rightarrow> bool" where
  "clean_map sep m \<longleftrightarrow> wf_map m \<and> list_all (\<lambda>(k, v). sep \<notin> set k \<and> CHR '','' \<notin> set k \<and> CHR '','' \<notin> set v) m"

lemma map_of_cong_mset: "mset m = mset m' \<Longrightarrow> wf_map m \<Longrightarrow> map_of m = map_of m'"
  unfolding wf_map_def
  by (metis map_of_inject_set mset_map mset_eq_setD distinct_map mset_eq_imp_distinct_iff)

lemma read_pairs_join:
  assumes "clean_map sep m" and "sep \<noteq> CHR '',''"
  shows "map_of (read_pairs sep (str_join '','' (sort_strings (map (\<lambda>(k, v). k @ [sep] @ v) m)))) = map_of m"
proof -
  let ?line = "\<lambda>(k, v). k @ [sep] @ v" and ?parts = "sort_strings (map (\<lambda>(k, v). k @ [sep] @ v) m)"
  have clean: "sep \<notin> set k" "CHR '','' \<notin> set (?line (k, v))" if "(k, v) \<in> set m" for k v
    using assms that by (auto simp: clean_map_def list_all_iff)
  have "[] \<notin> set ?parts" by auto
  moreover have "\<forall>x \<in> set ?parts. CHR '','' \<notin> set x" using clean by auto
  ultimately have read: "read_pairs sep (str_join '','' ?parts) = map (cut_at sep) ?parts"
    by (cases "?parts = []") (auto simp: read_pairs_def str_join_eq_Nil split_on_join)
  have "map (cut_at sep \<circ> ?line) m = m"
    using clean by (intro map_idI) (auto simp: cut_at_append)
  then have "mset (map (cut_at sep) (map ?line m)) = mset m" by simp
  moreover have "mset (map (cut_at sep) ?parts) = mset (map (cut_at sep) (map ?line m))"
    by (simp only: mset_map sort_strings_def mset_go_sort)
  ultimately have "mset m = mset (map (cut_at sep) ?parts)" by simp
  from map_of_cong_mset [OF this] assms(1) show ?thesis
    unfolding read by (simp add: clean_map_def)
qed


lemma read_evictionArg: "clean_map (CHR ''<'') m \<Longrightarrow> map_of (read_pairs (CHR ''<'') (evictionArg m)) = map_of m"
  using read_pairs_join [of "CHR ''<''" m] by (simp add: evictionArg_def)

lemma read_mapArg: "clean_map (CHR ''='') m \<Longrightarrow> map_of (read_pairs (CHR ''='') (mapArg m)) = map_of m"
  using read_pairs_join [of "CHR ''=''" m] by (simp add: mapArg_def)

lemma read_resourceListArg:
  assumes "clean_map (CHR ''='') (map (apsnd quantityString) rl)" and "\<forall>q \<in> snd ` set rl. parse (quantityString q) = Some q"
  shows "map_option parse \<circ> map_of (read_pairs (CHR ''='') (resourceListArg quantityString rl)) = map_option Some \<circ> map_of rl"
proof -
  have "resourceListArg quantityString rl = mapArg (map (apsnd quantityString) rl)"
    by (simp add: resourceListArg_def mapArg_def comp_def case_prod_unfold)
  then have "map_of (read_pairs (CHR ''='') (resourceListArg quantityString rl)) = map_option quantityString \<circ> map_of rl"
    using read_mapArg [OF assms(1)] by (simp add: map_of_map apsnd_def map_prod_def)
  moreover have "map_option parse (map_option quantityString (map_of rl n)) = map_option Some (map_of rl n)" for n
    using assms(2) by (cases "map_of rl n") (force dest: map_of_SomeD)+
  ultimately show ?thesis by (simp add: fun_eq_iff)
qed

text \<open>The arguments that come from the configuration count unless an extra argument repeats their name.\<close>

lemma effective_kubeletArgs:
  assumes "name \<notin> arg_Name ` set (ExtraArgs (ji_Kubelet i))"
  shows
    "name = ''kube-reserved'' \<Longrightarrow> effective (kubeletArgs quantityString i) name
       = Some (resourceListArg quantityString (KubeReservedOrDefault (Some (ji_Kubelet i))))"
    "name = ''system-reserved'' \<Longrightarrow> effective (kubeletArgs quantityString i) name
       = Some (resourceListArg quantityString (SystemReservedOrDefault (Some (ji_Kubelet i))))"
    "name = ''eviction-hard'' \<Longrightarrow> effective (kubeletArgs quantityString i) name
       = Some (evictionArg (EvictionHardOrDefault (Some (ji_Kubelet i))))"
    "name = ''max-pods'' \<Longrightarrow> effective (kubeletArgs quantityString i) name
       = Some (format_int (MaxPodsOrDefault (Some (ji_Kubelet i))))"
proof -
  let ?extra = "map (\<lambda>e. (arg_Name e, arg_Value e)) (ExtraArgs (ji_Kubelet i))"
  have "map_of (rev ?extra) name = None" using assms by (auto simp: map_of_eq_None_iff)
  then show
    "name = ''kube-reserved'' \<Longrightarrow> effective (kubeletArgs quantityString i) name
       = Some (resourceListArg quantityString (KubeReservedOrDefault (Some (ji_Kubelet i))))"
    "name = ''system-reserved'' \<Longrightarrow> effective (kubeletArgs quantityString i) name
       = Some (resourceListArg quantityString (SystemReservedOrDefault (Some (ji_Kubelet i))))"
    "name = ''eviction-hard'' \<Longrightarrow> effective (kubeletArgs quantityString i) name
       = Some (evictionArg (EvictionHardOrDefault (Some (ji_Kubelet i))))"
    "name = ''max-pods'' \<Longrightarrow> effective (kubeletArgs quantityString i) name
       = Some (format_int (MaxPodsOrDefault (Some (ji_Kubelet i))))"
    by (simp_all add: effective_def kubeletArgs_def Let_def comp_def map_add_def)
qed

lemma extra_argument_overrides:
  "ExtraArgs (ji_Kubelet i) = xs @ [\<lparr> arg_Name = name, arg_Value = v \<rparr>] \<Longrightarrow> effective (kubeletArgs quantityString i) name = Some v"
  by (simp add: effective_def kubeletArgs_def Let_def)

text \<open>
  C11. The node reserves what the scheduler subtracts: when no extra argument repeats one of these names, the
  kube-reserved and system-reserved arguments read back as the very quantities of the overhead, the
  eviction-hard argument as thresholds that give the eviction overhead of any capacity, and max-pods as the
  number of pods the capacity offers.
\<close>

theorem kubelet_reserves_the_overhead:
  assumes "\<forall>q \<in> snd ` set (KubeReservedOrDefault (Some (ji_Kubelet i)) @ SystemReservedOrDefault (Some (ji_Kubelet i))). parse (quantityString q) = Some q"
    and "clean_map (CHR ''='') (map (apsnd quantityString) (KubeReservedOrDefault (Some (ji_Kubelet i))))"
    and "clean_map (CHR ''='') (map (apsnd quantityString) (SystemReservedOrDefault (Some (ji_Kubelet i))))"
    and "clean_map (CHR ''<'') (EvictionHardOrDefault (Some (ji_Kubelet i)))"
    and "arg_Name ` set (ExtraArgs (ji_Kubelet i)) \<inter> {''kube-reserved'', ''system-reserved'', ''eviction-hard'', ''max-pods''} = {}"
    and "0 \<le> MaxPodsOrDefault (Some (ji_Kubelet i))" and "MaxPodsOrDefault (Some (ji_Kubelet i)) < 2 ^ 31"
  shows "\<exists>kube system eviction pods. map (effective (kubeletArgs quantityString i)) [''kube-reserved'', ''system-reserved'', ''eviction-hard'', ''max-pods'']
        = [Some kube, Some system, Some eviction, Some pods]
    \<and> map_option parse \<circ> map_of (read_pairs (CHR ''='') kube) = map_option Some \<circ> map_of (oh_KubeReserved (Overhead K (ji_Kubelet i) capacity))
    \<and> map_option parse \<circ> map_of (read_pairs (CHR ''='') system) = map_option Some \<circ> map_of (oh_SystemReserved (Overhead K (ji_Kubelet i) capacity))
    \<and> evictionThreshold K (read_pairs (CHR ''<'') eviction) capacity = oh_EvictionThreshold (Overhead K (ji_Kubelet i) capacity)
    \<and> (\<exists>n. parse_int64 pods = Some n \<and> map_of (Capacity K cores memory disk (MaxPodsOrDefault (Some (ji_Kubelet i))) memOverhead diskOverhead) ''pods'' = Some (of_int n))"
proof -
  have e: "map (effective (kubeletArgs quantityString i)) [''kube-reserved'', ''system-reserved'', ''eviction-hard'', ''max-pods'']
      = [Some (resourceListArg quantityString (KubeReservedOrDefault (Some (ji_Kubelet i)))),
         Some (resourceListArg quantityString (SystemReservedOrDefault (Some (ji_Kubelet i)))),
         Some (evictionArg (EvictionHardOrDefault (Some (ji_Kubelet i)))), Some (format_int (MaxPodsOrDefault (Some (ji_Kubelet i))))]"
    using assms(5) by (auto intro!: effective_kubeletArgs)
  have "evictionThreshold K (read_pairs (CHR ''<'') (evictionArg (EvictionHardOrDefault (Some (ji_Kubelet i))))) capacity
      = evictionThreshold K (EvictionHardOrDefault (Some (ji_Kubelet i))) capacity"
    unfolding evictionThreshold_def read_evictionArg [OF assms(4)] ..
  moreover have "parse_int64 (format_int (MaxPodsOrDefault (Some (ji_Kubelet i)))) = Some (MaxPodsOrDefault (Some (ji_Kubelet i)))"
    using assms(6,7) by (intro parse_int64_format_int) auto
  moreover have "map_of (Capacity K cores memory disk (MaxPodsOrDefault (Some (ji_Kubelet i))) memOverhead diskOverhead) ''pods''
      = Some (of_int (MaxPodsOrDefault (Some (ji_Kubelet i))))"
    by (simp add: Capacity_def Let_def)
  ultimately show ?thesis
    using e read_resourceListArg [OF assms(2), of parse] read_resourceListArg [OF assms(3), of parse] assms(1)
    unfolding Overhead_def by auto
qed


definition ex_join :: JoinInput where
  "ex_join = \<lparr> ji_APIServerEndpoint = ''10.1.0.2:6443'', ji_Token = ''abcdef.0123456789abcdef'', ji_CACertHashes = [''sha256:00''],
     ji_Taints = [], ji_NodeLabels = [], ji_Kubelet = ex_kubelet \<rparr>"

definition ex_quantity :: "quantity \<Rightarrow> string" where
  "ex_quantity q = (if q = 1 / 5 then ''200m'' else if q = 536870912 then ''512Mi'' else [])"

definition ex_parse :: "string \<Rightarrow> quantity option" where
  "ex_parse s = (if s = ''200m'' then Some (1 / 5) else if s = ''512Mi'' then Some 536870912 else None)"

theorem kubelet_reserves_the_overhead_witness:
  "effective (kubeletArgs ex_quantity ex_join) ''kube-reserved'' = Some ''cpu=200m,memory=512Mi''
   \<and> map_option ex_parse \<circ> map_of (read_pairs (CHR ''='') ''cpu=200m,memory=512Mi'')
       = map_option Some \<circ> map_of (oh_KubeReserved (Overhead list_karpenter ex_kubelet []))"
proof -
  have k: "ji_Kubelet ex_join = ex_kubelet" "KubeReservedOrDefault (Some ex_kubelet) = DefaultKubeReserved"
    "SystemReservedOrDefault (Some ex_kubelet) = DefaultSystemReserved" "EvictionHardOrDefault (Some ex_kubelet) = DefaultEvictionHard"
    "ExtraArgs ex_kubelet = []" "MaxPodsOrDefault (Some ex_kubelet) = 110"
    by (simp_all add: ex_join_def ex_kubelet_def KubeReservedOrDefault_def SystemReservedOrDefault_def EvictionHardOrDefault_def
        MaxPodsOrDefault_def DefaultMaxPods_def)
  have v: "effective (kubeletArgs ex_quantity ex_join) ''kube-reserved'' = Some ''cpu=200m,memory=512Mi''" by code_simp
  have "\<forall>q \<in> snd ` set (DefaultKubeReserved @ DefaultSystemReserved). ex_parse (ex_quantity q) = Some q"
    "clean_map (CHR ''='') (map (apsnd ex_quantity) DefaultKubeReserved)"
    "clean_map (CHR ''='') (map (apsnd ex_quantity) DefaultSystemReserved)"
    "clean_map (CHR ''<'') DefaultEvictionHard"
    by (simp_all add: DefaultKubeReserved_def DefaultSystemReserved_def DefaultEvictionHard_def ex_quantity_def ex_parse_def
        clean_map_def wf_map_def)
  with kubelet_reserves_the_overhead [where i = ex_join and quantityString = ex_quantity and parse = ex_parse
      and K = list_karpenter and capacity = "[]" and cores = 1 and memory = "Fin 1" and disk = 1
      and memOverhead = "Fin 0" and diskOverhead = "Fin 0"] v show ?thesis
    by (auto simp add: k)
qed

section \<open>Stable output\<close>

lemma str_join_sort_cong: "mset xs = mset ys \<Longrightarrow> str_join sep (sort_strings (map f xs)) = str_join sep (sort_strings (map f ys))"
  by (metis mset_map sort_strings_cong)

text \<open>Configurations that differ in the iteration order of their maps only.\<close>

definition same_kubelet :: "KubeletConfiguration \<Rightarrow> KubeletConfiguration \<Rightarrow> bool" where
  "same_kubelet k k' \<longleftrightarrow> mset (KubeReserved k) = mset (KubeReserved k') \<and> mset (SystemReserved k) = mset (SystemReserved k')
     \<and> mset (EvictionHard k) = mset (EvictionHard k') \<and> MaxPods k = MaxPods k' \<and> ClusterDNS k = ClusterDNS k' \<and> ExtraArgs k = ExtraArgs k'"

definition same_join :: "JoinInput \<Rightarrow> JoinInput \<Rightarrow> bool" where
  "same_join i i' \<longleftrightarrow> ji_APIServerEndpoint i = ji_APIServerEndpoint i' \<and> ji_Token i = ji_Token i' \<and> ji_CACertHashes i = ji_CACertHashes i'
     \<and> ji_Taints i = ji_Taints i' \<and> mset (ji_NodeLabels i) = mset (ji_NodeLabels i') \<and> same_kubelet (ji_Kubelet i) (ji_Kubelet i')"

lemma mset_eq_Nil: "mset xs = mset ys \<Longrightarrow> xs = [] \<longleftrightarrow> ys = []"
  by auto

lemma kubeletArgs_stable:
  assumes "same_join i i'"
  shows "kubeletArgs quantityString i = kubeletArgs quantityString i'"
proof -
  have k: "same_kubelet (ji_Kubelet i) (ji_Kubelet i')" and l: "mset (ji_NodeLabels i) = mset (ji_NodeLabels i')"
    using assms by (auto simp: same_join_def)
  have "resourceListArg quantityString (KubeReservedOrDefault (Some (ji_Kubelet i))) = resourceListArg quantityString (KubeReservedOrDefault (Some (ji_Kubelet i')))"
    "resourceListArg quantityString (SystemReservedOrDefault (Some (ji_Kubelet i))) = resourceListArg quantityString (SystemReservedOrDefault (Some (ji_Kubelet i')))"
    "evictionArg (EvictionHardOrDefault (Some (ji_Kubelet i))) = evictionArg (EvictionHardOrDefault (Some (ji_Kubelet i')))"
    using k unfolding resourceListArg_def evictionArg_def KubeReservedOrDefault_def SystemReservedOrDefault_def EvictionHardOrDefault_def same_kubelet_def
    by (auto intro!: str_join_sort_cong dest: mset_eq_Nil)
  moreover have "mapArg (ji_NodeLabels i) = mapArg (ji_NodeLabels i')"
    using l by (auto simp: mapArg_def intro: str_join_sort_cong)
  moreover have "MaxPodsOrDefault (Some (ji_Kubelet i)) = MaxPodsOrDefault (Some (ji_Kubelet i'))"
    "ClusterDNS (ji_Kubelet i) = ClusterDNS (ji_Kubelet i')" "ExtraArgs (ji_Kubelet i) = ExtraArgs (ji_Kubelet i')"
    using k by (auto simp: same_kubelet_def MaxPodsOrDefault_def)
  ultimately show ?thesis
    using mset_eq_Nil [OF l] by (simp add: kubeletArgs_def Let_def)
qed

lemma renderJoinConfiguration_stable:
  "same_join i i' \<Longrightarrow> renderJoinConfiguration quantityString marshal i = renderJoinConfiguration quantityString marshal i'"
  using kubeletArgs_stable [of i i' quantityString] by (simp add: same_join_def renderJoinConfiguration_def joinConfig_def)

end
