(* ===== verification/Tokens.thy ===== *)
theory Tokens
  imports Kube Go_Numbers Example_Data
begin

text \<open>
  Minting of kubeadm bootstrap tokens (\<^verbatim>\<open>src/internal/providers/bootstrap/token.go\<close>). The record
  \<open>minter\<close> is the struct \<^verbatim>\<open>TokenMinter\<close> with the two calls of the Kubernetes client and
  \<^verbatim>\<open>crypto/rand.Int\<close>, which draws a number below its bound or fails.
\<close>

section \<open>Minting\<close>

record Secret =
  se_Namespace :: string
  se_Name :: string
  se_Labels :: strmap
  se_Owner :: "string \<times> string \<times> string \<times> string"
  se_Type :: string
  se_StringData :: strmap

record 'w minter =
  tm_ttl :: duration
  tm_now :: "'w \<Rightarrow> gotime"
  tm_rand :: "nat \<Rightarrow> 'w \<Rightarrow> (go_error + nat) \<times> 'w"
  tm_Create :: "Secret \<Rightarrow> 'w \<Rightarrow> go_error option \<times> 'w"
  tm_Delete :: "string \<Rightarrow> string \<Rightarrow> 'w \<Rightarrow> go_error option \<times> 'w"

definition TokenNamespace :: string where "TokenNamespace = ''kube-system''"
definition DefaultTokenTTL :: duration where "DefaultTokenTTL = 30 * minute"
definition tokenIDLength :: nat where "tokenIDLength = 6"
definition tokenSecretLength :: nat where "tokenSecretLength = 16"
definition tokenAlphabet :: string where "tokenAlphabet = ''abcdefghijklmnopqrstuvwxyz0123456789''"

text \<open>\<^verbatim>\<open>nodeClaimGV.String()\<close>.\<close>

definition nodeClaimGV :: string where "nodeClaimGV = ''karpenter.sh/v1''"

text \<open>The two constructors; the clock of the second is the system clock when none is given.\<close>

definition NewTokenMinterWithOptions ::
    "(nat \<Rightarrow> 'w \<Rightarrow> (go_error + nat) \<times> 'w) \<Rightarrow> (Secret \<Rightarrow> 'w \<Rightarrow> go_error option \<times> 'w) \<Rightarrow>
     (string \<Rightarrow> string \<Rightarrow> 'w \<Rightarrow> go_error option \<times> 'w) \<Rightarrow> ('w \<Rightarrow> gotime) \<Rightarrow> duration \<Rightarrow> ('w \<Rightarrow> gotime) option \<Rightarrow> 'w minter" where
  "NewTokenMinterWithOptions rnd create delete systemClock ttl now =
     \<lparr> tm_ttl = ttl, tm_now = (case now of None \<Rightarrow> systemClock | Some c \<Rightarrow> c), tm_rand = rnd,
       tm_Create = create, tm_Delete = delete \<rparr>"

definition NewTokenMinter where
  "NewTokenMinter rnd create delete systemClock =
     \<lparr> tm_ttl = DefaultTokenTTL, tm_now = systemClock, tm_rand = rnd, tm_Create = create, tm_Delete = delete \<rparr>"

fun random_bytes :: "'w minter \<Rightarrow> nat \<Rightarrow> string \<Rightarrow> 'w \<Rightarrow> (go_error + string) \<times> 'w" where
  "random_bytes M 0 out w = (Inr out, w)"
| "random_bytes M (Suc n) out w = (case tm_rand M (length tokenAlphabet) w of
       (Inl err, w1) \<Rightarrow> (Inl (WrapError ''generating token: '' err), w1)
     | (Inr idx, w1) \<Rightarrow> random_bytes M n (out @ [tokenAlphabet ! idx]) w1)"

definition randomString :: "'w minter \<Rightarrow> nat \<Rightarrow> 'w \<Rightarrow> (go_error + string) \<times> 'w" where
  "randomString M n w = random_bytes M n [] w"

definition token_secret :: "'w minter \<Rightarrow> string \<Rightarrow> string \<Rightarrow> string \<Rightarrow> 'q NodeClaim \<Rightarrow> string \<Rightarrow> Secret" where
  "token_secret M i secret expiry nodeClaim clusterName =
     \<lparr> se_Namespace = TokenNamespace, se_Name = ''bootstrap-token-'' @ i,
       se_Labels = [(''karpenter.sh/managed-by'', clusterName), (''karpenter.itsh.dev/nodeclaim'', cl_Name nodeClaim)],
       se_Owner = (nodeClaimGV, ''NodeClaim'', cl_Name nodeClaim, cl_UID nodeClaim),
       se_Type = ''bootstrap.kubernetes.io/token'',
       se_StringData = [(''token-id'', i), (''token-secret'', secret), (''expiration'', expiry),
         (''description'', ''karpenter '' @ cl_Name nodeClaim), (''usage-bootstrap-authentication'', ''true''),
         (''usage-bootstrap-signing'', ''true''),
         (''auth-extra-groups'', ''system:bootstrappers:kubeadm:default-node-token'')] \<rparr>"

definition Mint :: "'w minter \<Rightarrow> 'q NodeClaim option \<Rightarrow> string \<Rightarrow> 'w \<Rightarrow> (go_error + string) \<times> 'w" where
  "Mint M claim clusterName w = (case claim of
       None \<Rightarrow> (Inl (TextError ''a named NodeClaim is required to own the token''), w)
     | Some nodeClaim \<Rightarrow>
         if cl_Name nodeClaim = [] then (Inl (TextError ''a named NodeClaim is required to own the token''), w)
         else if cl_UID nodeClaim = [] then
           (Inl (TextError (''NodeClaim '' @ cl_Name nodeClaim @ '' has no UID; the token would not be garbage collected'')), w)
         else (case randomString M tokenIDLength w of
             (Inl err, w1) \<Rightarrow> (Inl err, w1)
           | (Inr i, w1) \<Rightarrow> (case randomString M tokenSecretLength w1 of
                (Inl err, w2) \<Rightarrow> (Inl err, w2)
              | (Inr secret, w2) \<Rightarrow>
                  (case tm_Create M (token_secret M i secret (format_utc (tm_now M w2 + tm_ttl M)) nodeClaim clusterName) w2 of
                     (Some err, w3) \<Rightarrow> (Inl (WrapError ''creating bootstrap token: '' err), w3)
                   | (None, w3) \<Rightarrow> (Inr (i @ ''.'' @ secret), w3)))))"

definition Revoke :: "'w minter \<Rightarrow> string \<Rightarrow> 'w \<Rightarrow> go_error option \<times> 'w" where
  "Revoke M tokenID w = (case tm_Delete M TokenNamespace (''bootstrap-token-'' @ tokenID) w of
       (Some err, w1) \<Rightarrow> (Some (WrapError ''deleting bootstrap token: '' err), w1)
     | (None, w1) \<Rightarrow> (None, w1))"

definition TokenID :: "string \<Rightarrow> string" where
  "TokenID token = (if length token \<le> tokenIDLength \<or> token ! tokenIDLength \<noteq> CHR ''.'' then [] else take tokenIDLength token)"

section \<open>Tokens have the form kubeadm accepts\<close>

definition draws_below :: "'w minter \<Rightarrow> bool" where
  "draws_below M \<longleftrightarrow> (\<forall>n w. 0 < n \<longrightarrow> (case fst (tm_rand M n w) of Inl _ \<Rightarrow> True | Inr i \<Rightarrow> i < n))"

lemma random_bytes_shape:
  assumes "draws_below M" "random_bytes M n out w = (Inr s, w')"
  shows "\<exists>t. s = out @ t \<and> length t = n \<and> set t \<subseteq> set tokenAlphabet"
  using assms(2)
proof (induction n arbitrary: out w)
  case (Suc n)
  obtain r w1 where d: "tm_rand M (length tokenAlphabet) w = (r, w1)" by (rule prod.exhaust)
  with Suc.prems obtain i where r: "r = Inr i"
    and rest: "random_bytes M n (out @ [tokenAlphabet ! i]) w1 = (Inr s, w')" by (cases r) auto
  have "0 < length tokenAlphabet" by (simp add: tokenAlphabet_def)
  then have "i < length tokenAlphabet" using assms(1) d r unfolding draws_below_def by (metis fst_conv sum.case(2))
  with Suc.IH [OF rest] show ?case by (auto intro: exI [of _ "tokenAlphabet ! i # _"])
qed simp

lemma alphabet_lower: "set tokenAlphabet \<subseteq> {c. is_digit c \<or> 97 \<le> (of_char c :: nat) \<and> (of_char c :: nat) \<le> 122}"
  by (auto simp: tokenAlphabet_def is_digit_def)


definition ex_minter :: "Secret list minter" where
  "ex_minter = NewTokenMinter (\<lambda>n w. (Inr (n - 1), w)) (\<lambda>s w. (None, w @ [s])) (\<lambda>ns n w. (None, filter (\<lambda>s. se_Name s \<noteq> n) w)) (\<lambda>_. 0)"


end
