(* ===== verification/Cloud_Init.thy ===== *)
theory Cloud_Init
  imports Kubeadm Tokens
begin

text \<open>
  The boot data of a node (\<^verbatim>\<open>src/internal/providers/bootstrap/cloudinit.go\<close> and \<^verbatim>\<open>provider.go\<close>). The
  record \<open>render_libs\<close> holds what comes from other packages: the text of a quantity, \<^verbatim>\<open>yaml.Marshal\<close> on
  the two documents, and gzip, whose two calls fail with the same message.
\<close>

section \<open>The cloud-config document\<close>

definition MaxUserDataBytes :: nat where "MaxUserDataBytes = 32 * 1024"
definition GzipThresholdBytes :: nat where "GzipThresholdBytes = 24 * 1024"

record writeFile =
  wf_Path :: string
  wf_Permissions :: string
  wf_Owner :: string
  wf_Content :: string

record cloudConfig =
  cc_PackageUpdate :: bool
  cc_PackageUpgrade :: bool
  cc_PackageRebootIfRequired :: bool
  cc_Packages :: "string list"
  cc_WriteFiles :: "writeFile list"
  cc_Runcmd :: "string list"

record 'c Input =
  in_NodeClass :: "'c HCloudNodeClass option"
  in_Join :: JoinInput

record render_libs =
  rl_QuantityString :: "quantity \<Rightarrow> string"
  rl_MarshalJoin :: "joinConfiguration \<Rightarrow> go_error + string"
  rl_MarshalCloud :: "cloudConfig \<Rightarrow> go_error + string"
  rl_Gzip :: "string \<Rightarrow> go_error + string"

text \<open>A line feed, and the quotes and the backslash of the shell commands.\<close>

definition nl :: string where "nl = [CHR 0x0A]"
definition dq :: string where "dq = [CHR 0x22]"
definition sq :: string where "sq = [CHR 0x27]"
definition bs :: string where "bs = [CHR 0x5C]"

definition minorVersion :: "string \<Rightarrow> go_error + string" where
  "minorVersion version = (let parts = split_on (CHR ''.'') version in
     if length parts < 2 then Inl (TextError (''kubernetesVersion '' @ go_quote version @ '' is not major.minor.patch''))
     else Inr (parts ! 0 @ ''.'' @ parts ! 1))"

fun dedupe_loop :: "string list \<Rightarrow> string list \<Rightarrow> string list" where
  "dedupe_loop seen [] = []"
| "dedupe_loop seen (s # ss) = (if s = [] \<or> s \<in> set seen then dedupe_loop seen ss else s # dedupe_loop (s # seen) ss)"

definition dedupe :: "string list \<Rightarrow> string list" where
  "dedupe ss = dedupe_loop [] ss"

definition default_sysctls :: strmap where
  "default_sysctls = [
     (''net.bridge.bridge-nf-call-iptables'', ''1''),
     (''net.ipv4.ip_forward'', ''1''),
     (''net.bridge.bridge-nf-call-ip6tables'', ''1''),
     (''fs.inotify.max_user_watches'', ''524288''),
     (''fs.inotify.max_user_instances'', ''8192'')]"

definition sysctlContent :: "strmap \<Rightarrow> string" where
  "sysctlContent extra = (let values = massign default_sysctls extra in
     concat (map (\<lambda>k. k @ '' = '' @ mget values k @ nl) (sort_strings (map fst values))))"

definition modulesContent :: "string list \<Rightarrow> string" where
  "modulesContent extra = str_join nl (dedupe (''br_netfilter'' # extra)) @ nl"

definition originsContent :: "string list \<Rightarrow> string" where
  "originsContent origins = ''// Additional origins to auto-patch.'' @ nl @ ''Unattended-Upgrade::Origins-Pattern {'' @ nl
     @ concat (map (\<lambda>origin. ''        '' @ go_quote origin @ '';'' @ nl) origins) @ ''};'' @ nl"

definition heredocDelim :: string where "heredocDelim = ''KARPENTER_EOF''"

definition appendHeredoc :: "string \<Rightarrow> string \<Rightarrow> string" where
  "appendHeredoc path content =
     ''cat >> '' @ path @ '' << '' @ sq @ heredocDelim @ sq @ nl @ content @ nl @ heredocDelim"

definition joinCommand :: string where
  "joinCommand = ''kubeadm join --config /etc/kubernetes/kubeadm-join.yaml''"

definition install_commands :: "string \<Rightarrow> string \<Rightarrow> string list" where
  "install_commands minor pkgVersion =
     [''sysctl --system'',
      ''modprobe br_netfilter'',
      ''mkdir -p /etc/apt/keyrings'',
      ''curl -fsSL https://pkgs.k8s.io/core:/stable:/v'' @ minor @ ''/deb/Release.key ''
        @ ''| gpg --dearmor -o /etc/apt/keyrings/kubernetes-apt-keyring.gpg'',
      ''echo '' @ sq @ ''deb [signed-by=/etc/apt/keyrings/kubernetes-apt-keyring.gpg] ''
        @ ''https://pkgs.k8s.io/core:/stable:/v'' @ minor @ ''/deb/ /'' @ sq @ '' > /etc/apt/sources.list.d/kubernetes.list'',
      ''curl -fsSL https://download.docker.com/linux/debian/gpg | gpg --dearmor -o /etc/apt/keyrings/docker.gpg'',
      ''echo '' @ dq @ ''deb [arch=$(dpkg --print-architecture) signed-by=/etc/apt/keyrings/docker.gpg] ''
        @ ''https://download.docker.com/linux/debian $(. /etc/os-release && echo '' @ bs @ dq @ ''$VERSION_CODENAME'' @ bs @ dq @ '') stable'' @ dq @ '' ''
        @ ''> /etc/apt/sources.list.d/docker.list'',
      ''apt-get update'',
      ''apt-get install -y -o Dpkg::Options::='' @ dq @ ''--force-confold'' @ dq @ '' ''
        @ ''containerd.io kubelet='' @ pkgVersion @ '' kubeadm='' @ pkgVersion @ '' kubectl='' @ pkgVersion,
      ''apt-mark hold kubelet kubeadm kubectl'']"

definition containerd_commands :: "BootstrapSpec \<Rightarrow> string list" where
  "containerd_commands boot =
     [''mkdir -p /etc/containerd'', ''containerd config default > /etc/containerd/config.toml'']
     @ (if SystemdCgroupEnabled (Some (Containerd boot))
        then [''sed -i '' @ sq @ ''s/SystemdCgroup = false/SystemdCgroup = true/'' @ sq @ '' /etc/containerd/config.toml''] else [])
     @ (let extra = trim_space (ExtraConfig (Containerd boot)) in
        if extra \<noteq> [] then [appendHeredoc ''/etc/containerd/config.toml'' extra] else [])"

definition buildRuncmd :: "HCloudNodeClassSpec \<Rightarrow> string \<Rightarrow> string \<Rightarrow> string list" where
  "buildRuncmd spec minor pkgVersion = (let boot = spec_Bootstrap spec in
     install_commands minor pkgVersion
     @ (if UnattendedUpgradesEnabled (Some (UnattendedUpgrades boot)) then [''dpkg-reconfigure -f noninteractive unattended-upgrades''] else [])
     @ containerd_commands boot
     @ [''systemctl restart containerd'', ''systemctl enable kubelet'']
     @ PreJoinCommands boot @ [joinCommand] @ PostJoinCommands boot)"

definition containerd_pin :: "string \<Rightarrow> string" where
  "containerd_pin pin =
     ''# Bound containerd.io to a major version. unattended-upgrades patches'' @ nl
     @ ''# freely within it but cannot silently cross a major boundary: that changes'' @ nl
     @ ''# the CRI plugin configuration shape and breaks any additional runtime'' @ nl
     @ ''# handler wired into it. Raise deliberately.'' @ nl
     @ ''Package: containerd.io'' @ nl
     @ ''Pin: version '' @ pin @ nl
     @ ''Pin-Priority: 1001'' @ nl"

definition system_file :: "string \<Rightarrow> string \<Rightarrow> string \<Rightarrow> writeFile" where
  "system_file path permissions content =
     \<lparr> wf_Path = path, wf_Permissions = permissions, wf_Owner = [], wf_Content = content \<rparr>"

definition joinPath :: string where "joinPath = ''/etc/kubernetes/kubeadm-join.yaml''"

definition base_files :: "BootstrapSpec \<Rightarrow> string \<Rightarrow> writeFile list" where
  "base_files boot joinYAML =
     [system_file ''/etc/sysctl.d/99-k8s.conf'' ''0644'' (sysctlContent (Sysctls boot)),
      system_file ''/etc/modules-load.d/k8s.conf'' ''0644'' (modulesContent (KernelModules boot)),
      system_file ''/etc/apt/preferences.d/containerd'' ''0644'' (containerd_pin (AptPinOrDefault (Some (Containerd boot)))),
      system_file ''/etc/default/kubelet'' ''0644'' (''KUBELET_EXTRA_ARGS=--cloud-provider=external'' @ nl),
      system_file joinPath ''0600'' joinYAML]"

definition upgrade_files :: "UnattendedUpgradesSpec \<Rightarrow> writeFile list" where
  "upgrade_files u =
     (if UnattendedUpgradesEnabled (Some u) then
        (if ExtraOrigins u \<noteq> []
         then [system_file ''/etc/apt/apt.conf.d/52unattended-upgrades-extra.conf'' ''0644'' (originsContent (ExtraOrigins u))] else [])
        @ (if RemoveUnusedKernelsEnabled (Some u)
         then [system_file ''/etc/apt/apt.conf.d/52unattended-upgrades-kernels.conf'' ''0644''
            (''// Auto-purge superseded kernels so old linux-image-* do not fill /boot.'' @ nl
             @ ''Unattended-Upgrade::Remove-Unused-Kernel-Packages '' @ dq @ ''true'' @ dq @ '';'' @ nl)] else [])
      else [])"

definition extra_file :: "File \<Rightarrow> writeFile" where
  "extra_file f = \<lparr> wf_Path = file_Path f, wf_Permissions = file_Permissions f, wf_Owner = file_Owner f, wf_Content = file_Content f \<rparr>"

definition cloud_config :: "HCloudNodeClassSpec \<Rightarrow> string \<Rightarrow> string \<Rightarrow> string \<Rightarrow> cloudConfig" where
  "cloud_config spec joinYAML minor pkgVersion =
     (let boot = spec_Bootstrap spec; upgrade = PackageUpgradeOnBootEnabled (Some boot) in
      \<lparr> cc_PackageUpdate = True, cc_PackageUpgrade = upgrade, cc_PackageRebootIfRequired = upgrade,
        cc_Packages = dedupe ([''apt-transport-https'', ''curl'', ''gnupg'', ''ca-certificates'',
          ''unattended-upgrades'', ''containernetworking-plugins'', ''nfs-common''] @ ExtraPackages boot),
        cc_WriteFiles = base_files boot joinYAML @ upgrade_files (UnattendedUpgrades boot) @ map extra_file (ExtraFiles boot),
        cc_Runcmd = buildRuncmd spec minor pkgVersion \<rparr>)"

definition maybeCompress :: "(string \<Rightarrow> go_error + string) \<Rightarrow> string \<Rightarrow> go_error + string" where
  "maybeCompress gzip doc =
     (if length doc \<le> GzipThresholdBytes then
        (if MaxUserDataBytes < length doc
         then Inl (TextError (''userData is '' @ format_int (int (length doc)) @ '' bytes, over the ''
            @ format_int (int MaxUserDataBytes) @ '' byte limit''))
         else Inr doc)
      else (case gzip doc of
          Inl err \<Rightarrow> Inl (WrapError ''compressing userData: '' err)
        | Inr buf \<Rightarrow>
            if MaxUserDataBytes < length buf
            then Inl (TextError (''userData is '' @ format_int (int (length buf)) @ '' bytes compressed, over the ''
               @ format_int (int MaxUserDataBytes) @ '' byte limit''))
            else Inr buf))"

definition cloudHeader :: string where "cloudHeader = ''#cloud-config'' @ nl"

definition Render :: "render_libs \<Rightarrow> 'c Input \<Rightarrow> go_error + string" where
  "Render L i = (case in_NodeClass i of
       None \<Rightarrow> Inl (TextError ''nodeClass is required'')
     | Some nodeClass \<Rightarrow>
         (let spec = nc_Spec nodeClass; boot = spec_Bootstrap spec in
          if boot_OSFamily boot \<noteq> [] \<and> boot_OSFamily boot \<noteq> OSFamilyDebian
          then Inl (TextError (''unsupported osFamily '' @ go_quote (boot_OSFamily boot)))
          else (case renderJoinConfiguration (rl_QuantityString L) (rl_MarshalJoin L) (in_Join i) of
              Inl err \<Rightarrow> Inl err
            | Inr joinYAML \<Rightarrow> (case minorVersion (KubernetesVersion boot) of
                Inl err \<Rightarrow> Inl err
              | Inr minor \<Rightarrow>
                  (let pkgVersion = KubernetesVersion boot @ ''-'' @ PackageRevisionOrDefault (Some boot) in
                   (case rl_MarshalCloud L (cloud_config spec joinYAML minor pkgVersion) of
                      Inl err \<Rightarrow> Inl (WrapError ''marshalling cloud-config: '' err)
                    | Inr doc \<Rightarrow> maybeCompress (rl_Gzip L) (cloudHeader @ doc)))))))"

section \<open>The bootstrap provider\<close>

text \<open>The discovery the struct also holds is not read by its operations.\<close>

record 'w bootstrap_provider =
  bp_minter :: "'w minter"
  bp_clusterName :: string

definition NewBootstrapProvider :: "'w minter \<Rightarrow> string \<Rightarrow> 'w bootstrap_provider" where
  "NewBootstrapProvider minter clusterName = \<lparr> bp_minter = minter, bp_clusterName = clusterName \<rparr>"

definition nodeLabels :: "'q NodeClaim \<Rightarrow> strmap" where
  "nodeLabels nodeClaim = (let out = massign [] (cl_Labels nodeClaim) in
     if mget out NodePoolLabelKey = [] then mdel NodePoolLabelKey out else out)"

definition nodeTaints :: "'q NodeClaim \<Rightarrow> Taint list" where
  "nodeTaints nodeClaim = cl_Taints nodeClaim @ cl_StartupTaints nodeClaim"

definition Bootstrap_Render ::
    "render_libs \<Rightarrow> 'w bootstrap_provider \<Rightarrow> 'c HCloudNodeClass \<Rightarrow> 'q NodeClaim \<Rightarrow> 'w \<Rightarrow> (go_error + string) \<times> 'w" where
  "Bootstrap_Render L p nodeClass nodeClaim w =
     (let endpoint = st_APIServerEndpoint (nc_Status nodeClass); hashes = st_CACertHashes (nc_Status nodeClass) in
      if endpoint = [] \<or> hashes = [] then
        (Inl (TextError (''nodeclass '' @ go_quote (nc_Name nodeClass) @ '' has no resolved join parameters'')), w)
      else (case Mint (bp_minter p) (Some nodeClaim) (bp_clusterName p) w of
          (Inl err, w1) \<Rightarrow> (Inl (WrapError (''minting a join token for '' @ go_quote (cl_Name nodeClaim) @ '', '') err), w1)
        | (Inr token, w1) \<Rightarrow>
            (Render L \<lparr> in_NodeClass = Some nodeClass,
               in_Join = \<lparr> ji_APIServerEndpoint = endpoint, ji_Token = token, ji_CACertHashes = hashes,
                 ji_Taints = nodeTaints nodeClaim, ji_NodeLabels = nodeLabels nodeClaim,
                 ji_Kubelet = spec_Kubelet (nc_Spec nodeClass) \<rparr> \<rparr>, w1)))"


section \<open>The document\<close>

text \<open>What a path holds after all files were written in order: the last one written there.\<close>

definition file_at :: "cloudConfig \<Rightarrow> string \<Rightarrow> writeFile option" where
  "file_at cfg path = find (\<lambda>f. wf_Path f = path) (rev (cc_WriteFiles cfg))"

lemma find_append: "find P (xs @ ys) = (case find P xs of None \<Rightarrow> find P ys | Some x \<Rightarrow> Some x)"
  by (induction xs) auto

lemma maybeCompress_fits:
  assumes "maybeCompress gzip doc = Inr out"
  shows "length out \<le> MaxUserDataBytes" and "if length doc \<le> GzipThresholdBytes then out = doc else gzip doc = Inr out"
  using assms by (auto simp: maybeCompress_def split: if_splits sum.splits)

lemma Render_Inr:
  assumes "Render L i = Inr out"
  obtains ncl joinYAML minor doc where "in_NodeClass i = Some ncl"
    and "renderJoinConfiguration (rl_QuantityString L) (rl_MarshalJoin L) (in_Join i) = Inr joinYAML"
    and "minorVersion (KubernetesVersion (spec_Bootstrap (nc_Spec ncl))) = Inr minor"
    and "rl_MarshalCloud L (cloud_config (nc_Spec ncl) joinYAML minor
           (KubernetesVersion (spec_Bootstrap (nc_Spec ncl)) @ ''-'' @ PackageRevisionOrDefault (Some (spec_Bootstrap (nc_Spec ncl))))) = Inr doc"
    and "maybeCompress (rl_Gzip L) (cloudHeader @ doc) = Inr out"
  using assms by (auto simp: Render_def Let_def split: option.splits if_splits sum.splits)

lemma file_at_join:
  assumes "joinPath \<notin> file_Path ` set (ExtraFiles (spec_Bootstrap spec))"
  shows "file_at (cloud_config spec joinYAML minor pkgVersion) joinPath = Some (system_file joinPath ''0600'' joinYAML)"
proof -
  have "find (\<lambda>f. wf_Path f = joinPath) (rev (map extra_file (ExtraFiles (spec_Bootstrap spec)))) = None"
    using assms by (force simp: find_None_iff extra_file_def)
  moreover have "find (\<lambda>f. wf_Path f = joinPath) (rev (upgrade_files u)) = None" for u
    by (simp add: find_append upgrade_files_def system_file_def joinPath_def)
  ultimately show ?thesis
    by (simp add: file_at_def cloud_config_def Let_def find_append base_files_def system_file_def)
qed

text \<open>The steps that prepare a node, none of which is the join.\<close>

lemma buildRuncmd_split:
  "\<exists>prepare. buildRuncmd spec minor pkgVersion = prepare @ PreJoinCommands (spec_Bootstrap spec) @ joinCommand # PostJoinCommands (spec_Bootstrap spec)
     \<and> joinCommand \<notin> set prepare \<and> last prepare = ''systemctl enable kubelet''
     \<and> {''apt-mark hold kubelet kubeadm kubectl'', ''systemctl restart containerd''} \<subseteq> set prepare"
  by (intro exI [of _ "install_commands minor pkgVersion
        @ (if UnattendedUpgradesEnabled (Some (UnattendedUpgrades (spec_Bootstrap spec))) then [''dpkg-reconfigure -f noninteractive unattended-upgrades''] else [])
        @ containerd_commands (spec_Bootstrap spec) @ [''systemctl restart containerd'', ''systemctl enable kubelet'']"])
    (simp add: buildRuncmd_def install_commands_def containerd_commands_def appendHeredoc_def joinCommand_def Let_def)

text \<open>
  C35. What is rendered never exceeds the 32768 bytes the API takes for user data, and it is the cloud-config of
  the class, as it is or compressed. In it the join configuration is at its path, readable by root only, unless
  the operator replaces that very file; and the operator's commands stand around the join on their side: the node is
  prepared, then come the commands before the join, then the join, then the others.
\<close>

theorem Render_fits_and_joins_in_order:
  assumes "Render L i = Inr out"
  shows "length out \<le> 32768 \<and> (\<exists>ncl joinYAML minor pkgVersion doc prepare.
     in_NodeClass i = Some ncl
     \<and> renderJoinConfiguration (rl_QuantityString L) (rl_MarshalJoin L) (in_Join i) = Inr joinYAML
     \<and> rl_MarshalCloud L (cloud_config (nc_Spec ncl) joinYAML minor pkgVersion) = Inr doc
     \<and> (if length (cloudHeader @ doc) \<le> 24576 then out = cloudHeader @ doc else rl_Gzip L (cloudHeader @ doc) = Inr out)
     \<and> (joinPath \<in> file_Path ` set (ExtraFiles (spec_Bootstrap (nc_Spec ncl)))
         \<or> file_at (cloud_config (nc_Spec ncl) joinYAML minor pkgVersion) joinPath = Some (system_file joinPath ''0600'' joinYAML))
     \<and> cc_Runcmd (cloud_config (nc_Spec ncl) joinYAML minor pkgVersion)
         = prepare @ PreJoinCommands (spec_Bootstrap (nc_Spec ncl)) @ joinCommand # PostJoinCommands (spec_Bootstrap (nc_Spec ncl))
     \<and> joinCommand \<notin> set prepare
     \<and> {''apt-mark hold kubelet kubeadm kubectl'', ''systemctl restart containerd''} \<subseteq> set prepare)"
proof -
  obtain ncl joinYAML minor doc pkg where r: "in_NodeClass i = Some ncl"
    "renderJoinConfiguration (rl_QuantityString L) (rl_MarshalJoin L) (in_Join i) = Inr joinYAML"
    "rl_MarshalCloud L (cloud_config (nc_Spec ncl) joinYAML minor pkg) = Inr doc"
    "maybeCompress (rl_Gzip L) (cloudHeader @ doc) = Inr out"
    using Render_Inr [OF assms] by metis
  obtain prepare where p: "cc_Runcmd (cloud_config (nc_Spec ncl) joinYAML minor pkg)
        = prepare @ PreJoinCommands (spec_Bootstrap (nc_Spec ncl)) @ joinCommand # PostJoinCommands (spec_Bootstrap (nc_Spec ncl))"
    "joinCommand \<notin> set prepare" "{''apt-mark hold kubelet kubeadm kubectl'', ''systemctl restart containerd''} \<subseteq> set prepare"
    using buildRuncmd_split [of "nc_Spec ncl" minor pkg] by (auto simp: cloud_config_def Let_def)
  have "if length (cloudHeader @ doc) \<le> 24576 then out = cloudHeader @ doc else rl_Gzip L (cloudHeader @ doc) = Inr out"
    using maybeCompress_fits(2) [OF r(4)] by (simp only: GzipThresholdBytes_def) simp
  moreover have "length out \<le> 32768" using maybeCompress_fits(1) [OF r(4)] by (simp add: MaxUserDataBytes_def)
  ultimately show ?thesis using r(1-3) p file_at_join [of "nc_Spec ncl" joinYAML minor pkg] by blast
qed

definition ex_render :: render_libs where
  "ex_render = \<lparr> rl_QuantityString = ex_quantity,
     rl_MarshalJoin = (\<lambda>c. Inr (case jc_Discovery c of None \<Rightarrow> [] | Some d \<Rightarrow> ''token: '' @ btd_Token d)),
     rl_MarshalCloud = (\<lambda>c. Inr (if cc_PackageUpdate c then ''package_update: true'' else [])), rl_Gzip = (\<lambda>doc. Inr (take 20 doc)) \<rparr>"

definition ex_input :: "unit Input" where
  "ex_input = \<lparr> in_NodeClass = Some ex_class, in_Join = ex_join \<rparr>"

lemma ex_Render:
  assumes "nc_Spec ncl = ex_spec" and "ji_APIServerEndpoint j \<noteq> []" and "ji_Token j \<noteq> []" and "ji_CACertHashes j \<noteq> []"
  shows "Render ex_render \<lparr> in_NodeClass = Some ncl, in_Join = j \<rparr> = Inr (cloudHeader @ ''package_update: true'')"
  using assms
  by (simp add: Render_def renderJoinConfiguration_def ex_render_def ex_spec_def ex_bootstrap_def OSFamilyDebian_def
      minorVersion_def cloud_config_def maybeCompress_def GzipThresholdBytes_def MaxUserDataBytes_def cloudHeader_def nl_def Let_def)

theorem Render_fits_and_joins_in_order_witness:
  "\<exists>out ncl. Render ex_render ex_input = Inr out \<and> length out \<le> 32768 \<and> in_NodeClass ex_input = Some ncl"
proof -
  obtain out where r: "Render ex_render ex_input = Inr out" using ex_Render [of ex_class ex_join] by (simp add: ex_input_def ex_join_def ex_class_def)
  with Render_fits_and_joins_in_order [OF r] show ?thesis by blast
qed

section \<open>Here documents\<close>

text \<open>
  How the shell reads the command: the lines after the first up to the delimiter are the text that is
  appended, what follows the delimiter is run.
\<close>

definition heredoc_body :: "string \<Rightarrow> string list" where
  "heredoc_body cmd = takeWhile (\<lambda>l. l \<noteq> heredocDelim) (tl (split_on (CHR 0x0A) cmd))"

definition heredoc_rest :: "string \<Rightarrow> string list" where
  "heredoc_rest cmd = tl (dropWhile (\<lambda>l. l \<noteq> heredocDelim) (tl (split_on (CHR 0x0A) cmd)))"

lemma split_on_append_gen: "split_on c (s @ c # t) = split_on c s @ split_on c t"
  by (induction s) (auto split: list.splits simp: Cons_eq_append_conv)

lemma lines_between: "c \<notin> set h \<Longrightarrow> c \<notin> set d \<Longrightarrow> tl (split_on c (h @ c # b @ c # d)) = split_on c b @ [d]"
  by (simp add: split_on_append_gen)

lemma takeWhile_snoc_iff: "takeWhile P (xs @ [x]) = xs \<longleftrightarrow> list_all P xs" if "\<not> P x"
  using that by (induction xs) auto

lemma dropWhile_snoc_iff: "tl (dropWhile P (xs @ [x])) = [] \<longleftrightarrow> list_all P xs" if "\<not> P x"
  using that by (induction xs) auto

lemma appendHeredoc_lines:
  "tl (split_on (CHR 0x0A) (appendHeredoc ''/etc/containerd/config.toml'' content)) = split_on (CHR 0x0A) content @ [heredocDelim]"
proof -
  have h: "appendHeredoc ''/etc/containerd/config.toml'' content
      = (''cat >> /etc/containerd/config.toml << '' @ sq @ heredocDelim @ sq) @ CHR 0x0A # content @ CHR 0x0A # heredocDelim"
    by (simp add: appendHeredoc_def nl_def)
  have "CHR 0x0A \<notin> set (''cat >> /etc/containerd/config.toml << '' @ sq @ heredocDelim @ sq)" "CHR 0x0A \<notin> set heredocDelim"
    by (simp_all add: sq_def heredocDelim_def)
  then show ?thesis unfolding h by (rule lines_between)
qed



section \<open>A rendered node can join\<close>

lemma clean_map_sub:
  assumes "clean_map sep m" and "wf_map m'" and "map_of m' \<subseteq>\<^sub>m map_of m"
  shows "clean_map sep m'"
proof -
  have "(k, v) \<in> set m" if "(k, v) \<in> set m'" for k v
    using that assms(2,3) by (metis map_le_def domI map_of_SomeD map_of_eq_Some_iff wf_map_def)
  with assms(1,2) show ?thesis by (fastforce simp: clean_map_def list_all_iff)
qed

lemma wf_map_mdel [simp]: "wf_map m \<Longrightarrow> wf_map (mdel k m)"
  by (simp add: wf_map_def mdel_def distinct_delete)

definition registered_labels :: "'q NodeClaim \<Rightarrow> string \<Rightarrow> string option" where
  "registered_labels claim = (if mget (cl_Labels claim) NodePoolLabelKey = [] then (map_of (cl_Labels claim))(NodePoolLabelKey := None)
     else map_of (cl_Labels claim))"

lemma map_of_nodeLabels:
  assumes "wf_map (cl_Labels claim)"
  shows "map_of (nodeLabels claim) = registered_labels claim" "wf_map (nodeLabels claim)"
  using assms by (simp_all add: nodeLabels_def registered_labels_def Let_def map_of_massign mget_def)

lemma effective_node_labels:
  assumes "''node-labels'' \<notin> arg_Name ` set (ExtraArgs (ji_Kubelet i))"
  shows "effective (kubeletArgs quantityString i) ''node-labels''
    = (if ji_NodeLabels i = [] then None else Some (mapArg (ji_NodeLabels i)))"
proof -
  let ?extra = "map (\<lambda>e. (arg_Name e, arg_Value e)) (ExtraArgs (ji_Kubelet i))"
  have "map_of (rev ?extra) ''node-labels'' = None" using assms by (auto simp: map_of_eq_None_iff)
  then show ?thesis by (simp add: effective_def kubeletArgs_def Let_def comp_def map_add_def)
qed

text \<open>
  C12. No join credential is minted for a class without join parameters. Otherwise one mint is all that happens to the
  world, and the document that is rendered joins with that token, to the endpoint and under the pins of the
  status; the node registers with the taint of karpenter before the taints and the startup taints of its claim,
  and with the labels of its claim, less an empty node pool.
\<close>

theorem rendered_node_can_join:
  assumes "Bootstrap_Render L p ncl claim w = (r, w')" and "clean_map (CHR ''='') (cl_Labels claim)"
    and "''node-labels'' \<notin> arg_Name ` set (ExtraArgs (spec_Kubelet (nc_Spec ncl)))"
  shows "if st_APIServerEndpoint (nc_Status ncl) = [] \<or> st_CACertHashes (nc_Status ncl) = []
    then w' = w \<and> (\<exists>err. r = Inl err)
    else w' = snd (Mint (bp_minter p) (Some claim) (bp_clusterName p) w) \<and> (\<forall>out. r = Inr out \<longrightarrow>
      (\<exists>token ji joinYAML. fst (Mint (bp_minter p) (Some claim) (bp_clusterName p) w) = Inr token
        \<and> Render L \<lparr> in_NodeClass = Some ncl, in_Join = ji \<rparr> = Inr out
        \<and> rl_MarshalJoin L (joinConfig (rl_QuantityString L) ji) = Inr joinYAML
        \<and> jc_Discovery (joinConfig (rl_QuantityString L) ji) = Some \<lparr> btd_APIServerEndpoint = st_APIServerEndpoint (nc_Status ncl),
             btd_Token = token, btd_CACertHashes = st_CACertHashes (nc_Status ncl) \<rparr>
        \<and> nr_Taints (jc_NodeRegistration (joinConfig (rl_QuantityString L) ji)) = UnregisteredTaint # cl_Taints claim @ cl_StartupTaints claim
        \<and> (case effective (nr_KubeletExtraArgs (jc_NodeRegistration (joinConfig (rl_QuantityString L) ji))) ''node-labels'' of
             None \<Rightarrow> Map.empty | Some v \<Rightarrow> map_of (read_pairs (CHR ''='') v)) = registered_labels claim))"
proof (cases "st_APIServerEndpoint (nc_Status ncl) = [] \<or> st_CACertHashes (nc_Status ncl) = []")
  case True
  with assms(1) show ?thesis by (auto simp: Bootstrap_Render_def)
next
  case False
  obtain m w1 where mint: "Mint (bp_minter p) (Some claim) (bp_clusterName p) w = (m, w1)" by (rule prod.exhaust)
  define ji where "ji token = \<lparr> ji_APIServerEndpoint = st_APIServerEndpoint (nc_Status ncl), ji_Token = token,
      ji_CACertHashes = st_CACertHashes (nc_Status ncl), ji_Taints = nodeTaints claim, ji_NodeLabels = nodeLabels claim,
      ji_Kubelet = spec_Kubelet (nc_Spec ncl) \<rparr>" for token
  have out: "\<exists>token. m = Inr token \<and> Render L \<lparr> in_NodeClass = Some ncl, in_Join = ji token \<rparr> = Inr out" if "r = Inr out" for out
    using assms(1) False mint that by (auto simp: Bootstrap_Render_def ji_def split: sum.splits)
  have w: "w' = w1" using assms(1) False mint by (auto simp: Bootstrap_Render_def split: sum.splits)
  have wf: "wf_map (cl_Labels claim)" using assms(2) by (simp add: clean_map_def)
  have "map_of (nodeLabels claim) \<subseteq>\<^sub>m map_of (cl_Labels claim)"
    by (auto simp: map_of_nodeLabels [OF wf] registered_labels_def map_le_def)
  with clean_map_sub [OF assms(2) map_of_nodeLabels(2) [OF wf]]
  have labels: "map_of (read_pairs (CHR ''='') (mapArg (nodeLabels claim))) = registered_labels claim"
    using read_mapArg map_of_nodeLabels(1) [OF wf] by metis
  have "registered_labels claim = Map.empty" if "nodeLabels claim = []" using map_of_nodeLabels(1) [OF wf] that by simp
  then have eff: "(case effective (kubeletArgs (rl_QuantityString L) (ji token)) ''node-labels'' of
        None \<Rightarrow> Map.empty | Some v \<Rightarrow> map_of (read_pairs (CHR ''='') v)) = registered_labels claim" for token
    using effective_node_labels [of "ji token" "rl_QuantityString L"] assms(3) labels by (auto simp: ji_def)
  have "\<exists>joinYAML. rl_MarshalJoin L (joinConfig (rl_QuantityString L) (ji token)) = Inr joinYAML"
    if "Render L \<lparr> in_NodeClass = Some ncl, in_Join = ji token \<rparr> = Inr out" for token out
    by (rule Render_Inr [OF that]) (auto simp: renderJoinConfiguration_def split: if_splits sum.splits)
  then have "\<exists>token joinYAML. m = Inr token \<and> Render L \<lparr> in_NodeClass = Some ncl, in_Join = ji token \<rparr> = Inr out
      \<and> rl_MarshalJoin L (joinConfig (rl_QuantityString L) (ji token)) = Inr joinYAML" if "r = Inr out" for out
    using out [OF that] by blast
  moreover have "jc_Discovery (joinConfig (rl_QuantityString L) (ji token)) = Some \<lparr> btd_APIServerEndpoint = st_APIServerEndpoint (nc_Status ncl),
      btd_Token = token, btd_CACertHashes = st_CACertHashes (nc_Status ncl) \<rparr>"
    "nr_Taints (jc_NodeRegistration (joinConfig (rl_QuantityString L) (ji token))) = UnregisteredTaint # cl_Taints claim @ cl_StartupTaints claim"
    "nr_KubeletExtraArgs (jc_NodeRegistration (joinConfig (rl_QuantityString L) (ji token))) = kubeletArgs (rl_QuantityString L) (ji token)" for token
    by (simp_all add: joinConfig_def ji_def nodeTaints_def)
  ultimately show ?thesis unfolding if_not_P [OF False] mint fst_conv snd_conv using w eff by metis
qed


definition ex_joinable :: "unit HCloudNodeClass" where
  "ex_joinable = ex_class\<lparr>nc_Status := ex_status\<lparr>st_APIServerEndpoint := ''10.1.0.2:6443'', st_CACertHashes := [''sha256:00'']\<rparr>\<rparr>"

theorem rendered_node_can_join_witness:
  "\<exists>out. Bootstrap_Render ex_render (NewBootstrapProvider ex_minter ''prod'') ex_joinable ex_claim [] = (Inr out, snd (Mint ex_minter (Some ex_claim) ''prod'' []))"
proof -
  let ?r = "Bootstrap_Render ex_render (NewBootstrapProvider ex_minter ''prod'') ex_joinable ex_claim []"
  have m: "Mint ex_minter (Some ex_claim) ''prod'' [] = (Inr ''999999.9999999999999999'', snd (Mint ex_minter (Some ex_claim) ''prod'' []))"
    by code_simp
  have j: "nc_Spec ex_joinable = ex_spec" "st_APIServerEndpoint (nc_Status ex_joinable) = ''10.1.0.2:6443''"
    "st_CACertHashes (nc_Status ex_joinable) = [''sha256:00'']"
    by (simp_all add: ex_joinable_def ex_class_def)
  obtain out where o: "fst ?r = Inr out"
    using arg_cong [OF m, of fst] by (cases "Mint ex_minter (Some ex_claim) ''prod'' []")
      (simp add: Bootstrap_Render_def NewBootstrapProvider_def j ex_Render Let_def)
  have "clean_map (CHR ''='') (cl_Labels ex_claim)" "''node-labels'' \<notin> arg_Name ` set (ExtraArgs (spec_Kubelet (nc_Spec ex_joinable)))"
    "st_APIServerEndpoint (nc_Status ex_joinable) \<noteq> []" "st_CACertHashes (nc_Status ex_joinable) \<noteq> []"
    by (simp_all add: clean_map_def ex_claim_def ex_joinable_def ex_class_def ex_spec_def ex_kubelet_def)
  with rendered_node_can_join [OF prod.collapse [symmetric, of ?r]] have "snd ?r = snd (Mint ex_minter (Some ex_claim) ''prod'' [])"
    by (simp add: NewBootstrapProvider_def)
  with o show ?thesis by (metis prod.collapse)
qed

section \<open>Stable output\<close>

lemma sysctlContent_stable:
  assumes "wf_map s" and "mset s = mset s'"
  shows "sysctlContent s = sysctlContent s'"
proof -
  have wf': "wf_map s'" using assms unfolding wf_map_def by (metis mset_eq_imp_distinct_iff mset_map)
  have d: "wf_map default_sysctls" by (simp add: wf_map_def default_sysctls_def)
  let ?a = "massign default_sysctls s" and ?b = "massign default_sysctls s'"
  have eq: "map_of ?a = map_of ?b"
    using map_of_cong_mset [OF assms(2,1)] by (simp add: map_of_massign assms(1) wf')
  then have "set (map fst ?a) = set (map fst ?b)" by (metis dom_map_of_conv_image_fst list.set_map)
  moreover have "distinct (map fst ?a)" "distinct (map fst ?b)"
    using wf_map_massign [OF d] by (simp_all add: wf_map_def)
  ultimately have "mset (map fst ?a) = mset (map fst ?b)" by (metis set_eq_iff_mset_eq_distinct)
  from sort_strings_cong [OF this] eq show ?thesis by (simp add: sysctlContent_def mget_def Let_def)
qed

text \<open>
  C36. Boot data does not depend on the order in which Go visits its maps: inputs that differ in the order of the node
  labels, the reservations, the thresholds and the sysctls only render to the same bytes, or fail alike.
\<close>

theorem Render_stable:
  assumes "same_join j j'" and "spec_Bootstrap (nc_Spec ncl') = (spec_Bootstrap (nc_Spec ncl))\<lparr>Sysctls := s\<rparr>"
    and "wf_map s" and "mset s = mset (Sysctls (spec_Bootstrap (nc_Spec ncl)))"
  shows "Render L \<lparr> in_NodeClass = Some ncl', in_Join = j' \<rparr> = Render L \<lparr> in_NodeClass = Some ncl, in_Join = j \<rparr>"
proof -
  have "cloud_config (nc_Spec ncl') y m v = cloud_config (nc_Spec ncl) y m v" for y m v
    using sysctlContent_stable [OF assms(3,4)]
    by (simp add: cloud_config_def buildRuncmd_def base_files_def containerd_commands_def assms(2) Let_def
        PackageUpgradeOnBootEnabled_def split: option.splits)
  moreover have "PackageRevisionOrDefault (Some (spec_Bootstrap (nc_Spec ncl'))) = PackageRevisionOrDefault (Some (spec_Bootstrap (nc_Spec ncl)))"
    "KubernetesVersion (spec_Bootstrap (nc_Spec ncl')) = KubernetesVersion (spec_Bootstrap (nc_Spec ncl))"
    "boot_OSFamily (spec_Bootstrap (nc_Spec ncl')) = boot_OSFamily (spec_Bootstrap (nc_Spec ncl))"
    by (simp_all add: PackageRevisionOrDefault_def assms(2))
  ultimately show ?thesis
    using renderJoinConfiguration_stable [OF assms(1)] by (simp add: Render_def Let_def cong: sum.case_cong if_cong)
qed

theorem Render_stable_witness:
  "(let tuned = (\<lambda>s. ex_class\<lparr>nc_Spec := ex_spec\<lparr>spec_Bootstrap := ex_bootstrap\<lparr>Sysctls := s\<rparr>\<rparr>\<rparr>);
        labelled = (\<lambda>l. ex_join\<lparr>ji_NodeLabels := l\<rparr>) in
    Render ex_render \<lparr> in_NodeClass = Some (tuned [(''b'', ''2''), (''a'', ''1'')]), in_Join = labelled [(''y'', ''2''), (''x'', ''1'')] \<rparr>
    = Render ex_render \<lparr> in_NodeClass = Some (tuned [(''a'', ''1''), (''b'', ''2'')]), in_Join = labelled [(''x'', ''1''), (''y'', ''2'')] \<rparr>)"
  unfolding Let_def
  by (rule Render_stable [where s = "[(''b'', ''2''), (''a'', ''1'')]"])
    (simp_all add: same_join_def same_kubelet_def wf_map_def add_mset_commute)

end
