(* ===== verification/Deep_Copy.thy ===== *)
theory Deep_Copy
  imports Api_Types
begin

text \<open>
  The generated deep copies (\<^verbatim>\<open>src/api/v1alpha1/zz_generated.deepcopy.go\<close>) on an explicit store. The rest of the
  development passes objects by value; this theory shows why it may: the controllers change an object in place and
  compare it with a copy taken before, and that copy shares nothing with the object.

  A pointer, a slice and a map are an optional address, \<open>None\<close> for nil; what they refer to is a cell of
  the store, new ones in the order of their addresses; a struct gets its cell once its parts have theirs. A struct is a record that holds such addresses beside its plain fields. The copies of
  \<^verbatim>\<open>ObjectMeta\<close>, \<^verbatim>\<open>Condition\<close> and \<^verbatim>\<open>Quantity\<close> are code of other packages and parameters.
\<close>

section \<open>The store\<close>

type_synonym addr = nat

record term_ref =
  tr_Name :: string
  tr_ID :: "addr option"

record location_ref =
  lr_Name :: string
  lr_NetworkZone :: string
  lr_Datacenters :: "addr option"

datatype 'd cell =
    CBool (the_bool: bool)
  | CInt (the_int: int)
  | CStrings (the_strings: "string list")
  | CStrMap (the_strmap: strmap)
  | CResources (the_resources: resource_list)
  | CDurations (the_durations: "(string \<times> duration) list")
  | CFiles (the_files: "File list")
  | CArgs (the_args: "KubeletArg list")
  | CTerm (the_term: term_ref)
  | CTerms (the_terms: "term_ref list")
  | CImage (the_image: ImageStatus)
  | CNetwork (the_network: NetworkStatus)
  | CFirewalls (the_firewalls: "FirewallStatus list")
  | CKeys (the_keys: "SSHKeyStatus list")
  | CGroup (the_group: PlacementGroupStatus)
  | CLocations (the_locations: "location_ref list")
  | CConditions (the_conditions: "'d list")

record 'd store =
  cells :: "addr \<Rightarrow> 'd cell option"
  limit :: addr

definition alloc :: "'d cell \<Rightarrow> 'd store \<Rightarrow> addr \<times> 'd store" where
  "alloc c s = (limit s, s\<lparr>cells := (cells s)(limit s \<mapsto> c), limit := Suc (limit s)\<rparr>)"

definition deref :: "'d store \<Rightarrow> addr \<Rightarrow> 'd cell" where
  "deref s p = the (cells s p)"

text \<open>Structs with references.\<close>

record containerd_ref =
  cr_SystemdCgroup :: "addr option"
  cr_AptPin :: string
  cr_ExtraConfig :: string

record upgrades_ref =
  ur_Enabled :: "addr option"
  ur_ExtraOrigins :: "addr option"
  ur_RemoveUnusedKernelPackages :: "addr option"

record bootstrap_ref =
  br_OSFamily :: string
  br_Mode :: string
  br_KubernetesVersion :: string
  br_PackageRevision :: string
  br_APIServerEndpoint :: string
  br_CACertHashes :: "addr option"
  br_Containerd :: containerd_ref
  br_UnattendedUpgrades :: upgrades_ref
  br_Sysctls :: "addr option"
  br_KernelModules :: "addr option"
  br_PackageUpgradeOnBoot :: "addr option"
  br_ExtraPackages :: "addr option"
  br_ExtraFiles :: "addr option"
  br_PreJoinCommands :: "addr option"
  br_PostJoinCommands :: "addr option"
  br_Revision :: string

record kubelet_ref =
  kr_KubeReserved :: "addr option"
  kr_SystemReserved :: "addr option"
  kr_EvictionHard :: "addr option"
  kr_EvictionSoft :: "addr option"
  kr_EvictionSoftGracePeriod :: "addr option"
  kr_MaxPods :: "addr option"
  kr_ClusterDNS :: "addr option"
  kr_ExtraArgs :: "addr option"

record spec_ref =
  sr_ImageSelector :: term_ref
  sr_ImageDriftPolicy :: string
  sr_MaxNodeAge :: "addr option"
  sr_Locations :: "addr option"
  sr_NetworkSelector :: "addr option"
  sr_FirewallSelectors :: "addr option"
  sr_SSHKeySelectors :: "addr option"
  sr_PlacementGroup :: "addr option"
  sr_PublicIPv4 :: "addr option"
  sr_PublicIPv6 :: "addr option"
  sr_ServerLabels :: "addr option"
  sr_Kubelet :: kubelet_ref
  sr_Bootstrap :: bootstrap_ref

record status_ref =
  str_Image :: "addr option"
  str_Network :: "addr option"
  str_Firewalls :: "addr option"
  str_SSHKeys :: "addr option"
  str_PlacementGroup :: "addr option"
  str_Locations :: "addr option"
  str_APIServerEndpoint :: string
  str_CACertHashes :: "addr option"
  str_Conditions :: "addr option"

record 'm class_ref =
  clr_Meta :: 'm
  clr_Spec :: spec_ref
  clr_Status :: status_ref

section \<open>The generated functions\<close>

text \<open>
  A reference to plain data: nil stays nil, anything else gets a new cell with the same content. This is the
  code of \<^verbatim>\<open>new\<close> and assignment, of \<^verbatim>\<open>make\<close> and \<^verbatim>\<open>copy\<close>, and of the loop over the entries of a map.
\<close>

definition copy_plain :: "addr option \<Rightarrow> 'd store \<Rightarrow> addr option \<times> 'd store" where
  "copy_plain a s = (case a of None \<Rightarrow> (None, s) | Some p \<Rightarrow> (case alloc (deref s p) s of (q, s1) \<Rightarrow> (Some q, s1)))"

definition copy_resources :: "(quantity \<Rightarrow> quantity) \<Rightarrow> addr option \<Rightarrow> 'd store \<Rightarrow> addr option \<times> 'd store" where
  "copy_resources quantityCopy a s = (case a of None \<Rightarrow> (None, s)
     | Some p \<Rightarrow> (case alloc (CResources (map (\<lambda>(k, v). (k, quantityCopy v)) (the_resources (deref s p)))) s of (q, s1) \<Rightarrow> (Some q, s1)))"

definition copy_conditions :: "('d \<Rightarrow> 'd) \<Rightarrow> addr option \<Rightarrow> 'd store \<Rightarrow> addr option \<times> 'd store" where
  "copy_conditions conditionCopy a s = (case a of None \<Rightarrow> (None, s)
     | Some p \<Rightarrow> (case alloc (CConditions (map conditionCopy (the_conditions (deref s p)))) s of (q, s1) \<Rightarrow> (Some q, s1)))"

text \<open>The selector terms have one shape and their functions one body.\<close>

definition SelectorTerm_DeepCopyInto :: "term_ref \<Rightarrow> 'd store \<Rightarrow> term_ref \<times> 'd store" where
  "SelectorTerm_DeepCopyInto t s = (case copy_plain (tr_ID t) s of (i, s1) \<Rightarrow> (t\<lparr>tr_ID := i\<rparr>, s1))"

definition LocationStatus_DeepCopyInto :: "location_ref \<Rightarrow> 'd store \<Rightarrow> location_ref \<times> 'd store" where
  "LocationStatus_DeepCopyInto l s = (case copy_plain (lr_Datacenters l) s of (d, s1) \<Rightarrow> (l\<lparr>lr_Datacenters := d\<rparr>, s1))"

text \<open>The loop over the elements of a slice of structs.\<close>

fun copy_each :: "('h \<Rightarrow> 'd store \<Rightarrow> 'h \<times> 'd store) \<Rightarrow> 'h list \<Rightarrow> 'd store \<Rightarrow> 'h list \<times> 'd store" where
  "copy_each copy [] s = ([], s)"
| "copy_each copy (x # xs) s = (case copy x s of (y, s1) \<Rightarrow> (case copy_each copy xs s1 of (ys, s2) \<Rightarrow> (y # ys, s2)))"

definition copy_term :: "addr option \<Rightarrow> 'd store \<Rightarrow> addr option \<times> 'd store" where
  "copy_term a s = (case a of None \<Rightarrow> (None, s)
     | Some p \<Rightarrow> (case SelectorTerm_DeepCopyInto (the_term (deref s p)) s of (t, s1) \<Rightarrow>
         (case alloc (CTerm t) s1 of (q, s2) \<Rightarrow> (Some q, s2))))"

definition copy_terms :: "addr option \<Rightarrow> 'd store \<Rightarrow> addr option \<times> 'd store" where
  "copy_terms a s = (case a of None \<Rightarrow> (None, s)
     | Some p \<Rightarrow> (case copy_each SelectorTerm_DeepCopyInto (the_terms (deref s p)) s of (ts, s1) \<Rightarrow>
         (case alloc (CTerms ts) s1 of (q, s2) \<Rightarrow> (Some q, s2))))"

definition copy_locations :: "addr option \<Rightarrow> 'd store \<Rightarrow> addr option \<times> 'd store" where
  "copy_locations a s = (case a of None \<Rightarrow> (None, s)
     | Some p \<Rightarrow> (case copy_each LocationStatus_DeepCopyInto (the_locations (deref s p)) s of (ls, s1) \<Rightarrow>
         (case alloc (CLocations ls) s1 of (q, s2) \<Rightarrow> (Some q, s2))))"

definition ContainerdSpec_DeepCopyInto :: "containerd_ref \<Rightarrow> 'd store \<Rightarrow> containerd_ref \<times> 'd store" where
  "ContainerdSpec_DeepCopyInto c s = (case copy_plain (cr_SystemdCgroup c) s of (g, s1) \<Rightarrow> (c\<lparr>cr_SystemdCgroup := g\<rparr>, s1))"

definition UnattendedUpgradesSpec_DeepCopyInto :: "upgrades_ref \<Rightarrow> 'd store \<Rightarrow> upgrades_ref \<times> 'd store" where
  "UnattendedUpgradesSpec_DeepCopyInto u s =
     (case copy_plain (ur_Enabled u) s of (e, s1) \<Rightarrow>
      (case copy_plain (ur_ExtraOrigins u) s1 of (origins, s2) \<Rightarrow>
      (case copy_plain (ur_RemoveUnusedKernelPackages u) s2 of (r, s3) \<Rightarrow>
       (u\<lparr>ur_Enabled := e, ur_ExtraOrigins := origins, ur_RemoveUnusedKernelPackages := r\<rparr>, s3))))"

definition BootstrapSpec_DeepCopyInto :: "bootstrap_ref \<Rightarrow> 'd store \<Rightarrow> bootstrap_ref \<times> 'd store" where
  "BootstrapSpec_DeepCopyInto b s =
     (case copy_plain (br_CACertHashes b) s of (hashes, s1) \<Rightarrow>
      (case ContainerdSpec_DeepCopyInto (br_Containerd b) s1 of (containerd, s2) \<Rightarrow>
      (case UnattendedUpgradesSpec_DeepCopyInto (br_UnattendedUpgrades b) s2 of (upgrades, s3) \<Rightarrow>
      (case copy_plain (br_Sysctls b) s3 of (sysctls, s4) \<Rightarrow>
      (case copy_plain (br_KernelModules b) s4 of (modules, s5) \<Rightarrow>
      (case copy_plain (br_PackageUpgradeOnBoot b) s5 of (upgrade, s6) \<Rightarrow>
      (case copy_plain (br_ExtraPackages b) s6 of (packages, s7) \<Rightarrow>
      (case copy_plain (br_ExtraFiles b) s7 of (files, s8) \<Rightarrow>
      (case copy_plain (br_PreJoinCommands b) s8 of (pre, s9) \<Rightarrow>
      (case copy_plain (br_PostJoinCommands b) s9 of (post, s10) \<Rightarrow>
       (b\<lparr>br_CACertHashes := hashes, br_Containerd := containerd, br_UnattendedUpgrades := upgrades, br_Sysctls := sysctls,
          br_KernelModules := modules, br_PackageUpgradeOnBoot := upgrade, br_ExtraPackages := packages,
          br_ExtraFiles := files, br_PreJoinCommands := pre, br_PostJoinCommands := post\<rparr>, s10)))))))))))"

definition KubeletConfiguration_DeepCopyInto :: "(quantity \<Rightarrow> quantity) \<Rightarrow> kubelet_ref \<Rightarrow> 'd store \<Rightarrow> kubelet_ref \<times> 'd store" where
  "KubeletConfiguration_DeepCopyInto quantityCopy k s =
     (case copy_resources quantityCopy (kr_KubeReserved k) s of (kube, s1) \<Rightarrow>
      (case copy_resources quantityCopy (kr_SystemReserved k) s1 of (system, s2) \<Rightarrow>
      (case copy_plain (kr_EvictionHard k) s2 of (hard, s3) \<Rightarrow>
      (case copy_plain (kr_EvictionSoft k) s3 of (soft, s4) \<Rightarrow>
      (case copy_plain (kr_EvictionSoftGracePeriod k) s4 of (grace, s5) \<Rightarrow>
      (case copy_plain (kr_MaxPods k) s5 of (pods, s6) \<Rightarrow>
      (case copy_plain (kr_ClusterDNS k) s6 of (dns, s7) \<Rightarrow>
      (case copy_plain (kr_ExtraArgs k) s7 of (args, s8) \<Rightarrow>
       (k\<lparr>kr_KubeReserved := kube, kr_SystemReserved := system, kr_EvictionHard := hard, kr_EvictionSoft := soft,
          kr_EvictionSoftGracePeriod := grace, kr_MaxPods := pods, kr_ClusterDNS := dns, kr_ExtraArgs := args\<rparr>, s8)))))))))"

definition HCloudNodeClassSpec_DeepCopyInto :: "(quantity \<Rightarrow> quantity) \<Rightarrow> spec_ref \<Rightarrow> 'd store \<Rightarrow> spec_ref \<times> 'd store" where
  "HCloudNodeClassSpec_DeepCopyInto quantityCopy x s =
     (case SelectorTerm_DeepCopyInto (sr_ImageSelector x) s of (img, s1) \<Rightarrow>
      (case copy_plain (sr_MaxNodeAge x) s1 of (age, s2) \<Rightarrow>
      (case copy_plain (sr_Locations x) s2 of (locations, s3) \<Rightarrow>
      (case copy_term (sr_NetworkSelector x) s3 of (network, s4) \<Rightarrow>
      (case copy_terms (sr_FirewallSelectors x) s4 of (firewalls, s5) \<Rightarrow>
      (case copy_terms (sr_SSHKeySelectors x) s5 of (keys, s6) \<Rightarrow>
      (case copy_term (sr_PlacementGroup x) s6 of (pgroup, s7) \<Rightarrow>
      (case copy_plain (sr_PublicIPv4 x) s7 of (ipv4, s8) \<Rightarrow>
      (case copy_plain (sr_PublicIPv6 x) s8 of (ipv6, s9) \<Rightarrow>
      (case copy_plain (sr_ServerLabels x) s9 of (labels, s10) \<Rightarrow>
      (case KubeletConfiguration_DeepCopyInto quantityCopy (sr_Kubelet x) s10 of (kubelet, s11) \<Rightarrow>
      (case BootstrapSpec_DeepCopyInto (sr_Bootstrap x) s11 of (bootstrap, s12) \<Rightarrow>
       (x\<lparr>sr_ImageSelector := img, sr_MaxNodeAge := age, sr_Locations := locations, sr_NetworkSelector := network,
          sr_FirewallSelectors := firewalls, sr_SSHKeySelectors := keys, sr_PlacementGroup := pgroup, sr_PublicIPv4 := ipv4,
          sr_PublicIPv6 := ipv6, sr_ServerLabels := labels, sr_Kubelet := kubelet, sr_Bootstrap := bootstrap\<rparr>, s12)))))))))))))"

definition HCloudNodeClassStatus_DeepCopyInto :: "('d \<Rightarrow> 'd) \<Rightarrow> status_ref \<Rightarrow> 'd store \<Rightarrow> status_ref \<times> 'd store" where
  "HCloudNodeClassStatus_DeepCopyInto conditionCopy x s =
     (case copy_plain (str_Image x) s of (img, s1) \<Rightarrow>
      (case copy_plain (str_Network x) s1 of (network, s2) \<Rightarrow>
      (case copy_plain (str_Firewalls x) s2 of (firewalls, s3) \<Rightarrow>
      (case copy_plain (str_SSHKeys x) s3 of (keys, s4) \<Rightarrow>
      (case copy_plain (str_PlacementGroup x) s4 of (pgroup, s5) \<Rightarrow>
      (case copy_locations (str_Locations x) s5 of (locations, s6) \<Rightarrow>
      (case copy_plain (str_CACertHashes x) s6 of (hashes, s7) \<Rightarrow>
      (case copy_conditions conditionCopy (str_Conditions x) s7 of (conditions, s8) \<Rightarrow>
       (x\<lparr>str_Image := img, str_Network := network, str_Firewalls := firewalls, str_SSHKeys := keys, str_PlacementGroup := pgroup,
          str_Locations := locations, str_CACertHashes := hashes, str_Conditions := conditions\<rparr>, s8)))))))))"

text \<open>What is used of the packages below: the copies of the metadata, of a quantity and of a condition.\<close>

record ('m, 'd) copy_libs =
  cl_Meta :: "'m \<Rightarrow> 'd store \<Rightarrow> 'm \<times> 'd store"
  cl_Quantity :: "quantity \<Rightarrow> quantity"
  cl_Condition :: "'d \<Rightarrow> 'd"

definition HCloudNodeClass_DeepCopyInto :: "('m, 'd) copy_libs \<Rightarrow> 'm class_ref \<Rightarrow> 'd store \<Rightarrow> 'm class_ref \<times> 'd store" where
  "HCloudNodeClass_DeepCopyInto L x s =
     (case cl_Meta L (clr_Meta x) s of (meta, s1) \<Rightarrow>
      (case HCloudNodeClassSpec_DeepCopyInto (cl_Quantity L) (clr_Spec x) s1 of (spec, s2) \<Rightarrow>
      (case HCloudNodeClassStatus_DeepCopyInto (cl_Condition L) (clr_Status x) s2 of (status, s3) \<Rightarrow>
       (x\<lparr>clr_Meta := meta, clr_Spec := spec, clr_Status := status\<rparr>, s3))))"

text \<open>\<^verbatim>\<open>DeepCopy\<close> of every type: nil for nil, otherwise a new struct that is copied into.\<close>

definition DeepCopy :: "('h \<Rightarrow> 'd store \<Rightarrow> 'h \<times> 'd store) \<Rightarrow> 'h option \<Rightarrow> 'd store \<Rightarrow> 'h option \<times> 'd store" where
  "DeepCopy into x s = (case x of None \<Rightarrow> (None, s) | Some v \<Rightarrow> (case into v s of (out, s1) \<Rightarrow> (Some out, s1)))"

definition HCloudNodeClass_DeepCopy :: "('m, 'd) copy_libs \<Rightarrow> 'm class_ref option \<Rightarrow> 'd store \<Rightarrow> 'm class_ref option \<times> 'd store" where
  "HCloudNodeClass_DeepCopy L = DeepCopy (HCloudNodeClass_DeepCopyInto L)"

definition HCloudNodeClassSpec_DeepCopy :: "(quantity \<Rightarrow> quantity) \<Rightarrow> spec_ref option \<Rightarrow> 'd store \<Rightarrow> spec_ref option \<times> 'd store" where
  "HCloudNodeClassSpec_DeepCopy quantityCopy = DeepCopy (HCloudNodeClassSpec_DeepCopyInto quantityCopy)"

definition HCloudNodeClassStatus_DeepCopy :: "('d \<Rightarrow> 'd) \<Rightarrow> status_ref option \<Rightarrow> 'd store \<Rightarrow> status_ref option \<times> 'd store" where
  "HCloudNodeClassStatus_DeepCopy conditionCopy = DeepCopy (HCloudNodeClassStatus_DeepCopyInto conditionCopy)"

definition KubeletConfiguration_DeepCopy :: "(quantity \<Rightarrow> quantity) \<Rightarrow> kubelet_ref option \<Rightarrow> 'd store \<Rightarrow> kubelet_ref option \<times> 'd store" where
  "KubeletConfiguration_DeepCopy quantityCopy = DeepCopy (KubeletConfiguration_DeepCopyInto quantityCopy)"

definition BootstrapSpec_DeepCopy :: "bootstrap_ref option \<Rightarrow> 'd store \<Rightarrow> bootstrap_ref option \<times> 'd store" where
  "BootstrapSpec_DeepCopy = DeepCopy BootstrapSpec_DeepCopyInto"

definition ContainerdSpec_DeepCopy :: "containerd_ref option \<Rightarrow> 'd store \<Rightarrow> containerd_ref option \<times> 'd store" where
  "ContainerdSpec_DeepCopy = DeepCopy ContainerdSpec_DeepCopyInto"

definition UnattendedUpgradesSpec_DeepCopy :: "upgrades_ref option \<Rightarrow> 'd store \<Rightarrow> upgrades_ref option \<times> 'd store" where
  "UnattendedUpgradesSpec_DeepCopy = DeepCopy UnattendedUpgradesSpec_DeepCopyInto"

definition LocationStatus_DeepCopy :: "location_ref option \<Rightarrow> 'd store \<Rightarrow> location_ref option \<times> 'd store" where
  "LocationStatus_DeepCopy = DeepCopy LocationStatus_DeepCopyInto"

text \<open>The five selector terms, and the structs without references, whose copy is an assignment.\<close>

definition ImageSelectorTerm_DeepCopy :: "term_ref option \<Rightarrow> 'd store \<Rightarrow> term_ref option \<times> 'd store" where
  "ImageSelectorTerm_DeepCopy = DeepCopy SelectorTerm_DeepCopyInto"

definition NetworkSelectorTerm_DeepCopy :: "term_ref option \<Rightarrow> 'd store \<Rightarrow> term_ref option \<times> 'd store" where
  "NetworkSelectorTerm_DeepCopy = DeepCopy SelectorTerm_DeepCopyInto"

definition FirewallSelectorTerm_DeepCopy :: "term_ref option \<Rightarrow> 'd store \<Rightarrow> term_ref option \<times> 'd store" where
  "FirewallSelectorTerm_DeepCopy = DeepCopy SelectorTerm_DeepCopyInto"

definition SSHKeySelectorTerm_DeepCopy :: "term_ref option \<Rightarrow> 'd store \<Rightarrow> term_ref option \<times> 'd store" where
  "SSHKeySelectorTerm_DeepCopy = DeepCopy SelectorTerm_DeepCopyInto"

definition PlacementGroupSelectorTerm_DeepCopy :: "term_ref option \<Rightarrow> 'd store \<Rightarrow> term_ref option \<times> 'd store" where
  "PlacementGroupSelectorTerm_DeepCopy = DeepCopy SelectorTerm_DeepCopyInto"

definition assign_DeepCopyInto :: "'v \<Rightarrow> 'd store \<Rightarrow> 'v \<times> 'd store" where
  "assign_DeepCopyInto v s = (v, s)"

definition File_DeepCopy :: "File option \<Rightarrow> 'd store \<Rightarrow> File option \<times> 'd store" where
  "File_DeepCopy = DeepCopy assign_DeepCopyInto"

definition KubeletArg_DeepCopy :: "KubeletArg option \<Rightarrow> 'd store \<Rightarrow> KubeletArg option \<times> 'd store" where
  "KubeletArg_DeepCopy = DeepCopy assign_DeepCopyInto"

definition ImageStatus_DeepCopy :: "ImageStatus option \<Rightarrow> 'd store \<Rightarrow> ImageStatus option \<times> 'd store" where
  "ImageStatus_DeepCopy = DeepCopy assign_DeepCopyInto"

definition NetworkStatus_DeepCopy :: "NetworkStatus option \<Rightarrow> 'd store \<Rightarrow> NetworkStatus option \<times> 'd store" where
  "NetworkStatus_DeepCopy = DeepCopy assign_DeepCopyInto"

definition FirewallStatus_DeepCopy :: "FirewallStatus option \<Rightarrow> 'd store \<Rightarrow> FirewallStatus option \<times> 'd store" where
  "FirewallStatus_DeepCopy = DeepCopy assign_DeepCopyInto"

definition SSHKeyStatus_DeepCopy :: "SSHKeyStatus option \<Rightarrow> 'd store \<Rightarrow> SSHKeyStatus option \<times> 'd store" where
  "SSHKeyStatus_DeepCopy = DeepCopy assign_DeepCopyInto"

definition PlacementGroupStatus_DeepCopy :: "PlacementGroupStatus option \<Rightarrow> 'd store \<Rightarrow> PlacementGroupStatus option \<times> 'd store" where
  "PlacementGroupStatus_DeepCopy = DeepCopy assign_DeepCopyInto"

section \<open>Reachability\<close>

definition term_refs :: "term_ref \<Rightarrow> addr set" where
  "term_refs t = set_option (tr_ID t)"

definition location_refs :: "location_ref \<Rightarrow> addr set" where
  "location_refs l = set_option (lr_Datacenters l)"

fun cell_refs :: "'d cell \<Rightarrow> addr set" where
  "cell_refs (CTerm t) = term_refs t"
| "cell_refs (CTerms ts) = \<Union> (term_refs ` set ts)"
| "cell_refs (CLocations ls) = \<Union> (location_refs ` set ls)"
| "cell_refs _ = {}"

inductive_set reach :: "'d store \<Rightarrow> addr set \<Rightarrow> addr set" for s A where
  root: "p \<in> A \<Longrightarrow> p \<in> reach s A"
| step: "p \<in> reach s A \<Longrightarrow> cells s p = Some c \<Longrightarrow> q \<in> cell_refs c \<Longrightarrow> q \<in> reach s A"

definition agree :: "'d store \<Rightarrow> 'd store \<Rightarrow> addr set \<Rightarrow> bool" where
  "agree s s2 A \<longleftrightarrow> (\<forall>p \<in> reach s A. cells s2 p = cells s p)"

definition store_ok :: "'d store \<Rightarrow> bool" where
  "store_ok s \<longleftrightarrow> (\<forall>p c. cells s p = Some c \<longrightarrow> p < limit s \<and> cell_refs c \<subseteq> {..<limit s})"

text \<open>\<open>s\<close> came from \<open>s0\<close> by allocation alone, and what is new refers to what is new only.\<close>

definition grown :: "'d store \<Rightarrow> 'd store \<Rightarrow> bool" where
  "grown s0 s \<longleftrightarrow> limit s0 \<le> limit s \<and> (\<forall>p < limit s0. cells s p = cells s0 p)
     \<and> (\<forall>p c. limit s0 \<le> p \<longrightarrow> cells s p = Some c \<longrightarrow> p < limit s \<and> cell_refs c \<subseteq> {limit s0..<limit s})"

definition ext :: "'d store \<Rightarrow> 'd store \<Rightarrow> bool" where
  "ext s s' \<longleftrightarrow> limit s \<le> limit s' \<and> (\<forall>p < limit s. cells s' p = cells s p)"

lemma reach_mono: "A \<subseteq> B \<Longrightarrow> reach s A \<subseteq> reach s B"
  by (rule subsetI, erule reach.induct) (auto intro: reach.intros)

lemma reach_cell:
  assumes "p \<in> A" and "cells s p = Some c"
  shows "reach s (cell_refs c) \<subseteq> reach s A"
proof
  fix q assume "q \<in> reach s (cell_refs c)"
  then show "q \<in> reach s A" using assms by induction (blast intro: reach.intros)+
qed

lemma agree_mono: "agree s s2 B \<Longrightarrow> A \<subseteq> B \<Longrightarrow> agree s s2 A"
  using reach_mono unfolding agree_def by blast

lemma agree_cell: "agree s s2 A \<Longrightarrow> p \<in> A \<Longrightarrow> cells s p = Some c \<Longrightarrow> agree s s2 (cell_refs c)"
  using reach_cell unfolding agree_def by blast

lemma agree_root: "agree s s2 A \<Longrightarrow> p \<in> A \<Longrightarrow> cells s2 p = cells s p"
  by (simp add: agree_def reach.root)

lemma ext_refl [simp]: "ext s s"
  by (simp add: ext_def)

lemma ext_trans: "ext s s1 \<Longrightarrow> ext s1 s2 \<Longrightarrow> ext s s2"
  by (auto simp: ext_def)

lemma grown_refl: "store_ok s \<Longrightarrow> grown s s"
  by (force simp: store_ok_def grown_def)

lemma grown_ext: "grown s0 s \<Longrightarrow> ext s0 s"
  by (simp add: grown_def ext_def)

lemma okD: "store_ok s \<Longrightarrow> cells s p = Some c \<Longrightarrow> p < limit s \<and> cell_refs c \<subseteq> {..<limit s}"
  by (simp add: store_ok_def)

lemma grownD:
  assumes "grown s0 s"
  shows "limit s0 \<le> limit s" "p < limit s0 \<Longrightarrow> cells s p = cells s0 p"
    "limit s0 \<le> p \<Longrightarrow> cells s p = Some c \<Longrightarrow> p < limit s \<and> cell_refs c \<subseteq> {limit s0..<limit s}"
  using assms by (simp_all add: grown_def)

lemma grown_ok:
  assumes "store_ok s0" and "grown s0 s"
  shows "store_ok s"
proof -
  have "p < limit s \<and> cell_refs c \<subseteq> {..<limit s}" if c: "cells s p = Some c" for p c
  proof (cases "p < limit s0")
    case True
    with grownD(2) [OF assms(2) True] c okD [OF assms(1), of p c] grownD(1) [OF assms(2)] show ?thesis by auto
  next
    case False
    with grownD(3) [OF assms(2) _ c] show ?thesis by auto
  qed
  then show ?thesis by (simp add: store_ok_def)
qed

lemma reach_fresh:
  assumes "grown s0 s" and "A \<subseteq> {limit s0..<limit s}"
  shows "reach s A \<subseteq> {limit s0..<limit s}"
proof
  fix p assume "p \<in> reach s A"
  then show "p \<in> {limit s0..<limit s}"
  proof induction
    case (step p c q)
    then show ?case using grownD(3) [OF assms(1), of p c] by auto
  qed (use assms in auto)
qed

lemma reach_old:
  assumes "store_ok s" and "A \<subseteq> dom (cells s)"
  shows "reach s A \<subseteq> {..<limit s}"
proof
  fix p assume "p \<in> reach s A"
  then show "p \<in> {..<limit s}"
  proof induction
    case (root p)
    then show ?case using assms okD [OF assms(1), of p] by auto
  next
    case (step p c q)
    then show ?case using okD [OF assms(1), of p c] by auto
  qed
qed

lemma agree_later: "grown s0 s \<Longrightarrow> A \<subseteq> {limit s0..<limit s} \<Longrightarrow> ext s s' \<Longrightarrow> agree s s' A"
  using reach_fresh [of s0 s A] unfolding agree_def ext_def by auto

lemma agree_old: "store_ok s \<Longrightarrow> A \<subseteq> dom (cells s) \<Longrightarrow> ext s s' \<Longrightarrow> agree s s' A"
  using reach_old [of s A] unfolding agree_def ext_def by auto

lemma grown_alloc:
  assumes "grown s0 s" and "cell_refs c \<subseteq> {limit s0..<limit s}" and "alloc c s = (q, s')"
  shows "grown s0 s'" "ext s s'" "q \<in> {limit s0..<limit s'}" "cells s' q = Some c"
proof -
  have a: "q = limit s" "limit s' = Suc (limit s)" "cells s' = (cells s)(q \<mapsto> c)"
    using assms(3) by (auto simp: alloc_def)
  show "ext s s'" "cells s' q = Some c" "q \<in> {limit s0..<limit s'}"
    using a grownD(1) [OF assms(1)] by (auto simp: ext_def)
  have "p < limit s' \<and> cell_refs d \<subseteq> {limit s0..<limit s'}" if "limit s0 \<le> p" "cells s' p = Some d" for p d
    using that a assms(2) grownD(3) [OF assms(1) that(1), of d] by (auto split: if_splits)
  then show "grown s0 s'" using a grownD [OF assms(1)] by (auto simp: grown_def)
qed

section \<open>The contract of a copy\<close>

text \<open>
  \<open>V\<close> is the value an object has in a store, \<open>R\<close> the addresses it holds, \<open>W\<close> that they are allocated with content of the
  right type. A copy into a grown store has the value of the original and holds new addresses only.
\<close>

locale copier =
  fixes copy :: "'h \<Rightarrow> 'd store \<Rightarrow> 'h \<times> 'd store" and V :: "'d store \<Rightarrow> 'h \<Rightarrow> 'a" and R :: "'h \<Rightarrow> addr set" and W :: "'d store \<Rightarrow> 'h \<Rightarrow> bool"
  assumes copy: "store_ok s0 \<Longrightarrow> grown s0 s \<Longrightarrow> W s0 x \<Longrightarrow> copy x s = (y, s') \<Longrightarrow>
      grown s0 s' \<and> ext s s' \<and> R y \<subseteq> {limit s0..<limit s'} \<and> V s' y = V s0 x \<and> W s' y"
    and frame: "W s x \<Longrightarrow> agree s s2 (R x) \<Longrightarrow> V s2 x = V s x \<and> W s2 x"
    and held: "W s x \<Longrightarrow> R x \<subseteq> dom (cells s)"
begin

lemma later:
  assumes "grown s0 s" and "R y \<subseteq> {limit s0..<limit s}" and "W s y" and "ext s s'"
  shows "V s' y = V s y \<and> W s' y"
  using frame [OF assms(3) agree_later [OF assms(1,2,4)]] .

text \<open>Every well-typed object of the store stays well typed and keeps its value, the original among them.\<close>

lemma bystander:
  assumes "store_ok s" and "W s x" and "copy x s = (y, s')" and "W s z"
  shows "W s' z \<and> V s' z = V s z"
  using frame [OF assms(4) agree_old [OF assms(1) held [OF assms(4)], of s']] copy [OF assms(1) grown_refl [OF assms(1)] assms(2,3)] by blast

text \<open>The copy and the original are separate, in both directions.\<close>

lemma separate:
  assumes "store_ok s" and "W s x" and "copy x s = (y, s')"
  shows "V s' y = V s x" "V s' x = V s x" "W s' y" "W s' x" "store_ok s'"
    "reach s' (R x) \<inter> reach s' (R y) = {}"
    "(\<forall>p. p \<notin> reach s' (R x) \<longrightarrow> cells s2 p = cells s' p) \<Longrightarrow> V s2 y = V s x"
    "(\<forall>p. p \<notin> reach s' (R y) \<longrightarrow> cells s2 p = cells s' p) \<Longrightarrow> V s2 x = V s x"
proof -
  note c = copy [OF assms(1) grown_refl [OF assms(1)] assms(2,3)]
  show y: "V s' y = V s x" "W s' y" using c by auto
  show x: "V s' x = V s x" "W s' x"
    using bystander [OF assms assms(2)] by simp_all
  show "store_ok s'" using grown_ok [OF assms(1)] c by blast
  have "reach s' (R x) \<subseteq> {..<limit s}"
  proof
    fix p assume "p \<in> reach s' (R x)"
    then show "p \<in> {..<limit s}"
    proof induction
      case (root p)
      then show ?case using held [OF assms(2)] okD [OF assms(1), of p] by auto
    next
      case (step p d q)
      then have "cells s p = Some d" using c by (simp add: ext_def)
      with step okD [OF assms(1), of p d] show ?case by auto
    qed
  qed
  moreover have "reach s' (R y) \<subseteq> {limit s..<limit s'}" using reach_fresh c by blast
  moreover have "{..<limit s} \<inter> {limit s..<limit s'} = {}" by auto
  ultimately show d: "reach s' (R x) \<inter> reach s' (R y) = {}" by blast
  show "V s2 y = V s x" if "\<forall>p. p \<notin> reach s' (R x) \<longrightarrow> cells s2 p = cells s' p"
  proof -
    have "agree s' s2 (R y)" using that d unfolding agree_def by blast
    with frame [OF y(2)] y(1) show ?thesis by simp
  qed
  show "V s2 x = V s x" if "\<forall>p. p \<notin> reach s' (R y) \<longrightarrow> cells s2 p = cells s' p"
  proof -
    have "agree s' s2 (R x)" using that d unfolding agree_def by blast
    with frame [OF x(2)] x(1) show ?thesis by simp
  qed
qed

end

end
