(* ===== verification/Deep_Copy_Laws.thy ===== *)
theory Deep_Copy_Laws
  imports Deep_Copy Example_Data
begin

text \<open>
  Every generated copy meets the contract \<open>copier\<close>: the building blocks first, then the structs, each as its fields in
  the order of the source.
\<close>

section \<open>Building blocks\<close>

definition plain_wf :: "('d cell \<Rightarrow> bool) \<Rightarrow> 'd store \<Rightarrow> addr option \<Rightarrow> bool" where
  "plain_wf T s a \<longleftrightarrow> (case a of None \<Rightarrow> True | Some p \<Rightarrow> (case cells s p of None \<Rightarrow> False | Some c \<Rightarrow> T c))"

definition plain_value :: "'d store \<Rightarrow> addr option \<Rightarrow> 'd cell option" where
  "plain_value s a = map_option (deref s) a"

lemma copier_plain:
  assumes "\<And>c. T c \<Longrightarrow> cell_refs c = {}"
  shows "copier copy_plain plain_value set_option (plain_wf T)"
proof
  fix s0 s :: "'a store" and x y s'
  assume ok: "store_ok s0" "grown s0 s" "plain_wf T s0 x" "copy_plain x s = (y, s')"
  show "grown s0 s' \<and> ext s s' \<and> set_option y \<subseteq> {limit s0..<limit s'} \<and> plain_value s' y = plain_value s0 x \<and> plain_wf T s' y"
  proof (cases x)
    case None
    with ok show ?thesis by (simp add: copy_plain_def plain_value_def plain_wf_def)
  next
    case (Some p)
    then obtain c where c: "cells s0 p = Some c" "T c" using ok(3) by (auto simp: plain_wf_def split: option.splits)
    then have "cells s p = Some c" using okD [OF ok(1)] grownD(2) [OF ok(2)] by simp
    with ok(4) Some obtain q where q: "alloc c s = (q, s')" "y = Some q"
      by (auto simp: copy_plain_def deref_def split: prod.splits)
    from grown_alloc [OF ok(2) _ q(1)] assms [OF c(2)] c Some q(2) show ?thesis
      by (simp add: plain_value_def plain_wf_def deref_def)
  qed
next
  fix s x and s2 :: "'a store"
  assume "plain_wf T s x" "agree s s2 (set_option x)"
  then show "plain_value s2 x = plain_value s x \<and> plain_wf T s2 x"
    using agree_root [of s s2 "set_option x"] by (cases x) (auto simp: plain_wf_def plain_value_def deref_def)
next
  fix s x
  assume "plain_wf T s x"
  then show "set_option x \<subseteq> dom (cells s)" by (auto simp: plain_wf_def split: option.splits)
qed

text \<open>A value without references, changed by the copy of another package that keeps it.\<close>

lemma copier_value: "(\<And>v. f v = v) \<Longrightarrow> copier (\<lambda>v s. (f v, s)) (\<lambda>s v. v) (\<lambda>_. {}) (\<lambda>s v. True)"
  by unfold_locales (auto simp: grown_def)

text \<open>A reference to a struct: the struct is copied, then put into a new cell.\<close>

definition box_copy :: "('h \<Rightarrow> 'd store \<Rightarrow> 'h \<times> 'd store) \<Rightarrow> ('h \<Rightarrow> 'd cell) \<Rightarrow> ('d cell \<Rightarrow> 'h) \<Rightarrow> addr option \<Rightarrow> 'd store \<Rightarrow> addr option \<times> 'd store" where
  "box_copy c K U a s = (case a of None \<Rightarrow> (None, s)
     | Some p \<Rightarrow> (case c (U (deref s p)) s of (t, s1) \<Rightarrow> (case alloc (K t) s1 of (q, s2) \<Rightarrow> (Some q, s2))))"

definition box_wf :: "('h \<Rightarrow> 'd cell) \<Rightarrow> ('d cell \<Rightarrow> 'h) \<Rightarrow> ('d store \<Rightarrow> 'h \<Rightarrow> bool) \<Rightarrow> 'd store \<Rightarrow> addr option \<Rightarrow> bool" where
  "box_wf K U W s a \<longleftrightarrow> (case a of None \<Rightarrow> True
     | Some p \<Rightarrow> cells s p = Some (K (U (deref s p))) \<and> W s (U (deref s p)))"

definition box_value :: "('d cell \<Rightarrow> 'h) \<Rightarrow> ('d store \<Rightarrow> 'h \<Rightarrow> 'a) \<Rightarrow> 'd store \<Rightarrow> addr option \<Rightarrow> 'a option" where
  "box_value U V s a = map_option (\<lambda>p. V s (U (deref s p))) a"

lemma copier_box:
  assumes "copier c V R W" and K: "\<And>t. U (K t) = t" "\<And>t. cell_refs (K t) = R t"
  shows "copier (box_copy c K U) (box_value U V) set_option (box_wf K U W)"
proof
  fix s0 s x y s'
  assume ok: "store_ok s0" "grown s0 s" "box_wf K U W s0 x" "box_copy c K U x s = (y, s')"
  show "grown s0 s' \<and> ext s s' \<and> set_option y \<subseteq> {limit s0..<limit s'} \<and> box_value U V s' y = box_value U V s0 x \<and> box_wf K U W s' y"
  proof (cases x)
    case None
    with ok show ?thesis by (simp add: box_copy_def box_value_def box_wf_def)
  next
    case (Some p)
    then have w: "cells s0 p = Some (K (U (deref s0 p)))" "W s0 (U (deref s0 p))" using ok(3) by (auto simp: box_wf_def)
    then have d: "deref s p = deref s0 p" using okD [OF ok(1) w(1)] grownD(2) [OF ok(2)] by (simp add: deref_def)
    obtain t s1 where t: "c (U (deref s0 p)) s = (t, s1)" by (rule prod.exhaust)
    obtain q where q: "alloc (K t) s1 = (q, s')" "y = Some q"
      using ok(4) Some t d by (auto simp: box_copy_def split: prod.splits)
    note ct = copier.copy [OF assms(1) ok(1,2) w(2) t]
    from ct have "cell_refs (K t) \<subseteq> {limit s0..<limit s1}" by (simp add: K)
    note a = grown_alloc [OF conjunct1 [OF ct] this q(1)]
    have "V s' t = V s1 t \<and> W s' t" using copier.later [OF assms(1), of s0 s1 t s'] ct a(2) by blast
    with ct a q(2) Some show ?thesis
      by (auto simp: box_value_def box_wf_def deref_def K intro: ext_trans)
  qed
next
  fix s x s2
  assume w: "box_wf K U W s x" and g: "agree s s2 (set_option x)"
  show "box_value U V s2 x = box_value U V s x \<and> box_wf K U W s2 x"
  proof (cases x)
    case (Some p)
    let ?t = "U (deref s p)"
    have p: "cells s p = Some (K ?t)" "W s ?t" using w Some by (auto simp: box_wf_def)
    have s2: "cells s2 p = cells s p" "deref s2 p = deref s p" using agree_root [OF g, of p] Some by (simp_all add: deref_def)
    have "agree s s2 (R ?t)" using agree_cell [OF g _ p(1)] Some by (simp add: K)
    from copier.frame [OF assms(1) p(2) this] show ?thesis
      using p(1) Some by (simp add: box_value_def box_wf_def s2)
  qed (simp add: box_value_def box_wf_def)
next
  fix s x
  assume "box_wf K U W s x"
  then show "set_option x \<subseteq> dom (cells s)" by (auto simp: box_wf_def split: option.splits)
qed

lemma copier_each:
  assumes "copier c V R W"
  shows "copier (copy_each c) (\<lambda>s. map (V s)) (\<lambda>xs. \<Union> (R ` set xs)) (\<lambda>s. list_all (W s))"
proof
  fix s0 s xs ys s'
  assume ok: "store_ok s0" "grown s0 s" "list_all (W s0) xs" "copy_each c xs s = (ys, s')"
  show "grown s0 s' \<and> ext s s' \<and> \<Union> (R ` set ys) \<subseteq> {limit s0..<limit s'} \<and> map (V s') ys = map (V s0) xs \<and> list_all (W s') ys"
    using ok(2-4)
  proof (induction xs arbitrary: s ys)
    case (Cons x xs)
    obtain y s1 where y: "c x s = (y, s1)" by (rule prod.exhaust)
    obtain zs where zs: "copy_each c xs s1 = (zs, s')" "ys = y # zs"
      using Cons.prems y by (auto split: prod.splits)
    have c: "grown s0 s1 \<and> ext s s1 \<and> R y \<subseteq> {limit s0..<limit s1} \<and> V s1 y = V s0 x \<and> W s1 y"
      using copier.copy [OF assms ok(1) Cons.prems(1) _ y] Cons.prems by simp
    then have r: "grown s0 s' \<and> ext s1 s' \<and> \<Union> (R ` set zs) \<subseteq> {limit s0..<limit s'} \<and> map (V s') zs = map (V s0) xs \<and> list_all (W s') zs"
      using Cons.IH [of s1 zs] Cons.prems zs by simp
    with c have "V s' y = V s1 y \<and> W s' y" using copier.later [OF assms, of s0 s1 y s'] by blast
    moreover have "R y \<subseteq> {limit s0..<limit s'}" using c r by (fastforce simp: ext_def)
    ultimately show ?case using c r zs(2) by (auto intro: ext_trans)
  qed simp
next
  fix s xs s2
  assume "list_all (W s) xs" and g: "agree s s2 (\<Union> (R ` set xs))"
  then have "V s2 x = V s x \<and> W s2 x" if "x \<in> set xs" for x
    using copier.frame [OF assms, of s x s2] agree_mono [OF g, of "R x"] that by (auto simp: list_all_iff)
  then show "map (V s2) xs = map (V s) xs \<and> list_all (W s2) xs" by (simp add: list_all_iff)
next
  fix s xs
  assume "list_all (W s) xs"
  then show "\<Union> (R ` set xs) \<subseteq> dom (cells s)" using copier.held [OF assms, of s] by (auto simp: list_all_iff)
qed

text \<open>Two fields one after the other, and a struct as the tuple of its fields.\<close>

definition both :: "('h \<Rightarrow> 'd store \<Rightarrow> 'h \<times> 'd store) \<Rightarrow> ('k \<Rightarrow> 'd store \<Rightarrow> 'k \<times> 'd store) \<Rightarrow> 'h \<times> 'k \<Rightarrow> 'd store \<Rightarrow> ('h \<times> 'k) \<times> 'd store" where
  "both c d x s = (case c (fst x) s of (a, s1) \<Rightarrow> (case d (snd x) s1 of (b, s2) \<Rightarrow> ((a, b), s2)))"

lemma copier_both:
  assumes c: "copier c V R W" and d: "copier d V' R' W'"
  shows "copier (both c d) (\<lambda>s x. (V s (fst x), V' s (snd x))) (\<lambda>x. R (fst x) \<union> R' (snd x)) (\<lambda>s x. W s (fst x) \<and> W' s (snd x))"
proof
  fix s0 s x y s'
  assume ok: "store_ok s0" "grown s0 s" "W s0 (fst x) \<and> W' s0 (snd x)" "both c d x s = (y, s')"
  obtain a s1 where a: "c (fst x) s = (a, s1)" by (rule prod.exhaust)
  obtain b where b: "d (snd x) s1 = (b, s')" "y = (a, b)" using ok(4) a by (auto simp: both_def split: prod.splits)
  note ca = copier.copy [OF c ok(1,2) conjunct1 [OF ok(3)] a]
  note db = copier.copy [OF d ok(1) conjunct1 [OF ca] conjunct2 [OF ok(3)] b(1)]
  have "V s' a = V s1 a \<and> W s' a" using copier.later [OF c, of s0 s1 a s'] ca db by blast
  moreover have "R a \<subseteq> {limit s0..<limit s'}" using ca db by (fastforce simp: ext_def)
  ultimately show "grown s0 s' \<and> ext s s' \<and> R (fst y) \<union> R' (snd y) \<subseteq> {limit s0..<limit s'}
      \<and> (V s' (fst y), V' s' (snd y)) = (V s0 (fst x), V' s0 (snd x)) \<and> W s' (fst y) \<and> W' s' (snd y)"
    using ca db b(2) by (auto intro: ext_trans)
next
  fix s x s2
  assume w: "W s (fst x) \<and> W' s (snd x)" and g: "agree s s2 (R (fst x) \<union> R' (snd x))"
  show "(V s2 (fst x), V' s2 (snd x)) = (V s (fst x), V' s (snd x)) \<and> W s2 (fst x) \<and> W' s2 (snd x)"
    using copier.frame [OF c conjunct1 [OF w] agree_mono [OF g]] copier.frame [OF d conjunct2 [OF w] agree_mono [OF g]] by auto
next
  fix s x
  assume "W s (fst x) \<and> W' s (snd x)"
  then show "R (fst x) \<union> R' (snd x) \<subseteq> dom (cells s)" using copier.held [OF c] copier.held [OF d] by blast
qed

lemma copier_struct:
  assumes "copier c V R W" and put: "\<And>t x. get (put t x) = t" and F: "\<And>v t x. F v (put t x) = F v x"
    and C: "\<And>x s. C x s = (case c (get x) s of (t, s1) \<Rightarrow> (put t x, s1))"
    and V': "\<And>s x. V' s x = F (V s (get x)) x" and R': "\<And>x. R' x = R (get x)" and W': "\<And>s x. W' s x = W s (get x)"
  shows "copier C V' R' W'"
proof
  fix s0 s x y s'
  assume ok: "store_ok s0" "grown s0 s" "W' s0 x" "C x s = (y, s')"
  obtain t where t: "c (get x) s = (t, s')" "y = put t x" using ok(4) by (auto simp: C split: prod.splits)
  from copier.copy [OF assms(1) ok(1,2) _ t(1)] ok(3)
  show "grown s0 s' \<and> ext s s' \<and> R' y \<subseteq> {limit s0..<limit s'} \<and> V' s' y = V' s0 x \<and> W' s' y"
    by (simp add: t(2) V' R' W' put F)
next
  fix s x s2
  assume "W' s x" and "agree s s2 (R' x)"
  then show "V' s2 x = V' s x \<and> W' s2 x" using copier.frame [OF assms(1)] by (simp add: V' R' W')
next
  fix s x
  assume "W' s x"
  then show "R' x \<subseteq> dom (cells s)" using copier.held [OF assms(1)] by (simp add: R' W')
qed


section \<open>Values and types of the structs\<close>

definition opt_at :: "('d cell \<Rightarrow> 'a) \<Rightarrow> 'd store \<Rightarrow> addr option \<Rightarrow> 'a option" where
  "opt_at sel s a = map_option sel (plain_value s a)"

definition nilable :: "'a list option \<Rightarrow> 'a list" where
  "nilable v = (case v of None \<Rightarrow> [] | Some xs \<Rightarrow> xs)"

definition list_at :: "('d cell \<Rightarrow> 'a list) \<Rightarrow> 'd store \<Rightarrow> addr option \<Rightarrow> 'a list" where
  "list_at sel s a = nilable (opt_at sel s a)"

lemma plain_cells:
  "is_CBool c \<Longrightarrow> cell_refs c = {}" "is_CInt c \<Longrightarrow> cell_refs c = {}" "is_CStrings c \<Longrightarrow> cell_refs c = {}"
  "is_CStrMap c \<Longrightarrow> cell_refs c = {}" "is_CDurations c \<Longrightarrow> cell_refs c = {}" "is_CFiles c \<Longrightarrow> cell_refs c = {}"
  "is_CArgs c \<Longrightarrow> cell_refs c = {}" "is_CImage c \<Longrightarrow> cell_refs c = {}" "is_CNetwork c \<Longrightarrow> cell_refs c = {}"
  "is_CFirewalls c \<Longrightarrow> cell_refs c = {}" "is_CKeys c \<Longrightarrow> cell_refs c = {}" "is_CGroup c \<Longrightarrow> cell_refs c = {}"
  by (cases c; simp)+

lemmas plain_copiers = plain_cells [THEN copier_plain]

definition term_value :: "'d store \<Rightarrow> term_ref \<Rightarrow> selector_term" where
  "term_value s t = \<lparr> sel_Name = tr_Name t, sel_ID = opt_at the_int s (tr_ID t) \<rparr>"

definition term_wf :: "'d store \<Rightarrow> term_ref \<Rightarrow> bool" where
  "term_wf s t \<longleftrightarrow> plain_wf is_CInt s (tr_ID t)"

interpretation selector: copier SelectorTerm_DeepCopyInto term_value term_refs term_wf
  by (rule copier_struct [OF plain_copiers(2), where get = tr_ID and put = "\<lambda>i t. t\<lparr>tr_ID := i\<rparr>"
        and F = "\<lambda>v t. \<lparr> sel_Name = tr_Name t, sel_ID = map_option the_int v \<rparr>"])
    (simp_all add: SelectorTerm_DeepCopyInto_def term_value_def term_refs_def term_wf_def opt_at_def)

definition location_value :: "'d store \<Rightarrow> location_ref \<Rightarrow> LocationStatus" where
  "location_value s l = \<lparr> loc_Name = lr_Name l, loc_NetworkZone = lr_NetworkZone l, loc_Datacenters = list_at the_strings s (lr_Datacenters l) \<rparr>"

definition location_wf :: "'d store \<Rightarrow> location_ref \<Rightarrow> bool" where
  "location_wf s l \<longleftrightarrow> plain_wf is_CStrings s (lr_Datacenters l)"

interpretation location: copier LocationStatus_DeepCopyInto location_value location_refs location_wf
  by (rule copier_struct [OF plain_copiers(3), where get = lr_Datacenters and put = "\<lambda>d l. l\<lparr>lr_Datacenters := d\<rparr>"
        and F = "\<lambda>v l. \<lparr> loc_Name = lr_Name l, loc_NetworkZone = lr_NetworkZone l, loc_Datacenters = nilable (map_option the_strings v) \<rparr>"])
    (simp_all add: LocationStatus_DeepCopyInto_def location_value_def location_refs_def location_wf_def list_at_def opt_at_def)

text \<open>The references to structs, and to the plain data other packages copy.\<close>

lemma box_forms:
  "copy_term = box_copy SelectorTerm_DeepCopyInto CTerm the_term"
  "copy_terms = box_copy (copy_each SelectorTerm_DeepCopyInto) CTerms the_terms"
  "copy_locations = box_copy (copy_each LocationStatus_DeepCopyInto) CLocations the_locations"
  "copy_resources quantityCopy = box_copy (\<lambda>v s. (map (\<lambda>(k, v). (k, quantityCopy v)) v, s)) CResources the_resources"
  "copy_conditions conditionCopy = box_copy (\<lambda>v s. (map conditionCopy v, s)) CConditions the_conditions"
  by (intro ext; simp add: copy_term_def copy_terms_def copy_locations_def copy_resources_def copy_conditions_def box_copy_def
      split: option.splits)+

lemma term_box: "copier copy_term (box_value the_term term_value) set_option (box_wf CTerm the_term term_wf)"
  unfolding box_forms by (rule copier_box [OF selector.copier_axioms]) simp_all

lemma terms_box: "copier copy_terms (box_value the_terms (\<lambda>s. map (term_value s))) set_option (box_wf CTerms the_terms (\<lambda>s. list_all (term_wf s)))"
  unfolding box_forms by (rule copier_box [OF copier_each [OF selector.copier_axioms]]) simp_all

lemma locations_box: "copier copy_locations (box_value the_locations (\<lambda>s. map (location_value s))) set_option (box_wf CLocations the_locations (\<lambda>s. list_all (location_wf s)))"
  unfolding box_forms by (rule copier_box [OF copier_each [OF location.copier_axioms]]) simp_all

lemma resources_box:
  assumes "\<And>q. quantityCopy q = q"
  shows "copier (copy_resources quantityCopy) (box_value the_resources (\<lambda>s v. v)) set_option (box_wf CResources the_resources (\<lambda>s v. True))"
  unfolding box_forms by (rule copier_box [OF copier_value]) (simp_all add: assms)

lemma conditions_box:
  assumes "\<And>d. conditionCopy d = d"
  shows "copier (copy_conditions conditionCopy) (box_value the_conditions (\<lambda>s v. v)) set_option (box_wf CConditions the_conditions (\<lambda>s v. True))"
  unfolding box_forms by (rule copier_box [OF copier_value]) (simp_all add: assms map_idI)

section \<open>The structs\<close>

definition containerd_value :: "'d store \<Rightarrow> containerd_ref \<Rightarrow> ContainerdSpec" where
  "containerd_value s x = \<lparr> SystemdCgroup = opt_at the_bool s (cr_SystemdCgroup x), AptPin = cr_AptPin x, ExtraConfig = cr_ExtraConfig x \<rparr>"

definition containerd_refs :: "containerd_ref \<Rightarrow> addr set" where
  "containerd_refs x = set_option (cr_SystemdCgroup x)"

definition containerd_wf :: "'d store \<Rightarrow> containerd_ref \<Rightarrow> bool" where
  "containerd_wf s x \<longleftrightarrow> plain_wf is_CBool s (cr_SystemdCgroup x)"

interpretation containerd: copier ContainerdSpec_DeepCopyInto containerd_value containerd_refs containerd_wf
  by (rule copier_struct [OF plain_copiers(1),
        where get = "\<lambda>x. (cr_SystemdCgroup x)"
          and put = "\<lambda>(v1) x. x\<lparr>cr_SystemdCgroup := v1\<rparr>"
          and F = "\<lambda>(v1) x. \<lparr> SystemdCgroup = map_option the_bool v1, AptPin = cr_AptPin x, ExtraConfig = cr_ExtraConfig x \<rparr>"])
    (auto simp: ContainerdSpec_DeepCopyInto_def containerd_value_def containerd_refs_def containerd_wf_def both_def opt_at_def list_at_def split: prod.splits)

definition upgrades_value :: "'d store \<Rightarrow> upgrades_ref \<Rightarrow> UnattendedUpgradesSpec" where
  "upgrades_value s x = \<lparr> uu_Enabled = opt_at the_bool s (ur_Enabled x), ExtraOrigins = list_at the_strings s (ur_ExtraOrigins x),
     RemoveUnusedKernelPackages = opt_at the_bool s (ur_RemoveUnusedKernelPackages x) \<rparr>"

definition upgrades_refs :: "upgrades_ref \<Rightarrow> addr set" where
  "upgrades_refs x = set_option (ur_Enabled x) \<union> set_option (ur_ExtraOrigins x) \<union>
     set_option (ur_RemoveUnusedKernelPackages x)"

definition upgrades_wf :: "'d store \<Rightarrow> upgrades_ref \<Rightarrow> bool" where
  "upgrades_wf s x \<longleftrightarrow> plain_wf is_CBool s (ur_Enabled x) \<and> plain_wf is_CStrings s (ur_ExtraOrigins x) \<and>
     plain_wf is_CBool s (ur_RemoveUnusedKernelPackages x)"

interpretation upgrades: copier UnattendedUpgradesSpec_DeepCopyInto upgrades_value upgrades_refs upgrades_wf
  by (rule copier_struct [OF copier_both [OF plain_copiers(1) copier_both [OF plain_copiers(3) plain_copiers(1)]],
        where get = "\<lambda>x. (ur_Enabled x, ur_ExtraOrigins x, ur_RemoveUnusedKernelPackages x)"
          and put = "\<lambda>(v1, v2, v3) x. x\<lparr>ur_Enabled := v1, ur_ExtraOrigins := v2, ur_RemoveUnusedKernelPackages := v3\<rparr>"
          and F = "\<lambda>(v1, v2, v3) x. \<lparr> uu_Enabled = map_option the_bool v1, ExtraOrigins = nilable (map_option the_strings v2),
              RemoveUnusedKernelPackages = map_option the_bool v3 \<rparr>"])
    (auto simp: UnattendedUpgradesSpec_DeepCopyInto_def upgrades_value_def upgrades_refs_def upgrades_wf_def both_def opt_at_def list_at_def split: prod.splits)

definition bootstrap_value :: "'d store \<Rightarrow> bootstrap_ref \<Rightarrow> BootstrapSpec" where
  "bootstrap_value s x = \<lparr> boot_OSFamily = br_OSFamily x, boot_Mode = br_Mode x, KubernetesVersion = br_KubernetesVersion x,
     PackageRevision = br_PackageRevision x, boot_APIServerEndpoint = br_APIServerEndpoint x,
     boot_CACertHashes = list_at the_strings s (br_CACertHashes x), Containerd = containerd_value s (br_Containerd x),
     UnattendedUpgrades = upgrades_value s (br_UnattendedUpgrades x), Sysctls = list_at the_strmap s (br_Sysctls x),
     KernelModules = list_at the_strings s (br_KernelModules x),
     PackageUpgradeOnBoot = opt_at the_bool s (br_PackageUpgradeOnBoot x),
     ExtraPackages = list_at the_strings s (br_ExtraPackages x), ExtraFiles = list_at the_files s (br_ExtraFiles x),
     PreJoinCommands = list_at the_strings s (br_PreJoinCommands x),
     PostJoinCommands = list_at the_strings s (br_PostJoinCommands x), Revision = br_Revision x \<rparr>"

definition bootstrap_refs :: "bootstrap_ref \<Rightarrow> addr set" where
  "bootstrap_refs x = set_option (br_CACertHashes x) \<union> containerd_refs (br_Containerd x) \<union>
     upgrades_refs (br_UnattendedUpgrades x) \<union> set_option (br_Sysctls x) \<union>
     set_option (br_KernelModules x) \<union> set_option (br_PackageUpgradeOnBoot x) \<union>
     set_option (br_ExtraPackages x) \<union> set_option (br_ExtraFiles x) \<union>
     set_option (br_PreJoinCommands x) \<union> set_option (br_PostJoinCommands x)"

definition bootstrap_wf :: "'d store \<Rightarrow> bootstrap_ref \<Rightarrow> bool" where
  "bootstrap_wf s x \<longleftrightarrow> plain_wf is_CStrings s (br_CACertHashes x) \<and> containerd_wf s (br_Containerd x) \<and>
     upgrades_wf s (br_UnattendedUpgrades x) \<and> plain_wf is_CStrMap s (br_Sysctls x) \<and>
     plain_wf is_CStrings s (br_KernelModules x) \<and> plain_wf is_CBool s (br_PackageUpgradeOnBoot x) \<and>
     plain_wf is_CStrings s (br_ExtraPackages x) \<and> plain_wf is_CFiles s (br_ExtraFiles x) \<and>
     plain_wf is_CStrings s (br_PreJoinCommands x) \<and> plain_wf is_CStrings s (br_PostJoinCommands x)"

interpretation bootstrap: copier BootstrapSpec_DeepCopyInto bootstrap_value bootstrap_refs bootstrap_wf
  by (rule copier_struct [OF copier_both [OF plain_copiers(3) copier_both [OF containerd.copier_axioms copier_both [OF upgrades.copier_axioms copier_both [OF plain_copiers(4) copier_both [OF plain_copiers(3) copier_both [OF plain_copiers(1) copier_both [OF plain_copiers(3) copier_both [OF plain_copiers(6) copier_both [OF plain_copiers(3) plain_copiers(3)]]]]]]]]],
        where get = "\<lambda>x. (br_CACertHashes x, br_Containerd x, br_UnattendedUpgrades x, br_Sysctls x, br_KernelModules x, br_PackageUpgradeOnBoot x, br_ExtraPackages x, br_ExtraFiles x, br_PreJoinCommands x, br_PostJoinCommands x)"
          and put = "\<lambda>(v1, v2, v3, v4, v5, v6, v7, v8, v9, v10) x. x\<lparr>br_CACertHashes := v1, br_Containerd := v2, br_UnattendedUpgrades := v3, br_Sysctls := v4, br_KernelModules := v5,
              br_PackageUpgradeOnBoot := v6, br_ExtraPackages := v7, br_ExtraFiles := v8, br_PreJoinCommands := v9,
              br_PostJoinCommands := v10\<rparr>"
          and F = "\<lambda>(v1, v2, v3, v4, v5, v6, v7, v8, v9, v10) x. \<lparr> boot_OSFamily = br_OSFamily x, boot_Mode = br_Mode x, KubernetesVersion = br_KubernetesVersion x,
              PackageRevision = br_PackageRevision x, boot_APIServerEndpoint = br_APIServerEndpoint x,
              boot_CACertHashes = nilable (map_option the_strings v1), Containerd = v2, UnattendedUpgrades = v3,
              Sysctls = nilable (map_option the_strmap v4), KernelModules = nilable (map_option the_strings v5),
              PackageUpgradeOnBoot = map_option the_bool v6, ExtraPackages = nilable (map_option the_strings v7),
              ExtraFiles = nilable (map_option the_files v8), PreJoinCommands = nilable (map_option the_strings v9),
              PostJoinCommands = nilable (map_option the_strings v10), Revision = br_Revision x \<rparr>"])
    (auto simp: BootstrapSpec_DeepCopyInto_def bootstrap_value_def bootstrap_refs_def bootstrap_wf_def both_def opt_at_def list_at_def split: prod.splits)

definition kubelet_value :: "'d store \<Rightarrow> kubelet_ref \<Rightarrow> KubeletConfiguration" where
  "kubelet_value s x = \<lparr> KubeReserved = nilable (box_value the_resources (\<lambda>s v. v) s (kr_KubeReserved x)),
     SystemReserved = nilable (box_value the_resources (\<lambda>s v. v) s (kr_SystemReserved x)),
     EvictionHard = list_at the_strmap s (kr_EvictionHard x), EvictionSoft = list_at the_strmap s (kr_EvictionSoft x),
     EvictionSoftGracePeriod = list_at the_durations s (kr_EvictionSoftGracePeriod x),
     MaxPods = opt_at the_int s (kr_MaxPods x), ClusterDNS = list_at the_strings s (kr_ClusterDNS x),
     ExtraArgs = list_at the_args s (kr_ExtraArgs x) \<rparr>"

definition kubelet_refs :: "kubelet_ref \<Rightarrow> addr set" where
  "kubelet_refs x = set_option (kr_KubeReserved x) \<union> set_option (kr_SystemReserved x) \<union>
     set_option (kr_EvictionHard x) \<union> set_option (kr_EvictionSoft x) \<union>
     set_option (kr_EvictionSoftGracePeriod x) \<union> set_option (kr_MaxPods x) \<union>
     set_option (kr_ClusterDNS x) \<union> set_option (kr_ExtraArgs x)"

definition kubelet_wf :: "'d store \<Rightarrow> kubelet_ref \<Rightarrow> bool" where
  "kubelet_wf s x \<longleftrightarrow> box_wf CResources the_resources (\<lambda>s v. True) s (kr_KubeReserved x) \<and>
     box_wf CResources the_resources (\<lambda>s v. True) s (kr_SystemReserved x) \<and>
     plain_wf is_CStrMap s (kr_EvictionHard x) \<and> plain_wf is_CStrMap s (kr_EvictionSoft x) \<and>
     plain_wf is_CDurations s (kr_EvictionSoftGracePeriod x) \<and> plain_wf is_CInt s (kr_MaxPods x) \<and>
     plain_wf is_CStrings s (kr_ClusterDNS x) \<and> plain_wf is_CArgs s (kr_ExtraArgs x)"

lemma kubelet_copier:
  assumes q: "\<And>q. quantityCopy q = q"
  shows "copier (KubeletConfiguration_DeepCopyInto quantityCopy) kubelet_value kubelet_refs kubelet_wf"
  by (rule copier_struct [OF copier_both [OF resources_box [OF q] copier_both [OF resources_box [OF q] copier_both [OF plain_copiers(4) copier_both [OF plain_copiers(4) copier_both [OF plain_copiers(5) copier_both [OF plain_copiers(2) copier_both [OF plain_copiers(3) plain_copiers(7)]]]]]]],
        where get = "\<lambda>x. (kr_KubeReserved x, kr_SystemReserved x, kr_EvictionHard x, kr_EvictionSoft x, kr_EvictionSoftGracePeriod x, kr_MaxPods x, kr_ClusterDNS x, kr_ExtraArgs x)"
          and put = "\<lambda>(v1, v2, v3, v4, v5, v6, v7, v8) x. x\<lparr>kr_KubeReserved := v1, kr_SystemReserved := v2, kr_EvictionHard := v3, kr_EvictionSoft := v4,
              kr_EvictionSoftGracePeriod := v5, kr_MaxPods := v6, kr_ClusterDNS := v7, kr_ExtraArgs := v8\<rparr>"
          and F = "\<lambda>(v1, v2, v3, v4, v5, v6, v7, v8) x. \<lparr> KubeReserved = nilable v1, SystemReserved = nilable v2, EvictionHard = nilable (map_option the_strmap v3),
              EvictionSoft = nilable (map_option the_strmap v4), EvictionSoftGracePeriod = nilable (map_option the_durations v5),
              MaxPods = map_option the_int v6, ClusterDNS = nilable (map_option the_strings v7),
              ExtraArgs = nilable (map_option the_args v8) \<rparr>"])
    (auto simp: KubeletConfiguration_DeepCopyInto_def kubelet_value_def kubelet_refs_def kubelet_wf_def both_def opt_at_def list_at_def split: prod.splits)

definition spec_value :: "'d store \<Rightarrow> spec_ref \<Rightarrow> HCloudNodeClassSpec" where
  "spec_value s x = \<lparr> spec_ImageSelector = term_value s (sr_ImageSelector x), spec_ImageDriftPolicy = sr_ImageDriftPolicy x,
     spec_MaxNodeAge = opt_at the_int s (sr_MaxNodeAge x), spec_Locations = list_at the_strings s (sr_Locations x),
     spec_NetworkSelector = box_value the_term term_value s (sr_NetworkSelector x),
     spec_FirewallSelectors = nilable (box_value the_terms (\<lambda>s. map (term_value s)) s (sr_FirewallSelectors x)),
     spec_SSHKeySelectors = nilable (box_value the_terms (\<lambda>s. map (term_value s)) s (sr_SSHKeySelectors x)),
     spec_PlacementGroup = box_value the_term term_value s (sr_PlacementGroup x),
     spec_PublicIPv4 = opt_at the_bool s (sr_PublicIPv4 x), spec_PublicIPv6 = opt_at the_bool s (sr_PublicIPv6 x),
     spec_ServerLabels = list_at the_strmap s (sr_ServerLabels x), spec_Kubelet = kubelet_value s (sr_Kubelet x),
     spec_Bootstrap = bootstrap_value s (sr_Bootstrap x) \<rparr>"

definition spec_refs :: "spec_ref \<Rightarrow> addr set" where
  "spec_refs x = term_refs (sr_ImageSelector x) \<union> set_option (sr_MaxNodeAge x) \<union> set_option (sr_Locations x) \<union>
     set_option (sr_NetworkSelector x) \<union> set_option (sr_FirewallSelectors x) \<union>
     set_option (sr_SSHKeySelectors x) \<union> set_option (sr_PlacementGroup x) \<union>
     set_option (sr_PublicIPv4 x) \<union> set_option (sr_PublicIPv6 x) \<union> set_option (sr_ServerLabels x) \<union>
     kubelet_refs (sr_Kubelet x) \<union> bootstrap_refs (sr_Bootstrap x)"

definition spec_wf :: "'d store \<Rightarrow> spec_ref \<Rightarrow> bool" where
  "spec_wf s x \<longleftrightarrow> term_wf s (sr_ImageSelector x) \<and> plain_wf is_CInt s (sr_MaxNodeAge x) \<and>
     plain_wf is_CStrings s (sr_Locations x) \<and> box_wf CTerm the_term term_wf s (sr_NetworkSelector x) \<and>
     box_wf CTerms the_terms (\<lambda>s. list_all (term_wf s)) s (sr_FirewallSelectors x) \<and>
     box_wf CTerms the_terms (\<lambda>s. list_all (term_wf s)) s (sr_SSHKeySelectors x) \<and>
     box_wf CTerm the_term term_wf s (sr_PlacementGroup x) \<and> plain_wf is_CBool s (sr_PublicIPv4 x) \<and>
     plain_wf is_CBool s (sr_PublicIPv6 x) \<and> plain_wf is_CStrMap s (sr_ServerLabels x) \<and>
     kubelet_wf s (sr_Kubelet x) \<and> bootstrap_wf s (sr_Bootstrap x)"

lemma spec_copier:
  assumes q: "\<And>q. quantityCopy q = q"
  shows "copier (HCloudNodeClassSpec_DeepCopyInto quantityCopy) spec_value spec_refs spec_wf"
  by (rule copier_struct [OF copier_both [OF selector.copier_axioms copier_both [OF plain_copiers(2) copier_both [OF plain_copiers(3) copier_both [OF term_box copier_both [OF terms_box copier_both [OF terms_box copier_both [OF term_box copier_both [OF plain_copiers(1) copier_both [OF plain_copiers(1) copier_both [OF plain_copiers(4) copier_both [OF kubelet_copier [OF q] bootstrap.copier_axioms]]]]]]]]]]],
        where get = "\<lambda>x. (sr_ImageSelector x, sr_MaxNodeAge x, sr_Locations x, sr_NetworkSelector x, sr_FirewallSelectors x, sr_SSHKeySelectors x, sr_PlacementGroup x, sr_PublicIPv4 x, sr_PublicIPv6 x, sr_ServerLabels x, sr_Kubelet x, sr_Bootstrap x)"
          and put = "\<lambda>(v1, v2, v3, v4, v5, v6, v7, v8, v9, v10, v11, v12) x. x\<lparr>sr_ImageSelector := v1, sr_MaxNodeAge := v2, sr_Locations := v3, sr_NetworkSelector := v4, sr_FirewallSelectors := v5,
              sr_SSHKeySelectors := v6, sr_PlacementGroup := v7, sr_PublicIPv4 := v8, sr_PublicIPv6 := v9, sr_ServerLabels := v10,
              sr_Kubelet := v11, sr_Bootstrap := v12\<rparr>"
          and F = "\<lambda>(v1, v2, v3, v4, v5, v6, v7, v8, v9, v10, v11, v12) x. \<lparr> spec_ImageSelector = v1, spec_ImageDriftPolicy = sr_ImageDriftPolicy x, spec_MaxNodeAge = map_option the_int v2,
              spec_Locations = nilable (map_option the_strings v3), spec_NetworkSelector = v4, spec_FirewallSelectors = nilable v5,
              spec_SSHKeySelectors = nilable v6, spec_PlacementGroup = v7, spec_PublicIPv4 = map_option the_bool v8,
              spec_PublicIPv6 = map_option the_bool v9, spec_ServerLabels = nilable (map_option the_strmap v10), spec_Kubelet = v11,
              spec_Bootstrap = v12 \<rparr>"])
    (auto simp: HCloudNodeClassSpec_DeepCopyInto_def spec_value_def spec_refs_def spec_wf_def both_def opt_at_def list_at_def split: prod.splits)

definition status_value :: "'d store \<Rightarrow> status_ref \<Rightarrow> 'd list HCloudNodeClassStatus" where
  "status_value s x = \<lparr> st_Image = opt_at the_image s (str_Image x), st_Network = opt_at the_network s (str_Network x),
     st_Firewalls = list_at the_firewalls s (str_Firewalls x), st_SSHKeys = list_at the_keys s (str_SSHKeys x),
     st_PlacementGroup = opt_at the_group s (str_PlacementGroup x),
     st_Locations = nilable (box_value the_locations (\<lambda>s. map (location_value s)) s (str_Locations x)),
     st_APIServerEndpoint = str_APIServerEndpoint x, st_CACertHashes = list_at the_strings s (str_CACertHashes x),
     st_Conditions = nilable (box_value the_conditions (\<lambda>s v. v) s (str_Conditions x)) \<rparr>"

definition status_refs :: "status_ref \<Rightarrow> addr set" where
  "status_refs x = set_option (str_Image x) \<union> set_option (str_Network x) \<union> set_option (str_Firewalls x) \<union>
     set_option (str_SSHKeys x) \<union> set_option (str_PlacementGroup x) \<union> set_option (str_Locations x) \<union>
     set_option (str_CACertHashes x) \<union> set_option (str_Conditions x)"

definition status_wf :: "'d store \<Rightarrow> status_ref \<Rightarrow> bool" where
  "status_wf s x \<longleftrightarrow> plain_wf is_CImage s (str_Image x) \<and> plain_wf is_CNetwork s (str_Network x) \<and>
     plain_wf is_CFirewalls s (str_Firewalls x) \<and> plain_wf is_CKeys s (str_SSHKeys x) \<and>
     plain_wf is_CGroup s (str_PlacementGroup x) \<and>
     box_wf CLocations the_locations (\<lambda>s. list_all (location_wf s)) s (str_Locations x) \<and>
     plain_wf is_CStrings s (str_CACertHashes x) \<and>
     box_wf CConditions the_conditions (\<lambda>s v. True) s (str_Conditions x)"

lemma status_copier:
  assumes d: "\<And>d. conditionCopy d = d"
  shows "copier (HCloudNodeClassStatus_DeepCopyInto conditionCopy) status_value status_refs status_wf"
  by (rule copier_struct [OF copier_both [OF plain_copiers(8) copier_both [OF plain_copiers(9) copier_both [OF plain_copiers(10) copier_both [OF plain_copiers(11) copier_both [OF plain_copiers(12) copier_both [OF locations_box copier_both [OF plain_copiers(3) conditions_box [OF d]]]]]]]],
        where get = "\<lambda>x. (str_Image x, str_Network x, str_Firewalls x, str_SSHKeys x, str_PlacementGroup x, str_Locations x, str_CACertHashes x, str_Conditions x)"
          and put = "\<lambda>(v1, v2, v3, v4, v5, v6, v7, v8) x. x\<lparr>str_Image := v1, str_Network := v2, str_Firewalls := v3, str_SSHKeys := v4, str_PlacementGroup := v5,
              str_Locations := v6, str_CACertHashes := v7, str_Conditions := v8\<rparr>"
          and F = "\<lambda>(v1, v2, v3, v4, v5, v6, v7, v8) x. \<lparr> st_Image = map_option the_image v1, st_Network = map_option the_network v2,
              st_Firewalls = nilable (map_option the_firewalls v3), st_SSHKeys = nilable (map_option the_keys v4),
              st_PlacementGroup = map_option the_group v5, st_Locations = nilable v6,
              st_APIServerEndpoint = str_APIServerEndpoint x, st_CACertHashes = nilable (map_option the_strings v7),
              st_Conditions = nilable v8 \<rparr>"])
    (auto simp: HCloudNodeClassStatus_DeepCopyInto_def status_value_def status_refs_def status_wf_def both_def opt_at_def list_at_def split: prod.splits)

section \<open>The object\<close>

text \<open>
  The metadata belongs to apimachinery: its copy is a parameter that meets the same contract, with the value of the fields
  the model of a NodeClass has.
\<close>

record object_meta =
  om_Name :: string
  om_UID :: string
  om_Annotations :: strmap
  om_Finalizers :: "string list"
  om_DeletionTimestamp :: gotime
  om_Generation :: int

definition class_value :: "('d store \<Rightarrow> 'm \<Rightarrow> object_meta) \<Rightarrow> 'd store \<Rightarrow> 'm class_ref \<Rightarrow> 'd list HCloudNodeClass" where
  "class_value MV s x = (let m = MV s (clr_Meta x) in
     \<lparr> nc_Name = om_Name m, nc_UID = om_UID m, nc_Annotations = om_Annotations m, nc_Finalizers = om_Finalizers m,
       nc_DeletionTimestamp = om_DeletionTimestamp m, nc_Generation = om_Generation m,
       nc_Spec = spec_value s (clr_Spec x), nc_Status = status_value s (clr_Status x) \<rparr>)"

definition class_refs :: "('m \<Rightarrow> addr set) \<Rightarrow> 'm class_ref \<Rightarrow> addr set" where
  "class_refs MR x = MR (clr_Meta x) \<union> spec_refs (clr_Spec x) \<union> status_refs (clr_Status x)"

definition class_wf :: "('d store \<Rightarrow> 'm \<Rightarrow> bool) \<Rightarrow> 'd store \<Rightarrow> 'm class_ref \<Rightarrow> bool" where
  "class_wf MW s x \<longleftrightarrow> MW s (clr_Meta x) \<and> spec_wf s (clr_Spec x) \<and> status_wf s (clr_Status x)"

lemma class_copier:
  assumes m: "copier (cl_Meta L) MV MR MW" and q: "\<And>q. cl_Quantity L q = q" and d: "\<And>d. cl_Condition L d = d"
  shows "copier (HCloudNodeClass_DeepCopyInto L) (class_value MV) (class_refs MR) (class_wf MW)"
  by (rule copier_struct [OF copier_both [OF m copier_both [OF spec_copier [OF q] status_copier [OF d]]],
        where get = "\<lambda>x. (clr_Meta x, clr_Spec x, clr_Status x)"
          and put = "\<lambda>(m, sp, st) x. x\<lparr>clr_Meta := m, clr_Spec := sp, clr_Status := st\<rparr>"
          and F = "\<lambda>(m, sp, st) x. \<lparr> nc_Name = om_Name m, nc_UID = om_UID m, nc_Annotations = om_Annotations m, nc_Finalizers = om_Finalizers m,
              nc_DeletionTimestamp = om_DeletionTimestamp m, nc_Generation = om_Generation m, nc_Spec = sp, nc_Status = st \<rparr>"])
    (auto simp: HCloudNodeClass_DeepCopyInto_def class_value_def class_refs_def class_wf_def both_def Let_def split: prod.splits)

text \<open>
  C15. The copy a controller takes before it changes a NodeClass has the value of the object, is well typed, and
  shares nothing with it: whatever is then written to what the object reaches leaves the value of the copy as it was, and the
  other way round. So the value of the model stands for the object, and the value before for the stored copy.
\<close>

theorem DeepCopy_separate:
  assumes "copier (cl_Meta L) MV MR MW" and "\<forall>q. cl_Quantity L q = q" and "\<forall>d. cl_Condition L d = d"
    and "store_ok s" and "class_wf MW s x" and "HCloudNodeClass_DeepCopy L (Some x) s = (r, s')"
  shows "\<exists>y. r = Some y \<and> class_value MV s' y = class_value MV s x \<and> class_value MV s' x = class_value MV s x
    \<and> class_wf MW s' y \<and> store_ok s'
    \<and> (\<forall>s2. (\<forall>p. p \<notin> reach s' (class_refs MR x) \<longrightarrow> cells s2 p = cells s' p) \<longrightarrow> class_value MV s2 y = class_value MV s x)
    \<and> (\<forall>s2. (\<forall>p. p \<notin> reach s' (class_refs MR y) \<longrightarrow> cells s2 p = cells s' p) \<longrightarrow> class_value MV s2 x = class_value MV s x)"
proof -
  obtain y where y: "HCloudNodeClass_DeepCopyInto L x s = (y, s')" "r = Some y"
    using assms(6) by (auto simp: HCloudNodeClass_DeepCopy_def DeepCopy_def split: prod.splits)
  have "copier (HCloudNodeClass_DeepCopyInto L) (class_value MV) (class_refs MR) (class_wf MW)"
    using assms(2,3) by (intro class_copier [OF assms(1)]) auto
  note sep = copier.separate [OF this assms(4,5) y(1)]
  show ?thesis using y(2) sep(1-3,5,7,8) by blast
qed


text \<open>An object with annotations and one firewall selector by id.\<close>

definition ex_meta :: "unit store \<Rightarrow> addr option \<Rightarrow> object_meta" where
  "ex_meta s a = \<lparr> om_Name = ''default'', om_UID = ''u1'', om_Annotations = list_at the_strmap s a, om_Finalizers = [],
     om_DeletionTimestamp = 0, om_Generation = 1 \<rparr>"

definition ex_copy_libs :: "(addr option, unit) copy_libs" where
  "ex_copy_libs = \<lparr> cl_Meta = copy_plain, cl_Quantity = id, cl_Condition = id \<rparr>"

definition ex_object :: "addr option class_ref" where
  "ex_object = \<lparr> clr_Meta = Some 0,
     clr_Spec = \<lparr> sr_ImageSelector = \<lparr> tr_Name = ''debian-12'', tr_ID = None \<rparr>, sr_ImageDriftPolicy = [], sr_MaxNodeAge = None,
       sr_Locations = None, sr_NetworkSelector = None, sr_FirewallSelectors = Some 1, sr_SSHKeySelectors = None,
       sr_PlacementGroup = None, sr_PublicIPv4 = None, sr_PublicIPv6 = None, sr_ServerLabels = None,
       sr_Kubelet = \<lparr> kr_KubeReserved = None, kr_SystemReserved = None, kr_EvictionHard = None, kr_EvictionSoft = None,
         kr_EvictionSoftGracePeriod = None, kr_MaxPods = None, kr_ClusterDNS = None, kr_ExtraArgs = None \<rparr>,
       sr_Bootstrap = \<lparr> br_OSFamily = [], br_Mode = [], br_KubernetesVersion = ''1.33.1'', br_PackageRevision = [], br_APIServerEndpoint = [],
         br_CACertHashes = None, br_Containerd = \<lparr> cr_SystemdCgroup = None, cr_AptPin = [], cr_ExtraConfig = [] \<rparr>,
         br_UnattendedUpgrades = \<lparr> ur_Enabled = None, ur_ExtraOrigins = None, ur_RemoveUnusedKernelPackages = None \<rparr>,
         br_Sysctls = None, br_KernelModules = None, br_PackageUpgradeOnBoot = None, br_ExtraPackages = None, br_ExtraFiles = None,
         br_PreJoinCommands = None, br_PostJoinCommands = None, br_Revision = [] \<rparr> \<rparr>,
     clr_Status = \<lparr> str_Image = None, str_Network = None, str_Firewalls = None, str_SSHKeys = None, str_PlacementGroup = None,
       str_Locations = None, str_APIServerEndpoint = [], str_CACertHashes = None, str_Conditions = None \<rparr> \<rparr>"

definition ex_store3 :: "unit store" where
  "ex_store3 = \<lparr> cells = [0 \<mapsto> CStrMap [(''team'', ''a'')], 1 \<mapsto> CTerms [\<lparr> tr_Name = [], tr_ID = Some 2 \<rparr>], 2 \<mapsto> CInt 5], limit = 3 \<rparr>"

lemma ex_copied:
  "copier (cl_Meta ex_copy_libs) ex_meta set_option (plain_wf is_CStrMap)" "store_ok ex_store3"
  "class_wf (plain_wf is_CStrMap) ex_store3 ex_object" "\<forall>q. cl_Quantity ex_copy_libs q = q" "\<forall>d. cl_Condition ex_copy_libs d = d"
proof -
  show "copier (cl_Meta ex_copy_libs) ex_meta set_option (plain_wf is_CStrMap)"
    by (rule copier_struct [OF plain_copiers(4), where get = id and put = "\<lambda>t x. t"
        and F = "\<lambda>v x. \<lparr> om_Name = ''default'', om_UID = ''u1'', om_Annotations = nilable (map_option the_strmap v), om_Finalizers = [],
          om_DeletionTimestamp = 0, om_Generation = 1 \<rparr>"])
      (simp_all add: ex_copy_libs_def ex_meta_def list_at_def opt_at_def)
  show "store_ok ex_store3" by (auto simp: store_ok_def ex_store3_def term_refs_def split: if_splits)
  show "class_wf (plain_wf is_CStrMap) ex_store3 ex_object"
    by (simp add: class_wf_def spec_wf_def status_wf_def kubelet_wf_def bootstrap_wf_def containerd_wf_def upgrades_wf_def term_wf_def
        plain_wf_def box_wf_def deref_def ex_store3_def ex_object_def)
qed (simp_all add: ex_copy_libs_def)


theorem DeepCopy_separate_witness:
  "case HCloudNodeClass_DeepCopy ex_copy_libs (Some ex_object) ex_store3 of (r, s') \<Rightarrow>
     \<exists>y. r = Some y \<and> class_value ex_meta (s'\<lparr>cells := (cells s')(2 \<mapsto> CInt 9)\<rparr>) y = class_value ex_meta ex_store3 ex_object"
proof -
  obtain r s' where c: "HCloudNodeClass_DeepCopy ex_copy_libs (Some ex_object) ex_store3 = (r, s')" by (rule prod.exhaust)
  obtain y where y: "r = Some y"
    "\<forall>s2. (\<forall>p. p \<notin> reach s' (class_refs set_option ex_object) \<longrightarrow> cells s2 p = cells s' p) \<longrightarrow> class_value ex_meta s2 y = class_value ex_meta ex_store3 ex_object"
    using DeepCopy_separate [OF ex_copied(1,4,5,2,3) c] by auto
  have "ext ex_store3 s'"
    using copier.copy [OF class_copier [OF ex_copied(1)] ex_copied(2) grown_refl [OF ex_copied(2)] ex_copied(3)] ex_copied(4,5) c
    by (auto simp: HCloudNodeClass_DeepCopy_def DeepCopy_def split: prod.splits)
  then have "cells s' 1 = Some (CTerms [\<lparr> tr_Name = [], tr_ID = Some 2 \<rparr>])" by (simp add: ext_def ex_store3_def)
  moreover have "1 \<in> class_refs set_option ex_object" by (simp add: class_refs_def spec_refs_def ex_object_def)
  ultimately have "2 \<in> reach s' (class_refs set_option ex_object)"
    by (auto intro!: reach.step [OF reach.root] simp: term_refs_def)
  with y c show ?thesis by auto
qed

end
