(* ===== verification/Deep_Copy_List.thy ===== *)
theory Deep_Copy_List
  imports Deep_Copy_Laws
begin

text \<open>
  The copies of a list of NodeClasses and the copies as a \<^verbatim>\<open>runtime.Object\<close>
  (\<^verbatim>\<open>src/api/v1alpha1/zz_generated.deepcopy.go\<close>). The array behind \<^verbatim>\<open>Items\<close> holds NodeClasses, which
  no other type of the package refers to, so the arrays have a heap of their own beside the store of the cells. The
  metadata of the list is copied by apimachinery and is a parameter, as that of a NodeClass is.
\<close>

section \<open>The copies\<close>

record ('m, 'd) list_heap =
  lh_store :: "'d store"
  lh_arrays :: "addr \<Rightarrow> 'm class_ref list option"
  lh_limit :: addr

record 'l list_ref =
  lir_Meta :: 'l
  lir_Items :: "addr option"

definition copy_items :: "('m, 'd) copy_libs \<Rightarrow> addr option \<Rightarrow> ('m, 'd) list_heap \<Rightarrow> addr option \<times> ('m, 'd) list_heap" where
  "copy_items L a h = (case a of None \<Rightarrow> (None, h)
     | Some p \<Rightarrow> (case copy_each (HCloudNodeClass_DeepCopyInto L) (the (lh_arrays h p)) (lh_store h) of (ys, s) \<Rightarrow>
         (Some (lh_limit h), \<lparr> lh_store = s, lh_arrays = (lh_arrays h)(lh_limit h \<mapsto> ys), lh_limit = Suc (lh_limit h) \<rparr>)))"

definition HCloudNodeClassList_DeepCopyInto ::
    "('m, 'd) copy_libs \<Rightarrow> ('l \<Rightarrow> 'd store \<Rightarrow> 'l \<times> 'd store) \<Rightarrow> 'l list_ref \<Rightarrow> ('m, 'd) list_heap \<Rightarrow> 'l list_ref \<times> ('m, 'd) list_heap" where
  "HCloudNodeClassList_DeepCopyInto L listMeta x h =
     (case listMeta (lir_Meta x) (lh_store h) of (meta, s1) \<Rightarrow>
      (case copy_items L (lir_Items x) (h\<lparr>lh_store := s1\<rparr>) of (items, h1) \<Rightarrow>
       (x\<lparr>lir_Meta := meta, lir_Items := items\<rparr>, h1)))"

definition HCloudNodeClassList_DeepCopy ::
    "('m, 'd) copy_libs \<Rightarrow> ('l \<Rightarrow> 'd store \<Rightarrow> 'l \<times> 'd store) \<Rightarrow> 'l list_ref option \<Rightarrow> ('m, 'd) list_heap \<Rightarrow> 'l list_ref option \<times> ('m, 'd) list_heap" where
  "HCloudNodeClassList_DeepCopy L listMeta x h = (case x of None \<Rightarrow> (None, h)
     | Some v \<Rightarrow> (case HCloudNodeClassList_DeepCopyInto L listMeta v h of (out, h1) \<Rightarrow> (Some out, h1)))"

text \<open>
  A value of the interface \<^verbatim>\<open>runtime.Object\<close> is nil or has one of the two types. A nil pointer put into the
  interface would not be nil, so the source asks first; the constructors hold the pointer, nil or not.
\<close>

datatype ('m, 'l) runtime_object =
    NodeClassObject "'m class_ref option"
  | NodeClassListObject "'l list_ref option"

definition HCloudNodeClass_DeepCopyObject ::
    "('m, 'd) copy_libs \<Rightarrow> 'm class_ref option \<Rightarrow> 'd store \<Rightarrow> ('m, 'l) runtime_object option \<times> 'd store" where
  "HCloudNodeClass_DeepCopyObject L x s = (case HCloudNodeClass_DeepCopy L x s of (c, s1) \<Rightarrow>
     if c \<noteq> None then (Some (NodeClassObject c), s1) else (None, s1))"

definition HCloudNodeClassList_DeepCopyObject ::
    "('m, 'd) copy_libs \<Rightarrow> ('l \<Rightarrow> 'd store \<Rightarrow> 'l \<times> 'd store) \<Rightarrow> 'l list_ref option \<Rightarrow> ('m, 'd) list_heap \<Rightarrow>
     ('m, 'l) runtime_object option \<times> ('m, 'd) list_heap" where
  "HCloudNodeClassList_DeepCopyObject L listMeta x h = (case HCloudNodeClassList_DeepCopy L listMeta x h of (c, h1) \<Rightarrow>
     if c \<noteq> None then (Some (NodeClassListObject c), h1) else (None, h1))"

section \<open>Value and separation\<close>

definition items_at :: "('m, 'd) list_heap \<Rightarrow> addr option \<Rightarrow> 'm class_ref list" where
  "items_at h a = (case a of None \<Rightarrow> [] | Some p \<Rightarrow> the (lh_arrays h p))"

definition list_value ::
    "('d store \<Rightarrow> 'l \<Rightarrow> 'v) \<Rightarrow> ('d store \<Rightarrow> 'm \<Rightarrow> object_meta) \<Rightarrow> ('m, 'd) list_heap \<Rightarrow> 'l list_ref \<Rightarrow> 'v \<times> bool \<times> 'd list HCloudNodeClass list" where
  "list_value LV MV h x = (LV (lh_store h) (lir_Meta x), lir_Items x = None, map (class_value MV (lh_store h)) (items_at h (lir_Items x)))"

definition list_refs :: "('l \<Rightarrow> addr set) \<Rightarrow> ('m \<Rightarrow> addr set) \<Rightarrow> ('m, 'd) list_heap \<Rightarrow> 'l list_ref \<Rightarrow> addr set" where
  "list_refs LR MR h x = LR (lir_Meta x) \<union> \<Union> (class_refs MR ` set (items_at h (lir_Items x)))"

definition list_wf ::
    "('d store \<Rightarrow> 'l \<Rightarrow> bool) \<Rightarrow> ('d store \<Rightarrow> 'm \<Rightarrow> bool) \<Rightarrow> ('m, 'd) list_heap \<Rightarrow> 'l list_ref \<Rightarrow> bool" where
  "list_wf LW MW h x \<longleftrightarrow> LW (lh_store h) (lir_Meta x) \<and> set_option (lir_Items x) \<subseteq> dom (lh_arrays h)
     \<and> list_all (class_wf MW (lh_store h)) (items_at h (lir_Items x))"

definition heap_ok :: "('m, 'd) list_heap \<Rightarrow> bool" where
  "heap_ok h \<longleftrightarrow> store_ok (lh_store h) \<and> (\<forall>p xs. lh_arrays h p = Some xs \<longrightarrow> p < lh_limit h)"

text \<open>A copy of the list is a copy of its metadata and of the NodeClasses, and a new array.\<close>

lemma DeepCopyInto_parts:
  assumes "HCloudNodeClassList_DeepCopyInto L listMeta x h = (y, h')"
  shows "both listMeta (copy_each (HCloudNodeClass_DeepCopyInto L)) (lir_Meta x, items_at h (lir_Items x)) (lh_store h)
      = ((lir_Meta y, items_at h' (lir_Items y)), lh_store h')
    \<and> (case lir_Items x of None \<Rightarrow> lir_Items y = None \<and> lh_arrays h' = lh_arrays h \<and> lh_limit h' = lh_limit h
       | Some _ \<Rightarrow> lir_Items y = Some (lh_limit h) \<and> lh_limit h' = Suc (lh_limit h)
           \<and> (\<exists>ys. lh_arrays h' = (lh_arrays h)(lh_limit h \<mapsto> ys)))"
proof -
  obtain meta s1 where m: "listMeta (lir_Meta x) (lh_store h) = (meta, s1)" by (rule prod.exhaust)
  obtain ys s2 where e: "copy_each (HCloudNodeClass_DeepCopyInto L) (items_at h (lir_Items x)) s1 = (ys, s2)" by (rule prod.exhaust)
  show ?thesis
  proof (cases "lir_Items x")
    case None
    with assms m e show ?thesis by (auto simp: HCloudNodeClassList_DeepCopyInto_def copy_items_def both_def items_at_def)
  next
    case (Some p)
    with assms m e show ?thesis by (auto simp: HCloudNodeClassList_DeepCopyInto_def copy_items_def both_def items_at_def)
  qed
qed

text \<open>
  The copy of a list has its value, nil or empty where the original is nil or empty, and shares neither array nor cell with
  it: writes to what the one reaches, and to its array, leave the value of the other as it was.
\<close>

theorem list_DeepCopy_separate:
  assumes c: "copier (cl_Meta L) MV MR MW" "copier listMeta LV LR LW" and lib: "\<forall>q. cl_Quantity L q = q" "\<forall>d. cl_Condition L d = d"
    and ok: "heap_ok h" "list_wf LW MW h x" and r: "HCloudNodeClassList_DeepCopy L listMeta (Some x) h = (r, h')"
  shows "\<exists>y. r = Some y \<and> list_value LV MV h' y = list_value LV MV h x \<and> list_value LV MV h' x = list_value LV MV h x
    \<and> list_wf LW MW h' y \<and> heap_ok h'
    \<and> (\<forall>h2. (\<forall>p. p \<notin> reach (lh_store h') (list_refs LR MR h' x) \<longrightarrow> cells (lh_store h2) p = cells (lh_store h') p)
         \<longrightarrow> (\<forall>p. Some p \<noteq> lir_Items x \<longrightarrow> lh_arrays h2 p = lh_arrays h' p) \<longrightarrow> list_value LV MV h2 y = list_value LV MV h x)
    \<and> (\<forall>h2. (\<forall>p. p \<notin> reach (lh_store h') (list_refs LR MR h' y) \<longrightarrow> cells (lh_store h2) p = cells (lh_store h') p)
         \<longrightarrow> (\<forall>p. Some p \<noteq> lir_Items y \<longrightarrow> lh_arrays h2 p = lh_arrays h' p) \<longrightarrow> list_value LV MV h2 x = list_value LV MV h x)"
proof -
  obtain y where y: "HCloudNodeClassList_DeepCopyInto L listMeta x h = (y, h')" "r = Some y"
    using r by (auto simp: HCloudNodeClassList_DeepCopy_def split: prod.splits)
  note p = DeepCopyInto_parts [OF y(1)]
  have cl: "copier (HCloudNodeClass_DeepCopyInto L) (class_value MV) (class_refs MR) (class_wf MW)"
    using lib by (intro class_copier [OF c(1)]) auto
  have s: "store_ok (lh_store h)" and w: "LW (lh_store h) (fst (lir_Meta x, items_at h (lir_Items x)))
      \<and> list_all (class_wf MW (lh_store h)) (snd (lir_Meta x, items_at h (lir_Items x)))"
    using ok by (simp_all add: heap_ok_def list_wf_def)
  note sep = copier.separate [OF copier_both [OF c(2) copier_each [OF cl]] s w conjunct1 [OF p], unfolded fst_conv snd_conv]
  have limit: "lh_arrays h (lh_limit h) = None" using ok(1) by (cases "lh_arrays h (lh_limit h)") (auto simp: heap_ok_def)
  have fresh: "lir_Items y \<noteq> lir_Items x" if "lir_Items x \<noteq> None"
    using that p ok(2) limit by (auto simp: list_wf_def)
  have nil: "lir_Items y = None \<longleftrightarrow> lir_Items x = None" using p by (auto split: option.splits)
  have old: "items_at h' (lir_Items x) = items_at h (lir_Items x)"
    using p ok(2) limit by (auto simp: items_at_def list_wf_def split: option.splits)
  have same: "items_at h2 a = items_at h' a" if "\<forall>p. Some p \<noteq> b \<longrightarrow> lh_arrays h2 p = lh_arrays h' p" "a \<noteq> b \<or> a = None" for h2 :: "('a, 'b) list_heap" and a b
    using that by (cases a) (auto simp: items_at_def)
  show ?thesis
  proof (intro exI [of _ y] conjI allI impI)
    show "list_value LV MV h' y = list_value LV MV h x" using sep(1) nil by (simp add: list_value_def)
    show "list_value LV MV h' x = list_value LV MV h x" using sep(2) old by (simp add: list_value_def)
    show "list_wf LW MW h' y" using sep(3) p by (auto simp: list_wf_def split: option.splits)
    show "heap_ok h'" using sep(5) p ok(1) by (auto simp: heap_ok_def less_Suc_eq split: option.splits if_splits)
  next
    fix h2 :: "('a, 'b) list_heap"
    assume a: "\<forall>p. p \<notin> reach (lh_store h') (list_refs LR MR h' x) \<longrightarrow> cells (lh_store h2) p = cells (lh_store h') p"
      "\<forall>p. Some p \<noteq> lir_Items x \<longrightarrow> lh_arrays h2 p = lh_arrays h' p"
    have "items_at h2 (lir_Items y) = items_at h' (lir_Items y)" using same [OF a(2)] fresh nil by metis
    with sep(7) [of "lh_store h2"] a(1) old nil show "list_value LV MV h2 y = list_value LV MV h x"
      by (simp add: list_value_def list_refs_def)
  next
    fix h2 :: "('a, 'b) list_heap"
    assume a: "\<forall>p. p \<notin> reach (lh_store h') (list_refs LR MR h' y) \<longrightarrow> cells (lh_store h2) p = cells (lh_store h') p"
      "\<forall>p. Some p \<noteq> lir_Items y \<longrightarrow> lh_arrays h2 p = lh_arrays h' p"
    have "items_at h2 (lir_Items x) = items_at h (lir_Items x)" using same [OF a(2)] fresh nil old by metis
    with sep(8) [of "lh_store h2"] a(1) show "list_value LV MV h2 x = list_value LV MV h x"
      by (simp add: list_value_def list_refs_def)
  qed (fact y(2))
qed

text \<open>A list with one NodeClass, and without a count of remaining items.\<close>

definition ex_list :: "addr option list_ref" where
  "ex_list = \<lparr> lir_Meta = None, lir_Items = Some 0 \<rparr>"

definition ex_list_heap :: "(addr option, unit) list_heap" where
  "ex_list_heap = \<lparr> lh_store = ex_store3, lh_arrays = [0 \<mapsto> [ex_object]], lh_limit = 1 \<rparr>"

theorem list_DeepCopy_separate_witness:
  "case HCloudNodeClassList_DeepCopy ex_copy_libs copy_plain (Some ex_list) ex_list_heap of (r, h') \<Rightarrow>
     \<exists>y. r = Some y \<and> list_value plain_value ex_meta (h'\<lparr>lh_arrays := (lh_arrays h')(0 := Some [])\<rparr>) y = list_value plain_value ex_meta ex_list_heap ex_list"
proof -
  obtain r h' where c: "HCloudNodeClassList_DeepCopy ex_copy_libs copy_plain (Some ex_list) ex_list_heap = (r, h')" by (rule prod.exhaust)
  have ok: "heap_ok ex_list_heap" "list_wf (plain_wf is_CInt) (plain_wf is_CStrMap) ex_list_heap ex_list"
    using ex_copied(2,3) by (simp_all add: heap_ok_def list_wf_def items_at_def ex_list_heap_def ex_list_def plain_wf_def)
  have i: "lir_Items ex_list = Some 0" by (simp add: ex_list_def)
  obtain y where y: "r = Some y"
    "\<And>h2. (\<forall>p. p \<notin> reach (lh_store h') (list_refs set_option set_option h' ex_list) \<longrightarrow> cells (lh_store h2) p = cells (lh_store h') p)
      \<Longrightarrow> (\<forall>p. Some p \<noteq> lir_Items ex_list \<longrightarrow> lh_arrays h2 p = lh_arrays h' p)
      \<Longrightarrow> list_value plain_value ex_meta h2 y = list_value plain_value ex_meta ex_list_heap ex_list"
    using list_DeepCopy_separate [OF ex_copied(1) plain_copiers(2) ex_copied(4,5) ok c] by blast
  have "list_value plain_value ex_meta (h'\<lparr>lh_arrays := (lh_arrays h')(0 := Some [])\<rparr>) y = list_value plain_value ex_meta ex_list_heap ex_list"
    by (rule y(2)) (simp_all add: i)
  with y(1) c show ?thesis by simp
qed

text \<open>The object is nil exactly when the pointer was, and never holds a nil pointer.\<close>

lemma DeepCopyObject_nil:
  "fst (HCloudNodeClass_DeepCopyObject L x s) = None \<longleftrightarrow> x = None"
  "fst (HCloudNodeClassList_DeepCopyObject L listMeta xs h) = None \<longleftrightarrow> xs = None"
  "fst (HCloudNodeClass_DeepCopyObject L x s) \<noteq> Some (NodeClassObject None)"
  "fst (HCloudNodeClassList_DeepCopyObject L listMeta xs h) \<noteq> Some (NodeClassListObject None)"
  by (auto simp: HCloudNodeClass_DeepCopyObject_def HCloudNodeClassList_DeepCopyObject_def HCloudNodeClass_DeepCopy_def DeepCopy_def
      HCloudNodeClassList_DeepCopy_def split: option.splits prod.splits)

end
