(* ===== verification/Wakeup.thy ===== *)
theory Wakeup
  imports Node_Class_Controller Catalog_Provider
begin

text \<open>
  How a landing catalog wakes the NodeClasses that wait for it: the channels of \<^verbatim>\<open>NewController\<close>, the watches of
  \<^verbatim>\<open>Register\<close> and \<^verbatim>\<open>pumpRefreshSignal\<close> in \<^verbatim>\<open>src/internal/controllers/nodeclass/controller.go\<close>, over the one-slot
  channel of the catalog provider. Three goroutines take part: the refresh loop, which fills the slot without
  waiting; the pump, which takes from the slot and blocks until the watch reads; and the watch, which
  starts with the manager and runs the map function on every event. They interleave freely, so each of their steps
  is a rule.
\<close>

section \<open>Registration\<close>

text \<open>
  What \<^verbatim>\<open>Register\<close> tells the manager. The limiters belong to client-go: the model keeps their parameters.
\<close>

record rate_limiter =
  rl_baseDelay :: duration
  rl_maxDelay :: duration
  rl_perSecond :: nat
  rl_burst :: nat

definition rateLimiter :: rate_limiter where
  "rateLimiter = \<lparr> rl_baseDelay = 5 * second, rl_maxDelay = 2 * minute, rl_perSecond = 10, rl_burst = 100 \<rparr>"

definition ControllerName :: string where "ControllerName = ''nodeclass''"

record controller_options =
  co_Name :: string
  co_RateLimiter :: rate_limiter
  co_MaxConcurrentReconciles :: nat

definition Register_options :: controller_options where
  "Register_options = \<lparr> co_Name = ControllerName, co_RateLimiter = rateLimiter, co_MaxConcurrentReconciles = 10 \<rparr>"

datatype 'q claim_event = Created "'q NodeClaim" | Updated "'q NodeClaim" | Deleted "'q NodeClaim" | Generic "'q NodeClaim"

text \<open>The watch of the NodeClaims: the predicates let only deletions through to the map function.\<close>

fun claim_predicate :: "'q claim_event \<Rightarrow> bool" where
  "claim_predicate (Created _) = False"
| "claim_predicate (Updated _) = False"
| "claim_predicate (Deleted _) = True"
| "claim_predicate (Generic _) = False"

fun event_claim :: "'q claim_event \<Rightarrow> 'q NodeClaim" where
  "event_claim (Created nc) = nc"
| "event_claim (Updated nc) = nc"
| "event_claim (Deleted nc) = nc"
| "event_claim (Generic nc) = nc"

definition watch_claims :: "(string \<Rightarrow> go_error + 'c HCloudNodeClass) \<Rightarrow> 'q claim_event \<Rightarrow> string list" where
  "watch_claims get ev = (if claim_predicate ev then enqueueForNodeClaim get (event_claim ev) else [])"

lemma watch_claims_iff:
  "key \<in> set (watch_claims get ev) \<longleftrightarrow> (\<exists>nc ref ncl. ev = Deleted nc \<and> cl_NodeClassRef nc = Some ref \<and> ref_Group ref = Group
     \<and> ref_Kind ref = ''HCloudNodeClass'' \<and> ref_Name ref = key \<and> get key = Inr ncl \<and> nc_DeletionTimestamp ncl \<noteq> zero_time)"
proof (cases ev)
  case (Deleted nc)
  then show ?thesis
  proof (cases "cl_NodeClassRef nc")
    case (Some ref)
    with Deleted show ?thesis
      by (cases "get (ref_Name ref)") (auto simp: watch_claims_def enqueueForNodeClaim_def)
  qed (simp add: watch_claims_def enqueueForNodeClaim_def)
qed (simp_all add: watch_claims_def)

section \<open>The pump\<close>

text \<open>
  The pump is \<open>Receiving\<close> at the outer \<^verbatim>\<open>select\<close>, \<open>Sending\<close> at the inner one; \<open>Absent\<close> when the controller was
  built without a catalog provider. \<open>wk_handed\<close> counts the events that the watch has read and not yet
  handled. \<open>wk_landed\<close> counts the refreshes that succeeded and \<open>wk_seen\<close> how many of them had
  when the watch last handled an event: they only record what happened.
\<close>

datatype pump = Absent | Receiving | Sending | Returned

record wake =
  wk_catalog :: catalog_state
  wk_pump :: pump
  wk_handed :: nat
  wk_started :: bool
  wk_cancelled :: bool
  wk_queue :: "string list"
  wk_landed :: nat
  wk_seen :: nat

text \<open>
  \<^verbatim>\<open>NewController\<close> takes the channel of the catalog provider when there is one, and \<^verbatim>\<open>Register\<close> starts the pump when there is
  a channel.
\<close>

definition catalogRefreshed :: "catalog_state option \<Rightarrow> bool" where
  "catalogRefreshed catalogProvider \<longleftrightarrow> catalogProvider \<noteq> None"

record ('w, 'c) nodeclass_controller =
  ct_reconcilers :: "('w, 'c) reconciler list"
  ct_catalogRefreshed :: bool

definition NewController :: "('w, 'c) nodeclass_env \<Rightarrow> catalog_state option \<Rightarrow> ('w, 'c) nodeclass_controller" where
  "NewController E catalogProvider = \<lparr> ct_reconcilers = reconcilers E, ct_catalogRefreshed = catalogRefreshed catalogProvider \<rparr>"

definition Register_pump :: "bool \<Rightarrow> pump" where
  "Register_pump refreshed = (if refreshed then Receiving else Absent)"

definition wake_init :: "catalog_state \<Rightarrow> wake" where
  "wake_init cs = \<lparr> wk_catalog = cs, wk_pump = Register_pump (catalogRefreshed (Some cs)), wk_handed = 0, wk_started = False,
     wk_cancelled = False, wk_queue = [], wk_landed = 0, wk_seen = 0 \<rparr>"

definition pump_take :: "wake \<Rightarrow> wake" where
  "pump_take s = s\<lparr>wk_catalog := snd (take_refreshed (wk_catalog s)), wk_pump := Sending\<rparr>"

definition pump_send :: "wake \<Rightarrow> wake" where
  "pump_send s = s\<lparr>wk_pump := Receiving, wk_handed := Suc (wk_handed s)\<rparr>"

definition handle_event :: "('w, 'c) nodeclass_env \<Rightarrow> go_error + 'c HCloudNodeClass list \<Rightarrow> wake \<Rightarrow> wake" where
  "handle_event E listed s = s\<lparr>wk_handed := wk_handed s - 1, wk_queue := wk_queue s @ enqueueCatalogWaiters E listed, wk_seen := wk_landed s\<rparr>"

definition land :: "go_error option \<Rightarrow> catalog_state \<Rightarrow> wake \<Rightarrow> wake" where
  "land e cs s = s\<lparr>wk_catalog := cs, wk_landed := (if e = None then Suc (wk_landed s) else wk_landed s)\<rparr>"

text \<open>
  The steps of the pump and of the watch. A \<^verbatim>\<open>select\<close> takes any of its ready cases, so a cancelled pump may still
  take or send. \<open>listed\<close> is what the client answers to the list of the map function.
\<close>

inductive forward :: "('w, 'c) nodeclass_env \<Rightarrow> go_error + 'c HCloudNodeClass list \<Rightarrow> wake \<Rightarrow> wake \<Rightarrow> bool" for E listed where
  takes: "wk_pump s = Receiving \<Longrightarrow> fst (take_refreshed (wk_catalog s)) \<Longrightarrow> forward E listed s (pump_take s)"
| sends: "wk_pump s = Sending \<Longrightarrow> wk_started s \<Longrightarrow> forward E listed s (pump_send s)"
| returns: "wk_pump s \<in> {Receiving, Sending} \<Longrightarrow> wk_cancelled s \<Longrightarrow> forward E listed s (s\<lparr>wk_pump := Returned\<rparr>)"
| handles: "wk_handed s \<noteq> 0 \<Longrightarrow> forward E listed s (handle_event E listed s)"

inductive_simps forward_iff: "forward E listed s s'"

text \<open>
  All that can happen: refreshes in any state of the world, steps forward with any listing, the start of the
  manager, and the cancellation of its context. The keys in the queue leave it when they are reconciled.
\<close>

inductive wake_reach :: "('w, 'c) nodeclass_env \<Rightarrow> 'v catalog_config \<Rightarrow> catalog_state \<Rightarrow> wake \<Rightarrow> bool" for E P cs0 where
  init: "wake_reach E P cs0 (wake_init cs0)"
| refresh: "\<lbrakk> wake_reach E P cs0 s; Refresh P (wk_catalog s, ms, w) = (e, cs', ms', w') \<rbrakk> \<Longrightarrow> wake_reach E P cs0 (land e cs' s)"
| forward: "\<lbrakk> wake_reach E P cs0 s; forward E listed s s' \<rbrakk> \<Longrightarrow> wake_reach E P cs0 s'"
| start: "wake_reach E P cs0 s \<Longrightarrow> wake_reach E P cs0 (s\<lparr>wk_started := True\<rparr>)"
| cancel: "wake_reach E P cs0 s \<Longrightarrow> wake_reach E P cs0 (s\<lparr>wk_cancelled := True\<rparr>)"
| dequeue: "wake_reach E P cs0 s \<Longrightarrow> wake_reach E P cs0 (s\<lparr>wk_queue := q\<rparr>)"

section \<open>No wake-up is lost\<close>

text \<open>A landing the watch has not handled is on its way, unless the process is shutting down.\<close>

definition wake_inv :: "wake \<Rightarrow> bool" where
  "wake_inv s \<longleftrightarrow> wk_pump s \<noteq> Absent \<and> (wk_pump s = Returned \<longrightarrow> wk_cancelled s) \<and> wk_seen s \<le> wk_landed s
     \<and> (wk_seen s = wk_landed s \<or> cs_refreshed (wk_catalog s) \<or> wk_pump s = Sending \<or> wk_handed s \<noteq> 0 \<or> wk_pump s = Returned)"

named_theorems wake_defs

lemmas [wake_defs] = wake_inv_def pump_take_def pump_send_def handle_event_def land_def take_refreshed_def

lemma forward_inv: "forward E listed s s' \<Longrightarrow> wake_inv s \<Longrightarrow> wake_inv s'"
  by (cases rule: forward.cases) (auto simp: wake_defs)

lemma refresh_inv:
  assumes "Refresh P (wk_catalog s, ms, w) = (e, cs', ms', w')" and "wake_inv s"
  shows "wake_inv (land e cs' s)"
proof (cases e)
  case None
  then have "cs_refreshed cs'" using Refresh_succeeded [OF assms(1) [unfolded None]] by auto
  with None assms(2) show ?thesis by (auto simp: wake_defs)
next
  case (Some err)
  have "cs' = wk_catalog s\<lparr>cs_stale := True\<rparr>" by (rule Refresh_failed [OF assms(1) [unfolded Some]])
  with Some assms(2) show ?thesis by (simp add: wake_inv_def land_def)
qed

lemma wake_reach_inv: "wake_reach E P cs0 s \<Longrightarrow> wake_inv s"
proof (induction rule: wake_reach.induct)
  case init
  then show ?case by (simp add: wake_inv_def wake_init_def Register_pump_def catalogRefreshed_def)
next
  case (refresh s ms w e cs' ms' w')
  then show ?case by (blast intro: refresh_inv)
next
  case (forward s listed s')
  then show ?case by (blast intro: forward_inv)
qed (simp_all add: wake_inv_def)

section \<open>The pump comes to rest\<close>

text \<open>Every step forward takes one off this weight, so a run without new refreshes is no longer than it.\<close>

definition weight :: "wake \<Rightarrow> nat" where
  "weight s = (if cs_refreshed (wk_catalog s) then 3 else 0) + (case wk_pump s of Receiving \<Rightarrow> 1 | Sending \<Rightarrow> 3 | _ \<Rightarrow> 0) + wk_handed s"

lemma forward_weight: "forward E listed s s' \<Longrightarrow> weight s' < weight s"
  by (cases rule: forward.cases) (auto simp: weight_def wake_defs)

lemma forward_wf: "wfP (\<lambda>s' s. forward E listed s s')"
  by (rule wfp_if_convertible_to_nat [where f = weight]) (rule forward_weight)

lemma forward_run_bounded: "(forward E listed ^^ n) s s' \<Longrightarrow> n + weight s' \<le> weight s"
proof (induction n arbitrary: s')
  case (Suc n)
  then show ?case using forward_weight [of E listed] by (fastforce elim!: relcompE)
qed simp

lemma forward_keeps:
  assumes "forward E listed s s'"
  shows "wk_landed s' = wk_landed s" "wk_started s' = wk_started s" "wk_cancelled s' = wk_cancelled s"
  using assms by (cases rule: forward.cases; simp add: wake_defs)+

text \<open>Once the watch has handled an event of a run, the listed waiters are in the queue.\<close>

lemma forward_queued:
  assumes "forward E (Inr ncls) s s'"
    and "wk_seen s < wk_landed s \<or> set (map nc_Name (filter (waitingOnCatalog E) ncls)) \<subseteq> set (wk_queue s)"
  shows "wk_seen s' < wk_landed s' \<or> set (map nc_Name (filter (waitingOnCatalog E) ncls)) \<subseteq> set (wk_queue s')"
  using assms by (cases rule: forward.cases) (auto simp: wake_defs enqueueCatalogWaiters_def)

lemma forward_run_keeps:
  assumes "(forward E (Inr ncls) ^^ n) s s'" and "wake_inv s"
  shows "wake_inv s' \<and> wk_landed s' = wk_landed s \<and> wk_started s' = wk_started s \<and> wk_cancelled s' = wk_cancelled s
    \<and> (wk_seen s < wk_landed s \<longrightarrow> wk_seen s' < wk_landed s' \<or> set (map nc_Name (filter (waitingOnCatalog E) ncls)) \<subseteq> set (wk_queue s'))"
  using assms(1)
proof (induction n arbitrary: s')
  case 0
  with assms(2) show ?case by auto
next
  case (Suc n)
  then obtain t where t: "(forward E (Inr ncls) ^^ n) s t" "forward E (Inr ncls) t s'" by auto
  with Suc.IH [OF t(1)] forward_inv [OF t(2)] forward_keeps [OF t(2)] forward_queued [OF t(2)] show ?case by (metis (no_types))
qed

lemma forward_rests: "\<exists>s'. (forward E listed)\<^sup>*\<^sup>* s s' \<and> (\<nexists>s''. forward E listed s' s'')"
proof (induction s rule: wfp_induct_rule [OF forward_wf [of E listed]])
  case (1 s)
  then show ?case by (cases "\<exists>t. forward E listed s t") (blast intro: converse_rtranclp_into_rtranclp)+
qed

text \<open>A running process that has come to rest has handled every landing.\<close>

lemma rest_seen:
  assumes "wake_inv s" "wk_started s" "\<not> wk_cancelled s" "\<nexists>s'. forward E listed s s'"
  shows "wk_seen s = wk_landed s"
proof (rule ccontr)
  assume late: "wk_seen s \<noteq> wk_landed s"
  have "wk_pump s = Receiving \<or> wk_pump s = Sending"
    using assms(1,3) by (cases "wk_pump s") (auto simp: wake_inv_def)
  with late assms show False by (auto simp: forward_iff wake_defs)
qed

section \<open>Properties\<close>

text \<open>
  C14. A catalog that lands wakes every NodeClass that waits for it, however the refresh loop, the pump and the
  watch interleaved before, also when refreshes landed before the watch was reading: while the process runs, the
  pump and the watch come to rest after at most \<open>weight s\<close> steps, and then every landing has been followed by a
  listing, and every class it showed waiting is in the queue.
\<close>

theorem refresh_wakes_waiters:
  assumes "wake_reach E P cs0 s" and "wk_started s" and "\<not> wk_cancelled s"
  shows "(\<exists>s'. (forward E (Inr ncls))\<^sup>*\<^sup>* s s' \<and> (\<nexists>s''. forward E (Inr ncls) s' s''))
    \<and> (\<forall>n s'. (forward E (Inr ncls) ^^ n) s s' \<longrightarrow> n \<le> weight s)
    \<and> (\<forall>s'. (forward E (Inr ncls))\<^sup>*\<^sup>* s s' \<and> (\<nexists>s''. forward E (Inr ncls) s' s'') \<longrightarrow>
         wk_seen s' = wk_landed s \<and>
         (wk_seen s < wk_landed s \<longrightarrow> (\<forall>ncl \<in> set ncls. waitingOnCatalog E ncl \<longrightarrow> nc_Name ncl \<in> set (wk_queue s'))))"
proof (intro conjI allI impI)
  note inv = wake_reach_inv [OF assms(1)]
  show "\<exists>s'. (forward E (Inr ncls))\<^sup>*\<^sup>* s s' \<and> (\<nexists>s''. forward E (Inr ncls) s' s'')" by (rule forward_rests)
  show "n \<le> weight s" if "(forward E (Inr ncls) ^^ n) s s'" for n s'
    using forward_run_bounded [OF that] by simp
  fix s' assume run: "(forward E (Inr ncls))\<^sup>*\<^sup>* s s' \<and> (\<nexists>s''. forward E (Inr ncls) s' s'')"
  then obtain n where n: "(forward E (Inr ncls) ^^ n) s s'" using rtranclp_imp_relpowp by metis
  note k = forward_run_keeps [OF n inv]
  from rest_seen [of s' E "Inr ncls"] k run assms(2,3) have seen: "wk_seen s' = wk_landed s'" by blast
  then show "wk_seen s' = wk_landed s" using k by simp
  show "\<forall>ncl \<in> set ncls. waitingOnCatalog E ncl \<longrightarrow> nc_Name ncl \<in> set (wk_queue s')" if "wk_seen s < wk_landed s"
    using k that seen by auto
qed

text \<open>Two refreshes land before the manager starts; the class that has no condition yet is woken once.\<close>

definition ex_catalog :: "unit catalog_config" where
  "ex_catalog = \<lparr> cc_client = \<lparr> Catalog_ServerTypes = (\<lambda>w. (Inr [], w)), Catalog_PrimaryIPv4MonthlyNet = (\<lambda>w. (Inr (Fin 0), w)) \<rparr>,
     cc_interval = minute, cc_jitter = 0, cc_now = (\<lambda>_. 0) \<rparr>"

definition ex_fresh :: catalog_state where
  "ex_fresh = snd (NewCatalogProvider (cc_client ex_catalog) (\<lambda>_. 0) [])"

definition ex_landed :: "wake \<Rightarrow> wake" where
  "ex_landed s = land None (fst (snd (Refresh ex_catalog (wk_catalog s, [], ())))) s"

lemma ex_landed_reach:
  assumes "wake_reach E ex_catalog cs0 s" shows "wake_reach E ex_catalog cs0 (ex_landed s)"
proof -
  obtain e cs' ms' w' where r: "Refresh ex_catalog (wk_catalog s, [], ()) = (e, cs', ms', w')" by (metis prod.exhaust)
  then have "e = None" by (auto simp: Refresh_def ex_catalog_def Let_def)
  with wake_reach.refresh [OF assms r] r show ?thesis by (simp add: ex_landed_def)
qed

definition ex_waking :: wake where
  "ex_waking = (ex_landed (ex_landed (wake_init ex_fresh)))\<lparr>wk_started := True\<rparr>"

theorem refresh_wakes_waiters_witness:
  "\<exists>s'. (forward ex_env (Inr [ex_new_class ex_new_spec]))\<^sup>*\<^sup>* ex_waking s' \<and> wk_seen s' = 2 \<and> ''default'' \<in> set (wk_queue s')"
proof -
  have "wake_reach ex_env ex_catalog ex_fresh ex_waking"
    unfolding ex_waking_def by (intro wake_reach.start ex_landed_reach wake_reach.init)
  note w = refresh_wakes_waiters [OF this, of "[ex_new_class ex_new_spec]"]
  have f: "wk_started ex_waking" "\<not> wk_cancelled ex_waking" "wk_seen ex_waking = 0" "wk_landed ex_waking = 2"
    by (simp_all add: ex_waking_def ex_landed_def land_def wake_init_def)
  have waits: "waitingOnCatalog ex_env (ex_new_class ex_new_spec)" "nc_Name (ex_new_class ex_new_spec) = ''default''"
    by (simp_all add: waitingOnCatalog_def cond_def ex_env_def ex_new_class_def list_conditions_def)
  from w f(1,2) obtain s' where s': "(forward ex_env (Inr [ex_new_class ex_new_spec]))\<^sup>*\<^sup>* ex_waking s'"
    "\<nexists>s''. forward ex_env (Inr [ex_new_class ex_new_spec]) s' s''" by blast
  with w f waits show ?thesis by auto
qed

end
