(* ===== verification/Startup.thy ===== *)
theory Startup
  imports Cloud_Init Cloud_Provider Instance_GC Wakeup Hash_Controller
begin

text \<open>
  How the process is put together (\<^verbatim>\<open>src/cmd/karpenter-provider-hcloud/main.go\<close> and \<^verbatim>\<open>debug.go\<close>,
  \<^verbatim>\<open>src/internal/controllers/controllers.go\<close>, the constructor of the cloud provider and the options of the hcloud-go
  client). \<open>host\<close> holds what \<^verbatim>\<open>main\<close> gets from the operating system, the operator of karpenter, the Kubernetes
  client and hcloud-go; \<open>process\<close> is what it hands to the manager. The controllers of karpenter core and the
  metrics wrapper around the cloud provider are code of karpenter.
\<close>

section \<open>The client of hcloud-go\<close>

definition pollInterval :: duration where "pollInterval = 3 * second"

record client_options =
  ho_Token :: string
  ho_Application :: string
  ho_Version :: string
  ho_PollInterval :: duration

definition client_options_from :: "string \<Rightarrow> string \<Rightarrow> client_options" where
  "client_options_from Version token = \<lparr> ho_Token = token, ho_Application = ''karpenter-provider-hcloud'', ho_Version = Version,
     ho_PollInterval = pollInterval \<rparr>"

section \<open>The zero value of a NodeClass\<close>

definition zero_kubelet :: KubeletConfiguration where
  "zero_kubelet = \<lparr> KubeReserved = [], SystemReserved = [], EvictionHard = [], EvictionSoft = [], EvictionSoftGracePeriod = [],
     MaxPods = None, ClusterDNS = [], ExtraArgs = [] \<rparr>"

definition zero_bootstrap :: BootstrapSpec where
  "zero_bootstrap = \<lparr> boot_OSFamily = [], boot_Mode = [], KubernetesVersion = [], PackageRevision = [], boot_APIServerEndpoint = [],
     boot_CACertHashes = [], Containerd = \<lparr> SystemdCgroup = None, AptPin = [], ExtraConfig = [] \<rparr>,
     UnattendedUpgrades = \<lparr> uu_Enabled = None, ExtraOrigins = [], RemoveUnusedKernelPackages = None \<rparr>,
     Sysctls = [], KernelModules = [], PackageUpgradeOnBoot = None, ExtraPackages = [], ExtraFiles = [],
     PreJoinCommands = [], PostJoinCommands = [], Revision = [] \<rparr>"

definition zero_class :: "'c \<Rightarrow> 'c HCloudNodeClass" where
  "zero_class noConditions = \<lparr> nc_Name = [], nc_UID = [], nc_Annotations = [], nc_Finalizers = [],
     nc_DeletionTimestamp = zero_time, nc_Generation = 0,
     nc_Spec = \<lparr> spec_ImageSelector = \<lparr> sel_Name = [], sel_ID = None \<rparr>, spec_ImageDriftPolicy = [], spec_MaxNodeAge = None,
       spec_Locations = [], spec_NetworkSelector = None, spec_FirewallSelectors = [], spec_SSHKeySelectors = [],
       spec_PlacementGroup = None, spec_PublicIPv4 = None, spec_PublicIPv6 = None, spec_ServerLabels = [],
       spec_Kubelet = zero_kubelet, spec_Bootstrap = zero_bootstrap \<rparr>,
     nc_Status = \<lparr> st_Image = None, st_Network = None, st_Firewalls = [], st_SSHKeys = [], st_PlacementGroup = None,
       st_Locations = [], st_APIServerEndpoint = [], st_CACertHashes = [], st_Conditions = noConditions \<rparr> \<rparr>"

section \<open>The cloud provider\<close>

definition Name :: string where "Name = ''hcloud''"

definition GetSupportedNodeClasses :: "'c \<Rightarrow> 'c HCloudNodeClass list" where
  "GetSupportedNodeClasses noConditions = [zero_class noConditions]"

text \<open>
  \<^verbatim>\<open>New\<close>: the cloud provider over the Kubernetes client \<open>kube\<close>, whose record holds the reads it makes. Its instance provider and
  suppression cache are arguments of the operations of the model.
\<close>

definition New ::
    "('w, 'c, 'q) cloud \<Rightarrow> ('w \<Rightarrow> Snapshot option) \<Rightarrow> ('c HCloudNodeClass \<Rightarrow> 'q NodeClaim \<Rightarrow> 'w \<Rightarrow> (go_error + string) \<times> 'w) \<Rightarrow> ('w, 'c, 'q) cloud" where
  "New kube catalogProvider bootstrapper = kube\<lparr>cp_catalog := catalogProvider, cp_Render := bootstrapper\<rparr>"

section \<open>The controllers\<close>

datatype ('w, 'c) controller =
    HashController
  | NodeClassController "('w, 'c) nodeclass_controller"
  | InstanceGC "'w pstate gc_api" string
  | StatusController

definition NewControllers ::
    "('w, 'c) nodeclass_env \<Rightarrow> 'w resources_api \<Rightarrow> ('w \<Rightarrow> Snapshot option) \<Rightarrow> catalog_state \<Rightarrow> 'w provider \<Rightarrow> string \<Rightarrow> ('w, 'c) controller list" where
  "NewControllers env resources catalogGet catalogProvider instances clusterName =
     [HashController,
      NodeClassController (NewController (env\<lparr>ne_resources := resources, ne_catalog := catalogGet\<rparr>) (Some catalogProvider)),
      InstanceGC (instance_gc_api instances) clusterName,
      StatusController]"

section \<open>Debug commands\<close>

text \<open>
  What \<^verbatim>\<open>main\<close> gets from outside. \<open>h_Args\<close> are the arguments without the name of the program. The Kubernetes
  client of the debug commands can only read cluster-info (\<open>info_libs\<close>). \<open>h_NewOperator\<close> is \<open>None\<close> when the operator ends the
  process itself, as on an unknown flag. \<open>h_kube\<close> and \<open>h_env\<close> hold the reads and writes of the manager's clients, the
  clock, the events and the discovery, which live in the world.
\<close>

datatype runnable = CatalogRefresh | UnavailableSync

record ('w, 'c, 'q) host =
  h_Args :: "string list"
  h_Getenv :: "string \<Rightarrow> string"
  h_ReadFile :: "string \<Rightarrow> go_error + string"
  h_Unmarshal :: "string \<Rightarrow> 'c HCloudNodeClass \<Rightarrow> go_error + 'c HCloudNodeClass"
  h_AddToScheme :: "go_error option"
  h_GetConfig :: "go_error + string"
  h_NewClient :: "string \<Rightarrow> go_error + 'w info_libs"
  h_render :: render_libs
  h_noConditions :: 'c
  h_NewOperator :: "string list \<Rightarrow> 'w \<Rightarrow> 'w option"
  h_Add :: "runnable \<Rightarrow> 'w \<Rightarrow> go_error option \<times> 'w"
  h_NewMatcher :: "RepairPolicy list \<Rightarrow> 'w \<Rightarrow> go_error option \<times> 'w"
  h_hcloud :: "client_options \<Rightarrow> 'w hcloud \<times> 'w hcloud_read"
  h_clock :: "'w \<Rightarrow> gotime"
  h_minter :: "'w minter"
  h_kube :: "('w, 'c, 'q) cloud"
  h_env :: "('w, 'c) nodeclass_env"
  h_catalog :: "'w \<Rightarrow> catalog_state"

definition newReadOnlyClient :: "('w, 'c, 'q) host \<Rightarrow> go_error + 'w info_libs" where
  "newReadOnlyClient H = (case h_AddToScheme H of
       Some err \<Rightarrow> Inl err
     | None \<Rightarrow> (case h_GetConfig H of
          Inl err \<Rightarrow> Inl (WrapError ''loading kubeconfig: '' err)
        | Inr cfg \<Rightarrow> h_NewClient H cfg))"

definition NewDiscovery :: discovery_state where
  "NewDiscovery = \<lparr> ds_endpoint = [], ds_hashes = [] \<rparr>"

definition hash_line :: "string \<Rightarrow> string" where
  "hash_line h = ''caCertHash:        '' @ h @ ''  (valid='' @ (if ValidHash h then ''true'' else ''false'') @ '')'' @ nl"

definition runDiscover :: "('w, 'c, 'q) host \<Rightarrow> 'w \<Rightarrow> (go_error + string) \<times> 'w" where
  "runDiscover H w = (case newReadOnlyClient H of
       Inl err \<Rightarrow> (Inl err, w)
     | Inr c \<Rightarrow> (case Discovery_Refresh c NewDiscovery w of
          (Some err, d, w1) \<Rightarrow> (Inl err, w1)
        | (None, d, w1) \<Rightarrow> (case Discovery_Get d of
             None \<Rightarrow> (Inl (TextError ''discovery returned nothing usable''), w1)
           | Some (endpoint, hashes) \<Rightarrow>
               (Inr (''apiServerEndpoint: '' @ endpoint @ nl @ concat (map hash_line hashes)), w1))))"

definition placeholderToken :: string where "placeholderToken = ''aaaaaa.bbbbbbbbbbbbbbbb''"

definition placeholderJoin :: "string \<times> string list" where
  "placeholderJoin = (''127.0.0.1:6443'', [''sha256:'' @ replicate 64 (CHR ''0'')])"

text \<open>The token of the debug rendering: a placeholder, or the content of the file the second argument names.\<close>

definition debug_token :: "('w, 'c, 'q) host \<Rightarrow> string \<Rightarrow> go_error + string" where
  "debug_token H tokenPath = (if tokenPath = [] then Inr placeholderToken
     else (case h_ReadFile H tokenPath of
        Inl err \<Rightarrow> Inl (WrapError ''reading token file: '' err)
      | Inr raw \<Rightarrow> Inr (trim_space raw)))"

text \<open>Every failure to discover leaves the placeholder.\<close>

definition debug_join :: "('w, 'c, 'q) host \<Rightarrow> 'w \<Rightarrow> (string \<times> string list) \<times> 'w" where
  "debug_join H w = (case newReadOnlyClient H of
       Inl _ \<Rightarrow> (placeholderJoin, w)
     | Inr c \<Rightarrow> (case Discovery_Refresh c NewDiscovery w of
          (Some _, d, w1) \<Rightarrow> (placeholderJoin, w1)
        | (None, d, w1) \<Rightarrow> (case Discovery_Get d of None \<Rightarrow> (placeholderJoin, w1) | Some eh \<Rightarrow> (eh, w1))))"

definition debug_class :: "('w, 'c, 'q) host \<Rightarrow> string \<Rightarrow> go_error + 'c HCloudNodeClass" where
  "debug_class H nodeClassPath = (let nc = zero_class (h_noConditions H) in
     if nodeClassPath \<noteq> [] then
       (case h_ReadFile H nodeClassPath of
          Inl err \<Rightarrow> Inl (WrapError ''reading NodeClass: '' err)
        | Inr raw \<Rightarrow> (case h_Unmarshal H raw nc of
             Inl err \<Rightarrow> Inl (WrapError ''parsing NodeClass: '' err)
           | Inr nc1 \<Rightarrow> Inr nc1))
     else Inr (nc\<lparr>nc_Spec := (nc_Spec nc)\<lparr>spec_Bootstrap := zero_bootstrap\<lparr>boot_OSFamily := OSFamilyDebian, KubernetesVersion := ''1.34.7''\<rparr>\<rparr>\<rparr>))"

definition debug_input :: "string \<times> string list \<Rightarrow> string \<Rightarrow> 'c HCloudNodeClass \<Rightarrow> 'c Input" where
  "debug_input eh token nc = \<lparr> in_NodeClass = Some nc,
     in_Join = \<lparr> ji_APIServerEndpoint = fst eh, ji_Token = token, ji_CACertHashes = snd eh, ji_Taints = [],
       ji_NodeLabels = [(''karpenter.sh/nodepool'', ''example'')], ji_Kubelet = spec_Kubelet (nc_Spec nc) \<rparr> \<rparr>"

definition arg_at :: "string list \<Rightarrow> nat \<Rightarrow> string" where
  "arg_at args n = (if n < length args then args ! n else [])"

definition runRenderUserData :: "('w, 'c, 'q) host \<Rightarrow> string list \<Rightarrow> 'w \<Rightarrow> (go_error + string) \<times> 'w" where
  "runRenderUserData H args w = (case debug_token H (arg_at args 1) of
       Inl err \<Rightarrow> (Inl err, w)
     | Inr token \<Rightarrow> (case debug_join H w of (eh, w1) \<Rightarrow>
         (case debug_class H (arg_at args 0) of
            Inl err \<Rightarrow> (Inl err, w1)
          | Inr nc \<Rightarrow> (Render (h_render H) (debug_input eh token nc), w1))))"

text \<open>\<open>None\<close> when the command is not one of the two.\<close>

definition runDebug :: "('w, 'c, 'q) host \<Rightarrow> string \<Rightarrow> string list \<Rightarrow> 'w \<Rightarrow> (go_error + string) option \<times> 'w" where
  "runDebug H cmd args w =
     (if cmd = ''discover'' then (case runDiscover H w of (r, w1) \<Rightarrow> (Some r, w1))
      else if cmd = ''render-userdata'' then (case runRenderUserData H args w of (r, w1) \<Rightarrow> (Some r, w1))
      else (None, w))"

section \<open>Main\<close>

record ('w, 'c, 'q) process =
  pr_token :: string
  pr_clusterName :: string
  pr_catalogLoop :: "'w catalog_config"
  pr_unavailable :: unavailable
  pr_instances :: "'w provider"
  pr_bootstrap :: "'w bootstrap_provider"
  pr_cloud :: "('w, 'c, 'q) cloud"
  pr_runnables :: "runnable list"
  pr_controllers :: "('w, 'c) controller list"

definition clusterNameEnvVar :: string where "clusterNameEnvVar = ''CLUSTER_NAME''"

text \<open>\<^verbatim>\<open>newClusterState\<close> asks karpenter for a matcher of the repair policies, which may refuse them.\<close>

definition newClusterState :: "('w, 'c, 'q) host \<Rightarrow> RepairPolicy list \<Rightarrow> 'w \<Rightarrow> go_error option \<times> 'w" where
  "newClusterState H policies w = (case h_NewMatcher H policies w of (Some err, w1) \<Rightarrow> (Some err, w1) | (None, w1) \<Rightarrow> (None, w1))"

definition assemble :: "('w, 'c, 'q) host \<Rightarrow> string \<Rightarrow> string \<Rightarrow> string \<Rightarrow> ('w, 'c, 'q) process" where
  "assemble H version token clusterName =
     (let (hc, hr) = h_hcloud H (client_options_from version token);
          (catalogLoop, catalogProvider) = NewCatalogProvider (NewCatalog hr (Some token)) (h_clock H) [];
          catalogGet = (\<lambda>w. Catalog_Get (h_catalog H w));
          unavailable = NewUnavailable;
          instances = NewProvider (NewServers hc (Some token)) clusterName (h_clock H) (hc_ErrorText hc);
          bootstrapper = NewBootstrapProvider (h_minter H) clusterName in
      \<lparr> pr_token = token, pr_clusterName = clusterName, pr_catalogLoop = catalogLoop, pr_unavailable = unavailable,
        pr_instances = instances, pr_bootstrap = bootstrapper,
        pr_cloud = New (h_kube H) catalogGet (Bootstrap_Render (h_render H) bootstrapper),
        pr_runnables = [CatalogRefresh, UnavailableSync],
        pr_controllers = NewControllers (h_env H) (NewResources hr (Some token)) catalogGet catalogProvider instances clusterName \<rparr>)"

datatype 'p outcome = Exit int string | OperatorExit | Run 'p

text \<open>From \<^verbatim>\<open>operator.NewOperator\<close> on.\<close>

definition start_operator :: "('w, 'c, 'q) host \<Rightarrow> string \<Rightarrow> 'w \<Rightarrow> ('w, 'c, 'q) process outcome \<times> 'w" where
  "start_operator H version w = (case h_NewOperator H (h_Args H) w of
       None \<Rightarrow> (OperatorExit, w)
     | Some w1 \<Rightarrow> (case NewClientFromEnv (h_Getenv H TokenEnvVar) of
         Inl _ \<Rightarrow> (Exit 1 [], w1)
       | Inr token \<Rightarrow> (case h_Add H CatalogRefresh w1 of
           (Some _, w2) \<Rightarrow> (Exit 1 [], w2)
         | (None, w2) \<Rightarrow>
             (let clusterName = h_Getenv H clusterNameEnvVar in
              if clusterName = [] then (Exit 1 [], w2)
              else (case h_Add H UnavailableSync w2 of
                  (Some _, w3) \<Rightarrow> (Exit 1 [], w3)
                | (None, w3) \<Rightarrow> (case newClusterState H RepairPolicies w3 of
                    (Some _, w4) \<Rightarrow> (Exit 1 [], w4)
                  | (None, w4) \<Rightarrow> (Run (assemble H version token clusterName), w4)))))))"

definition main :: "('w, 'c, 'q) host \<Rightarrow> string \<Rightarrow> 'w \<Rightarrow> ('w, 'c, 'q) process outcome \<times> 'w" where
  "main H version w =
     (if list_ex (\<lambda>arg. arg = ''--version'' \<or> arg = ''-version'') (h_Args H) then (Exit 0 (version @ nl), w)
      else (case h_Args H of
          [] \<Rightarrow> start_operator H version w
        | cmd # args \<Rightarrow> (case runDebug H cmd args w of
            (Some (Inl _), w1) \<Rightarrow> (Exit 1 [], w1)
          | (Some (Inr out), w1) \<Rightarrow> (Exit 0 out, w1)
          | (None, w1) \<Rightarrow> start_operator H version w1)))"

section \<open>What runs\<close>

lemma start_operator_Run:
  assumes "start_operator H version w = (Run p, w')"
  obtains token where "NewClientFromEnv (h_Getenv H TokenEnvVar) = Inr token" and "h_Getenv H clusterNameEnvVar \<noteq> []"
    and "p = assemble H version token (h_Getenv H clusterNameEnvVar)"
  using assms by (auto simp: start_operator_def Let_def split: option.splits sum.splits prod.splits if_splits)

lemma main_Run:
  assumes "main H version w = (Run p, w')"
  obtains w1 where "start_operator H version w1 = (Run p, w')"
  using assms by (auto simp: main_def split: list.splits option.splits sum.splits prod.splits if_splits)

lemma assemble_simps:
  "pr_token (assemble H v t c) = t" "pr_clusterName (assemble H v t c) = c"
  "pr_instances (assemble H v t c) = NewProvider (NewServers (fst (h_hcloud H (client_options_from v t))) (Some t)) c (h_clock H)
     (hc_ErrorText (fst (h_hcloud H (client_options_from v t))))"
  "pr_bootstrap (assemble H v t c) = NewBootstrapProvider (h_minter H) c" "pr_unavailable (assemble H v t c) = NewUnavailable"
  "cp_Render (pr_cloud (assemble H v t c)) = Bootstrap_Render (h_render H) (NewBootstrapProvider (h_minter H) c)"
  "pr_runnables (assemble H v t c) = [CatalogRefresh, UnavailableSync]"
  "set (pr_controllers (assemble H v t c)) = {HashController, StatusController,
     NodeClassController \<lparr> ct_reconcilers = reconcilers ((h_env H)\<lparr>ne_resources := NewResources (snd (h_hcloud H (client_options_from v t))) (Some t),
       ne_catalog := \<lambda>w. Catalog_Get (h_catalog H w)\<rparr>), ct_catalogRefreshed = True \<rparr>,
     InstanceGC (instance_gc_api (pr_instances (assemble H v t c))) c}"
  by (auto simp: assemble_def New_def NewControllers_def NewController_def catalogRefreshed_def Let_def split: prod.splits)

text \<open>
  The server whose deletion or reset a call asks for.
\<close>

fun harmed :: "api_call \<Rightarrow> id64 option" where
  "harmed (CallDelete i) = Some i"
| "harmed (CallReset i) = Some i"
| "harmed _ = None"

lemma guarded_harm:
  assumes "guarded c tr" "n < length tr" "harmed (tr ! n) = Some i"
  shows "\<exists>m srv. m < n \<and> tr ! m = CallGet i (Some srv) \<and> IsManagedBy (Some srv) c"
proof -
  have g: "guarded_at c tr n" using assms(1,2) by (simp add: guarded_def)
  show ?thesis
  proof (cases "tr ! n")
    case (CallDelete j)
    with g assms(3) show ?thesis
      by (intro exI [of _ "n - 1"]) (auto simp: guarded_at_def split: api_call.splits option.splits)
  next
    case (CallReset j)
    with g assms(3) show ?thesis
      by (intro exI [of _ "n - 2"], cases "tr ! (n - 1)") (auto simp: guarded_at_def split: api_call.splits option.splits)
  qed (use assms(3) in auto)
qed

text \<open>A host with everything the process needs, and a project with a server of the cluster and one of another.\<close>

definition ex_hc_server :: "id64 \<Rightarrow> string \<Rightarrow> hc_server" where
  "ex_hc_server i owner = \<lparr> hs_ID = i, hs_Name = ''n'', hs_Status = ''running'', hs_Labels = [(LabelManagedBy, owner)], hs_Created = 0,
     hs_ServerType = None, hs_Location = None, hs_Image = None, hs_IPv4_IP = None, hs_IPv4_ID = 0, hs_IPv6_ID = 0,
     hs_PlacementGroup = None, hs_Firewalls = [], hs_PrivateNet = [] \<rparr>"

definition ex_hcloud :: "unit hcloud" where
  "ex_hcloud = \<lparr> hc_Create = (\<lambda>_ w. (Inl (TextError ''off''), w)), hc_WaitFor = (\<lambda>_ _ w. (None, w)), hc_Delete = (\<lambda>_ w. (None, w)),
     hc_GetByID = (\<lambda>i w. (Inr (Some (ex_hc_server i (if i = 5 then ''prod'' else ''test''))), w)), hc_GetByName = (\<lambda>_ w. (Inr None, w)),
     hc_AllWithOpts = (\<lambda>_ w. (Inr [], w)), hc_Reset = (\<lambda>_ w. (None, w)), hc_ListActions = (\<lambda>_ w. (Inr [], w)),
     hc_IsError = (\<lambda>_ _. False), hc_ErrorText = (\<lambda>_. ''error'') \<rparr>"

definition ex_hcloud_read :: "unit hcloud_read" where
  "ex_hcloud_read = \<lparr> hr_Locations = (\<lambda>w. (Inr [], w)), hr_ServerTypes = (\<lambda>w. (Inr [], w)), hr_Pricing = (\<lambda>w. (Inr [], w)),
     hr_Image_GetByID = (\<lambda>_ w. (Inr None, w)), hr_Image_GetByNameAndArchitecture = (\<lambda>_ _ w. (Inr None, w)),
     hr_Network_GetByID = (\<lambda>_ w. (Inr None, w)), hr_Network_GetByName = (\<lambda>_ w. (Inr None, w)),
     hr_Firewall_GetByID = (\<lambda>_ w. (Inr None, w)), hr_Firewall_GetByName = (\<lambda>_ w. (Inr None, w)),
     hr_SSHKey_GetByID = (\<lambda>_ w. (Inr None, w)), hr_SSHKey_GetByName = (\<lambda>_ w. (Inr None, w)),
     hr_PlacementGroup_GetByID = (\<lambda>_ w. (Inr None, w)), hr_PlacementGroup_GetByName = (\<lambda>_ w. (Inr None, w)),
     hr_ErrorText = (\<lambda>_. ''error'') \<rparr>"

definition ex_host :: "(unit, (string \<times> Condition) list, (string \<times> string list) list) host" where
  "ex_host = \<lparr> h_Args = [], h_Getenv = (\<lambda>v. if v = TokenEnvVar then replicate 64 (CHR ''k'') else if v = clusterNameEnvVar then ''prod'' else []),
     h_ReadFile = (\<lambda>_. Inl (TextError ''no file'')), h_Unmarshal = (\<lambda>_ nc. Inr nc), h_AddToScheme = None,
     h_GetConfig = Inl (TextError ''no kubeconfig''), h_NewClient = (\<lambda>_. Inr ex_libs), h_render = ex_render, h_noConditions = [],
     h_NewOperator = (\<lambda>_ w. Some w), h_Add = (\<lambda>_ w. (None, w)), h_NewMatcher = (\<lambda>_ w. (None, w)),
     h_hcloud = (\<lambda>_. (ex_hcloud, ex_hcloud_read)), h_clock = (\<lambda>_. 0),
     h_minter = NewTokenMinter (\<lambda>n w. (Inr 0, w)) (\<lambda>_ w. (None, w)) (\<lambda>_ _ w. (None, w)) (\<lambda>_. 0),
     h_kube = \<lparr> cp_GetNodeClass = (\<lambda>_ w. (Inl (TextError ''none''), w)), cp_RootIsTrue = (\<lambda>_. True), cp_RootMessage = (\<lambda>_. []),
       cp_catalog = (\<lambda>_. None), cp_Render = (\<lambda>_ _ w. (Inr [], w)), cp_hashstructure = (\<lambda>_. 0), cp_zeroNodeClaim = ex_claim \<rparr>,
     h_env = ex_env, h_catalog = (\<lambda>_. ex_fresh) \<rparr>"

definition ex_process :: "(unit, (string \<times> Condition) list, (string \<times> string list) list) process" where
  "ex_process = assemble ex_host ''dev'' (replicate 64 (CHR ''k'')) ''prod''"

lemma ex_main: "main ex_host ''dev'' () = (Run ex_process, ())"
proof -
  have "NewClientFromEnv (replicate 64 (CHR ''k'')) = Inr (replicate 64 (CHR ''k''))" by code_simp
  moreover have "h_Getenv ex_host TokenEnvVar = replicate 64 (CHR ''k'')" "h_Getenv ex_host clusterNameEnvVar = ''prod''"
    by (simp_all add: ex_host_def TokenEnvVar_def clusterNameEnvVar_def)
  moreover have "h_Args ex_host = []" "h_NewOperator ex_host a w = Some w" "h_Add ex_host r w = (None, w)" "h_NewMatcher ex_host ps w = (None, w)" for a r ps w
    by (simp_all add: ex_host_def)
  ultimately show ?thesis by (simp add: main_def start_operator_def newClusterState_def ex_process_def)
qed

section \<open>The debug commands\<close>

lemma NewDiscovery_ok: "discovery_ok NewDiscovery"
  by (simp add: discovery_ok_def NewDiscovery_def)

lemma debug_join_valid:
  assumes "\<forall>c m. newReadOnlyClient H = Inr c \<longrightarrow> length (il_Sum256 c m) = 32"
  shows "fst (fst (debug_join H w)) \<noteq> [] \<and> snd (fst (debug_join H w)) \<noteq> [] \<and> list_all ValidHash (snd (fst (debug_join H w)))"
proof -
  have p: "fst placeholderJoin \<noteq> [] \<and> snd placeholderJoin \<noteq> [] \<and> list_all ValidHash (snd placeholderJoin)" by code_simp
  show ?thesis
  proof (cases "newReadOnlyClient H")
    case (Inr c)
    obtain e d w1 where r: "Discovery_Refresh c NewDiscovery w = (e, d, w1)" by (metis prod.exhaust)
    show ?thesis
    proof (cases e)
      case None
      with Discovery_Refresh_cases [of c NewDiscovery w] r
      obtain raw where "parseClusterInfo c raw = Inr (ds_endpoint d, ds_hashes d)" by auto
      from parseClusterInfo_valid [OF _ this] assms Inr None r show ?thesis by (simp add: debug_join_def Discovery_Get_def)
    qed (use Inr r p in \<open>simp add: debug_join_def\<close>)
  qed (use p in \<open>simp add: debug_join_def\<close>)
qed

text \<open>What the debug rendering prints comes from \<open>Render\<close>, with a token that is not an argument and a whole pair of join parameters.\<close>

lemma runRenderUserData_Inr:
  assumes "runRenderUserData H args w = (Inr out, w')" and "\<forall>c m. newReadOnlyClient H = Inr c \<longrightarrow> length (il_Sum256 c m) = 32"
  shows "\<exists>eh token nc. debug_class H (arg_at args 0) = Inr nc \<and> Render (h_render H) (debug_input eh token nc) = Inr out
    \<and> fst eh \<noteq> [] \<and> snd eh \<noteq> [] \<and> list_all ValidHash (snd eh)
    \<and> (if arg_at args 1 = [] then token = placeholderToken else \<exists>raw. h_ReadFile H (arg_at args 1) = Inr raw \<and> token = trim_space raw)"
proof -
  obtain eh w1 where j: "debug_join H w = (eh, w1)" by (rule prod.exhaust)
  with assms(1) obtain token nc where "debug_class H (arg_at args 0) = Inr nc"
    "debug_token H (arg_at args 1) = Inr token" "Render (h_render H) (debug_input (fst (debug_join H w)) token nc) = Inr out"
    by (cases "debug_token H (arg_at args 1)"; cases "debug_class H (arg_at args 0)") (auto simp: runRenderUserData_def)
  with debug_join_valid [OF assms(2), of w] show ?thesis
    by (intro exI [of _ "fst (debug_join H w)"] exI [of _ token] exI [of _ nc])
      (auto simp: debug_token_def split: if_splits sum.splits)
qed

end
