(* ===== verification/Process.thy ===== *)
theory Process
  imports Startup Drift
begin

text \<open>
  The assembled process at work. What karpenter asks of the cloud provider, the sweeps of the garbage collector, the
  updates of the gauge and the changes of the world around it are operations on one state, the \<open>pstate\<close> the parts share; a run
  is any sequence of them. As in \<open>Instance_Log\<close> the calls to Hetzner are recorded in order.
\<close>

section \<open>Operations of the process\<close>

datatype ('w, 'q) process_op =
    PCreate "'q NodeClaim"
  | PDelete "'q NodeClaim"
  | PReboot "'q NodeClaim"
  | PGet string
  | PList
  | PTypes "NodeClassReference option"
  | PDrifted "'q NodeClaim"
  | PCollect
  | PSync
  | PWorld "'w \<Rightarrow> 'w"

text \<open>A call that does not go to Hetzner leaves the record as it is.\<close>

definition unrecorded :: "('w \<Rightarrow> 'a \<times> 'w) \<Rightarrow> 'w \<times> api_call list \<Rightarrow> 'a \<times> 'w \<times> api_call list" where
  "unrecorded f wl = (case f (fst wl) of (r, w) \<Rightarrow> (r, w, snd wl))"

definition logged_cloud :: "('w, 'c, 'q) cloud \<Rightarrow> ('w \<times> api_call list, 'c, 'q) cloud" where
  "logged_cloud C =
     \<lparr> cp_GetNodeClass = (\<lambda>n. unrecorded (cp_GetNodeClass C n)), cp_RootIsTrue = cp_RootIsTrue C, cp_RootMessage = cp_RootMessage C,
       cp_catalog = (\<lambda>wl. cp_catalog C (fst wl)), cp_Render = (\<lambda>ncl claim. unrecorded (cp_Render C ncl claim)),
       cp_hashstructure = cp_hashstructure C, cp_zeroNodeClaim = cp_zeroNodeClaim C \<rparr>"

text \<open>
  \<open>claims\<close> is what the Kubernetes client of the collector answers to the list of the NodeClaims, \<open>clk\<close> the clock of the
  operator. The collector runs under the name \<open>c\<close> it was built with.
\<close>

definition process_exec ::
    "('r, 'q) karpenter \<Rightarrow> ('w, 'c, 'q) cloud \<Rightarrow> 'w provider \<Rightarrow> string \<Rightarrow> ('w \<Rightarrow> gotime) \<Rightarrow> ('w \<Rightarrow> (go_error + string list) \<times> 'w) \<Rightarrow>
     ('w, 'q) process_op \<Rightarrow> ('w \<times> api_call list) pstate \<Rightarrow> ('w \<times> api_call list) pstate" where
  "process_exec K C P c clk claims a st = (case a of
       PCreate claim \<Rightarrow> snd (CP_Create K (logged_cloud C) (logged_provider P) claim st)
     | PDelete claim \<Rightarrow> snd (CP_Delete (logged_provider P) claim st)
     | PReboot claim \<Rightarrow> snd (CP_Reboot (logged_provider P) claim st)
     | PGet pid \<Rightarrow> snd (CP_Get K (logged_cloud C) (logged_provider P) pid st)
     | PList \<Rightarrow> snd (CP_List K (logged_cloud C) (logged_provider P) st)
     | PTypes ref \<Rightarrow> snd (GetInstanceTypes K (logged_cloud C) (logged_provider P) ref st)
     | PDrifted claim \<Rightarrow> snd (IsDrifted (logged_cloud C) (logged_provider P) (\<lambda>wl. clk (fst wl)) claim st)
     | PCollect \<Rightarrow> (case GC_Reconcile (instance_gc_api (logged_provider P)) c (\<lambda>s. clk (fst (ps_world s)))
           (on_world (unrecorded claims)) st of (_, ms, st1) \<Rightarrow> observe ms st1)
     | PSync \<Rightarrow> (case sync_tick (pv_now P (fst (ps_world st))) (ps_unavailable st) (ps_metrics st) of
         (u, ms) \<Rightarrow> st\<lparr>ps_unavailable := u, ps_metrics := ms\<rparr>)
     | PWorld f \<Rightarrow> st\<lparr>ps_world := (f (fst (ps_world st)), snd (ps_world st))\<rparr>)"

definition process_run ::
    "('r, 'q) karpenter \<Rightarrow> ('w, 'c, 'q) cloud \<Rightarrow> 'w provider \<Rightarrow> string \<Rightarrow> ('w \<Rightarrow> gotime) \<Rightarrow> ('w \<Rightarrow> (go_error + string list) \<times> 'w) \<Rightarrow>
     ('w, 'q) process_op list \<Rightarrow> ('w \<times> api_call list) pstate \<Rightarrow> ('w \<times> api_call list) pstate" where
  "process_run K C P c clk claims ops st = foldl (\<lambda>s a. process_exec K C P c clk claims a s) st ops"

section \<open>What a step may do\<close>

text \<open>
  The pairs of a server type and a location that stay suppressed until \<open>b\<close> at least.
\<close>

definition kept :: "gotime \<Rightarrow> unavailable \<Rightarrow> (string \<times> string) set" where
  "kept b u = {p. \<exists>e. map_of (u_items u) p = Some e \<and> b \<le> e_until e}"

definition req_pair :: "CreateServerRequest \<Rightarrow> string \<times> string" where
  "req_pair req = (req_ServerType req, req_Location req)"

definition ordered :: "api_call list \<Rightarrow> (string \<times> string) set" where
  "ordered tr = {req_pair req | req e. CallCreate req e \<in> set tr}"

definition exhausted :: "api_call list \<Rightarrow> (string \<times> string) set" where
  "exhausted tr = {req_pair req | req err. CallCreate req (Some err) \<in> set tr \<and> Classify (Some err) = ClassCapacity}"

text \<open>
  A step makes guarded calls, keeps what is suppressed, suppresses what it finds exhausted, and orders nothing that was
  suppressed before it. The last three are up to any time of \<open>B\<close>.
\<close>

definition good_step :: "string \<Rightarrow> gotime set \<Rightarrow> ('w \<times> api_call list) pstate \<Rightarrow> ('w \<times> api_call list) pstate \<Rightarrow> bool" where
  "good_step c B st st' \<longleftrightarrow> (\<exists>new. calls st' = calls st @ new \<and> guarded c new
     \<and> (unavailable_ok (ps_unavailable st) \<longrightarrow>
           unavailable_ok (ps_unavailable st') \<and> u_ttl (ps_unavailable st') = u_ttl (ps_unavailable st)
         \<and> (\<forall>b \<in> B. kept b (ps_unavailable st) \<union> exhausted new \<subseteq> kept b (ps_unavailable st')
              \<and> ordered new \<inter> kept b (ps_unavailable st) = {})))"

lemma calls_sets [simp]:
  "ordered [] = {}" "exhausted [] = {}" "ordered (xs @ ys) = ordered xs \<union> ordered ys" "exhausted (xs @ ys) = exhausted xs \<union> exhausted ys"
  by (auto simp: ordered_def exhausted_def)

lemma exhausted_ordered: "exhausted tr \<subseteq> ordered tr"
  by (auto simp: ordered_def exhausted_def)

lemma good_step_same:
  "calls st' = calls st \<Longrightarrow> ps_unavailable st' = ps_unavailable st \<Longrightarrow> good_step c B st st'"
  by (auto simp: good_step_def intro!: exI [of _ "[]"])

lemma good_step_trans [trans]:
  assumes "good_step c B st st1" and "good_step c B st1 st2"
  shows "good_step c B st st2"
proof -
  from assms(1) obtain n1 where 1: "calls st1 = calls st @ n1" "guarded c n1"
    and ok1: "unavailable_ok (ps_unavailable st) \<Longrightarrow> unavailable_ok (ps_unavailable st1) \<and> u_ttl (ps_unavailable st1) = u_ttl (ps_unavailable st)"
    and k1: "\<And>b. unavailable_ok (ps_unavailable st) \<Longrightarrow> b \<in> B \<Longrightarrow> kept b (ps_unavailable st) \<union> exhausted n1 \<subseteq> kept b (ps_unavailable st1)
        \<and> ordered n1 \<inter> kept b (ps_unavailable st) = {}"
    unfolding good_step_def by blast
  from assms(2) obtain n2 where 2: "calls st2 = calls st1 @ n2" "guarded c n2"
    and ok2: "unavailable_ok (ps_unavailable st1) \<Longrightarrow> unavailable_ok (ps_unavailable st2) \<and> u_ttl (ps_unavailable st2) = u_ttl (ps_unavailable st1)"
    and k2: "\<And>b. unavailable_ok (ps_unavailable st1) \<Longrightarrow> b \<in> B \<Longrightarrow> kept b (ps_unavailable st1) \<union> exhausted n2 \<subseteq> kept b (ps_unavailable st2)
        \<and> ordered n2 \<inter> kept b (ps_unavailable st1) = {}"
    unfolding good_step_def by blast
  have "kept b (ps_unavailable st) \<union> exhausted (n1 @ n2) \<subseteq> kept b (ps_unavailable st2)
      \<and> ordered (n1 @ n2) \<inter> kept b (ps_unavailable st) = {}" if "unavailable_ok (ps_unavailable st)" "b \<in> B" for b
    using k1 [OF that] k2 [OF conjunct1 [OF ok1 [OF that(1)]] that(2)] unfolding calls_sets by blast
  then show ?thesis
    unfolding good_step_def using 1 2 ok1 ok2 guarded_append [of c n1 n2] by (intro exI [of _ "n1 @ n2"]) simp
qed

text \<open>A step that orders nothing and leaves the suppressions alone only has to make guarded calls.\<close>

lemma good_step_no_order:
  assumes "calls st' = calls st @ new" and "guarded c new" and "ordered new = {}" and "ps_unavailable st' = ps_unavailable st"
  shows "good_step c B st st'"
  using assms exhausted_ordered [of new] unfolding good_step_def by auto

lemma on_unrecorded: "on_world (unrecorded f) st = (r, st') \<Longrightarrow> good_step c B st st'"
  by (rule good_step_same) (auto simp: on_world_def unrecorded_def split: prod.splits)

lemma on_unrecorded_unavailable:
  "on_world (unrecorded f) st = (r, st') \<Longrightarrow> ps_unavailable st' = ps_unavailable st"
  by (auto simp: on_world_def unrecorded_def split: prod.splits)

subsection \<open>Reads, deletes and resets\<close>

lemma provider_unavailable:
  "cache_list P' sel st = (r1, st') \<Longrightarrow> ps_unavailable st' = ps_unavailable st"
  "Provider_List P' st = (r1, st') \<Longrightarrow> ps_unavailable st' = ps_unavailable st"
  "Provider_Get P' pid st = (r2, st') \<Longrightarrow> ps_unavailable st' = ps_unavailable st"
  "Provider_Delete P' pid st = (r3, st') \<Longrightarrow> ps_unavailable st' = ps_unavailable st"
  "Provider_Reboot P' pid cn t st = (r3, st') \<Longrightarrow> ps_unavailable st' = ps_unavailable st"
proof -
  show c: "ps_unavailable st' = ps_unavailable st" if "cache_list P' sel st = (r, st')" for sel r and st' :: "'a pstate"
    using that by (auto simp: cache_list_def split: option.splits sum.splits prod.splits)
  show "Provider_List P' st = (r1, st') \<Longrightarrow> ps_unavailable st' = ps_unavailable st"
    by (auto simp: Provider_List_def dest: c split: sum.splits prod.splits if_splits)
  show "Provider_Get P' pid st = (r2, st') \<Longrightarrow> ps_unavailable st' = ps_unavailable st"
    by (auto simp: Provider_Get_def dest!: c split: sum.splits prod.splits if_splits option.splits)
  show "Provider_Delete P' pid st = (r3, st') \<Longrightarrow> ps_unavailable st' = ps_unavailable st"
    by (auto simp: Provider_Delete_def invalidate_def split: sum.splits prod.splits if_splits option.splits)
  show "Provider_Reboot P' pid cn t st = (r3, st') \<Longrightarrow> ps_unavailable st' = ps_unavailable st"
    by (auto simp: Provider_Reboot_def split: sum.splits prod.splits if_splits option.splits)
qed

lemma List_good: "Provider_List (logged_provider P) st = (r, st') \<Longrightarrow> good_step (pv_clusterName P) B st st'"
  using List_calls [of P st r st'] provider_unavailable(2) [of "logged_provider P" st r st'] guarded_block(3)
  by (fastforce simp: ordered_def intro: good_step_no_order)

lemma Get_good: "Provider_Get (logged_provider P) pid st = (r, st') \<Longrightarrow> good_step (pv_clusterName P) B st st'"
  using Get_calls [of P pid st r st'] provider_unavailable(3) [of "logged_provider P" pid st r st'] guarded_harmless
  by (fastforce simp: ordered_def intro: good_step_no_order)

lemma Delete_good: "Provider_Delete (logged_provider P) pid st = (r, st') \<Longrightarrow> good_step (pv_clusterName P) B st st'"
  using Delete_calls [of P pid st r st'] provider_unavailable(4) [of "logged_provider P" pid st r st'] guarded_block
  by (auto simp: ordered_def intro: good_step_no_order)

lemma Reboot_good: "Provider_Reboot (logged_provider P) pid cn t st = (r, st') \<Longrightarrow> good_step (pv_clusterName P) B st st'"
  using Reboot_calls [of P pid cn t st r st'] provider_unavailable(5) [of "logged_provider P" pid cn t st r st'] guarded_block guarded_reset
  by (fastforce simp: ordered_def intro: good_step_no_order)

subsection \<open>Create\<close>

lemma kept_Mark:
  assumes "b \<le> t0 + u_ttl u"
  shows "insert (ty, lo) (kept b u) \<subseteq> kept b (Mark t0 u ty lo code)"
  using assms by (auto simp: kept_def Mark_def)

lemma kept_marks:
  assumes "\<forall>m \<in> set ms. b \<le> fst m + u_ttl u"
  shows "(\<lambda>(t0, ty, lo, code). (ty, lo)) ` set ms \<union> kept b u \<subseteq> kept b (unav.marks u ms)"
  using assms
proof (induction ms arbitrary: u)
  case (Cons m ms)
  obtain t0 ty lo code where m: "m = (t0, ty, lo, code)" by (metis prod_cases4)
  with Cons.prems have "insert (ty, lo) (kept b u) \<subseteq> kept b (Mark t0 u ty lo code)" by (intro kept_Mark) simp
  with Cons.IH [of "Mark t0 u ty lo code"] Cons.prems show ?case by (auto simp: m)
qed simp

text \<open>The calls of a walk: every order is for a candidate, and what is exhausted was marked.\<close>

lemma walk_calls:
  assumes "walk_spec P cs req returned st st'"
  obtains new marks where "calls st' = calls st @ new" and "ordered new \<subseteq> candidate_pair ` set cs"
    and "exhausted new \<subseteq> (\<lambda>(t0, ty, lo, code). (ty, lo)) ` set marks" and "\<forall>m \<in> set marks. fst m \<in> range (pv_now P)"
    and "ps_unavailable st' = unav.marks (ps_unavailable st) marks"
proof -
  obtain errs marks rest where k: "length errs \<le> length cs"
    and n: "calls st' = calls st @ map2 (\<lambda>c e. CallCreate (candidate_request req c) (Some e)) cs errs @ rest"
    and p: "map (\<lambda>(t0, ty, lo, code). (ty, lo)) marks = map candidate_pair (take (length errs) cs)"
    and t: "\<forall>m \<in> set marks. fst m \<in> range (pv_now P)" and u: "ps_unavailable st' = unav.marks (ps_unavailable st) marks"
    and r: "if returned then length errs < length cs \<and>
            (\<exists>e more. rest = CallCreate (candidate_request req (cs ! length errs)) e # more
              \<and> (more = [] \<or> more = [CallGetByName (req_Name req)])
              \<and> (case e of None \<Rightarrow> True | Some err \<Rightarrow> Classify (Some err) \<noteq> ClassCapacity))
          else length errs = length cs \<and> rest = []"
    using assms unfolding walk_spec_def by blast
  let ?tried = "map2 (\<lambda>c e. CallCreate (candidate_request req c) (Some e)) cs errs"
  have pair: "req_pair (candidate_request req c) = candidate_pair c" for c
    by (simp add: req_pair_def candidate_request_def candidate_pair_def)
  have zip: "set (zip cs errs) \<subseteq> set (take (length errs) cs) \<times> UNIV"
    by (fastforce simp: in_set_zip in_set_conv_nth)
  then have tried: "ordered ?tried \<subseteq> candidate_pair ` set (take (length errs) cs)"
    by (force simp: ordered_def pair)
  have rest: "ordered rest \<subseteq> candidate_pair ` set cs" "exhausted rest = {}"
    using r by (force simp: ordered_def exhausted_def pair split: if_splits option.splits)+
  have marks: "(\<lambda>(t0, ty, lo, code). (ty, lo)) ` set marks = candidate_pair ` set (take (length errs) cs)"
    using p by (metis list.set_map)
  show thesis
  proof
    show "calls st' = calls st @ (?tried @ rest)" using n .
    show "ordered (?tried @ rest) \<subseteq> candidate_pair ` set cs"
      using tried rest(1) image_mono [OF set_take_subset [of "length errs" cs], of candidate_pair] unfolding calls_sets by blast
    show "exhausted (?tried @ rest) \<subseteq> (\<lambda>(t0, ty, lo, code). (ty, lo)) ` set marks"
      using tried rest(2) exhausted_ordered [of ?tried] by (auto simp: marks)
  qed (fact t u)+
qed

text \<open>The candidates among built instance types are pairs that are not suppressed.\<close>

lemma built_candidate_available:
  assumes "karpenter_laws K" and "c \<in> set (orderedCandidates K claim (Build K now sts ncl ip u opts))"
  shows "\<not> Has now u (fst (candidate_pair c)) (snd (candidate_pair c))"
proof -
  from assms(2) obtain it off v vs where it: "it \<in> set (Build K now sts ncl ip u opts)" "off \<in> set (it_Offerings it)" "of_Available off"
    and v: "k_Values K (of_Requirements off) LabelTopologyRegion = v # vs" "c = \<lparr> ca_InstanceType = it, ca_Location = v, ca_Price = of_Price off \<rparr>"
    by (auto simp: candidate_mem offering_candidate_Some)
  from it(1) obtain st where "build_one K now ncl ip u (withDefaults opts) st = Some it" by (auto simp: set_Build)
  with it(2) build_one_offerings [of K now ncl ip u opts st "it_Name it" off] obtain l where
    l: "ty_Name st = it_Name it" "newOffering K now st ncl ip u l = Some off" by blast
  with newOffering_region [OF assms(1) l(2)] v it(3) show ?thesis
    by (auto simp: newOffering_Some candidate_pair_def)
qed

lemma kept_Has: "now < b \<Longrightarrow> (ty, lo) \<in> kept b u \<Longrightarrow> Has now u ty lo"
  by (auto simp: kept_def Has_def time_before_def)

lemma Create_good:
  assumes "B \<noteq> {} \<longrightarrow> karpenter_laws K" and clock: "\<forall>b \<in> B. \<forall>w. pv_now P w < b \<and> b \<le> pv_now P w + u_ttl (ps_unavailable st)"
    and "its = Build K (pv_now P w0) sts ncl ip (ps_unavailable st) opts"
    and "Provider_Create K (logged_provider P) ncl' claim its ud st = (r, st')"
  shows "good_step (pv_clusterName P) B st st'"
  using Create_walk [OF assms(4)]
proof (elim disjE exE conjE)
  fix req st1 lr
  assume b: "baseRequest P ncl' claim ud = Inr req" and eq: "calls st' = calls st1" "ps_unavailable st' = ps_unavailable st1"
    and l: "create_loop (logged_provider P) claim its req (take (pv_maxAttempts P) (orderedCandidates K claim its)) None st = (lr, st1)"
  let ?cs = "take (pv_maxAttempts P) (orderedCandidates K claim its)"
  note w = create_loop_meets_spec [OF l]
  from w obtain new marks where n: "calls st1 = calls st @ new" "ordered new \<subseteq> candidate_pair ` set ?cs"
    "exhausted new \<subseteq> (\<lambda>(t0, ty, lo, code). (ty, lo)) ` set marks" "\<forall>m \<in> set marks. fst m \<in> range (pv_now P)"
    "ps_unavailable st1 = unav.marks (ps_unavailable st) marks" by (rule walk_calls)
  have "guarded (pv_clusterName P) new" using walk_guarded [OF w b] n(1) by simp
  moreover have "kept b (ps_unavailable st) \<union> exhausted new \<subseteq> kept b (ps_unavailable st1) \<and> ordered new \<inter> kept b (ps_unavailable st) = {}"
    if "b \<in> B" for b
  proof
    have "(\<lambda>(t0, ty, lo, code). (ty, lo)) ` set marks \<union> kept b (ps_unavailable st) \<subseteq> kept b (ps_unavailable st1)"
      unfolding n(5) using n(4) clock that by (intro kept_marks) auto
    with n(3) show "kept b (ps_unavailable st) \<union> exhausted new \<subseteq> kept b (ps_unavailable st1)" by blast
    have "p \<notin> kept b (ps_unavailable st)" if "p \<in> ordered new" for p
    proof -
      from n(2) that obtain c where c: "c \<in> set (orderedCandidates K claim its)" "p = candidate_pair c" by (auto dest: in_set_takeD)
      have "\<not> Has (pv_now P w0) (ps_unavailable st) (fst p) (snd p)"
        unfolding c(2) using assms(1) \<open>b \<in> B\<close> by (intro built_candidate_available [OF _ c(1) [unfolded assms(3)]]) auto
      with kept_Has [of "pv_now P w0" b "fst p" "snd p"] clock \<open>b \<in> B\<close> show ?thesis by auto
    qed
    then show "ordered new \<inter> kept b (ps_unavailable st) = {}" by blast
  qed
  moreover have "unavailable_ok (ps_unavailable st) \<longrightarrow>
      unavailable_ok (ps_unavailable st1) \<and> u_ttl (ps_unavailable st1) = u_ttl (ps_unavailable st)"
    using n(5) unav.ok_marks unav.ttl_marks by simp
  ultimately show ?thesis unfolding good_step_def using n(1) eq by (intro exI [of _ new]) auto
qed (auto intro: good_step_same)

section \<open>Every operation\<close>

text \<open>The operations of the cloud provider are the calls of the instance provider in between calls that are not recorded.\<close>

lemma logged_cloud_simps [simp]:
  "cp_GetNodeClass (logged_cloud C) n = unrecorded (cp_GetNodeClass C n)" "cp_RootIsTrue (logged_cloud C) = cp_RootIsTrue C"
  "cp_RootMessage (logged_cloud C) = cp_RootMessage C" "cp_catalog (logged_cloud C) wl = cp_catalog C (fst wl)"
  "cp_Render (logged_cloud C) ncl claim = unrecorded (cp_Render C ncl claim)"
  by (simp_all add: logged_cloud_def)

lemma resolveNodeClass_unrecorded: "resolveNodeClass (logged_cloud C) claim = unrecorded (resolveNodeClass C claim)"
proof
  fix wl :: "'a \<times> api_call list"
  show "resolveNodeClass (logged_cloud C) claim wl = unrecorded (resolveNodeClass C claim) wl"
    by (cases "cl_NodeClassRef claim") (auto simp: resolveNodeClass_def unrecorded_def split: prod.splits sum.splits)
qed

lemma nodeClassForNodePool_unrecorded: "nodeClassForNodePool (logged_cloud C) ref = unrecorded (nodeClassForNodePool C ref)"
proof
  fix wl :: "'a \<times> api_call list"
  show "nodeClassForNodePool (logged_cloud C) ref wl = unrecorded (nodeClassForNodePool C ref) wl"
    by (cases ref) (auto simp: nodeClassForNodePool_def unrecorded_def split: prod.splits sum.splits)
qed

lemma CP_Create_good:
  assumes "B \<noteq> {} \<longrightarrow> karpenter_laws K" and clock: "\<forall>b \<in> B. \<forall>w. pv_now P w < b \<and> b \<le> pv_now P w + u_ttl (ps_unavailable st)"
    and "CP_Create K (logged_cloud C) (logged_provider P) claim st = (r, st')"
  shows "good_step (pv_clusterName P) B st st'"
proof -
  obtain rr st1 where 1: "on_world (unrecorded (resolveNodeClass C claim)) st = (rr, st1)" by (rule prod.exhaust)
  note s1 = on_unrecorded [OF 1] and u1 = on_unrecorded_unavailable [OF 1]
  show ?thesis
  proof (cases "\<exists>ncl its. rr = Inr ncl \<and> instanceTypes K (logged_cloud C) (logged_provider P) ncl st1 = Inr its \<and> HasCandidates K claim its")
    case False
    then have "st' = st1"
      using assms(3) 1 by (auto simp: CP_Create_def resolveNodeClass_unrecorded split: sum.splits if_splits)
    with s1 show ?thesis by simp
  next
    case True
    then obtain ncl its where rr: "rr = Inr ncl" "instanceTypes K (logged_cloud C) (logged_provider P) ncl st1 = Inr its" "HasCandidates K claim its"
      by blast
    obtain ur st2 where 2: "on_world (unrecorded (cp_Render C ncl claim)) st1 = (ur, st2)" by (rule prod.exhaust)
    note s2 = good_step_trans [OF s1 on_unrecorded [OF 2]] and u2 = on_unrecorded_unavailable [OF 2]
    show ?thesis
    proof (cases ur)
      case (Inl err)
      then have "st' = st2" using assms(3) 1 2 rr by (auto simp: CP_Create_def resolveNodeClass_unrecorded)
      with s2 show ?thesis by simp
    next
      case (Inr ud)
      obtain cr st3 where 3: "Provider_Create K (logged_provider P) ncl claim its ud st2 = (cr, st3)" by (rule prod.exhaust)
      have "st' = st3" using assms(3) 1 2 3 rr Inr by (auto simp: CP_Create_def resolveNodeClass_unrecorded split: sum.splits)
      from rr(2) obtain sn where "cp_catalog C (fst (ps_world st1)) = Some sn" by (auto simp: instanceTypes_def split: option.splits)
      with rr(2) have its: "its = Build K (pv_now P (fst (ps_world st1))) (sn_ServerTypes sn) ncl (sn_PrimaryIPv4Monthly sn)
          (ps_unavailable st2) zero_Options" by (simp add: instanceTypes_def u2)
      have "good_step (pv_clusterName P) B st2 st3"
        using clock by (intro Create_good [OF assms(1) _ its 3]) (simp add: u1 u2)
      with s2 good_step_trans show ?thesis unfolding \<open>st' = st3\<close> by blast
    qed
  qed
qed

lemma GC_loop_good:
  assumes "gc_loop (instance_gc_api (logged_provider P)) clk live srvs errs ms st = (errs', ms', st')"
  shows "good_step (pv_clusterName P) B st st'"
  using assms
proof (induction srvs arbitrary: errs ms st)
  case (Cons srv srvs)
  obtain e st1 where d: "Provider_Delete (logged_provider P) (ProviderID srv) st = (e, st1)" by (rule prod.exhaust)
  have "good_step (pv_clusterName P) B st1 st'" if "reapable live (clk st) srv"
    using Cons that d by (auto simp: instance_gc_api_def split: option.splits if_splits)
  with Delete_good [OF d, of B] Cons good_step_trans show ?case by (cases "reapable live (clk st) srv") auto
qed (auto intro: good_step_same)

lemma GC_good:
  assumes "GC_Reconcile (instance_gc_api (logged_provider P)) c clk (on_world (unrecorded claims)) st = (r, ms, st')"
  shows "good_step (pv_clusterName P) B st st'"
proof -
  obtain lr st1 where 1: "Provider_List (logged_provider P) st = (lr, st1)" by (rule prod.exhaust)
  obtain kr st2 where 2: "on_world (unrecorded claims) st1 = (kr, st2)" by (rule prod.exhaust)
  note s2 = good_step_trans [OF List_good [OF 1, of B] on_unrecorded [OF 2]]
  from assms 1 2 consider "st' = st" | "st' = st1" | "st' = st2"
    | live srvs errs ms where "gc_loop (instance_gc_api (logged_provider P)) clk live srvs [] [] st2 = (errs, ms, st')"
    by (auto simp: GC_Reconcile_def instance_gc_api_def split: if_splits sum.splits prod.splits option.splits)
  then show ?thesis
  proof cases
    case 4
    with s2 GC_loop_good good_step_trans show ?thesis by blast
  qed (use List_good [OF 1, of B] s2 good_step_same in auto)
qed

lemma kept_Snapshot:
  assumes "unavailable_ok u" and "now < b"
  shows "kept b u \<subseteq> kept b (snd (Snapshot now u))"
  using assms by (auto simp: kept_def Snapshot_def Let_def unavailable_ok_def map_of_filter_live time_before_def)

lemma sync_good:
  assumes "\<forall>b \<in> B. now < b" and "sync_tick now (ps_unavailable st) ms = (u, ms')"
  shows "good_step c B st (st\<lparr>ps_unavailable := u, ps_metrics := ms'\<rparr>)"
proof -
  have u: "u = snd (Snapshot now (ps_unavailable st))" using assms(2) by (auto simp: sync_tick_def split: prod.splits)
  then have "u_ttl u = u_ttl (ps_unavailable st)" by (simp add: Snapshot_def Let_def)
  then show ?thesis
    unfolding good_step_def using kept_Snapshot Snapshot_ok assms(1) guarded_block(3) by (intro exI [of _ "[]"]) (simp add: u)
qed

lemma process_exec_good:
  assumes laws: "B \<noteq> {} \<longrightarrow> karpenter_laws K" and clock: "\<forall>b \<in> B. \<forall>w. pv_now P w < b \<and> b \<le> pv_now P w + u_ttl (ps_unavailable st)"
  shows "good_step (pv_clusterName P) B st (process_exec K C P c clk claims a st)"
proof (cases a)
  case (PCreate claim)
  then show ?thesis
    using CP_Create_good [OF laws clock, of C claim] by (cases "CP_Create K (logged_cloud C) (logged_provider P) claim st") (simp add: process_exec_def)
next
  case (PDelete claim)
  then show ?thesis
    using Delete_good [of P "cl_ProviderID claim" st _ _ B] good_step_same [of st st]
    by (auto simp: process_exec_def CP_Delete_def split: prod.split option.split)
next
  case (PReboot claim)
  then show ?thesis
    using Reboot_good [of P "cl_ProviderID claim" "cl_Name claim" _ st _ _ B] good_step_same [of st st]
    by (auto simp: process_exec_def CP_Reboot_def Let_def split: prod.split option.split)
next
  case (PGet pid)
  then show ?thesis
    using Get_good [of P pid st _ _ B] by (auto simp: process_exec_def CP_Get_def split: prod.split sum.split option.split)
next
  case PList
  then show ?thesis
    using List_good [of P st _ _ B] by (auto simp: process_exec_def CP_List_def split: prod.split sum.split)
next
  case (PTypes ref)
  then show ?thesis
    using on_unrecorded [of "nodeClassForNodePool C ref" st]
    by (auto simp: process_exec_def GetInstanceTypes_def nodeClassForNodePool_unrecorded split: prod.split sum.split)
next
  case (PDrifted claim)
  obtain ncr st1 where g: "on_world (unrecorded (cp_GetNodeClass C (nodeClassKey claim))) st = (ncr, st1)" by (rule prod.exhaust)
  obtain sr st2 where s: "Provider_Get (logged_provider P) (cl_ProviderID claim) st1 = (sr, st2)" by (rule prod.exhaust)
  have "process_exec K C P c clk claims a st \<in> {st, st1, st2}"
    using PDrifted g s by (auto simp: process_exec_def IsDrifted_def split: sum.split option.split)
  then show ?thesis using good_step_same [of st st] on_unrecorded [OF g] good_step_trans [OF on_unrecorded [OF g] Get_good [OF s]] by auto
next
  case PCollect
  obtain gr ms st1 where g: "GC_Reconcile (instance_gc_api (logged_provider P)) c (\<lambda>s. clk (fst (ps_world s))) (on_world (unrecorded claims)) st
      = (gr, ms, st1)" by (metis prod_cases3)
  have "good_step (pv_clusterName P) B st1 (observe ms st1)" by (rule good_step_same) (simp_all add: observe_def)
  with GC_good [OF g] PCollect g show ?thesis by (auto simp: process_exec_def intro: good_step_trans)
next
  case PSync
  then show ?thesis
    using sync_good [of B "pv_now P (fst (ps_world st))" st "ps_metrics st"] clock by (auto simp: process_exec_def split: prod.split)
next
  case (PWorld f)
  then show ?thesis by (auto simp: process_exec_def intro: good_step_same)
qed

lemma process_run_simps [simp]:
  "process_run K C P c clk claims [] st = st"
  "process_run K C P c clk claims (a # ops) st = process_run K C P c clk claims ops (process_exec K C P c clk claims a st)"
  "process_run K C P c clk claims (ops1 @ ops2) st = process_run K C P c clk claims ops2 (process_run K C P c clk claims ops1 st)"
  by (simp_all add: process_run_def)

lemma process_run_good:
  assumes "B \<noteq> {} \<longrightarrow> karpenter_laws K" and "\<forall>b \<in> B. \<forall>w. pv_now P w < b \<and> b \<le> pv_now P w + u_ttl (ps_unavailable st)"
    and "B \<noteq> {} \<longrightarrow> unavailable_ok (ps_unavailable st)"
  shows "good_step (pv_clusterName P) B st (process_run K C P c clk claims ops st)"
  using assms(2,3)
proof (induction ops arbitrary: st)
  case (Cons a ops)
  let ?st1 = "process_exec K C P c clk claims a st"
  have g: "good_step (pv_clusterName P) B st ?st1" using process_exec_good [OF assms(1) Cons.prems(1)] .
  then have "B \<noteq> {} \<longrightarrow> unavailable_ok (ps_unavailable ?st1) \<and> u_ttl (ps_unavailable ?st1) = u_ttl (ps_unavailable st)"
    using Cons.prems(2) unfolding good_step_def by blast
  with Cons have "good_step (pv_clusterName P) B ?st1 (process_run K C P c clk claims ops ?st1)" by auto
  with g show ?case by (simp add: good_step_trans)
qed (simp add: good_step_same)

lemma process_run_guarded:
  assumes "calls st = []"
  shows "guarded (pv_clusterName P) (calls (process_run K C P c clk claims ops st))"
  using process_run_good [of "{}" K P st C c clk claims ops] assms by (simp add: good_step_def)

section \<open>What the process never does\<close>

text \<open>
  C10. While the clock stays within one time-to-live of the suppression cache, a pair of a server type and a location that
  Hetzner has refused for lack of capacity is not ordered again by the process: not for another claim, and not when deletes, reboots,
  listings, drift checks, sweeps of the collector, updates of the gauge or changes of the world come in between. The worlds of the
  statement are those of that time: in each of them the clock reads before \<open>b\<close>, and a suppression written in any of them lasts until \<open>b\<close>.
\<close>

theorem stockout_not_reordered:
  assumes "karpenter_laws K" and "unavailable_ok (ps_unavailable st)"
    and "\<forall>w. pv_now P w < b \<and> b \<le> pv_now P w + u_ttl (ps_unavailable st)"
    and "st1 = process_run K C P c clk claims ops1 st" and "calls st1 = calls st @ before"
    and "calls (process_run K C P c clk claims ops2 st1) = calls st1 @ after"
  shows "exhausted before \<inter> ordered after = {}"
proof -
  have 1: "good_step (pv_clusterName P) {b} st st1"
    unfolding assms(4) using assms(1-3) by (intro process_run_good) auto
  then have k: "exhausted before \<subseteq> kept b (ps_unavailable st1)" "unavailable_ok (ps_unavailable st1)"
      "u_ttl (ps_unavailable st1) = u_ttl (ps_unavailable st)"
    using assms(2,5) unfolding good_step_def by auto
  have "good_step (pv_clusterName P) {b} st1 (process_run K C P c clk claims ops2 st1)"
    using assms(1,3) k(2,3) by (intro process_run_good) auto
  then have "ordered after \<inter> kept b (ps_unavailable st1) = {}" using assms(6) k(2) unfolding good_step_def by auto
  with k(1) show ?thesis by blast
qed

text \<open>
  A catalog with one server type, which is out of stock: the first claim finds that out, and the second orders nothing. The
  price is left as a term, since neither depends on it.
\<close>

definition ex_catalog_type :: ServerType where
  "ex_catalog_type = \<lparr> ty_ID = 1, ty_Name = ''cx22'', ty_Cores = 2, ty_MemoryGiB = Fin 4, ty_DiskGB = 40, ty_Architecture = ''x86'',
     ty_CPUType = ''shared'', ty_StorageType = ''local'', ty_Deprecated = False,
     ty_Prices = [(''nbg1'', \<lparr> HourlyNet = Fin (1 / 100), MonthlyNet = Fin 5 \<rparr>)],
     ty_Locations = [\<lparr> stl_Location = ''nbg1'', stl_NetworkZone = ''eu-central'', stl_Available = True, stl_Recommended = True, stl_Deprecated = False \<rparr>] \<rparr>"

definition ex_stock :: "(Server list, unit, (string \<times> string list) list) cloud" where
  "ex_stock = ex_cloud ex_class (Some \<lparr> sn_Generation = 1, sn_ServerTypes = [ex_catalog_type], sn_PrimaryIPv4Monthly = Fin 0, sn_FetchedAt = 0 \<rparr>)"



definition ex_want :: "string \<Rightarrow> (string \<times> string list) list NodeClaim" where
  "ex_want name = ex_claim\<lparr>cl_Name := name, cl_Requests := [],
     cl_NodeClassRef := Some \<lparr> ref_Group = ''karpenter.itsh.cloud'', ref_Kind = ''HCloudNodeClass'', ref_Name = ''default'' \<rparr>\<rparr>"

lemma ex_candidates_of_Build:
  assumes "\<not> Has now u ''cx22'' ''nbg1''"
  obtains it p where
    "orderedCandidates list_karpenter (ex_want name) (Build list_karpenter now [ex_catalog_type] ex_class (Fin 0) u zero_Options) =
       [\<lparr> ca_InstanceType = it, ca_Location = ''nbg1'', ca_Price = p \<rparr>]" and "it_Name it = ''cx22''"
proof -
  have arch: "''x86'' \<in> set (IncludeArchitectures (withDefaults zero_Options))" by (simp add: withDefaults_def zero_Options_def Let_def)
  define l where "l = hd (ty_Locations ex_catalog_type)"
  have st: "ty_Architecture ex_catalog_type = ''x86''" "\<not> ty_Deprecated ex_catalog_type" "ty_Name ex_catalog_type = ''cx22''"
    "ty_Locations ex_catalog_type = [l]" "stl_Location l = ''nbg1''" "\<not> stl_Deprecated l"
    "map_of (ty_Prices ex_catalog_type) ''nbg1'' = Some \<lparr> HourlyNet = Fin (1 / 100), MonthlyNet = Fin 5 \<rparr>"
    by (simp_all add: ex_catalog_type_def l_def)
  have loc: "locationFilter (spec_Locations (nc_Spec ex_class)) x" for x by (simp add: locationFilter_def ex_class_def ex_spec_def)
  obtain p where off: "newOffering list_karpenter now ex_catalog_type ex_class (Fin 0) u l
      = Some \<lparr> of_Requirements = offering_requirements l, of_Price = p, of_Available = True \<rparr>"
    using assms by (simp add: newOffering_def st Let_def list_karpenter_def)
  obtain it where it: "newInstanceType list_karpenter now ex_catalog_type [l] ex_class (Fin 0) u (withDefaults zero_Options) = Some it"
      "it_Name it = ''cx22''" "it_Offerings it = [\<lparr> of_Requirements = offering_requirements l, of_Price = p, of_Available = True \<rparr>]"
    by (simp add: newInstanceType_def Let_def map_filter_simps off st)
  have "Build list_karpenter now [ex_catalog_type] ex_class (Fin 0) u zero_Options = [it]"
    by (simp add: Build_def build_one_def st arch loc it Let_def map_filter_simps)
  moreover have "type_candidates list_karpenter (ex_want name) it =
      [\<lparr> ca_InstanceType = it, ca_Location = ''nbg1'', ca_Price = p \<rparr>]"
    by (auto simp: type_candidates_def resourcesFit_def offering_candidate_def it(3) map_filter_simps ex_want_def ex_claim_def
        list_karpenter_def Let_def offering_requirements_def st(5) list_all_iff LabelTopologyRegion_def CapacityTypeLabelKey_def)
  ultimately show thesis using it(2) that by (simp add: orderedCandidates_def)
qed

definition ex_after :: "(Server list, (string \<times> string list) list) process_op list \<Rightarrow> (Server list \<times> api_call list) pstate \<Rightarrow> (Server list \<times> api_call list) pstate" where
  "ex_after = process_run list_karpenter ex_stock (ex_provider ''cx22'') ''prod'' (\<lambda>_. 1000) (\<lambda>w. (Inr [''a''], w))"

definition ex_first :: "(Server list \<times> api_call list) pstate" where
  "ex_first = ex_after [PCreate (ex_want ''a'')] (initial_pstate ([], []) NewUnavailable)"

definition ex_second :: "(Server list \<times> api_call list) pstate" where
  "ex_second = ex_after [PSync, PCollect, PCreate (ex_want ''b'')] ex_first"

lemma ex_first_exhausted: "exhausted (calls ex_first) = {(''cx22'', ''nbg1'')}"
proof -
  let ?st = "initial_pstate ([] :: Server list, [] :: api_call list) NewUnavailable"
  let ?its = "Build list_karpenter 1000 [ex_catalog_type] ex_class (Fin 0) NewUnavailable zero_Options"
  have r: "on_world (unrecorded (resolveNodeClass ex_stock (ex_want ''a''))) ?st = (Inr ex_class, ?st)"
    "on_world (unrecorded (cp_Render ex_stock ex_class (ex_want ''a''))) ?st = (Inr ''data'', ?st)"
    by (simp_all add: on_world_def unrecorded_def resolveNodeClass_def ex_stock_def ex_cloud_def ex_want_def ex_claim_def ex_class_def initial_pstate_def)
  have t: "instanceTypes list_karpenter (logged_cloud ex_stock) (logged_provider (ex_provider ''cx22'')) ex_class ?st = Inr ?its"
    by (simp add: instanceTypes_def ex_stock_def ex_cloud_def initial_pstate_def ex_provider_def NewProvider_def)
  obtain it p where c: "orderedCandidates list_karpenter (ex_want ''a'') ?its = [\<lparr> ca_InstanceType = it, ca_Location = ''nbg1'', ca_Price = p \<rparr>]" "it_Name it = ''cx22''"
    by (rule ex_candidates_of_Build [of 1000 NewUnavailable "''a''"]) (simp add: Has_def NewUnavailable_def)
  obtain req where b: "baseRequest (ex_provider ''cx22'') ex_class (ex_want ''a'') ''data'' = Inr req"
    by (simp add: baseRequest_def Let_def ex_defs PublicIPv4Enabled_def PublicIPv6Enabled_def ex_want_def)
  have cl: "Classify (Some (HcloudError ''resource_unavailable'' [] None)) = ClassCapacity" by code_simp
  have h: "Servers_Create (ex_hetzner ''cx22'') req w = (Inl (HcloudError ''resource_unavailable'' [] None), w)"
    if "req_ServerType req = ''cx22''" for req w using that by (simp add: ex_hetzner_def)
  obtain cr st3 where s: "Provider_Create list_karpenter (logged_provider (ex_provider ''cx22'')) ex_class (ex_want ''a'') ?its ''data'' ?st = (cr, st3)"
    by (rule prod.exhaust)
  then have n: "calls st3 = [CallCreate (candidate_request req \<lparr> ca_InstanceType = it, ca_Location = ''nbg1'', ca_Price = p \<rparr>) (Some (HcloudError ''resource_unavailable'' [] None))]"
    by (auto simp: Provider_Create_def Let_def c b attempt_def ex_provider_simps ex_attempts h cl initial_pstate_def candidate_request_def observe_def recorded_def)
  have "ex_first = st3"
    by (simp add: ex_first_def ex_after_def process_exec_def CP_Create_def resolveNodeClass_unrecorded r t HasCandidates_def c s split: sum.split prod.split)
  then show ?thesis using n cl c(2) by (auto simp: exhausted_def req_pair_def candidate_request_def)
qed

theorem stockout_not_reordered_witness:
  "exhausted (calls ex_first) = {(''cx22'', ''nbg1'')}
    \<and> (''cx22'', ''nbg1'') \<notin> ordered (drop (length (calls ex_first)) (calls ex_second))"
proof -
  let ?P = "ex_provider ''cx22''" and ?st = "initial_pstate ([] :: Server list, [] :: api_call list) NewUnavailable"
  have ok: "unavailable_ok (ps_unavailable ?st)" "calls ?st = []" by (simp_all add: initial_pstate_def NewUnavailable_ok)
  have clock: "\<forall>w. pv_now ?P w < 1001 \<and> 1001 \<le> pv_now ?P w + u_ttl (ps_unavailable ?st)"
    by (simp add: ex_provider_def NewProvider_def initial_pstate_def NewUnavailable_def DefaultUnavailableTTL_def minute_def second_def)
  have "\<exists>new. calls ex_second = calls ex_first @ new"
    using process_run_good [of "{}" list_karpenter ?P ex_first ex_stock "''prod''"] unfolding ex_second_def ex_after_def good_step_def by blast
  then have n: "calls ex_second = calls ex_first @ drop (length (calls ex_first)) (calls ex_second)" by auto
  have "exhausted (calls ex_first) \<inter> ordered (drop (length (calls ex_first)) (calls ex_second)) = {}"
  proof (rule stockout_not_reordered [OF list_karpenter_laws ok(1) clock])
    show "ex_first = process_run list_karpenter ex_stock ?P ''prod'' (\<lambda>_. 1000) (\<lambda>w. (Inr [''a''], w)) [PCreate (ex_want ''a'')] ?st"
      by (simp add: ex_first_def ex_after_def)
    show "calls (process_run list_karpenter ex_stock ?P ''prod'' (\<lambda>_. 1000) (\<lambda>w. (Inr [''a''], w)) [PSync, PCollect, PCreate (ex_want ''b'')] ex_first)
        = calls ex_first @ drop (length (calls ex_first)) (calls ex_second)" using n unfolding ex_second_def ex_after_def .
  qed (simp add: ok(2))
  with ex_first_exhausted show ?thesis by blast
qed


text \<open>A project with one server of the cluster, asked for that server and for one it does not own.\<close>

definition ex_trace :: "api_call list" where
  "ex_trace = calls (process_run list_karpenter (pr_cloud ex_process) (pr_instances ex_process) (pr_clusterName ex_process) (h_clock ex_host)
     (\<lambda>w. (Inr [], w)) [PDelete (ex_claim\<lparr>cl_ProviderID := ''hcloud://6''\<rparr>), PDelete (ex_claim\<lparr>cl_ProviderID := ''hcloud://5''\<rparr>)]
     (initial_pstate ((), []) (pr_unavailable ex_process)))"


end
